(* ===== verification/Prelude.thy ===== *)
theory Prelude
  imports Complex_Main "HOL-Library.Sublist"
begin

text \<open>
  Shared vocabulary of the development. A Python \<open>str\<close> is a sequence of Unicode code
  points; it is modelled as \<open>pystr = nat list\<close>, one code point per element, so that
  \<open>len\<close>, slicing and the non-ASCII characters the code mentions (en dash U+2013, em dash
  U+2014, soft hyphen U+00AD) are represented exactly. \<open>py_str\<close> turns an ASCII literal
  into such a text. This theory also holds Python's whitespace class (\<open>str.isspace\<close>, the
  regex class \<open>\s\<close>), \<open>str.strip\<close>, the \<open>in\<close> operator on strings, and the list
  lemmas the components share.
\<close>

type_synonym pystr = "nat list"

named_theorems text_simps "evaluation rules for the string helpers"

text \<open>The Python exceptions the modelled code can raise, as values.\<close>

datatype py_error =
    AttributeError | TypeError | ValueError | OverflowError | KeyError
  | ProviderError   \<comment> \<open>\<open>generate_json\<close> failed: transport error or unparsable reply\<close>
  | IntegrityError  \<comment> \<open>a database constraint rejected a commit\<close>

definition py_str :: "string \<Rightarrow> pystr" where
  "py_str s = map of_char s"

definition newline :: nat where "newline = 10"

text \<open>
  \<open>str.isspace\<close> (and \<open>\s\<close> of the \<open>re\<close> module on \<open>str\<close> patterns): the
  characters whose bidirectional class is WS, B or S or whose category is Zs.
\<close>

definition is_space :: "nat \<Rightarrow> bool" where
  "is_space c \<longleftrightarrow>
     (9 \<le> c \<and> c \<le> 13) \<or> (28 \<le> c \<and> c \<le> 32) \<or> c = 133 \<or> c = 160 \<or> c = 5760 \<or>
     (8192 \<le> c \<and> c \<le> 8202) \<or> c = 8232 \<or> c = 8233 \<or> c = 8239 \<or> c = 8287 \<or> c = 12288"

text \<open>ASCII decimal digits \<open>0\<close>..\<open>9\<close> (code points 48..57) and their values.\<close>

definition is_digit :: "nat \<Rightarrow> bool" where
  "is_digit c \<longleftrightarrow> 48 \<le> c \<and> c \<le> 57"

definition digit_val :: "nat \<Rightarrow> nat" where
  "digit_val c = c - 48"

text \<open>\<open>int(s)\<close> of a run of ASCII digits, most significant first.\<close>

definition digits_val :: "pystr \<Rightarrow> nat" where
  "digits_val ds = foldl (\<lambda>n d. 10 * n + digit_val d) 0 ds"

text \<open>\<open>s.strip()\<close>, \<open>s.lstrip()\<close>, \<open>s.rstrip()\<close> with no argument.\<close>

definition py_lstrip :: "pystr \<Rightarrow> pystr" where
  "py_lstrip s = dropWhile is_space s"

definition py_rstrip :: "pystr \<Rightarrow> pystr" where
  "py_rstrip s = rev (dropWhile is_space (rev s))"

definition py_strip :: "pystr \<Rightarrow> pystr" where
  "py_strip s = py_rstrip (py_lstrip s)"

text \<open>
  Python's \<open>needle in hay\<close> on strings, written as the left-to-right search the
  interpreter performs; \<open>'' in s\<close> is \<open>True\<close>.
\<close>

fun py_contains :: "pystr \<Rightarrow> pystr \<Rightarrow> bool" where
  "py_contains n [] = (n = [])"
| "py_contains n (c # cs) = (prefix n (c # cs) \<or> py_contains n cs)"

text \<open>\<open>s.replace(old, new)\<close> for a single code point \<open>old\<close>.\<close>

definition replace_char :: "nat \<Rightarrow> pystr \<Rightarrow> pystr \<Rightarrow> pystr" where
  "replace_char old new s = concat (map (\<lambda>c. if c = old then new else [c]) s)"

text \<open>
  \<open>str.lower()\<close> on one code point: ASCII and Latin-1 capitals, and the characters whose
  lower case is (or starts with) an ASCII letter: U+0130 becomes \<open>i\<close> followed by the
  combining dot U+0307, the Kelvin sign U+212A becomes \<open>k\<close>, the Angstrom sign U+212B
  becomes U+00E5. Other capitals (Greek, Cyrillic, ...) are left as they are: their lower
  case is not ASCII either, so no answer to the question whether the lowered text contains
  an ASCII word changes.
\<close>

definition lower_char :: "nat \<Rightarrow> pystr" where
  "lower_char c =
     (if 65 \<le> c \<and> c \<le> 90 then [c + 32]
      else if 192 \<le> c \<and> c \<le> 222 \<and> c \<noteq> 215 then [c + 32]
      else if c = 304 then [105, 775]
      else if c = 8490 then [107]
      else if c = 8491 then [229]
      else [c])"

definition py_lower :: "pystr \<Rightarrow> pystr" where
  "py_lower s = concat (map lower_char s)"

text \<open>\<open>qmap.get(q, "")\<close> for the map from question numbers to cleaned chunk texts.\<close>

definition qget :: "(nat \<rightharpoonup> pystr) \<Rightarrow> nat \<Rightarrow> pystr" where
  "qget qmap q = (case qmap q of Some s \<Rightarrow> s | None \<Rightarrow> [])"

text \<open>\<open>str(n)\<close> of a non-negative integer: its decimal digits.\<close>

fun py_str_of_nat :: "nat \<Rightarrow> pystr" where
  "py_str_of_nat n = (if n < 10 then [48 + n] else py_str_of_nat (n div 10) @ [48 + n mod 10])"

text \<open>\<open>sep.join(xs)\<close>.\<close>

fun py_join :: "pystr \<Rightarrow> pystr list \<Rightarrow> pystr" where
  "py_join sep [] = []"
| "py_join sep [x] = x"
| "py_join sep (x # y # xs) = x @ sep @ py_join sep (y # xs)"

declare py_str_of_nat.simps [simp del]

subsection \<open>Lemmas\<close>

lemma py_str_Nil [simp, text_simps]: "py_str [] = []"
  and py_str_Cons [simp, text_simps]: "py_str (c # cs) = of_char c # py_str cs"
  by (simp_all add: py_str_def)

lemma length_py_str [simp]: "length (py_str s) = length s"
  by (simp add: py_str_def)

lemma py_contains_sublist: "py_contains n h \<longleftrightarrow> sublist n h"
proof (induction h)
  case Nil
  then show ?case by simp
next
  case (Cons c cs)
  then show ?case
    by (auto simp: sublist_Cons_right)
qed

lemma py_contains_Nil [simp]: "py_contains [] h"
  by (simp add: py_contains_sublist)

lemma py_contains_append: "py_contains n h \<Longrightarrow> py_contains n (g @ h @ k)"
  unfolding py_contains_sublist by (meson sublist_appendI sublist_order.dual_order.trans)

lemma set_dropWhile_subset: "set (dropWhile P xs) \<subseteq> set xs"
  by (induction xs) auto

lemma py_lstrip_hd: "py_lstrip s = c # cs \<Longrightarrow> \<not> is_space c"
  unfolding py_lstrip_def by (metis dropWhile_eq_Cons_conv)

lemma py_rstrip_last: "py_rstrip s \<noteq> [] \<Longrightarrow> \<not> is_space (last (py_rstrip s))"
proof -
  assume ne: "py_rstrip s \<noteq> []"
  then obtain c cs where dc: "dropWhile is_space (rev s) = c # cs"
    by (cases "dropWhile is_space (rev s)") (auto simp: py_rstrip_def)
  then have "\<not> is_space c" by (metis dropWhile_eq_Cons_conv)
  with dc show ?thesis by (simp add: py_rstrip_def)
qed

lemma py_rstrip_sublist: "sublist (py_rstrip s) s"
proof -
  obtain k where "rev s = takeWhile is_space (rev s) @ dropWhile is_space (rev s)"
    by simp
  then have "s = rev (dropWhile is_space (rev s)) @ rev (takeWhile is_space (rev s))"
    by (metis rev_append rev_rev_ident)
  then show ?thesis unfolding py_rstrip_def by (metis sublist_append_rightI)
qed

lemma py_lstrip_suffix: "suffix (py_lstrip s) s"
  unfolding py_lstrip_def by (metis suffix_dropWhile)

lemma py_strip_sublist: "sublist (py_strip s) s"
  unfolding py_strip_def
  by (meson py_lstrip_suffix py_rstrip_sublist sublist_order.dual_order.trans suffix_imp_sublist)

lemma py_lstrip_no_space_hd: "py_lstrip (py_rstrip (py_lstrip s)) = py_rstrip (py_lstrip s)"
proof (cases "py_rstrip (py_lstrip s)")
  case Nil
  then show ?thesis by (simp add: py_lstrip_def)
next
  case (Cons c cs)
  have "prefix (py_rstrip (py_lstrip s)) (py_lstrip s)"
    unfolding py_rstrip_def
    by (metis append_take_drop_id rev_append prefixI rev_rev_ident takeWhile_dropWhile_id)
  with Cons have "hd (py_lstrip s) = c"
    by (metis list.sel(1) prefix_Cons prefix_def append_Cons)
  moreover have "py_lstrip s \<noteq> []" using Cons \<open>prefix _ _\<close> by auto
  ultimately have "\<not> is_space c"
    by (metis list.collapse py_lstrip_hd)
  with Cons show ?thesis by (simp add: py_lstrip_def)
qed

lemma py_strip_idem: "py_strip (py_strip s) = py_strip s"
proof -
  have "py_rstrip (py_rstrip t) = py_rstrip t" for t
    by (simp add: py_rstrip_def)
  then show ?thesis
    by (simp add: py_strip_def py_lstrip_no_space_hd)
qed

lemma py_strip_ends:
  assumes "py_strip s \<noteq> []"
  shows "\<not> is_space (hd (py_strip s)) \<and> \<not> is_space (last (py_strip s))"
proof
  show "\<not> is_space (last (py_strip s))"
    using assms py_rstrip_last by (simp add: py_strip_def)
  have "py_lstrip (py_strip s) = py_strip s"
    by (simp add: py_strip_def py_lstrip_no_space_hd)
  then show "\<not> is_space (hd (py_strip s))"
    using assms by (metis list.collapse py_lstrip_hd)
qed

lemma py_lower_append [simp]: "py_lower (xs @ ys) = py_lower xs @ py_lower ys"
  by (simp add: py_lower_def)

lemma py_lower_Nil [simp]: "py_lower [] = []"
  by (simp add: py_lower_def)

lemma py_contains_mono: "py_contains n h \<Longrightarrow> py_contains n (h @ k)"
  using py_contains_append [of n h "[]" k] by simp

lemma is_space_simps [text_simps]:
  "is_space 32" "is_space 10" "is_space 9" "\<not> is_space 0"
  by (simp_all add: is_space_def)

lemma digit_val_lt: "is_digit c \<Longrightarrow> digit_val c < 10"
  unfolding is_digit_def digit_val_def by arith

lemma digits_val_append: "digits_val (xs @ [d]) = 10 * digits_val xs + digit_val d"
  by (simp add: digits_val_def)

lemma digits_val_bound:
  "\<forall>d\<in>set ds. is_digit d \<Longrightarrow> digits_val ds < 10 ^ length ds"
proof (induction ds rule: rev_induct)
  case Nil
  then show ?case by (simp add: digits_val_def)
next
  case (snoc d ds)
  then have "digits_val ds < 10 ^ length ds" and "digit_val d < 10"
    by (auto intro: digit_val_lt)
  then show ?case by (simp add: digits_val_append)
qed

lemma py_strip_id:
  assumes "u = [] \<or> (\<not> is_space (hd u) \<and> \<not> is_space (last u))"
  shows "py_strip u = u"
proof (cases "u = []")
  case True
  then show ?thesis by (simp add: py_strip_def py_lstrip_def py_rstrip_def)
next
  case False
  with assms have h: "\<not> is_space (hd u)" and l: "\<not> is_space (last u)" by auto
  from False h have "py_lstrip u = u" by (cases u) (simp_all add: py_lstrip_def)
  moreover from False l have "dropWhile is_space (rev u) = rev u"
    by (cases u rule: rev_cases) simp_all
  ultimately show ?thesis by (simp add: py_strip_def py_rstrip_def)
qed

lemma not_space_not_newline: "\<not> is_space c \<Longrightarrow> c \<noteq> newline"
  using is_space_simps(2) by (auto simp: newline_def)

lemma replace_char_Cons: "replace_char old new (c # s) = (if c = old then new else [c]) @ replace_char old new s"
  by (simp add: replace_char_def)

lemma replace_char_snoc: "replace_char old new (s @ [c]) = replace_char old new s @ (if c = old then new else [c])"
  by (simp add: replace_char_def)

lemma replace_char_id: "old \<notin> set s \<Longrightarrow> replace_char old new s = s"
  by (induction s) (auto simp: replace_char_def)

lemma replace_char_not_in: "old \<notin> set new \<Longrightarrow> old \<notin> set (replace_char old new s)"
  by (auto simp: replace_char_def)

lemma length_replace_char_single: "length (replace_char old [c] s) = length s"
  by (induction s) (auto simp: replace_char_def)

lemma replace_char_hd_last:
  assumes "\<not> is_space (hd s)" "\<not> is_space (last s)" "s \<noteq> []"
  shows "hd (replace_char newline [32] s) = hd s \<and> last (replace_char newline [32] s) = last s"
proof
  from assms(1,3) show "hd (replace_char newline [32] s) = hd s"
    by (cases s) (auto simp: replace_char_Cons dest: not_space_not_newline)
  from assms(2,3) show "last (replace_char newline [32] s) = last s"
    by (cases s rule: rev_cases) (auto simp: replace_char_snoc dest: not_space_not_newline)
qed

lemma dot_not_space: "\<not> is_space 46"
  by (simp add: is_space_def)

end
