(* ===== verification/Regex.thy ===== *)
theory Regex
  imports Prelude
begin

text \<open>
  The part of Python's \<open>re\<close> module that the sources use (\<open>chunking.py\<close>,
  \<open>grading.py\<close>): single-character classes, literal strings (case-sensitive or under
  \<open>re.IGNORECASE\<close>), greedy \<open>*\<close>, greedy \<open>?\<close>, concatenation and one capturing group.
  \<open>bt\<close> is the backtracking matcher written in continuation-passing style: it returns the
  first match in the order \<open>sre\<close> explores alternatives (longest first for greedy
  quantifiers, the optional branch before the empty one). \<open>finditer_ml\<close> is
  \<open>re.finditer\<close> for a pattern that starts with \<open>^\<close> under \<open>re.MULTILINE\<close>;
  \<open>re_sub\<close> is \<open>re.sub\<close> with a constant replacement.
\<close>

datatype rx =
    Chr "nat \<Rightarrow> bool"        \<comment> \<open>one character of a class\<close>
  | Str pystr                \<comment> \<open>a literal, case-sensitive\<close>
  | StrCI pystr              \<comment> \<open>a lower-case literal under \<open>re.IGNORECASE\<close>\<close>
  | Star "nat \<Rightarrow> bool"       \<comment> \<open>greedy \<open>c*\<close> over a class\<close>
  | Opt rx                   \<comment> \<open>greedy \<open>(?:r)?\<close>\<close>
  | Seq rx rx
  | Cap rx                   \<comment> \<open>the capturing group\<close>

definition Plus :: "(nat \<Rightarrow> bool) \<Rightarrow> rx" where
  "Plus p = Seq (Chr p) (Star p)"

text \<open>
  Case-insensitive comparison of a pattern letter with a character, as \<open>sre\<close> does it
  for \<open>str\<close> patterns: the ASCII letter in either case, and the four non-ASCII letters
  that fold onto ASCII ones (U+0130 and U+0131 onto \<open>i\<close>, U+017F onto \<open>s\<close>, the
  Kelvin sign U+212A onto \<open>k\<close>).
\<close>

definition ci_char :: "nat \<Rightarrow> nat \<Rightarrow> bool" where
  "ci_char p c \<longleftrightarrow>
     c = p \<or> (97 \<le> p \<and> p \<le> 122 \<and> c + 32 = p) \<or> (p = 105 \<and> (c = 304 \<or> c = 305)) \<or>
     (p = 115 \<and> c = 383) \<or> (p = 107 \<and> c = 8490)"

definition ci_prefix :: "pystr \<Rightarrow> pystr \<Rightarrow> bool" where
  "ci_prefix w xs \<longleftrightarrow> length w \<le> length xs \<and> list_all2 ci_char w (take (length w) xs)"

fun star_bt :: "(nat \<Rightarrow> bool) \<Rightarrow> pystr \<Rightarrow> (pystr \<Rightarrow> 'r option) \<Rightarrow> 'r option" where
  "star_bt p [] k = k []"
| "star_bt p (c # cs) k =
     (if p c then (case star_bt p cs k of Some v \<Rightarrow> Some v | None \<Rightarrow> k (c # cs))
      else k (c # cs))"

primrec bt :: "rx \<Rightarrow> pystr \<Rightarrow> pystr option \<Rightarrow> (pystr option \<Rightarrow> pystr \<Rightarrow> 'r option) \<Rightarrow> 'r option" where
  "bt (Chr p) xs g k = (case xs of [] \<Rightarrow> None | c # cs \<Rightarrow> if p c then k g cs else None)"
| "bt (Str s) xs g k = (if prefix s xs then k g (drop (length s) xs) else None)"
| "bt (StrCI s) xs g k = (if ci_prefix s xs then k g (drop (length s) xs) else None)"
| "bt (Star p) xs g k = star_bt p xs (k g)"
| "bt (Opt r) xs g k = (case bt r xs g k of Some v \<Rightarrow> Some v | None \<Rightarrow> k g xs)"
| "bt (Seq r1 r2) xs g k = bt r1 xs g (\<lambda>g' ys. bt r2 ys g' k)"
| "bt (Cap r) xs g k = bt r xs g (\<lambda>_ ys. k (Some (take (length xs - length ys) xs)) ys)"

text \<open>A match anchored at the start of \<open>xs\<close>: the group and the unconsumed rest.\<close>

definition match_prefix :: "rx \<Rightarrow> pystr \<Rightarrow> (pystr option \<times> pystr) option" where
  "match_prefix r xs = bt r xs None (\<lambda>g ys. Some (g, ys))"

text \<open>\<open>^\<close> under \<open>re.MULTILINE\<close>: the start of the string or just after a \<open>\n\<close>.\<close>

definition line_start :: "pystr \<Rightarrow> nat \<Rightarrow> bool" where
  "line_start t pos \<longleftrightarrow> pos = 0 \<or> (pos \<le> length t \<and> t ! (pos - 1) = newline)"

text \<open>
  A match of \<open>^r\<close> at position \<open>pos\<close> of \<open>t\<close>: the captured group and the end
  position \<open>m.end()\<close>.
\<close>

definition match_at :: "rx \<Rightarrow> pystr \<Rightarrow> nat \<Rightarrow> (pystr option \<times> nat) option" where
  "match_at r t pos =
     (if line_start t pos then
        (case match_prefix r (drop pos t) of
           None \<Rightarrow> None
         | Some (g, rest) \<Rightarrow> Some (g, length t - length rest))
      else None)"

text \<open>
  \<open>re.finditer\<close>: try every start position from left to right; after a match the
  search resumes at its end. Each element is \<open>(m.start(), m.group(1), m.end())\<close>.
  The header pattern never matches the empty string (\<open>Chunking.match_at_header_progress\<close>),
  so the branch for an empty match, which moves one position on, is not taken there.
\<close>

function finditer_ml :: "rx \<Rightarrow> pystr \<Rightarrow> nat \<Rightarrow> (nat \<times> pystr option \<times> nat) list" where
  "finditer_ml r t pos =
     (if length t < pos then []
      else case match_at r t pos of
        None \<Rightarrow> finditer_ml r t (Suc pos)
      | Some (g, e) \<Rightarrow>
          (if pos < e then (pos, g, e) # finditer_ml r t e
           else (pos, g, e) # finditer_ml r t (Suc pos)))"
  by pat_completeness auto
termination
  by (relation "measure (\<lambda>(r, t, pos). Suc (length t) - pos)") auto

text \<open>
  \<open>re.sub(r, repl, s)\<close>: scan left to right, replace each match by \<open>repl\<close>, copy the
  characters where no match starts. An empty match inserts \<open>repl\<close> and copies one
  character, as Python 3.7 and later do.
\<close>

function re_sub :: "rx \<Rightarrow> pystr \<Rightarrow> pystr \<Rightarrow> pystr" where
  "re_sub r repl xs =
     (case match_prefix r xs of
        Some (_, rest) \<Rightarrow>
          (if length rest < length xs then repl @ re_sub r repl rest
           else repl @ (case xs of [] \<Rightarrow> [] | c # cs \<Rightarrow> c # re_sub r repl cs))
      | None \<Rightarrow> (case xs of [] \<Rightarrow> [] | c # cs \<Rightarrow> c # re_sub r repl cs))"
  by pat_completeness auto
termination
  by (relation "measure (\<lambda>(r, repl, xs). length xs)") auto

declare finditer_ml.simps [simp del] re_sub.simps [simp del]

subsection \<open>The matcher continues on a suffix\<close>

lemma star_bt_suffix:
  "star_bt p xs k = Some v \<Longrightarrow> \<exists>ys. suffix ys xs \<and> k ys = Some v"
proof (induction xs)
  case Nil
  then show ?case by auto
next
  case (Cons c cs)
  then show ?case
    by (auto split: if_splits option.splits intro: suffix_ConsI)
qed

lemma bt_suffix:
  "bt r xs g k = Some v \<Longrightarrow> \<exists>g' ys. suffix ys xs \<and> k g' ys = Some v"
proof (induction r arbitrary: xs g k v)
  case (Chr p)
  then show ?case by (auto split: list.splits if_splits intro: suffix_ConsI)
next
  case (Str s)
  show ?case
    using Str by (cases "prefix s xs") (auto intro: suffix_drop)
next
  case (StrCI s)
  then show ?case by (simp split: if_splits) (meson suffix_drop)
next
  case (Star p)
  then have "star_bt p xs (k g) = Some v" by simp
  then obtain ys where "suffix ys xs" "k g ys = Some v" by (blast dest: star_bt_suffix)
  then show ?case by blast
next
  case (Opt r)
  show ?case
  proof (cases "bt r xs g k")
    case None
    with Opt.prems have "k g xs = Some v" by simp
    then show ?thesis by blast
  next
    case (Some w)
    with Opt.prems have "bt r xs g k = Some v" by simp
    then show ?thesis by (rule Opt.IH)
  qed
next
  case (Seq r1 r2)
  from Seq.prems have "bt r1 xs g (\<lambda>g' ys. bt r2 ys g' k) = Some v" by simp
  then obtain g1 ys where ys: "suffix ys xs" and m2: "bt r2 ys g1 k = Some v"
    by (blast dest: Seq.IH(1))
  from m2 obtain g2 zs where "suffix zs ys" "k g2 zs = Some v"
    by (blast dest: Seq.IH(2))
  with ys show ?case by (blast intro: suffix_order.order_trans)
next
  case (Cap r)
  from Cap.prems have "bt r xs g (\<lambda>_ ys. k (Some (take (length xs - length ys) xs)) ys) = Some v"
    by simp
  then obtain g1 ys where "suffix ys xs" "k (Some (take (length xs - length ys) xs)) ys = Some v"
    by (blast dest: Cap.IH)
  then show ?case by blast
qed

lemma match_prefix_suffix:
  "match_prefix r xs = Some (g, rest) \<Longrightarrow> suffix rest xs"
  unfolding match_prefix_def by (fastforce dest: bt_suffix)

lemma match_at_le:
  assumes "match_at r t pos = Some (g, e)"
  shows "pos \<le> e \<and> e \<le> length t \<and> line_start t pos"
proof -
  from assms obtain rest where ls: "line_start t pos"
    and m: "match_prefix r (drop pos t) = Some (g, rest)" and e: "e = length t - length rest"
    by (auto simp: match_at_def split: if_splits option.splits)
  from m have "length rest \<le> length (drop pos t)"
    by (metis match_prefix_suffix suffix_length_le)
  moreover from ls have "pos \<le> length t" by (auto simp: line_start_def)
  ultimately show ?thesis using e ls by auto
qed

subsection \<open>Greedy stars over a class\<close>

text \<open>
  A greedy star followed by a continuation that cannot start on a character of its class
  behaves as \<open>dropWhile\<close>: backtracking into the star never helps.
\<close>

lemma star_bt_greedy:
  assumes "\<And>c cs. p c \<Longrightarrow> k (c # cs) = None"
  shows "star_bt p xs k = k (dropWhile p xs)"
  using assms by (induction xs) (auto split: option.splits)

lemma star_bt_longest:
  "k (dropWhile p xs) = Some v \<Longrightarrow> star_bt p xs k = Some v"
  by (induction xs) (auto split: option.splits if_splits)

end
