(* ===== verification/Chunking.thy ===== *)
theory Chunking
  imports Regex
begin

text \<open>
  The Segmenter and the text normaliser of \<open>backend/app/chunking.py\<close>.
  \<open>split_numbered_answers\<close> runs \<open>re.finditer\<close> with the question-header pattern
  \<open>header_rx\<close> (lines 22--32, translated construct by construct into the \<open>rx\<close> syntax of
  theory \<open>Regex\<close>) over the stripped text and cuts the text between consecutive matches.
  \<open>clean_text_basic\<close> is the chain of \<open>re.sub\<close> and \<open>str.replace\<close> calls of lines
  50--56. The lemmas show that the backtracking match of the header pattern equals a
  deterministic left-to-right scanner (\<open>match_prefix_header\<close>), that every match
  consumes input, and the properties of the chunks the Segmenter returns.
\<close>

subsection \<open>The question-header pattern\<close>

text \<open>
  The delimiter class of the pattern: full stop, closing parenthesis, colon, hyphen-minus,
  en dash (U+2013), em dash (U+2014).
\<close>

definition is_delim :: "nat \<Rightarrow> bool" where
  "is_delim c \<longleftrightarrow> c = 46 \<or> c = 41 \<or> c = 58 \<or> c = 45 \<or> c = 8211 \<or> c = 8212"

text \<open>
  The group's \<open>\d{1,3}\<close> is greedy: it is the nesting \<open>\d(?:\d(?:\d)?)?\<close>, which tries
  three, two and one digits in this order.
\<close>

definition digits13 :: rx where
  "digits13 = Seq (Chr is_digit) (Opt (Seq (Chr is_digit) (Opt (Chr is_digit))))"

text \<open>The end of the pattern: optional spaces, one delimiter, at least one space.\<close>

definition header_tail_rx :: rx where
  "header_tail_rx = Seq (Star is_space) (Seq (Chr is_delim) (Plus is_space))"

text \<open>
  The whole pattern after \<open>^\<close>: spaces, an optional \<open>question\<close> and spaces, an optional
  \<open>q\<close> and spaces, the group, and the tail. The anchor \<open>^\<close> is checked by
  \<open>match_at\<close>; \<open>re.IGNORECASE\<close> is the \<open>StrCI\<close> of the two words.
\<close>

definition header_rx :: rx where
  "header_rx =
     Seq (Star is_space)
    (Seq (Opt (Seq (StrCI (py_str ''question'')) (Star is_space)))
    (Seq (Opt (Seq (StrCI (py_str ''q'')) (Star is_space)))
    (Seq (Cap digits13) header_tail_rx)))"

text \<open>\<open>int(m.group(1))\<close>; the group always takes part in a header match.\<close>

definition question_no :: "pystr option \<Rightarrow> nat" where
  "question_no g = (case g of Some ds \<Rightarrow> digits_val ds | None \<Rightarrow> 0)"

subsection \<open>Segmenter\<close>

text \<open>
  The loop over \<open>enumerate(matches)\<close>: the chunk of a match runs from its end to the
  start of the next match, or to \<open>len(text)\<close> for the last; chunks that are empty after
  \<open>strip\<close> are dropped.
\<close>

fun chunks_from :: "pystr \<Rightarrow> (nat \<times> pystr option \<times> nat) list \<Rightarrow> (nat \<times> pystr) list" where
  "chunks_from t [] = []"
| "chunks_from t ((s, g, e) # ms) =
     (let stop = (case ms of [] \<Rightarrow> length t | (s', _, _) # _ \<Rightarrow> s');
          chunk = py_strip (take (stop - e) (drop e t))
      in if chunk \<noteq> [] then (question_no g, chunk) # chunks_from t ms else chunks_from t ms)"

definition split_numbered_answers :: "pystr \<Rightarrow> (nat \<times> pystr) list" where
  "split_numbered_answers text =
     (let t = py_strip text in
      if t = [] then [] else
      let matches = finditer_ml header_rx t 0 in
      if matches = [] then [] else chunks_from t matches)"

subsection \<open>Text normalisation\<close>

text \<open>
  The three patterns of \<open>clean_text_basic\<close>: a PDF glyph placeholder \<open>(cid:N)\<close>, a run
  of spaces and tabs, and a run of three or more newlines (\<open>\n\n\n\n*\<close>).
\<close>

definition cid_rx :: rx where
  "cid_rx = Seq (Str (py_str ''(cid:'')) (Seq (Plus is_digit) (Chr (\<lambda>c. c = 41)))"

definition blank_rx :: rx where
  "blank_rx = Plus (\<lambda>c. c = 32 \<or> c = 9)"

definition newlines3_rx :: rx where
  "newlines3_rx =
     Seq (Chr (\<lambda>c. c = newline)) (Seq (Chr (\<lambda>c. c = newline))
    (Seq (Chr (\<lambda>c. c = newline)) (Star (\<lambda>c. c = newline))))"

definition clean_text_basic :: "pystr \<Rightarrow> pystr" where
  "clean_text_basic s =
     (let s = re_sub cid_rx [] s;
          s = replace_char 173 [] s;
          s = re_sub blank_rx [32] s;
          s = re_sub newlines3_rx [newline, newline] s
      in py_strip s)"

subsection \<open>A deterministic scanner for the header pattern\<close>

definition scan_tail :: "pystr \<Rightarrow> pystr option" where
  "scan_tail ys =
     (case dropWhile is_space ys of
        d # e # rest \<Rightarrow> if is_delim d \<and> is_space e then Some (dropWhile is_space rest) else None
      | _ \<Rightarrow> None)"

definition scan_digits :: "pystr \<Rightarrow> (pystr \<times> pystr) option" where
  "scan_digits c =
     (let ds = takeWhile is_digit c in
      if ds \<noteq> [] \<and> length ds \<le> 3
      then map_option (Pair ds) (scan_tail (dropWhile is_digit c)) else None)"

definition skip_opt_lit :: "pystr \<Rightarrow> pystr \<Rightarrow> pystr" where
  "skip_opt_lit w xs = (if ci_prefix w xs then dropWhile is_space (drop (length w) xs) else xs)"

definition scan_header :: "pystr \<Rightarrow> (pystr \<times> pystr) option" where
  "scan_header xs =
     scan_digits (skip_opt_lit (py_str ''q'') (skip_opt_lit (py_str ''question'') (dropWhile is_space xs)))"

subsection \<open>The backtracking match equals the scanner\<close>

lemma space_not_delim: "is_space c \<Longrightarrow> \<not> is_delim c"
  by (auto simp: is_space_def is_delim_def)
lemma space_not_digit: "is_space c \<Longrightarrow> \<not> is_digit c"
  by (auto simp: is_space_def is_digit_def)
lemma digit_not_delim: "is_digit c \<Longrightarrow> \<not> is_delim c"
  by (auto simp: is_digit_def is_delim_def)

lemma bt_delim_plus:
  "bt (Seq (Chr is_delim) (Plus is_space)) zs g (\<lambda>g ys. Some (g, ys)) =
     (case zs of
        d # e # rest \<Rightarrow> if is_delim d \<and> is_space e then Some (g, dropWhile is_space rest) else None
      | _ \<Rightarrow> None)"
  by (auto simp: Plus_def star_bt_longest split: list.splits)

lemma bt_header_tail:
  "bt header_tail_rx ys g (\<lambda>g ys. Some (g, ys)) = map_option (Pair g) (scan_tail ys)"
proof -
  have "bt header_tail_rx ys g (\<lambda>g ys. Some (g, ys)) =
        bt (Seq (Chr is_delim) (Plus is_space)) (dropWhile is_space ys) g (\<lambda>g ys. Some (g, ys))"
    unfolding header_tail_rx_def
    by (simp add: star_bt_greedy space_not_delim)
  also have "\<dots> = map_option (Pair g) (scan_tail ys)"
  proof -
    obtain zs where zs: "dropWhile is_space ys = zs" by simp
    show ?thesis unfolding bt_delim_plus scan_tail_def zs by (auto split: list.split)
  qed
  finally show ?thesis .
qed

lemma bt_cap_digits13:
  assumes "\<And>g' c cs. is_digit c \<Longrightarrow> K g' (c # cs) = None"
  shows "bt (Cap digits13) xs g K =
           (let ds = takeWhile is_digit xs in
            if ds \<noteq> [] \<and> length ds \<le> 3 then K (Some ds) (dropWhile is_digit xs) else None)"
proof (cases xs)
  case Nil
  then show ?thesis by (simp add: digits13_def)
next
  case (Cons x xs1)
  show ?thesis
  proof (cases "is_digit x")
    case False
    with Cons show ?thesis by (simp add: digits13_def)
  next
    case dx: True
    show ?thesis
    proof (cases xs1)
      case Nil
      with Cons dx show ?thesis by (simp add: digits13_def)
    next
      case Cons1: (Cons y xs2)
      show ?thesis
      proof (cases "is_digit y")
        case False
        with Cons Cons1 dx show ?thesis by (simp add: digits13_def)
      next
        case dy: True
        show ?thesis
        proof (cases xs2)
          case Nil
          with Cons Cons1 dx dy assms show ?thesis by (simp add: digits13_def split: option.split)
        next
          case Cons2: (Cons z xs3)
          show ?thesis
          proof (cases "is_digit z")
            case False
            with Cons Cons1 Cons2 dx dy assms show ?thesis
              by (simp add: digits13_def split: option.split)
          next
            case dz: True
            with Cons Cons1 Cons2 dx dy assms
            have lhs: "bt (Cap digits13) xs g K = K (Some [x, y, z]) xs3"
              by (simp add: digits13_def split: option.split)
            show ?thesis
            proof (cases "xs3 \<noteq> [] \<and> is_digit (hd xs3)")
              case True
              then obtain c cs where "xs3 = c # cs" "is_digit c" by (cases xs3) auto
              with lhs Cons Cons1 Cons2 dx dy dz assms show ?thesis by simp
            next
              case False
              then have "takeWhile is_digit xs3 = [] \<and> dropWhile is_digit xs3 = xs3"
                by (cases xs3) auto
              with lhs Cons Cons1 Cons2 dx dy dz show ?thesis by simp
            qed
          qed
        qed
      qed
    qed
  qed
qed


lemma ci_char_113: "ci_char 113 c \<longleftrightarrow> c = 113 \<or> c = 81"
  by (auto simp: ci_char_def)
lemma ci_char_117: "ci_char 117 c \<longleftrightarrow> c = 117 \<or> c = 85"
  by (auto simp: ci_char_def)
lemma ci_q_not_space_digit: "ci_char 113 c \<Longrightarrow> \<not> is_space c \<and> \<not> is_digit c"
  by (auto simp: ci_char_113 is_space_def is_digit_def)
lemma ci_u_not_space_digit: "ci_char 117 c \<Longrightarrow> \<not> is_space c \<and> \<not> is_digit c"
  by (auto simp: ci_char_117 is_space_def is_digit_def)
lemma bt_opt_lit:
  assumes sp: "\<And>g' c cs. is_space c \<Longrightarrow> K g' (c # cs) = None"
    and lit: "\<And>g'. ci_prefix w xs \<Longrightarrow> K g' xs = None"
  shows "bt (Opt (Seq (StrCI w) (Star is_space))) xs g K = K g (skip_opt_lit w xs)"
proof (cases "ci_prefix w xs")
  case True
  have seq: "bt (Seq (StrCI w) (Star is_space)) xs g K = K g (dropWhile is_space (drop (length w) xs))"
    using True sp by (simp add: ci_prefix_def star_bt_greedy)
  have "bt (Opt (Seq (StrCI w) (Star is_space))) xs g K =
        (case K g (dropWhile is_space (drop (length w) xs)) of Some v \<Rightarrow> Some v | None \<Rightarrow> K g xs)"
    by (simp only: bt.simps(5) seq)
  also have "\<dots> = K g (skip_opt_lit w xs)"
    using True lit[OF True] by (simp add: skip_opt_lit_def split: option.split)
  finally show ?thesis .
next
  case False
  then show ?thesis by (auto simp: skip_opt_lit_def ci_prefix_def)
qed

lemma scan_tail_digit: "is_digit c \<Longrightarrow> scan_tail (c # cs) = None"
proof -
  assume d: "is_digit c"
  then have "\<not> is_space c" using space_not_digit by blast
  with d show ?thesis by (cases cs) (simp_all add: scan_tail_def digit_not_delim)
qed

lemma scan_digits_non_digit: "\<not> is_digit c \<Longrightarrow> scan_digits (c # cs) = None"
  by (simp add: scan_digits_def)

lemma ci_prefix_q: "ci_prefix [113] ys \<Longrightarrow> \<exists>c cs. ys = c # cs \<and> ci_char 113 c"
  by (cases ys) (auto simp: ci_prefix_def)

lemma ci_prefix_question:
  "ci_prefix [113, 117, 101, 115, 116, 105, 111, 110] ys \<Longrightarrow> \<exists>c u cs. ys = c # u # cs \<and> ci_char 113 c \<and> ci_char 117 u"
  by (cases ys rule: remdups_adj.cases) (auto simp: ci_prefix_def)

lemma skip_opt_lit_q_space: "is_space c \<Longrightarrow> skip_opt_lit (113 # w) (c # cs) = c # cs"
  using ci_q_not_space_digit by (auto simp: skip_opt_lit_def ci_prefix_def)

lemma match_prefix_header:
  "match_prefix header_rx xs = map_option (\<lambda>(ds, r). (Some ds, r)) (scan_header xs)"
proof -
  define K0 :: "pystr option \<Rightarrow> pystr \<Rightarrow> (pystr option \<times> pystr) option" where
    "K0 = (\<lambda>g ys. Some (g, ys))"
  define Kd where "Kd = (\<lambda>g' zs. bt (Seq (Cap digits13) header_tail_rx) zs g' K0)"
  have kd: "Kd g ys = map_option (\<lambda>(ds, r). (Some ds, r)) (scan_digits ys)" for g ys
  proof -
    have "Kd g ys = bt (Cap digits13) ys g (\<lambda>g' zs. map_option (Pair g') (scan_tail zs))"
      by (simp add: Kd_def K0_def bt_header_tail)
    also have "\<dots> = map_option (\<lambda>(ds, r). (Some ds, r)) (scan_digits ys)"
      by (subst bt_cap_digits13) (auto simp: scan_tail_digit scan_digits_def Let_def option.map_comp comp_def)
    finally show ?thesis .
  qed
  define Kq where "Kq = (\<lambda>g' zs. bt (Opt (Seq (StrCI (py_str ''q'')) (Star is_space))) zs g' Kd)"
  have kq: "Kq g ys = map_option (\<lambda>(ds, r). (Some ds, r)) (scan_digits (skip_opt_lit (py_str ''q'') ys))" for g ys
    unfolding Kq_def
    by (subst bt_opt_lit)
       (auto simp: kd scan_digits_non_digit space_not_digit dest!: ci_prefix_q ci_q_not_space_digit)
  have kq_space: "Kq g (c # cs) = None" if "is_space c" for g c cs
    using that by (simp add: kq skip_opt_lit_q_space scan_digits_non_digit space_not_digit)
  have kq_question: "Kq g zs = None" if "ci_prefix (py_str ''question'') zs" for g zs
  proof -
    from that obtain c u cs where zs: "zs = c # u # cs" "ci_char 113 c" "ci_char 117 u"
      by (auto dest: ci_prefix_question)
    then have "skip_opt_lit (py_str ''q'') zs = u # cs"
      using ci_u_not_space_digit by (simp add: skip_opt_lit_def ci_prefix_def)
    then show ?thesis using zs(3) ci_u_not_space_digit by (simp add: kq scan_digits_non_digit)
  qed
  have "match_prefix header_rx xs = star_bt is_space xs
          (\<lambda>zs. bt (Opt (Seq (StrCI (py_str ''question'')) (Star is_space))) zs None Kq)"
    unfolding match_prefix_def header_rx_def Kq_def Kd_def K0_def bt.simps(6) bt.simps(4) ..
  also have "\<dots> = star_bt is_space xs (\<lambda>zs. Kq None (skip_opt_lit (py_str ''question'') zs))"
    by (subst bt_opt_lit) (auto intro: kq_space kq_question)
  also have "\<dots> = Kq None (skip_opt_lit (py_str ''question'') (dropWhile is_space xs))"
    by (rule star_bt_greedy) (simp add: skip_opt_lit_q_space kq_space)
  also have "\<dots> = map_option (\<lambda>(ds, r). (Some ds, r)) (scan_header xs)"
    by (simp add: kq scan_header_def)
  finally show ?thesis .
qed



subsection \<open>Matches consume input; \<open>re.finditer\<close> finds the leftmost matches\<close>

lemma skip_opt_lit_suffix: "suffix (skip_opt_lit w xs) xs"
proof -
  have "suffix (dropWhile is_space (drop (length w) xs)) xs"
    by (meson suffix_dropWhile suffix_drop suffix_order.order_trans)
  then show ?thesis by (simp add: skip_opt_lit_def)
qed

lemma scan_tail_shorter: "scan_tail ys = Some r \<Longrightarrow> length r < length ys"
proof -
  assume st: "scan_tail ys = Some r"
  then obtain d e rest where dw: "dropWhile is_space ys = d # e # rest"
    and r: "r = dropWhile is_space rest"
    by (auto simp: scan_tail_def split: list.splits if_splits)
  have "length (dropWhile is_space ys) \<le> length ys" by (rule length_dropWhile_le)
  with dw r show ?thesis using length_dropWhile_le [of is_space rest] by simp
qed

lemma scan_digits_SomeD:
  assumes "scan_digits c = Some (ds, r)"
  shows "ds \<noteq> [] \<and> length ds \<le> 3 \<and> (\<forall>d\<in>set ds. is_digit d) \<and> prefix ds c \<and> length r < length c"
proof -
  from assms have ds: "ds = takeWhile is_digit c" "ds \<noteq> []" "length ds \<le> 3"
    and st: "scan_tail (dropWhile is_digit c) = Some r"
    by (auto simp: scan_digits_def Let_def split: if_splits)
  from st have "length r < length (dropWhile is_digit c)" by (rule scan_tail_shorter)
  also have "\<dots> \<le> length c" by (rule length_dropWhile_le)
  finally have "length r < length c" .
  moreover have "\<forall>d\<in>set ds. is_digit d" using ds(1) by (auto dest: set_takeWhileD)
  moreover have "prefix ds c" using ds(1) by (metis takeWhile_dropWhile_id prefixI)
  ultimately show ?thesis using ds by blast
qed

lemma scan_header_SomeD:
  assumes "scan_header xs = Some (ds, r)"
  shows "ds \<noteq> [] \<and> length ds \<le> 3 \<and> (\<forall>d\<in>set ds. is_digit d) \<and> sublist ds xs \<and> length r < length xs"
proof -
  let ?c = "skip_opt_lit (py_str ''q'') (skip_opt_lit (py_str ''question'') (dropWhile is_space xs))"
  have suf: "suffix ?c xs"
    by (meson skip_opt_lit_suffix suffix_dropWhile suffix_order.order_trans)
  from assms have "scan_digits ?c = Some (ds, r)" by (simp add: scan_header_def)
  then have d: "ds \<noteq> [] \<and> length ds \<le> 3 \<and> (\<forall>d\<in>set ds. is_digit d) \<and> prefix ds ?c \<and> length r < length ?c"
    by (rule scan_digits_SomeD)
  with suf have "sublist ds xs"
    by (meson prefix_imp_sublist suffix_imp_sublist sublist_order.order_trans)
  moreover from suf d have "length r < length xs" using suffix_length_le by fastforce
  ultimately show ?thesis using d by blast
qed

lemma match_at_header_SomeD:
  assumes "match_at header_rx t pos = Some (g, e)"
  shows "pos < e \<and> e \<le> length t \<and>
         (\<exists>ds. g = Some ds \<and> ds \<noteq> [] \<and> length ds \<le> 3 \<and> (\<forall>d\<in>set ds. is_digit d) \<and> sublist ds t)"
proof -
  from assms obtain rest where ls: "line_start t pos"
    and m: "match_prefix header_rx (drop pos t) = Some (g, rest)" and e: "e = length t - length rest"
    by (auto simp: match_at_def split: if_splits option.splits)
  from m obtain ds where g: "g = Some ds" and sh: "scan_header (drop pos t) = Some (ds, rest)"
    by (auto simp: match_prefix_header)
  from sh have d: "ds \<noteq> [] \<and> length ds \<le> 3 \<and> (\<forall>d\<in>set ds. is_digit d) \<and> sublist ds (drop pos t)
      \<and> length rest < length (drop pos t)"
    by (rule scan_header_SomeD)
  then have "sublist ds t" by (meson sublist_order.order_trans suffix_drop suffix_imp_sublist)
  with d g e show ?thesis by auto
qed

lemma finditer_ml_sound:
  "(s, g, e) \<in> set (finditer_ml r t pos) \<Longrightarrow> pos \<le> s \<and> match_at r t s = Some (g, e)"
proof (induction r t pos rule: finditer_ml.induct)
  case (1 r t pos)
  show ?case
  proof (cases "length t < pos")
    case True
    with "1.prems" show ?thesis by (simp add: finditer_ml.simps)
  next
    case False
    show ?thesis
    proof (cases "match_at r t pos")
      case None
      with False "1.prems" "1.IH"(1) show ?thesis
        by (fastforce simp: finditer_ml.simps [of r t pos])
    next
      case (Some a)
      obtain g' e' where a: "a = (g', e')" by fastforce
      with Some have le: "pos \<le> e'" using match_at_le by blast
      show ?thesis
      proof (cases "pos < e'")
        case True
        with False Some a "1.prems" "1.IH"(2) [OF False Some a [symmetric] True] le show ?thesis
          by (fastforce simp: finditer_ml.simps [of r t pos])
      next
        case lt: False
        with False Some a "1.prems" "1.IH"(3) [OF False Some a [symmetric] lt] show ?thesis
          by (fastforce simp: finditer_ml.simps [of r t pos])
      qed
    qed
  qed
qed

lemma finditer_ml_ordered:
  "sorted_wrt (\<lambda>(s, _, e) (s', _, _). s < s' \<and> e \<le> s') (finditer_ml r t pos)"
proof (induction r t pos rule: finditer_ml.induct)
  case (1 r t pos)
  show ?case
  proof (cases "length t < pos")
    case True
    then show ?thesis by (simp add: finditer_ml.simps)
  next
    case False
    show ?thesis
    proof (cases "match_at r t pos")
      case None
      with False "1.IH"(1) show ?thesis by (simp add: finditer_ml.simps [of r t pos])
    next
      case (Some a)
      obtain g e where a: "a = (g, e)" by fastforce
      with Some have le: "pos \<le> e" using match_at_le by blast
      show ?thesis
      proof (cases "pos < e")
        case True
        have "\<forall>x\<in>set (finditer_ml r t e). (\<lambda>(s', _, _). pos < s' \<and> e \<le> s') x"
          using True by (auto dest: finditer_ml_sound)
        with False Some a True "1.IH"(2) [OF False Some a [symmetric] True] show ?thesis
          by (simp add: finditer_ml.simps [of r t pos])
      next
        case lt: False
        with le have "e = pos" by simp
        then have "\<forall>x\<in>set (finditer_ml r t (Suc pos)). (\<lambda>(s', _, _). pos < s' \<and> e \<le> s') x"
          by (auto dest: finditer_ml_sound)
        with False Some a lt "1.IH"(3) [OF False Some a [symmetric] lt] show ?thesis
          by (simp add: finditer_ml.simps [of r t pos])
      qed
    qed
  qed
qed

lemma finditer_ml_complete:
  "match_at r t p = Some m \<Longrightarrow> pos \<le> p \<Longrightarrow>
   \<exists>(s, g, e)\<in>set (finditer_ml r t pos). s \<le> p \<and> (p < e \<or> p = s)"
proof (induction r t pos rule: finditer_ml.induct)
  case (1 r t pos)
  obtain g0 e0 where "m = (g0, e0)" by fastforce
  with "1.prems"(1) have "p \<le> length t" using match_at_le by (meson order_trans)
  with "1.prems"(2) have nl: "\<not> length t < pos" by simp
  show ?case
  proof (cases "match_at r t pos")
    case None
    with "1.prems" have "pos \<noteq> p" by auto
    with "1.prems" have "Suc pos \<le> p" by simp
    with nl None "1.IH"(1) [OF nl None "1.prems"(1)] show ?thesis
      by (simp add: finditer_ml.simps [of r t pos])
  next
    case (Some a)
    obtain g e where a: "a = (g, e)" by fastforce
    show ?thesis
    proof (cases "pos < e")
      case True
      show ?thesis
      proof (cases "p < e")
        case True
        with "1.prems"(2) nl Some a \<open>pos < e\<close> show ?thesis
          by (auto simp: finditer_ml.simps [of r t pos])
      next
        case False
        with nl Some a \<open>pos < e\<close> "1.IH"(2) [OF nl Some a [symmetric] \<open>pos < e\<close> "1.prems"(1)] show ?thesis
          by (auto simp: finditer_ml.simps [of r t pos])
      qed
    next
      case lt: False
      show ?thesis
      proof (cases "p = pos")
        case True
        with nl Some a lt show ?thesis by (auto simp: finditer_ml.simps [of r t pos])
      next
        case False
        with "1.prems"(2) have "Suc pos \<le> p" by simp
        with nl Some a lt "1.IH"(3) [OF nl Some a [symmetric] lt "1.prems"(1)] show ?thesis
          by (auto simp: finditer_ml.simps [of r t pos])
      qed
    qed
  qed
qed

lemma chunks_from_SomeD:
  "(q, c) \<in> set (chunks_from t ms) \<Longrightarrow>
   c \<noteq> [] \<and> py_strip c = c \<and> sublist c t \<and> (\<exists>s g e. (s, g, e) \<in> set ms \<and> q = question_no g)"
proof (induction t ms rule: chunks_from.induct)
  case (1 t)
  then show ?case by simp
next
  case (2 t s g e ms)
  let ?c = "py_strip (take ((case ms of [] \<Rightarrow> length t | (s', _, _) # _ \<Rightarrow> s') - e) (drop e t))"
  have IH: "(q, c) \<in> set (chunks_from t ms) \<Longrightarrow>
      c \<noteq> [] \<and> py_strip c = c \<and> sublist c t \<and> (\<exists>s g e. (s, g, e) \<in> set ms \<and> q = question_no g)"
    using "2.IH" [OF refl refl] by blast
  have sub: "sublist ?c t"
    by (meson py_strip_sublist sublist_order.order_trans sublist_take sublist_drop)
  have eq: "chunks_from t ((s, g, e) # ms) =
            (if ?c \<noteq> [] then (question_no g, ?c) # chunks_from t ms else chunks_from t ms)"
    by (simp add: Let_def)
  show ?case
  proof (cases "(q, c) \<in> set (chunks_from t ms)")
    case True
    then show ?thesis using IH by fastforce
  next
    case False
    with "2.prems" eq have "q = question_no g" "c = ?c" "?c \<noteq> []" by (auto split: if_splits)
    with sub show ?thesis by (auto simp: py_strip_idem)
  qed
qed

lemma question_no_bound:
  "match_at header_rx t s = Some (g, e) \<Longrightarrow> question_no g < 1000"
proof -
  assume "match_at header_rx t s = Some (g, e)"
  then obtain ds where "g = Some ds" "length ds \<le> 3" "\<forall>d\<in>set ds. is_digit d"
    using match_at_header_SomeD by blast
  moreover from this have "digits_val ds < 10 ^ length ds" by (simp add: digits_val_bound)
  moreover have "(10::nat) ^ length ds \<le> 10 ^ 3"
    using \<open>length ds \<le> 3\<close> by (rule power_increasing) simp
  ultimately show ?thesis by (simp add: question_no_def)
qed

lemmas seg_eval = split_numbered_answers_def finditer_ml.simps match_at_def match_prefix_header
  scan_header_def scan_digits_def scan_tail_def skip_opt_lit_def ci_prefix_def line_start_def
  is_space_def is_digit_def is_delim_def digits_val_def digit_val_def question_no_def
  py_strip_def py_lstrip_def py_rstrip_def ci_char_def newline_def

subsection \<open>Properties of the Segmenter\<close>

text \<open>
  C1. Every chunk the Segmenter returns is non-empty, has no surrounding whitespace, is a
  contiguous piece of the submitted text, and carries a question number below 1000 (the
  header's number has one to three digits).
\<close>

lemma split_numbered_answers_chunks:
  assumes "(q, c) \<in> set (split_numbered_answers text)"
  shows "c \<noteq> [] \<and> py_strip c = c \<and> sublist c text \<and> q < 1000"
proof -
  let ?t = "py_strip text"
  from assms have mem: "(q, c) \<in> set (chunks_from ?t (finditer_ml header_rx ?t 0))"
    by (auto simp: split_numbered_answers_def Let_def split: if_splits)
  then have c: "c \<noteq> [] \<and> py_strip c = c \<and> sublist c ?t"
    and "\<exists>s g e. (s, g, e) \<in> set (finditer_ml header_rx ?t 0) \<and> q = question_no g"
    by (blast dest: chunks_from_SomeD)+
  then obtain s g e where "match_at header_rx ?t s = Some (g, e)" "q = question_no g"
    by (blast dest: finditer_ml_sound)
  then have "q < 1000" by (blast dest: question_no_bound)
  moreover have "sublist c text" using c py_strip_sublist sublist_order.order_trans by blast
  ultimately show ?thesis using c by blast
qed

lemma split_numbered_answers_chunks_witness:
  "(1, py_str ''a'') \<in> set (split_numbered_answers (py_str ''1. a''))
   \<and> py_str ''a'' \<noteq> [] \<and> py_strip (py_str ''a'') = py_str ''a''
   \<and> sublist (py_str ''a'') (py_str ''1. a'') \<and> (1::nat) < 1000"
proof -
  have m: "(1, py_str ''a'') \<in> set (split_numbered_answers (py_str ''1. a''))" by (simp add: seg_eval)
  show ?thesis using m split_numbered_answers_chunks [OF m] by blast
qed

text \<open>
  C2. The backtracking match of the header pattern (the semantics of \<open>re\<close>) is the
  deterministic scan: skip spaces, an optional \<open>question\<close> and an optional \<open>q\<close>
  (each with the spaces after it), take one to three digits, skip spaces, read one
  delimiter and at least one space.
\<close>

lemma match_prefix_header_scan:
  "match_prefix header_rx xs = map_option (\<lambda>(ds, r). (Some ds, r)) (scan_header xs)"
  by (rule match_prefix_header)

text \<open>
  A text in which no ASCII digit occurs has no question header: the Segmenter returns
  the empty list.
\<close>

lemma split_numbered_answers_no_digit:
  assumes "\<forall>c\<in>set text. \<not> is_digit c"
  shows "split_numbered_answers text = []"
proof (cases "finditer_ml header_rx (py_strip text) 0")
  case Nil
  then show ?thesis by (simp add: split_numbered_answers_def Let_def)
next
  case (Cons m ms)
  obtain s g e where "m = (s, g, e)" by (cases m) auto
  with Cons have "match_at header_rx (py_strip text) s = Some (g, e)"
    by (metis finditer_ml_sound list.set_intros(1))
  then obtain ds where "ds \<noteq> []" "\<forall>d\<in>set ds. is_digit d" "sublist ds (py_strip text)"
    using match_at_header_SomeD by blast
  moreover have "sublist (py_strip text) text" by (rule py_strip_sublist)
  ultimately obtain d where "d \<in> set text" "is_digit d"
    by (metis last_in_set set_mono_sublist sublist_order.order_trans subsetD)
  with assms show ?thesis by blast
qed

lemma split_numbered_answers_no_digit_witness:
  "split_numbered_answers (py_str ''no header here'') = []"
proof -
  have h: "\<forall>c\<in>set (py_str ''no header here''). \<not> is_digit c" by (simp add: is_digit_def)
  show ?thesis using split_numbered_answers_no_digit [OF h] .
qed

text \<open>
  C3. The header matches \<open>re.finditer\<close> returns are genuine matches that consume input,
  come in increasing order without overlapping, and every position where the pattern
  matches lies inside one of them (the matches are the leftmost non-overlapping ones).
\<close>

lemma finditer_header_contract:
  "(\<forall>(s, g, e)\<in>set (finditer_ml header_rx t 0). match_at header_rx t s = Some (g, e) \<and> s < e) \<and>
   sorted_wrt (\<lambda>(s, _, e) (s', _, _). s < s' \<and> e \<le> s') (finditer_ml header_rx t 0) \<and>
   (\<forall>p m. match_at header_rx t p = Some m \<longrightarrow>
      (\<exists>(s, g, e)\<in>set (finditer_ml header_rx t 0). s \<le> p \<and> p < e))"
proof (intro conjI allI impI)
  show "\<forall>(s, g, e)\<in>set (finditer_ml header_rx t 0). match_at header_rx t s = Some (g, e) \<and> s < e"
    using finditer_ml_sound match_at_header_SomeD by fastforce
  show "sorted_wrt (\<lambda>(s, _, e) (s', _, _). s < s' \<and> e \<le> s') (finditer_ml header_rx t 0)"
    by (rule finditer_ml_ordered)
next
  fix p m
  assume "match_at header_rx t p = Some m"
  then obtain s g e where mem: "(s, g, e) \<in> set (finditer_ml header_rx t 0)" and "s \<le> p" and "p < e \<or> p = s"
    using finditer_ml_complete [of header_rx t p m 0] by auto
  moreover from mem have "s < e" using finditer_ml_sound match_at_header_SomeD by blast
  ultimately show "\<exists>(s, g, e)\<in>set (finditer_ml header_rx t 0). s \<le> p \<and> p < e" by auto
qed

lemma finditer_header_contract_witness:
  "finditer_ml header_rx (py_str ''1. a\<newline>2. b'') 0 = [(0, Some (py_str ''1''), 3), (5, Some (py_str ''2''), 8)] \<and>
   match_at header_rx (py_str ''1. a\<newline>2. b'') 5 = Some (Some (py_str ''2''), 8)"
proof -
  have f: "finditer_ml header_rx (py_str ''1. a\<newline>2. b'') 0 = [(0, Some (py_str ''1''), 3), (5, Some (py_str ''2''), 8)]"
    by (simp add: seg_eval)
  have "(5, Some (py_str ''2''), 8) \<in> set (finditer_ml header_rx (py_str ''1. a\<newline>2. b'') 0)"
    unfolding f by simp
  then have "match_at header_rx (py_str ''1. a\<newline>2. b'') 5 = Some (Some (py_str ''2''), 8)"
    using finditer_header_contract [of "py_str ''1. a\<newline>2. b''"] by fastforce
  with f show ?thesis by blast
qed

text \<open>
  The end-to-end scenario of the specification, with one answer per line: three
  chunks numbered 1, 2 and 3, each without its header.
\<close>

lemma split_numbered_answers_scenario:
  "split_numbered_answers
     (py_str ''1. Services give pods a stable endpoint.\<newline>2. ClusterIP is internal.\<newline>3. NetworkPolicy can block traffic between frontend and backend.'')
   = [(1, py_str ''Services give pods a stable endpoint.''),
      (2, py_str ''ClusterIP is internal.''),
      (3, py_str ''NetworkPolicy can block traffic between frontend and backend.'')]"
  by (simp add: seg_eval)

text \<open>
  A header is only recognised at the start of a line. Written on one line, as the
  specification prints the scenario, the three answers are one chunk numbered 1.
\<close>

lemma split_numbered_answers_single_line:
  "split_numbered_answers (py_str ''1. Services... 2. ClusterIP... 3. NetworkPolicy...'')
   = [(1, py_str ''Services... 2. ClusterIP... 3. NetworkPolicy...'')]"
  by (simp add: seg_eval)

text \<open>
  The \<open>\s+\<close> after a delimiter also consumes line breaks. When an answer is empty
  and the next header is indented, the first match ends in the middle of the next line,
  \<open>^\<close> no longer holds at the indented header, and the next question's header and
  answer become the text of the previous question.
\<close>

lemma split_numbered_answers_indented_header:
  "split_numbered_answers (py_str ''1. \<newline>  2. Services give pods a stable endpoint.'')
   = [(1, py_str ''2. Services give pods a stable endpoint.'')]"
  by (simp add: seg_eval)

subsection \<open>The normaliser on text it leaves alone\<close>

lemma re_sub_Nil: "re_sub r repl [] = (case match_prefix r [] of Some _ \<Rightarrow> repl | None \<Rightarrow> [])"
  by (subst re_sub.simps) (auto split: option.splits)

lemma re_sub_Cons_None:
  "match_prefix r (c # cs) = None \<Longrightarrow> re_sub r repl (c # cs) = c # re_sub r repl cs"
  by (subst re_sub.simps) simp

lemma re_sub_Some_shorter:
  "match_prefix r xs = Some (g, rest) \<Longrightarrow> length rest < length xs \<Longrightarrow> re_sub r repl xs = repl @ re_sub r repl rest"
  by (subst re_sub.simps) simp

lemma match_prefix_Plus:
  "match_prefix (Plus p) (c # cs) = (if p c then Some (None, dropWhile p cs) else None)"
proof (cases "p c")
  case True
  have "star_bt p cs (\<lambda>ys. Some (None, ys)) = Some (None, dropWhile p cs)"
    by (rule star_bt_longest) simp
  with True show ?thesis by (simp add: match_prefix_def Plus_def)
qed (simp add: match_prefix_def Plus_def)

lemma match_prefix_Plus_Nil: "match_prefix (Plus p) [] = None"
  by (simp add: match_prefix_def Plus_def)

lemma match_prefix_cid_None: "(xs = [] \<or> hd xs \<noteq> 40) \<Longrightarrow> match_prefix cid_rx xs = None"
  by (cases xs) (auto simp: match_prefix_def cid_rx_def)

lemma re_sub_cid_free: "40 \<notin> set s \<Longrightarrow> re_sub cid_rx repl s = s"
proof (induction s)
  case Nil
  then show ?case by (simp add: re_sub_Nil match_prefix_cid_None)
next
  case (Cons c cs)
  then show ?case by (simp add: re_sub_Cons_None match_prefix_cid_None)
qed

lemma re_sub_blank_single:
  "9 \<notin> set s \<Longrightarrow> \<not> py_contains [32, 32] s \<Longrightarrow> re_sub blank_rx [32] s = s"
proof (induction s)
  case Nil
  then show ?case by (simp add: re_sub_Nil blank_rx_def match_prefix_Plus_Nil)
next
  case (Cons c cs)
  then have IH: "re_sub blank_rx [32] cs = cs"
    using py_contains_append [of "[32, 32]" cs "[c]" "[]"] by auto
  show ?case
  proof (cases "c = 32")
    case True
    have "cs = [] \<or> (hd cs \<noteq> 32 \<and> hd cs \<noteq> 9)"
      using Cons.prems True by (cases cs) auto
    then have "dropWhile (\<lambda>c. c = 32 \<or> c = 9) cs = cs" by (cases cs) auto
    with True have "match_prefix blank_rx (c # cs) = Some (None, cs)"
      by (simp add: blank_rx_def match_prefix_Plus)
    then have "re_sub blank_rx [32] (c # cs) = [32] @ re_sub blank_rx [32] cs"
      by (rule re_sub_Some_shorter) simp
    with True IH show ?thesis by simp
  next
    case False
    with Cons.prems have "match_prefix blank_rx (c # cs) = None"
      by (simp add: blank_rx_def match_prefix_Plus)
    with IH show ?thesis by (simp add: re_sub_Cons_None)
  qed
qed

lemma match_prefix_newlines3_None:
  "\<not> prefix [newline, newline, newline] xs \<Longrightarrow> match_prefix newlines3_rx xs = None"
  by (cases xs rule: remdups_adj.cases) (auto simp: match_prefix_def newlines3_rx_def split: list.splits)

lemma re_sub_newlines3_free:
  "\<not> py_contains [newline, newline, newline] s \<Longrightarrow> re_sub newlines3_rx repl s = s"
proof (induction s)
  case Nil
  then show ?case by (simp add: re_sub_Nil match_prefix_newlines3_None)
next
  case (Cons c cs)
  then show ?case by (simp add: re_sub_Cons_None match_prefix_newlines3_None)
qed

lemma clean_text_basic_plain:
  assumes "40 \<notin> set s" "173 \<notin> set s" "9 \<notin> set s" "\<not> py_contains [32, 32] s"
    "\<not> py_contains [newline, newline, newline] s" "py_strip s = s"
  shows "clean_text_basic s = s"
  using assms
  by (simp add: clean_text_basic_def re_sub_cid_free replace_char_id re_sub_blank_single re_sub_newlines3_free)

end
