(* ===== verification/Json.thy ===== *)
theory Json
  imports Prelude
begin

text \<open>
  The Python values that \<open>json.loads\<close> produces and the handful of operations the
  backend applies to them: \<open>d.get(k, default)\<close>, \<open>d[k] = v\<close>, \<open>int(x)\<close>,
  truthiness, and \<open>round\<close> of a float. A dict is an association list in insertion
  order; lookup takes the first binding and assignment replaces it in place, as for a
  Python dict. Floats are real numbers; the non-finite floats that \<open>json.loads\<close>
  accepts (\<open>Infinity\<close>, \<open>-Infinity\<close>, \<open>NaN\<close>) are constructors of their own. Every operation that raises
  in Python returns \<open>Inl\<close> of the exception.
\<close>

datatype json =
    JNull
  | JBool bool
  | JInt int
  | JFloat real
  | JInf bool             \<comment> \<open>\<open>inf\<close> (\<open>True\<close>) or \<open>-inf\<close>\<close>
  | JNaN
  | JStr pystr
  | JList "json list"
  | JObj "(pystr \<times> json) list"

text \<open>Chaining of operations that may raise.\<close>

definition py_then :: "py_error + 'a \<Rightarrow> ('a \<Rightarrow> py_error + 'b) \<Rightarrow> py_error + 'b" where
  "py_then m f = (case m of Inl e \<Rightarrow> Inl e | Inr x \<Rightarrow> f x)"

text \<open>\<open>d.get(k, default)\<close>; only a dict has \<open>get\<close>.\<close>

definition py_get :: "json \<Rightarrow> pystr \<Rightarrow> json \<Rightarrow> py_error + json" where
  "py_get d k dflt =
     (case d of
        JObj kvs \<Rightarrow> Inr (case map_of kvs k of Some v \<Rightarrow> v | None \<Rightarrow> dflt)
      | _ \<Rightarrow> Inl AttributeError)"

fun alist_set :: "('k \<times> 'v) list \<Rightarrow> 'k \<Rightarrow> 'v \<Rightarrow> ('k \<times> 'v) list" where
  "alist_set [] k v = [(k, v)]"
| "alist_set ((k', v') # kvs) k v = (if k' = k then (k, v) # kvs else (k', v') # alist_set kvs k v)"

text \<open>\<open>d[k] = v\<close> with a string key; a list needs an integer index, other values support no item assignment.\<close>

definition py_setitem :: "json \<Rightarrow> pystr \<Rightarrow> json \<Rightarrow> py_error + json" where
  "py_setitem d k v = (case d of JObj kvs \<Rightarrow> Inr (JObj (alist_set kvs k v)) | _ \<Rightarrow> Inl TypeError)"

text \<open>Truth value of a Python object (\<open>bool(x)\<close>).\<close>

fun py_truthy :: "json \<Rightarrow> bool" where
  "py_truthy JNull = False"
| "py_truthy (JBool b) = b"
| "py_truthy (JInt i) = (i \<noteq> 0)"
| "py_truthy (JFloat r) = (r \<noteq> 0)"
| "py_truthy (JInf _) = True"
| "py_truthy JNaN = True"
| "py_truthy (JStr s) = (s \<noteq> [])"
| "py_truthy (JList xs) = (xs \<noteq> [])"
| "py_truthy (JObj kvs) = (kvs \<noteq> [])"

text \<open>
  \<open>int(s)\<close> of a string: surrounding whitespace, an optional sign, then ASCII digits with
  single underscores between them; more than 4300 digits exceed Python's default
  \<open>sys.get_int_max_str_digits()\<close>. Anything else is a \<open>ValueError\<close>.
\<close>

definition int_body_ok :: "pystr \<Rightarrow> bool" where
  "int_body_ok b \<longleftrightarrow>
     b \<noteq> [] \<and> is_digit (hd b) \<and> is_digit (last b) \<and> list_all (\<lambda>c. is_digit c \<or> c = 95) b \<and>
     \<not> py_contains [95, 95] b"

definition py_int_of_str :: "pystr \<Rightarrow> py_error + int" where
  "py_int_of_str s =
     (let t = py_strip s;
          (neg, b) = (if t \<noteq> [] \<and> hd t = 45 then (True, tl t)
                      else if t \<noteq> [] \<and> hd t = 43 then (False, tl t) else (False, t));
          ds = filter is_digit b
      in if \<not> int_body_ok b \<or> 4300 < length ds then Inl ValueError
         else Inr ((if neg then -1 else 1) * int (digits_val ds)))"

text \<open>\<open>int(x)\<close>: a float is truncated towards zero; \<open>int(inf)\<close> raises \<open>OverflowError\<close>
  (and \<open>int(nan)\<close> \<open>ValueError\<close>); \<open>None\<close>, lists and dicts raise \<open>TypeError\<close>.\<close>

fun py_int :: "json \<Rightarrow> py_error + int" where
  "py_int (JInt i) = Inr i"
| "py_int (JBool b) = Inr (if b then 1 else 0)"
| "py_int (JFloat r) = Inr (if 0 \<le> r then \<lfloor>r\<rfloor> else \<lceil>r\<rceil>)"
| "py_int (JInf _) = Inl OverflowError"
| "py_int JNaN = Inl ValueError"
| "py_int (JStr s) = py_int_of_str s"
| "py_int JNull = Inl TypeError"
| "py_int (JList _) = Inl TypeError"
| "py_int (JObj _) = Inl TypeError"

text \<open>\<open>round(x)\<close> of a finite float: to the nearest integer, ties to even.\<close>

definition py_round :: "real \<Rightarrow> int" where
  "py_round x =
     (let f = \<lfloor>x\<rfloor>; d = x - of_int f in
      if d < 1/2 then f else if 1/2 < d then f + 1 else if even f then f else f + 1)"

text \<open>
  A float operation whose exact result is at least \<open>2^1024 - 2^970\<close> in magnitude rounds
  to infinity; the true division \<open>int / int\<close> then raises \<open>OverflowError\<close>, and so
  does \<open>round\<close> of an infinite product.
\<close>

definition float_overflows :: "real \<Rightarrow> bool" where
  "float_overflows x \<longleftrightarrow> 2 ^ 1024 - 2 ^ 970 \<le> \<bar>x\<bar>"

text \<open>
  A Python \<open>float\<close>: a finite value, an infinity (\<open>True\<close> for \<open>inf\<close>), or \<open>nan\<close>.
  Finite floats are real numbers, so rounding to 53 bits is not modelled.
\<close>

datatype pyfloat = Fin real | Inf bool | NaN

text \<open>
  \<open>float(s)\<close> of a string: surrounding whitespace, an optional sign, then \<open>inf\<close>,
  \<open>infinity\<close> or \<open>nan\<close> in any case, or a decimal literal: digits with an optional
  fraction and an optional exponent, underscores only between digits. A literal beyond the
  float range gives an infinity, not an error. Anything else is a \<open>ValueError\<close>.
\<close>

definition digits_ok :: "pystr \<Rightarrow> bool" where
  "digits_ok ds \<longleftrightarrow> ds = [] \<or> int_body_ok ds"

definition exp_val :: "pystr \<Rightarrow> int option" where
  "exp_val e =
     (let (neg, b) = (if e \<noteq> [] \<and> hd e = 45 then (True, tl e)
                      else if e \<noteq> [] \<and> hd e = 43 then (False, tl e) else (False, e))
      in if int_body_ok b then Some ((if neg then -1 else 1) * int (digits_val (filter is_digit b))) else None)"

definition decimal_val :: "pystr \<Rightarrow> real option" where
  "decimal_val b =
     (let m = takeWhile (\<lambda>c. c \<noteq> 101 \<and> c \<noteq> 69) b;
          e = drop (length m) b;
          ip = takeWhile (\<lambda>c. c \<noteq> 46) m;
          fp = drop (Suc (length ip)) m;
          ex = (if e = [] then Some 0 else exp_val (tl e))
      in if digits_ok ip \<and> digits_ok fp \<and> (ip \<noteq> [] \<or> fp \<noteq> []) \<and> ex \<noteq> None
         then Some (of_nat (digits_val (filter is_digit (ip @ fp))) * 10 powr of_int (the ex)
                    / 10 ^ length (filter is_digit fp))
         else None)"

definition py_float_of_str :: "pystr \<Rightarrow> py_error + pyfloat" where
  "py_float_of_str s =
     (let t = py_strip s;
          (neg, b) = (if t \<noteq> [] \<and> hd t = 45 then (True, tl t)
                      else if t \<noteq> [] \<and> hd t = 43 then (False, tl t) else (False, t));
          w = py_lower b
      in if w = py_str ''inf'' \<or> w = py_str ''infinity'' then Inr (Inf (\<not> neg))
         else if w = py_str ''nan'' then Inr NaN
         else case decimal_val b of
                None \<Rightarrow> Inl ValueError
              | Some v \<Rightarrow> Inr (if float_overflows v then Inf (\<not> neg) else Fin (if neg then - v else v)))"

text \<open>
  \<open>float(x)\<close>: an integer beyond the float range raises \<open>OverflowError\<close>; \<open>None\<close>,
  lists and dicts raise \<open>TypeError\<close>.
\<close>

fun py_float :: "json \<Rightarrow> py_error + pyfloat" where
  "py_float (JInt i) = (if float_overflows (of_int i) then Inl OverflowError else Inr (Fin (of_int i)))"
| "py_float (JBool b) = Inr (Fin (if b then 1 else 0))"
| "py_float (JFloat r) = Inr (Fin r)"
| "py_float (JInf b) = Inr (Inf b)"
| "py_float JNaN = Inr NaN"
| "py_float (JStr s) = py_float_of_str s"
| "py_float JNull = Inl TypeError"
| "py_float (JList _) = Inl TypeError"
| "py_float (JObj _) = Inl TypeError"

text \<open>The comparison \<open>x < y\<close> on floats: every comparison with \<open>nan\<close> is false.\<close>

fun pf_less :: "pyfloat \<Rightarrow> pyfloat \<Rightarrow> bool" where
  "pf_less (Fin a) (Fin b) = (a < b)"
| "pf_less (Inf False) (Fin _) = True"
| "pf_less (Fin _) (Inf True) = True"
| "pf_less (Inf False) (Inf True) = True"
| "pf_less _ _ = False"

subsection \<open>Lemmas\<close>

lemma py_then_simps [simp]: "py_then (Inl e) f = Inl e" "py_then (Inr x) f = f x"
  by (simp_all add: py_then_def)

lemma py_then_Inr: "py_then m f = Inr y \<longleftrightarrow> (\<exists>x. m = Inr x \<and> f x = Inr y)"
  by (cases m) simp_all

lemma py_get_JObj [simp]:
  "py_get (JObj kvs) k d = Inr (case map_of kvs k of Some v \<Rightarrow> v | None \<Rightarrow> d)"
  by (simp add: py_get_def)

lemma map_of_alist_set: "map_of (alist_set kvs k v) = (map_of kvs)(k \<mapsto> v)"
  by (induction kvs) (auto simp: fun_eq_iff)

lemma py_setitem_get:
  "py_setitem d k v = Inr d' \<Longrightarrow> py_get d' k x = Inr v"
  by (auto simp: py_setitem_def map_of_alist_set split: json.splits)

lemma py_setitem_get_other:
  "py_setitem d k v = Inr d' \<Longrightarrow> k' \<noteq> k \<Longrightarrow> py_get d' k' x = py_get d k' x"
  by (auto simp: py_setitem_def map_of_alist_set split: json.splits)

lemma py_setitem_JObj_ok: "\<exists>d'. py_setitem (JObj kvs) k v = Inr d'"
  by (simp add: py_setitem_def)

lemma py_round_int_div9:
  "py_round (of_int t / 9 * 100) = (200 * t + 9) div 18"
proof -
  let ?q = "(100 * t) div 9" and ?r = "(100 * t) mod 9"
  have x: "(of_int t / 9 * 100 :: real) = of_int (100 * t) / 9" by simp
  have fl: "\<lfloor>(of_int (100 * t) / 9 :: real)\<rfloor> = ?q"
    by (metis floor_divide_of_int_eq of_int_numeral)
  have "100 * t = 9 * ?q + ?r" by simp
  from arg_cong [OF this, of "real_of_int"]
  have e: "100 * real_of_int t = 9 * of_int ?q + of_int ?r"
    by (simp only: of_int_add of_int_mult of_int_numeral)
  have d: "(of_int (100 * t) / 9 :: real) - of_int ?q = of_int ?r / 9"
    using e by (simp add: field_simps)
  have r: "0 \<le> ?r" "?r < 9" by simp_all
  have "py_round (of_int (100 * t) / 9) = ?q + (if 5 \<le> ?r then 1 else 0)"
  proof -
    have lt: "(of_int ?r / 9 :: real) < 1/2 \<longleftrightarrow> ?r \<le> 4" by (simp add: field_simps) linarith
    have gt: "(1/2 :: real) < of_int ?r / 9 \<longleftrightarrow> 5 \<le> ?r" by (simp add: field_simps) linarith
    show ?thesis unfolding py_round_def Let_def fl d using lt gt by auto
  qed
  moreover have "(200 * t + 9) div 18 = ?q + (if 5 \<le> ?r then 1 else 0)"
  proof -
    have "200 * t + 9 = 18 * ?q + (2 * ?r + 9)"
      using div_mult_mod_eq [of "100 * t" 9] by linarith
    then have "(200 * t + 9) div 18 = ?q + (2 * ?r + 9) div 18" by simp
    moreover have "(2 * ?r + 9) div 18 = (if 5 \<le> ?r then 1 else 0)"
      using r by (auto simp: div_eq_0_iff intro: div_pos_pos_trivial)
    ultimately show ?thesis by simp
  qed
  ultimately show ?thesis unfolding x by (simp only:)
qed

lemma float_overflows_small: "\<bar>x\<bar> < 10 ^ 300 \<Longrightarrow> \<not> float_overflows x"
proof -
  assume "\<bar>x\<bar> < 10 ^ 300"
  moreover have "(10::real) ^ 300 \<le> 2 ^ 1024 - 2 ^ 970" by simp
  ultimately show ?thesis by (simp add: float_overflows_def)
qed

end
