(* ===== verification/Multi_Agent.thy ===== *)
theory Multi_Agent
  imports Json
begin

text \<open>
  The multi-agent grading pipeline of \<open>backend/app/multi_agent.py\<close> and the mock
  provider of \<open>backend/app/llm/mock.py\<close>. \<open>compute_grade_from_qscores\<close> is the
  deterministic grade; \<open>run_multi_agent\<close> is the chain of provider calls. The provider
  (\<open>LLMProvider.generate_json\<close>) is a parameter: a function from the prompt to a JSON
  value or an error. A prompt is the data the f-string of each call interpolates, tagged
  with the agent its system message names; the wording of the instructions is not
  modelled. The run records the prompts it sends, so that the number and order of
  provider calls are part of the result.
\<close>

subsection \<open>Deterministic grade\<close>

text \<open>\<open>_cap(s, n)\<close>: \<open>(s or "").strip()[:n]\<close>, for a string \<open>s\<close>.\<close>

definition py_cap :: "pystr \<Rightarrow> nat \<Rightarrow> pystr" where
  "py_cap s n = take n (py_strip s)"

text \<open>
  One iteration of the loop of \<open>compute_grade_from_qscores\<close>:
  \<open>try: total += int(q_scores.get(k, 0)) except Exception: total += 0\<close>.
\<close>

definition qscore :: "json \<Rightarrow> pystr \<Rightarrow> int" where
  "qscore q k =
     (case py_get q k (JInt 0) of
        Inl _ \<Rightarrow> 0
      | Inr v \<Rightarrow> (case py_int v of Inl _ \<Rightarrow> 0 | Inr i \<Rightarrow> i))"

definition qscore_keys :: "pystr list" where
  "qscore_keys = [py_str ''Q1'', py_str ''Q2'', py_str ''Q3'']"

definition qscore_total :: "json \<Rightarrow> int" where
  "qscore_total q = foldl (\<lambda>total k. total + qscore q k) 0 qscore_keys"

text \<open>\<open>round((total / 9) * 100)\<close> clamped to \<open>[0, 100]\<close>; the float division and
  \<open>round\<close> raise \<open>OverflowError\<close> when the quotient is beyond the float range.\<close>

definition compute_grade_from_qscores :: "json \<Rightarrow> py_error + int" where
  "compute_grade_from_qscores q =
     (let total = qscore_total q in
      if float_overflows (of_int total / 9 * 100) then Inl OverflowError
      else Inr (max 0 (min 100 (py_round (of_int total / 9 * 100)))))"

subsection \<open>Provider calls\<close>

text \<open>
  The eight calls of \<open>run_multi_agent\<close>, each with the values its prompt interpolates:
  the capped answers, the student context, and the earlier agents' outputs.
\<close>

datatype prompt =
    CorrectnessPrompt pystr pystr pystr
  | MisconceptionPrompt pystr pystr pystr
  | ClarityPrompt pystr pystr pystr
  | PersonalizationPrompt "pystr list" pystr pystr pystr pystr pystr
  | SynthesizerPrompt json json json json
  | QAPrompt json json
  | CompressPrompt json json
  | QAAgainPrompt json json

datatype agent = Correctness | Misconception | Clarity | Personalization | Synthesizer | QA | Compress | QAAgain

fun prompt_agent :: "prompt \<Rightarrow> agent" where
  "prompt_agent (CorrectnessPrompt _ _ _) = Correctness"
| "prompt_agent (MisconceptionPrompt _ _ _) = Misconception"
| "prompt_agent (ClarityPrompt _ _ _) = Clarity"
| "prompt_agent (PersonalizationPrompt _ _ _ _ _ _) = Personalization"
| "prompt_agent (SynthesizerPrompt _ _ _ _) = Synthesizer"
| "prompt_agent (QAPrompt _ _) = QA"
| "prompt_agent (CompressPrompt _ _) = Compress"
| "prompt_agent (QAAgainPrompt _ _) = QAAgain"

text \<open>The \<open>system\<close> argument of each call, verbatim.\<close>

fun prompt_system :: "prompt \<Rightarrow> pystr" where
  "prompt_system (CorrectnessPrompt _ _ _) = py_str ''You are the Correctness Agent. Return STRICT JSON only.''"
| "prompt_system (MisconceptionPrompt _ _ _) = py_str ''You are the Misconception Agent. Return STRICT JSON only.''"
| "prompt_system (ClarityPrompt _ _ _) = py_str ''You are the Clarity Agent. Return STRICT JSON only.''"
| "prompt_system (PersonalizationPrompt _ _ _ _ _ _) = py_str ''You are the Personalization Agent. Return STRICT JSON only.''"
| "prompt_system (SynthesizerPrompt _ _ _ _) = py_str ''You are the Feedback Synthesizer. Return STRICT JSON only.''"
| "prompt_system (QAPrompt _ _) = py_str ''You are the Feedback QA Agent. Return STRICT JSON only.''"
| "prompt_system (CompressPrompt _ _) = py_str ''You compress and fix feedback. Return STRICT JSON only.''"
| "prompt_system (QAAgainPrompt _ _) = py_str ''You are the Feedback QA Agent. Return STRICT JSON only.''"

text \<open>\<open>llm.generate_json(system, user)\<close>: a parsed JSON value, or an error.\<close>

type_synonym provider = "prompt \<Rightarrow> py_error + json"

text \<open>
  A computation of the pipeline: from the prompts sent so far to a result or the first
  exception, and the prompts sent. \<open>ar_bind\<close> stops at the first exception, as the
  Python statements do; \<open>ar_call\<close> sends one prompt.
\<close>

type_synonym 'a agent_run = "prompt list \<Rightarrow> (py_error + 'a) \<times> prompt list"

definition ar_return :: "'a \<Rightarrow> 'a agent_run" where
  "ar_return x tr = (Inr x, tr)"

definition ar_lift :: "py_error + 'a \<Rightarrow> 'a agent_run" where
  "ar_lift r tr = (r, tr)"

definition ar_call :: "provider \<Rightarrow> prompt \<Rightarrow> json agent_run" where
  "ar_call llm p tr = (llm p, tr @ [p])"

definition ar_bind :: "'a agent_run \<Rightarrow> ('a \<Rightarrow> 'b agent_run) \<Rightarrow> 'b agent_run" where
  "ar_bind m f tr = (case m tr of (Inl e, tr') \<Rightarrow> (Inl e, tr') | (Inr x, tr') \<Rightarrow> f x tr')"

text \<open>The student context the handler \<open>llm_multi_grade\<close> passes (main.py lines 338--343).\<close>

record student_context =
  ctx_student_id :: int
  ctx_weak_concepts :: "pystr list"
  ctx_trend :: pystr
  ctx_last_feedback_summary :: "pystr option"

text \<open>\<open>if isinstance(clarity, list) and clarity: clarity = clarity[0]\<close>\<close>

fun normalize_clarity :: "json \<Rightarrow> json" where
  "normalize_clarity (JList (x # _)) = x"
| "normalize_clarity v = v"

text \<open>\<open>qa.get("too_long") or qa.get("contradiction")\<close>\<close>

definition qa_flagged :: "json \<Rightarrow> py_error + bool" where
  "qa_flagged qa =
     (case py_get qa (py_str ''too_long'') JNull of
        Inl e \<Rightarrow> Inl e
      | Inr a \<Rightarrow> if py_truthy a then Inr True
                else (case py_get qa (py_str ''contradiction'') JNull of
                        Inl e \<Rightarrow> Inl e | Inr b \<Rightarrow> Inr (py_truthy b)))"

text \<open>The compress-and-fix call, the grade written back into its output, and the second QA call.\<close>

definition self_correct :: "provider \<Rightarrow> json \<Rightarrow> int \<Rightarrow> json \<Rightarrow> (json \<times> json) agent_run" where
  "self_correct llm qs grade synth =
     ar_bind (ar_call llm (CompressPrompt qs synth)) (\<lambda>synth2.
     ar_bind (ar_lift (py_setitem synth2 (py_str ''grade'') (JInt grade))) (\<lambda>synth2.
     ar_bind (ar_call llm (QAAgainPrompt qs synth2)) (\<lambda>qa2.
     ar_return (synth2, qa2))))"

definition agents_record :: "json \<Rightarrow> json \<Rightarrow> json \<Rightarrow> json \<Rightarrow> json \<Rightarrow> json" where
  "agents_record corr misc clarity pers qa =
     JObj [(py_str ''correctness'', corr), (py_str ''misconceptions'', misc),
           (py_str ''clarity'', clarity), (py_str ''personalization'', pers), (py_str ''qa'', qa)]"

definition run_multi_agent :: "provider \<Rightarrow> (nat \<rightharpoonup> pystr) \<Rightarrow> student_context \<Rightarrow> json agent_run" where
  "run_multi_agent llm qmap sc =
     (let q1 = py_cap (qget qmap 1) 600; q2 = py_cap (qget qmap 2) 600; q3 = py_cap (qget qmap 3) 600
      in ar_bind (ar_call llm (CorrectnessPrompt q1 q2 q3)) (\<lambda>corr.
         ar_bind (ar_lift (py_get corr (py_str ''q_scores'') (JObj []))) (\<lambda>qs.
         ar_bind (ar_lift (compute_grade_from_qscores qs)) (\<lambda>grade.
         ar_bind (ar_call llm (MisconceptionPrompt q1 q2 q3)) (\<lambda>misc.
         ar_bind (ar_call llm (ClarityPrompt q1 q2 q3)) (\<lambda>clarity.
         let clarity = normalize_clarity clarity;
             summary = py_cap (case ctx_last_feedback_summary sc of Some s \<Rightarrow> s | None \<Rightarrow> []) 200
         in ar_bind (ar_call llm (PersonalizationPrompt (ctx_weak_concepts sc) (ctx_trend sc) summary
                                   (py_cap q1 300) (py_cap q2 300) (py_cap q3 300))) (\<lambda>pers.
         ar_bind (ar_call llm (SynthesizerPrompt corr misc clarity pers)) (\<lambda>synth.
         ar_bind (ar_lift (py_setitem synth (py_str ''grade'') (JInt grade))) (\<lambda>synth.
         ar_bind (ar_call llm (QAPrompt qs synth)) (\<lambda>qa.
         ar_bind (ar_lift (qa_flagged qa)) (\<lambda>flag.
         ar_bind (if flag then self_correct llm qs grade synth else ar_return (synth, qa)) (\<lambda>(synth, qa).
         ar_lift (py_setitem synth (py_str ''agents'') (agents_record corr misc clarity pers qa))))))))))))))"

text \<open>The authoritative grade of a run: the one computed from the correctness reply.\<close>

definition correctness_grade :: "provider \<Rightarrow> (nat \<rightharpoonup> pystr) \<Rightarrow> py_error + int" where
  "correctness_grade llm qmap =
     (case llm (CorrectnessPrompt (py_cap (qget qmap 1) 600) (py_cap (qget qmap 2) 600) (py_cap (qget qmap 3) 600)) of
        Inl e \<Rightarrow> Inl e
      | Inr corr \<Rightarrow> (case py_get corr (py_str ''q_scores'') (JObj []) of
                      Inl e \<Rightarrow> Inl e | Inr qs \<Rightarrow> compute_grade_from_qscores qs))"

text \<open>The calls of a complete run with self-correction, in the order the code makes them.\<close>

definition pipeline_agents :: "agent list" where
  "pipeline_agents = [Correctness, Misconception, Clarity, Personalization, Synthesizer, QA, Compress, QAAgain]"

text \<open>A student context for the examples.\<close>

definition example_context :: student_context where
  "example_context = \<lparr>ctx_student_id = 1, ctx_weak_concepts = [], ctx_trend = py_str ''unknown'',
                      ctx_last_feedback_summary = None\<rparr>"

subsection \<open>Lemmas on the grade\<close>

lemma qscore_total_eq: "qscore_total q = qscore q (py_str ''Q1'') + qscore q (py_str ''Q2'') + qscore q (py_str ''Q3'')"
  by (simp add: qscore_total_def qscore_keys_def)

lemma qscore_missing: "py_get q k (JInt 0) = Inr (JInt 0) \<Longrightarrow> qscore q k = 0"
  by (simp add: qscore_def)

lemma qscore_not_dict: "(\<forall>kvs. q \<noteq> JObj kvs) \<Longrightarrow> qscore q k = 0"
  by (cases q) (auto simp: qscore_def py_get_def)

lemma compute_grade_eq:
  "\<not> float_overflows (of_int (qscore_total q) / 9 * 100) \<Longrightarrow>
   compute_grade_from_qscores q = Inr (max 0 (min 100 ((200 * qscore_total q + 9) div 18)))"
  unfolding compute_grade_from_qscores_def Let_def py_round_int_div9 by simp

lemma compute_grade_small:
  assumes "\<bar>qscore_total q\<bar> \<le> 10 ^ 200"
  shows "compute_grade_from_qscores q = Inr (max 0 (min 100 ((200 * qscore_total q + 9) div 18)))"
proof (rule compute_grade_eq)
  have "\<bar>of_int (qscore_total q) :: real\<bar> \<le> 10 ^ 200"
    using assms by (metis of_int_abs of_int_le_iff of_int_numeral of_int_power)
  then have "\<bar>(of_int (qscore_total q) :: real) / 9 * 100\<bar> < 10 ^ 300" by simp
  then show "\<not> float_overflows (of_int (qscore_total q) / 9 * 100)" by (rule float_overflows_small)
qed

subsection \<open>The run, step by step\<close>

lemmas ar_defs = ar_bind_def ar_call_def ar_lift_def ar_return_def

lemma self_correct_Inr:
  "self_correct llm qs g synth tr = (Inr (s2, qa2), tr') \<Longrightarrow>
   py_get s2 (py_str ''grade'') JNull = Inr (JInt g) \<and>
   map prompt_agent tr' = map prompt_agent tr @ [Compress, QAAgain]"
  by (auto simp: self_correct_def ar_defs py_setitem_get split: prod.splits sum.splits)

lemma self_correct_trace:
  "self_correct llm qs g synth tr = (res, tr') \<Longrightarrow>
   \<exists>xs. map prompt_agent tr' = map prompt_agent tr @ xs \<and> prefix xs [Compress, QAAgain]"
  by (auto simp: self_correct_def ar_defs split: prod.splits sum.splits)

text \<open>The grade of a successful run is the one computed from the correctness reply.\<close>

lemma run_grade_field:
  assumes "run_multi_agent llm qmap sc tr = (Inr r, tr')"
  shows "\<exists>g. correctness_grade llm qmap = Inr g \<and> py_get r (py_str ''grade'') JNull = Inr (JInt g)"
  using assms
  by (auto simp: run_multi_agent_def correctness_grade_def ar_defs Let_def py_setitem_get py_setitem_get_other
           split: prod.splits sum.splits if_splits dest!: self_correct_Inr)

text \<open>A successful run made six calls, or eight when the first QA reply was flagged.\<close>

lemma run_multi_agent_Inr:
  assumes "run_multi_agent llm qmap sc [] = (Inr r, tr)"
  shows "\<exists>qs synth qa flag. llm (QAPrompt qs synth) = Inr qa \<and> qa_flagged qa = Inr flag \<and>
          map prompt_agent tr = (if flag then pipeline_agents else take 6 pipeline_agents)"
  using assms
  by (auto simp: run_multi_agent_def pipeline_agents_def ar_defs Let_def
           split: prod.splits sum.splits if_splits dest!: self_correct_Inr) fastforce+

text \<open>When every reply is a dict and the grade can be computed, no step raises.\<close>

lemma run_multi_agent_dicts:
  assumes dicts: "\<And>p. \<exists>kvs. llm p = Inr (JObj kvs)"
    and grade: "correctness_grade llm qmap = Inr g"
  shows "\<exists>r tr. run_multi_agent llm qmap sc [] = (Inr r, tr)"
proof -
  from dicts obtain f where f: "\<And>p. llm p = Inr (JObj (f p))" by metis
  from grade show ?thesis
    by (auto simp: f run_multi_agent_def correctness_grade_def ar_defs Let_def self_correct_def
                   py_setitem_def qa_flagged_def split: sum.splits)
qed


lemma compute_grade_empty: "compute_grade_from_qscores (JObj []) = Inr 0"
  using compute_grade_small [of "JObj []"]
  by (simp add: qscore_total_eq qscore_def)

subsection \<open>Properties of the pipeline and of the grade\<close>

text \<open>C9: The grade of a successful run is the deterministic one: the run asked the correctness agent about the capped answers, and the result's \<open>grade\<close> is \<open>compute_grade_from_qscores\<close> of that reply's \<open>q_scores\<close>, whatever the synthesizer or the compress call returned.\<close>

lemma run_multi_agent_grade:
  assumes "run_multi_agent llm qmap sc [] = (Inr r, tr)"
  shows "\<exists>corr qs g. llm (CorrectnessPrompt (py_cap (qget qmap 1) 600) (py_cap (qget qmap 2) 600)
                                          (py_cap (qget qmap 3) 600)) = Inr corr \<and>
           py_get corr (py_str ''q_scores'') (JObj []) = Inr qs \<and> compute_grade_from_qscores qs = Inr g \<and>
           py_get r (py_str ''grade'') JNull = Inr (JInt g)"
  using run_grade_field [OF assms]
  by (auto simp: correctness_grade_def split: sum.splits)

lemma run_multi_agent_grade_witness:
  "\<exists>r tr. run_multi_agent (\<lambda>p. Inr (JObj [])) Map.empty example_context [] = (Inr r, tr) \<and>
     py_get r (py_str ''grade'') JNull = Inr (JInt 0)"
proof -
  have cg: "correctness_grade (\<lambda>p. Inr (JObj [])) Map.empty = Inr 0"
    by (simp add: correctness_grade_def compute_grade_empty)
  obtain r tr where run: "run_multi_agent (\<lambda>p. Inr (JObj [])) Map.empty example_context [] = (Inr r, tr)"
    using run_multi_agent_dicts [OF _ cg] by blast
  from run_multi_agent_grade [OF run] show ?thesis
    using run by (auto simp: compute_grade_empty)
qed

text \<open>C10: A run in which every reply is a dict and the correctness scores give a grade returns a result carrying that grade, after six calls or, with self-correction, eight.\<close>

lemma run_multi_agent_returns:
  assumes dicts: "\<And>p. \<exists>kvs. llm p = Inr (JObj kvs)"
    and grade: "correctness_grade llm qmap = Inr g"
  shows "\<exists>r tr. run_multi_agent llm qmap sc [] = (Inr r, tr) \<and> py_get r (py_str ''grade'') JNull = Inr (JInt g) \<and>
           (map prompt_agent tr = take 6 pipeline_agents \<or> map prompt_agent tr = pipeline_agents)"
proof -
  obtain r tr where run: "run_multi_agent llm qmap sc [] = (Inr r, tr)"
    using run_multi_agent_dicts [OF dicts grade] by blast
  moreover from run_grade_field [OF run] grade have "py_get r (py_str ''grade'') JNull = Inr (JInt g)" by auto
  moreover from run_multi_agent_Inr [OF run]
  have "map prompt_agent tr = take 6 pipeline_agents \<or> map prompt_agent tr = pipeline_agents" by auto
  ultimately show ?thesis by blast
qed

lemma run_multi_agent_returns_witness:
  "\<exists>r tr. run_multi_agent (\<lambda>p. Inr (JObj [(py_str ''q_scores'', JObj [(py_str ''Q1'', JInt 3)])])) Map.empty example_context [] = (Inr r, tr) \<and>
     py_get r (py_str ''grade'') JNull = Inr (JInt 33)"
proof -
  have "compute_grade_from_qscores (JObj [(py_str ''Q1'', JInt 3)]) = Inr 33"
    using compute_grade_small [of "JObj [(py_str ''Q1'', JInt 3)]"]
    by (simp add: qscore_total_eq qscore_def)
  then have "correctness_grade (\<lambda>p. Inr (JObj [(py_str ''q_scores'', JObj [(py_str ''Q1'', JInt 3)])])) Map.empty = Inr 33"
    by (simp add: correctness_grade_def)
  from run_multi_agent_returns [OF _ this] show ?thesis by blast
qed

text \<open>C11: When every first QA reply is flagged (too long or contradictory), a successful run makes all eight calls in the order of the code, compress-and-fix and the second QA included, and keeps the deterministic grade.\<close>

lemma run_multi_agent_self_correction:
  assumes flagged: "\<And>qs s. \<exists>qa. llm (QAPrompt qs s) = Inr qa \<and> qa_flagged qa = Inr True"
    and run: "run_multi_agent llm qmap sc [] = (Inr r, tr)"
  shows "map prompt_agent tr = pipeline_agents \<and>
         (\<exists>g. correctness_grade llm qmap = Inr g \<and> py_get r (py_str ''grade'') JNull = Inr (JInt g))"
proof
  show "\<exists>g. correctness_grade llm qmap = Inr g \<and> py_get r (py_str ''grade'') JNull = Inr (JInt g)"
    using run by (rule run_grade_field)
  from run_multi_agent_Inr [OF run] obtain qs synth qa flag where
    qa: "llm (QAPrompt qs synth) = Inr qa" "qa_flagged qa = Inr flag"
    and tr: "map prompt_agent tr = (if flag then pipeline_agents else take 6 pipeline_agents)"
    by blast
  from flagged [of qs synth] qa have flag by auto
  with tr show "map prompt_agent tr = pipeline_agents" by simp
qed

lemma run_multi_agent_self_correction_witness:
  "\<exists>r tr. run_multi_agent (\<lambda>p. Inr (JObj [(py_str ''too_long'', JBool True)])) Map.empty example_context [] = (Inr r, tr) \<and>
     map prompt_agent tr = pipeline_agents \<and> py_get r (py_str ''grade'') JNull = Inr (JInt 0)"
proof -
  let ?llm = "\<lambda>p::prompt. Inr (JObj [(py_str ''too_long'', JBool True)]) :: py_error + json"
  have cg: "correctness_grade ?llm Map.empty = Inr 0"
    by (simp add: correctness_grade_def compute_grade_empty)
  obtain r tr where run: "run_multi_agent ?llm Map.empty example_context [] = (Inr r, tr)"
    using run_multi_agent_dicts [OF _ cg] by blast
  have "\<exists>qa. ?llm (QAPrompt qs s) = Inr qa \<and> qa_flagged qa = Inr True" for qs s
    by (simp add: qa_flagged_def)
  from run_multi_agent_self_correction [OF this run] cg run show ?thesis by auto
qed

text \<open>When no QA reply is flagged, a successful run makes exactly the six calls correctness, misconception, clarity, personalization, synthesizer, QA, in this order.\<close>

lemma run_multi_agent_no_correction:
  assumes clean: "\<And>qs s. \<exists>qa. llm (QAPrompt qs s) = Inr qa \<and> qa_flagged qa = Inr False"
    and run: "run_multi_agent llm qmap sc [] = (Inr r, tr)"
  shows "map prompt_agent tr = [Correctness, Misconception, Clarity, Personalization, Synthesizer, QA]"
proof -
  from run_multi_agent_Inr [OF run] obtain qs synth qa flag where
    qa: "llm (QAPrompt qs synth) = Inr qa" "qa_flagged qa = Inr flag"
    and tr: "map prompt_agent tr = (if flag then pipeline_agents else take 6 pipeline_agents)"
    by blast
  from clean [of qs synth] qa have "\<not> flag" by auto
  with tr show ?thesis by (simp add: pipeline_agents_def)
qed

lemma run_multi_agent_no_correction_witness:
  "\<exists>r tr. run_multi_agent (\<lambda>p. Inr (JObj [])) Map.empty example_context [] = (Inr r, tr) \<and>
     map prompt_agent tr = [Correctness, Misconception, Clarity, Personalization, Synthesizer, QA]"
proof -
  have cg: "correctness_grade (\<lambda>p. Inr (JObj [])) Map.empty = Inr 0"
    by (simp add: correctness_grade_def compute_grade_empty)
  obtain r tr where run: "run_multi_agent (\<lambda>p. Inr (JObj [])) Map.empty example_context [] = (Inr r, tr)"
    using run_multi_agent_dicts [OF _ cg] by blast
  have "\<exists>qa. (\<lambda>p::prompt. Inr (JObj []) :: py_error + json) (QAPrompt qs s) = Inr qa \<and> qa_flagged qa = Inr False" for qs s
    by (simp add: qa_flagged_def)
  from run_multi_agent_no_correction [OF this run] run show ?thesis by auto
qed

text \<open>C12: Whatever the provider replies, including errors, the calls any run makes are a prefix of the eight-call sequence: self-correction happens at most once, and an exception stops the run.\<close>

lemma run_multi_agent_trace_prefix:
  "prefix (map prompt_agent (snd (run_multi_agent llm qmap sc []))) pipeline_agents"
  by (auto simp: run_multi_agent_def pipeline_agents_def ar_defs Let_def
           split: prod.splits sum.splits if_splits dest!: self_correct_trace)

text \<open>For scores 0..3 under the keys Q1, Q2, Q3 the grade is \<open>round(total / 9 * 100)\<close>, i.e. \<open>(200 total + 9) div 18\<close>: 9 gives 100 and 2, 3, 2 give 78.\<close>

lemma compute_grade_from_qscores_scores:
  assumes "0 \<le> a" "a \<le> 3" "0 \<le> b" "b \<le> 3" "0 \<le> c" "c \<le> 3"
  shows "compute_grade_from_qscores
           (JObj [(py_str ''Q1'', JInt a), (py_str ''Q2'', JInt b), (py_str ''Q3'', JInt c)]) =
         Inr ((200 * (a + b + c) + 9) div 18)"
proof -
  let ?q = "JObj [(py_str ''Q1'', JInt a), (py_str ''Q2'', JInt b), (py_str ''Q3'', JInt c)]"
  have t: "qscore_total ?q = a + b + c" by (simp add: qscore_total_eq qscore_def)
  have lo: "0 \<le> (200 * (a + b + c) + 9) div 18" using assms by simp
  have "(200 * (a + b + c) + 9) div 18 \<le> (200 * 9 + 9) div 18"
    using assms by (intro zdiv_mono1) simp_all
  then have hi: "(200 * (a + b + c) + 9) div 18 \<le> 100" by simp
  have "\<bar>qscore_total ?q\<bar> \<le> 10 ^ 200" using assms unfolding t by simp
  from compute_grade_small [OF this] show ?thesis unfolding t using lo hi by simp
qed

lemma compute_grade_from_qscores_scores_witness:
  "compute_grade_from_qscores (JObj [(py_str ''Q1'', JInt 3), (py_str ''Q2'', JInt 3), (py_str ''Q3'', JInt 3)]) = Inr 100 \<and>
   compute_grade_from_qscores (JObj [(py_str ''Q1'', JInt 2), (py_str ''Q2'', JInt 3), (py_str ''Q3'', JInt 2)]) = Inr 78"
  using compute_grade_from_qscores_scores [of 3 3 3] compute_grade_from_qscores_scores [of 2 3 2] by simp

text \<open>A \<open>q_scores\<close> value that is not a dict gives grade 0: the \<open>AttributeError\<close> of \<open>.get\<close> is swallowed by the \<open>except\<close> of the loop.\<close>

lemma compute_grade_not_dict:
  "(\<forall>kvs. q \<noteq> JObj kvs) \<Longrightarrow> compute_grade_from_qscores q = Inr 0"
  using compute_grade_small [of q] by (simp add: qscore_total_eq qscore_not_dict)

lemma compute_grade_not_dict_witness:
  "compute_grade_from_qscores (JList [JInt 3, JInt 3, JInt 3]) = Inr 0"
  by (rule compute_grade_not_dict) simp

text \<open>\<open>compute_grade_from_qscores\<close> raises \<open>OverflowError\<close> for an integer score beyond the float range, such as \<open>10^400\<close>: \<open>total / 9\<close> cannot be converted to a float. The docstring promises an \<open>int\<close> for any \<open>q_scores\<close>.\<close>

lemma compute_grade_overflow:
  "compute_grade_from_qscores (JObj [(py_str ''Q1'', JInt (10 ^ 400))]) = Inl OverflowError"
proof -
  have t: "qscore_total (JObj [(py_str ''Q1'', JInt (10 ^ 400))]) = 10 ^ 400"
    by (simp add: qscore_total_eq qscore_def)
  have "(2::real) ^ 1024 - 2 ^ 970 \<le> 10 ^ 400 / 9 * 100" by simp
  then have ov: "float_overflows (of_int (10 ^ 400 :: int) / 9 * 100)"
    by (simp add: float_overflows_def)
  show ?thesis
    unfolding compute_grade_from_qscores_def Let_def t using ov by (simp only: if_True)
qed

end
