(* ===== verification/Mock_LLM.thy ===== *)
theory Mock_LLM
  imports Multi_Agent
begin

text \<open>
  The mock provider of \<open>backend/app/llm/mock.py\<close>, which \<open>get_llm\<close>
  (\<open>llm/__init__.py\<close>) returns unless \<open>LLM_MODE\<close> is \<open>gemini\<close>. \<open>MockLLM.generate_json\<close>
  lowers \<open>system + " " + user\<close> and answers by the first of five phrases it contains;
  the replies are the dict literals of the source. In the pipeline the system message is
  \<open>Multi_Agent.prompt_system\<close>; the user message, an f-string over the data of the prompt,
  is a parameter \<open>user\<close> of \<open>mock_llm\<close>, and the theorems hold for every user text.
\<close>

definition mock_correctness :: json where
  "mock_correctness = JObj
     [(py_str ''q_scores'', JObj [(py_str ''1'', JInt 2), (py_str ''2'', JInt 3), (py_str ''3'', JInt 2)]),
      (py_str ''key_points_found'', JObj
         [(py_str ''1'', JList [JStr (py_str ''stable endpoint''), JStr (py_str ''pods''), JStr (py_str ''load balancing'')]),
          (py_str ''2'', JList [JStr (py_str ''ClusterIP internal''), JStr (py_str ''NodePort external'')]),
          (py_str ''3'', JList [JStr (py_str ''restrict traffic''), JStr (py_str ''frontend->backend'')])])]"

definition mock_misconceptions :: json where
  "mock_misconceptions = JObj
     [(py_str ''misconceptions'', JList []),
      (py_str ''missing_points'', JObj
         [(py_str ''1'', JList [JStr (py_str ''Services select pods using labels'')]),
          (py_str ''2'', JList [JStr (py_str ''Ingress/LoadBalancer commonly used'')]),
          (py_str ''3'', JList [JStr (py_str ''default deny behavior requires policy design'')])])]"

text \<open>The two suggestions contain an en dash (U+2013).\<close>

definition mock_clarity :: json where
  "mock_clarity = JObj
     [(py_str ''clarity_score'', JFloat (75 / 100)),
      (py_str ''writing_suggestions'', JList
         [JStr (py_str ''Use 1'' @ [8211] @ py_str ''2 more technical terms precisely (e.g., label selector, service discovery).''),
          JStr (py_str ''Keep each answer 2'' @ [8211] @ py_str ''4 sentences for clarity.'')])]"

definition mock_personalization :: json where
  "mock_personalization = JObj
     [(py_str ''personalized_notes'', JList
         [JStr (py_str ''You are improving on Kubernetes networking basics.''),
          JStr (py_str ''Focus next on NetworkPolicy rule directions (ingress vs egress).'')]),
      (py_str ''recommended_next_topics'', JList
         [JStr (py_str ''Service selectors''), JStr (py_str ''Ingress vs NodePort''), JStr (py_str ''NetworkPolicy ingress/egress'')])]"

definition mock_qa :: json where
  "mock_qa = JObj [(py_str ''quality_score'', JFloat (82 / 100)), (py_str ''issues'', JList [])]"

definition mock_synthesis :: json where
  "mock_synthesis = JObj
     [(py_str ''grade'', JInt 78), (py_str ''confidence'', JFloat (7 / 10)),
      (py_str ''final_feedback'', JStr (py_str ''Good work overall. Improve by adding label-selector detail and mention production exposure via Ingress/LoadBalancer.'')),
      (py_str ''concept_scores'', JObj [(py_str ''service'', JFloat (75 / 100)),
         (py_str ''clusterip_nodeport'', JFloat (8 / 10)), (py_str ''networkpolicy'', JFloat (7 / 10))])]"

definition mock_generate_json :: "pystr \<Rightarrow> pystr \<Rightarrow> json" where
  "mock_generate_json system user =
     (let s = py_lower (system @ [32] @ user) in
      if py_contains (py_str ''correctness agent'') s then mock_correctness
      else if py_contains (py_str ''misconception agent'') s then mock_misconceptions
      else if py_contains (py_str ''clarity agent'') s then mock_clarity
      else if py_contains (py_str ''personalization agent'') s then mock_personalization
      else if py_contains (py_str ''feedback qa agent'') s then mock_qa
      else mock_synthesis)"

text \<open>The mock as the provider of the pipeline, for a rendering \<open>user\<close> of the user messages.\<close>

definition mock_llm :: "(prompt \<Rightarrow> pystr) \<Rightarrow> provider" where
  "mock_llm user p = Inr (mock_generate_json (prompt_system p) (user p))"

subsection \<open>Lemmas\<close>

lemmas mock_replies = mock_correctness_def mock_misconceptions_def mock_clarity_def
  mock_personalization_def mock_qa_def mock_synthesis_def

lemma mock_generate_json_cases:
  "mock_generate_json s u \<in> {mock_correctness, mock_misconceptions, mock_clarity, mock_personalization, mock_qa, mock_synthesis}"
  by (simp add: mock_generate_json_def Let_def)

lemma mock_llm_dict: "\<exists>kvs. mock_llm user p = Inr (JObj kvs)"
  using mock_generate_json_cases [of "prompt_system p" "user p"]
  by (auto simp: mock_llm_def mock_replies simp del: py_str_Cons)

lemma mock_llm_unflagged: "qa_flagged (mock_generate_json s u) = Inr False"
  using mock_generate_json_cases [of s u]
  by (auto simp: qa_flagged_def mock_replies simp del: py_str_Cons) (simp_all add: py_str_def)

lemma mock_llm_correctness: "mock_llm user (CorrectnessPrompt a b c) = Inr mock_correctness"
proof -
  have "py_contains (py_str ''correctness agent'') (py_lower (py_str ''You are the Correctness Agent. Return STRICT JSON only.''))"
    by (simp add: py_lower_def lower_char_def)
  then have "py_contains (py_str ''correctness agent'')
               (py_lower (prompt_system (CorrectnessPrompt a b c) @ [32] @ user (CorrectnessPrompt a b c)))"
    by (simp del: py_str_Cons add: py_contains_mono)
  then show ?thesis by (simp add: mock_llm_def mock_generate_json_def Let_def del: py_str_Cons)
qed

lemma mock_correctness_grade: "correctness_grade (mock_llm user) qmap = Inr 0"
proof -
  have "compute_grade_from_qscores (JObj [(py_str ''1'', JInt 2), (py_str ''2'', JInt 3), (py_str ''3'', JInt 2)]) = Inr 0"
    using compute_grade_small [of "JObj [(py_str ''1'', JInt 2), (py_str ''2'', JInt 3), (py_str ''3'', JInt 2)]"]
    by (simp add: qscore_total_eq qscore_def)
  then show ?thesis
    by (simp add: correctness_grade_def mock_llm_correctness mock_correctness_def del: py_str_Cons)
qed

text \<open>
  C13: in mock mode every run returns, makes six calls without self-correction, and its
  grade is 0, whatever the answers: the mock's \<open>q_scores\<close> are keyed \<open>"1"\<close>, \<open>"2"\<close>,
  \<open>"3"\<close> while the grade reads \<open>"Q1"\<close>, \<open>"Q2"\<close>, \<open>"Q3"\<close>.
\<close>

theorem run_multi_agent_mock:
  "\<exists>r tr. run_multi_agent (mock_llm user) qmap sc [] = (Inr r, tr) \<and>
          py_get r (py_str ''grade'') JNull = Inr (JInt 0) \<and>
          map prompt_agent tr = [Correctness, Misconception, Clarity, Personalization, Synthesizer, QA]"
proof -
  obtain r tr where run: "run_multi_agent (mock_llm user) qmap sc [] = (Inr r, tr)"
    using run_multi_agent_dicts [OF mock_llm_dict mock_correctness_grade] by blast
  have "py_get r (py_str ''grade'') JNull = Inr (JInt 0)"
    using run_grade_field [OF run] mock_correctness_grade by auto
  moreover have "map prompt_agent tr = take 6 pipeline_agents"
    using run_multi_agent_Inr [OF run] mock_llm_unflagged by (auto simp: mock_llm_def)
  ultimately show ?thesis using run by (auto simp: pipeline_agents_def)
qed

end
