(* ===== verification/Profile.thy ===== *)
theory Profile
  imports Json "HOL-Library.Product_Lexorder" "HOL-Library.Multiset"
begin

text \<open>
  The student-progress helpers of \<open>backend/app/profile.py\<close>: the weak concepts are the
  \<open>top_k\<close> concepts of lowest score (\<open>pick_weak_concepts\<close>), the trend compares the new
  grade with the previous one (\<open>calc_trend\<close>), and the summary is the feedback on one
  line, cut at \<open>max_len\<close> characters (\<open>summarize_feedback\<close>). Python's \<open>sorted\<close> is
  modelled as the stable insertion sort by \<open><\<close> on the keys (\<open>py_sorted\<close>); it is
  proved equal to the library's stable sort \<open>sort_key\<close> whenever the keys are totally
  ordered, which holds for floats without \<open>nan\<close>.
\<close>

subsection \<open>Sorting by key\<close>

text \<open>
  Insert \<open>x\<close> into a sorted list after every element whose key is not greater than
  the key of \<open>x\<close>, so that equal keys keep their order.
\<close>

fun py_insort :: "('k \<Rightarrow> 'k \<Rightarrow> bool) \<Rightarrow> ('a \<Rightarrow> 'k) \<Rightarrow> 'a \<Rightarrow> 'a list \<Rightarrow> 'a list" where
  "py_insort lt f x [] = [x]"
| "py_insort lt f x (y # ys) = (if lt (f x) (f y) then x # y # ys else y # py_insort lt f x ys)"

text \<open>\<open>sorted(xs, key=f)\<close> for a comparison \<open>lt\<close> that is a strict total order on the keys.\<close>

definition py_sorted :: "('k \<Rightarrow> 'k \<Rightarrow> bool) \<Rightarrow> ('a \<Rightarrow> 'k) \<Rightarrow> 'a list \<Rightarrow> 'a list" where
  "py_sorted lt f xs = foldl (\<lambda>ys x. py_insort lt f x ys) [] xs"

text \<open>Floats other than \<open>nan\<close> ordered as a linear order: \<open>-inf\<close>, the reals, \<open>inf\<close>.\<close>

fun pf_key :: "pyfloat \<Rightarrow> int \<times> real" where
  "pf_key (Inf False) = (-1, 0)"
| "pf_key (Fin r) = (0, r)"
| "pf_key (Inf True) = (1, 0)"
| "pf_key NaN = (0, 0)"

subsection \<open>The operations\<close>

text \<open>
  \<open>pick_weak_concepts(concept_scores, top_k)\<close>: the dict's items in insertion order,
  sorted by score, and the keys of the first \<open>top_k\<close>.
\<close>

definition pick_weak_concepts :: "(pystr \<times> pyfloat) list \<Rightarrow> nat \<Rightarrow> pystr list" where
  "pick_weak_concepts concept_scores top_k = map fst (take top_k (py_sorted pf_less snd concept_scores))"

text \<open>Float subtraction and \<open>>=\<close> / \<open><=\<close> against a finite bound.\<close>

fun pf_sub :: "pyfloat \<Rightarrow> pyfloat \<Rightarrow> pyfloat" where
  "pf_sub (Fin a) (Fin b) = (if float_overflows (a - b) then Inf (0 < a - b) else Fin (a - b))"
| "pf_sub (Inf s) (Fin _) = Inf s"
| "pf_sub (Fin _) (Inf s) = Inf (\<not> s)"
| "pf_sub (Inf s) (Inf t) = (if s \<noteq> t then Inf s else NaN)"
| "pf_sub _ _ = NaN"

fun pf_ge :: "pyfloat \<Rightarrow> real \<Rightarrow> bool" where
  "pf_ge (Fin a) c = (c \<le> a)"
| "pf_ge (Inf s) _ = s"
| "pf_ge NaN _ = False"

fun pf_le :: "pyfloat \<Rightarrow> real \<Rightarrow> bool" where
  "pf_le (Fin a) c = (a \<le> c)"
| "pf_le (Inf s) _ = (\<not> s)"
| "pf_le NaN _ = False"

definition calc_trend :: "pyfloat option \<Rightarrow> pyfloat \<Rightarrow> pystr" where
  "calc_trend prev_grade new_grade =
     (case prev_grade of
        None \<Rightarrow> py_str ''unknown''
      | Some p \<Rightarrow>
          (let diff = pf_sub new_grade p in
           if pf_ge diff 5 then py_str ''improving''
           else if pf_le diff (-5) then py_str ''declining''
           else py_str ''stable''))"

text \<open>
  \<open>summarize_feedback(text, max_len)\<close> for the JSON value the handler passes:
  \<open>(text or "")\<close> maps a false value to the empty string; a true value that is not a
  string has no \<open>strip\<close> and raises \<open>AttributeError\<close>.
\<close>

definition summarize_str :: "pystr \<Rightarrow> nat \<Rightarrow> pystr" where
  "summarize_str s max_len =
     (let t = replace_char newline [32] (py_strip s)
      in if max_len < length t then take max_len t @ py_str ''...'' else t)"

definition summarize_feedback :: "json \<Rightarrow> nat \<Rightarrow> py_error + pystr" where
  "summarize_feedback v max_len =
     (if \<not> py_truthy v then Inr (summarize_str [] max_len)
      else case v of JStr s \<Rightarrow> Inr (summarize_str s max_len) | _ \<Rightarrow> Inl AttributeError)"


subsection \<open>Python's sort is the stable sort\<close>

lemma py_sorted_Nil [simp]: "py_sorted lt f [] = []"
  by (simp add: py_sorted_def)

lemma set_py_insort [simp]: "set (py_insort lt f x ys) = insert x (set ys)"
  by (induction ys) auto

lemma py_sorted_snoc: "py_sorted lt f (xs @ [x]) = py_insort lt f x (py_sorted lt f xs)"
  by (simp add: py_sorted_def)

lemma mset_py_insort [simp]: "mset (py_insort lt f x ys) = add_mset x (mset ys)"
  by (induction ys) auto

lemma mset_py_sorted [simp]: "mset (py_sorted lt f xs) = mset xs"
  by (induction xs rule: rev_induct) (simp_all add: py_sorted_snoc)

lemma set_py_sorted [simp]: "set (py_sorted lt f xs) = set xs"
  by (metis mset_py_sorted set_mset_mset)

lemma length_py_sorted [simp]: "length (py_sorted lt f xs) = length xs"
  by (metis mset_py_sorted size_mset)

lemma sorted_py_insort:
  "sorted (map f ys) \<Longrightarrow> sorted (map f (py_insort (<) f x ys))"
  by (induction ys) (auto simp: not_less)

lemma sorted_py_sorted: "sorted (map f (py_sorted (<) f xs))"
  by (induction xs rule: rev_induct) (simp_all add: py_sorted_snoc sorted_py_insort)

lemma filter_py_insort:
  assumes "sorted (map f ys)"
  shows "filter (\<lambda>y. f y = c) (py_insort (<) f x ys) =
         (if f x = c then filter (\<lambda>y. f y = c) ys @ [x] else filter (\<lambda>y. f y = c) ys)"
  using assms
proof (induction ys)
  case Nil
  then show ?case by simp
next
  case (Cons y ys)
  show ?case
  proof (cases "f x < f y")
    case True
    with Cons.prems have "\<forall>z\<in>set ys. f x < f z" by auto
    then have "filter (\<lambda>z. f z = f x) ys = []" by (auto simp: filter_empty_conv)
    with True show ?thesis by auto
  next
    case False
    with Cons show ?thesis by auto
  qed
qed

lemma filter_py_sorted:
  fixes f :: "'a \<Rightarrow> 'k::linorder"
  shows "filter (\<lambda>y. f y = c) (py_sorted (<) f xs) = filter (\<lambda>y. f y = c) xs"
proof (induction xs rule: rev_induct)
  case Nil
  then show ?case by simp
next
  case (snoc x xs)
  have "filter (\<lambda>y. f y = c) (py_insort (<) f x (py_sorted (<) f xs)) =
        (if f x = c then filter (\<lambda>y. f y = c) (py_sorted (<) f xs) @ [x]
         else filter (\<lambda>y. f y = c) (py_sorted (<) f xs))"
    by (rule filter_py_insort) (rule sorted_py_sorted)
  with snoc.IH show ?case by (simp add: py_sorted_snoc)
qed

lemma py_sorted_sort_key: "py_sorted (<) f xs = sort_key f xs"
proof (rule properties_for_sort_key [symmetric])
  fix k
  show "filter (\<lambda>y. f k = f y) (py_sorted (<) f xs) = filter (\<lambda>y. f k = f y) xs"
    using filter_py_sorted [of f "f k" xs] by (simp add: eq_commute)
qed (simp_all add: sorted_py_sorted)

lemma py_insort_cong:
  "(\<And>y. y \<in> set ys \<Longrightarrow> lt (f x) (f y) = (g x < g y)) \<Longrightarrow> py_insort lt f x ys = py_insort (<) g x ys"
  by (induction ys) auto

lemma py_sorted_cong:
  assumes "\<And>x y. x \<in> set xs \<Longrightarrow> y \<in> set xs \<Longrightarrow> lt (f x) (f y) = (g x < g y)"
  shows "py_sorted lt f xs = py_sorted (<) g xs"
  using assms
proof (induction xs rule: rev_induct)
  case Nil
  then show ?case by (simp add: py_sorted_def)
next
  case (snoc x xs)
  then have "py_sorted lt f xs = py_sorted (<) g xs" by simp
  moreover have "py_insort lt f x (py_sorted (<) g xs) = py_insort (<) g x (py_sorted (<) g xs)"
    by (rule py_insort_cong) (simp add: snoc.prems)
  ultimately show ?case by (simp add: py_sorted_snoc)
qed

lemma pf_less_key: "a \<noteq> NaN \<Longrightarrow> b \<noteq> NaN \<Longrightarrow> pf_less a b = (pf_key a < pf_key b)"
  by (cases a rule: pf_key.cases; cases b rule: pf_key.cases) auto

lemma py_sorted_pf_less:
  assumes "\<forall>(k, v)\<in>set cs. v \<noteq> NaN"
  shows "py_sorted pf_less snd cs = sort_key (\<lambda>x. pf_key (snd x)) cs"
proof -
  have "py_sorted pf_less snd cs = py_sorted (<) (\<lambda>x. pf_key (snd x)) cs"
    by (rule py_sorted_cong) (use assms in \<open>auto intro!: pf_less_key\<close>)
  then show ?thesis by (simp add: py_sorted_sort_key)
qed

lemma pick_weak_concepts_example:
  "pick_weak_concepts [(py_str ''service'', Fin (75/100)), (py_str ''clusterip_nodeport'', Fin (8/10)),
                       (py_str ''networkpolicy'', Fin (7/10))] 2 = [py_str ''networkpolicy'', py_str ''service'']"
  by (simp add: pick_weak_concepts_def py_sorted_def del: py_str_Cons)

lemma one_line_clean:
  fixes s :: pystr
  defines "t \<equiv> replace_char newline [32] (py_strip s)"
  shows "newline \<notin> set t \<and> (t = [] \<or> (\<not> is_space (hd t) \<and> \<not> is_space (last t)))"
proof
  show "newline \<notin> set t" unfolding t_def by (rule replace_char_not_in) (simp add: newline_def)
  show "t = [] \<or> (\<not> is_space (hd t) \<and> \<not> is_space (last t))"
  proof (cases "py_strip s = []")
    case True
    then show ?thesis by (simp add: t_def replace_char_def)
  next
    case False
    then have e: "\<not> is_space (hd (py_strip s)) \<and> \<not> is_space (last (py_strip s))"
      by (rule py_strip_ends)
    with False show ?thesis unfolding t_def using replace_char_hd_last by metis
  qed
qed

subsection \<open>Properties of the progress helpers\<close>

text \<open>C31: Where no score is \<open>nan\<close>, \<open>pick_weak_concepts\<close> is the reference specification: the keys of the first \<open>top_k\<close> items of the library's stable sort by score (\<open>sort_key\<close>).\<close>

lemma pick_weak_concepts_sort_key:
  assumes "\<forall>(k, v)\<in>set cs. v \<noteq> NaN"
  shows "pick_weak_concepts cs top_k = map fst (take top_k (sort_key (\<lambda>x. pf_key (snd x)) cs))"
  unfolding pick_weak_concepts_def py_sorted_pf_less [OF assms] ..

lemma pick_weak_concepts_sort_key_witness:
  "pick_weak_concepts [(py_str ''service'', Fin (75/100)), (py_str ''clusterip_nodeport'', Fin (8/10)), (py_str ''networkpolicy'', Fin (7/10))] 2 =
   map fst (take 2 (sort_key (\<lambda>x. pf_key (snd x)) [(py_str ''service'', Fin (75/100)), (py_str ''clusterip_nodeport'', Fin (8/10)), (py_str ''networkpolicy'', Fin (7/10))]))"
  using pick_weak_concepts_sort_key [of "[(py_str ''service'', Fin (75/100)), (py_str ''clusterip_nodeport'', Fin (8/10)), (py_str ''networkpolicy'', Fin (7/10))]" 2] by simp

text \<open>The weak concepts are the weakest: with distinct keys and no \<open>nan\<close>, no concept left out has a lower score than a concept picked.\<close>

lemma pick_weak_concepts_weakest:
  assumes nonan: "\<forall>(k, v)\<in>set cs. v \<noteq> NaN" and dist: "distinct (map fst cs)"
    and a: "(a, va) \<in> set cs" "a \<in> set (pick_weak_concepts cs top_k)"
    and b: "(b, vb) \<in> set cs" "b \<notin> set (pick_weak_concepts cs top_k)"
  shows "\<not> pf_less vb va"
proof -
  let ?g = "\<lambda>x. pf_key (snd x)" and ?ys = "sort_key (\<lambda>x. pf_key (snd x)) cs"
  have pick: "pick_weak_concepts cs top_k = map fst (take top_k ?ys)"
    by (rule pick_weak_concepts_sort_key [OF nonan])
  have set_ys: "set ?ys = set cs" by simp
  from a(2) pick obtain va' where va': "(a, va') \<in> set (take top_k ?ys)" by auto
  then have "(a, va') \<in> set cs" using set_ys by (metis in_set_takeD)
  with a(1) dist have "va' = va" by (meson eq_key_imp_eq_value)
  with va' have ina: "(a, va) \<in> set (take top_k ?ys)" by simp
  from b(2) pick have "(b, vb) \<notin> set (take top_k ?ys)" by force
  with b(1) set_ys have inb: "(b, vb) \<in> set (drop top_k ?ys)"
    by (metis append_take_drop_id Un_iff set_append)
  have "sorted (map ?g (take top_k ?ys @ drop top_k ?ys))" by simp
  with ina inb have "?g (a, va) \<le> ?g (b, vb)"
    unfolding map_append sorted_append by fastforce
  moreover have "va \<noteq> NaN" "vb \<noteq> NaN" using nonan a(1) b(1) by auto
  ultimately show ?thesis by (simp add: pf_less_key not_less)
qed

lemma pick_weak_concepts_weakest_witness:
  "\<not> pf_less (Fin (8/10)) (Fin (7/10))"
  using pick_weak_concepts_weakest [of "[(py_str ''service'', Fin (75/100)), (py_str ''clusterip_nodeport'', Fin (8/10)), (py_str ''networkpolicy'', Fin (7/10))]" "py_str ''networkpolicy''" "Fin (7/10)" 2
      "py_str ''clusterip_nodeport''" "Fin (8/10)"] pick_weak_concepts_example
  by (simp del: py_str_Cons)

text \<open>With distinct keys the result has \<open>min(top_k, len(concept_scores))\<close> elements, no duplicates, and only keys of the dict.\<close>

lemma pick_weak_concepts_shape:
  assumes "distinct (map fst cs)"
  shows "length (pick_weak_concepts cs top_k) = min top_k (length cs) \<and>
         distinct (pick_weak_concepts cs top_k) \<and> set (pick_weak_concepts cs top_k) \<subseteq> fst ` set cs"
proof (intro conjI)
  let ?ys = "py_sorted pf_less snd cs"
  have "mset (map fst ?ys) = mset (map fst cs)" by simp
  then have "distinct (map fst ?ys)" using assms by (metis mset_eq_imp_distinct_iff)
  then show "distinct (pick_weak_concepts cs top_k)"
    unfolding pick_weak_concepts_def by (metis distinct_take take_map)
  show "length (pick_weak_concepts cs top_k) = min top_k (length cs)"
    by (simp add: pick_weak_concepts_def)
  show "set (pick_weak_concepts cs top_k) \<subseteq> fst ` set cs"
    unfolding pick_weak_concepts_def by (metis image_mono set_map set_py_sorted set_take_subset)
qed

lemma pick_weak_concepts_shape_witness:
  "length (pick_weak_concepts [(py_str ''service'', Fin (75/100)), (py_str ''clusterip_nodeport'', Fin (8/10)), (py_str ''networkpolicy'', Fin (7/10))] 2) = 2 \<and> distinct (pick_weak_concepts [(py_str ''service'', Fin (75/100)), (py_str ''clusterip_nodeport'', Fin (8/10)), (py_str ''networkpolicy'', Fin (7/10))] 2)"
  using pick_weak_concepts_shape [of "[(py_str ''service'', Fin (75/100)), (py_str ''clusterip_nodeport'', Fin (8/10)), (py_str ''networkpolicy'', Fin (7/10))]" 2] by simp

text \<open>For finite grades whose difference is in the float range the trend is \<open>improving\<close> from a rise of 5 or more, \<open>declining\<close> from a fall of 5 or more, and \<open>stable\<close> otherwise.\<close>

lemma calc_trend_finite:
  assumes "\<not> float_overflows (n - p)"
  shows "calc_trend (Some (Fin p)) (Fin n) =
         (if 5 \<le> n - p then py_str ''improving'' else if n - p \<le> -5 then py_str ''declining''
          else py_str ''stable'')"
  using assms by (simp add: calc_trend_def del: py_str_Cons)

lemma calc_trend_finite_witness: "calc_trend (Some (Fin 70)) (Fin 78) = py_str ''improving''"
  using calc_trend_finite [of 78 70] float_overflows_small [of 8] by (simp del: py_str_Cons)

text \<open>Without a previous grade the trend is \<open>unknown\<close>; a \<open>nan\<close> grade on either side gives \<open>stable\<close>, because both comparisons with \<open>nan\<close> are false.\<close>

lemma calc_trend_no_number:
  "calc_trend None g = py_str ''unknown'' \<and> calc_trend (Some NaN) g = py_str ''stable'' \<and>
   calc_trend (Some p) NaN = py_str ''stable''"
  by (cases g; cases p) (simp_all add: calc_trend_def del: py_str_Cons)

text \<open>The summary has at most \<open>max_len + 3\<close> characters and no newline.\<close>

lemma summarize_str_shape:
  "length (summarize_str s max_len) \<le> max_len + 3 \<and> newline \<notin> set (summarize_str s max_len)"
  using one_line_clean [of s] set_take_subset [of max_len "replace_char newline [32] (py_strip s)"]
  by (auto simp: summarize_str_def Let_def newline_def)

text \<open>Summarising a summary changes nothing.\<close>

lemma summarize_str_idem: "summarize_str (summarize_str s n) n = summarize_str s n"
proof -
  define t where "t = replace_char newline [32] (py_strip s)"
  define u where "u = summarize_str s n"
  have t: "newline \<notin> set t" "t = [] \<or> (\<not> is_space (hd t) \<and> \<not> is_space (last t))"
    using one_line_clean [of s] unfolding t_def by auto
  have u: "u = (if n < length t then take n t @ py_str ''...'' else t)"
    by (simp add: u_def t_def summarize_str_def Let_def)
  have nl: "newline \<notin> set u"
    using t(1) set_take_subset [of n t] by (auto simp: u newline_def)
  have ends: "u = [] \<or> (\<not> is_space (hd u) \<and> \<not> is_space (last u))"
  proof (cases "n < length t")
    case True
    then have "t \<noteq> []" by auto
    with t(2) True show ?thesis by (cases n) (auto simp: u dot_not_space)
  next
    case False
    with t(2) show ?thesis by (simp add: u)
  qed
  have "replace_char newline [32] (py_strip u) = u"
    using py_strip_id [OF ends] replace_char_id [OF nl] by simp
  then have "summarize_str u n = (if n < length u then take n u @ py_str ''...'' else u)"
    by (simp add: summarize_str_def Let_def)
  also have "\<dots> = u" by (auto simp: u)
  finally show ?thesis by (simp add: u_def)
qed

text \<open>A true feedback value that is not a string (a number, a list, a dict) makes \<open>summarize_feedback\<close> raise \<open>AttributeError\<close>.\<close>

lemma summarize_feedback_not_str:
  assumes "py_truthy v" and "\<forall>s. v \<noteq> JStr s"
  shows "summarize_feedback v n = Inl AttributeError"
  using assms by (cases v) (simp_all add: summarize_feedback_def)

lemma summarize_feedback_not_str_witness: "summarize_feedback (JInt 5) 180 = Inl AttributeError"
  using summarize_feedback_not_str [of "JInt 5" 180] by simp

end
