(* ===== verification/Embeddings.thy ===== *)
theory Embeddings
  imports Prelude
begin

text \<open>
  The vector helpers of \<open>backend/app/embeddings.py\<close>. An embedding is a list of floats,
  modelled as reals. \<open>cosine_similarity\<close> pairs the two vectors with \<open>zip\<close>, which
  stops at the shorter one, while each norm runs over its whole vector.
  \<open>mock_embedding\<close> spreads the 32 bytes of a SHA-256 digest over \<open>dim\<close> coordinates; the
  digest itself is a parameter (SHA-256 is not modelled). \<open>local_embedding\<close> loads a
  neural model on its first call and keeps it in a module variable; the model and its
  \<open>encode\<close> are parameters, and the lemma \<open>local_embeddings_cache\<close> shows that the cache is
  invisible, so the plagiarism check can take the embedding as a plain function \<open>embed\<close>.
\<close>

definition dot :: "real list \<Rightarrow> real list \<Rightarrow> real" where
  "dot a b = sum_list (map (\<lambda>(x, y). x * y) (zip a b))"

definition norm2 :: "real list \<Rightarrow> real" where
  "norm2 a = sqrt (sum_list (map (\<lambda>x. x * x) a))"

definition cosine_similarity :: "real list \<Rightarrow> real list \<Rightarrow> real" where
  "cosine_similarity a b =
     (let d = dot a b; na = norm2 a; nb = norm2 b
      in if na = 0 \<or> nb = 0 then 0 else d / (na * nb))"

text \<open>The squared Euclidean norm, for the proofs.\<close>

definition sq :: "real list \<Rightarrow> real" where
  "sq a = sum_list (map (\<lambda>x. x * x) a)"

text \<open>\<open>mock_embedding(text, dim)\<close> for the digest bytes \<open>h\<close> of the text and \<open>n = dim\<close>.\<close>

definition mock_embedding :: "nat list \<Rightarrow> nat \<Rightarrow> real list" where
  "mock_embedding h n = map (\<lambda>i. real (h ! (i mod length h)) / 127.5 - 1) [0..<n]"

text \<open>
  \<open>local_embedding(text)\<close> (lines 36--47): the state is the module variable \<open>_model\<close>,
  \<open>None\<close> before the first call; \<open>load\<close> is \<open>SentenceTransformer("all-MiniLM-L6-v2")\<close> and
  \<open>encode m text\<close> is \<open>m.encode([text], normalize_embeddings=True)[0].tolist()\<close>.
\<close>

definition local_embedding :: "'m \<Rightarrow> ('m \<Rightarrow> pystr \<Rightarrow> real list) \<Rightarrow> 'm option \<Rightarrow> pystr \<Rightarrow> real list \<times> 'm option" where
  "local_embedding load encode cache text =
     (let m = (case cache of None \<Rightarrow> load | Some m \<Rightarrow> m) in (encode m text, Some m))"

text \<open>Successive calls, each on the module state the previous one left.\<close>

fun local_embeddings :: "'m \<Rightarrow> ('m \<Rightarrow> pystr \<Rightarrow> real list) \<Rightarrow> 'm option \<Rightarrow> pystr list \<Rightarrow> real list list \<times> 'm option" where
  "local_embeddings load encode cache [] = ([], cache)"
| "local_embeddings load encode cache (t # ts) =
     (case local_embedding load encode cache t of
        (v, cache') \<Rightarrow> (case local_embeddings load encode cache' ts of (vs, cache'') \<Rightarrow> (v # vs, cache'')))"


subsection \<open>Cauchy--Schwarz for lists\<close>

lemma sq_simps [simp]: "sq [] = 0" "sq (x # a) = x * x + sq a"
  by (simp_all add: sq_def)

lemma sq_nonneg: "0 \<le> sq a"
  by (induction a) auto

lemma dot_simps [simp]: "dot [] b = 0" "dot a [] = 0" "dot (x # a) (y # b) = x * y + dot a b"
  by (simp_all add: dot_def)

lemma cs_expand:
  fixes s X Y a b :: real
  shows "(a * b + s)\<^sup>2 = a * a * (b * b) + 2 * s * a * b + s\<^sup>2"
    and "(a * a + X) * (b * b + Y) = a * a * (b * b) + (X * b\<^sup>2 + Y * a\<^sup>2) + X * Y"
    and "4 * (X * Y) * (a\<^sup>2 * b\<^sup>2) = (X * b\<^sup>2 + Y * a\<^sup>2)\<^sup>2 - (X * b\<^sup>2 - Y * a\<^sup>2)\<^sup>2"
    and "(2 * s * a * b)\<^sup>2 = 4 * s\<^sup>2 * (a\<^sup>2 * b\<^sup>2)"
  by (simp_all add: power2_eq_square algebra_simps)

lemma cs_cross:
  fixes s X Y a b :: real
  assumes "s\<^sup>2 \<le> X * Y" "0 \<le> X" "0 \<le> Y"
  shows "2 * s * a * b \<le> X * b\<^sup>2 + Y * a\<^sup>2"
proof (rule power2_le_imp_le)
  have "4 * s\<^sup>2 * (a\<^sup>2 * b\<^sup>2) \<le> 4 * (X * Y) * (a\<^sup>2 * b\<^sup>2)"
    using assms(1) by (intro mult_right_mono mult_left_mono) simp_all
  then show "(2 * s * a * b)\<^sup>2 \<le> (X * b\<^sup>2 + Y * a\<^sup>2)\<^sup>2"
    unfolding cs_expand(3,4) using zero_le_power2 [of "X * b\<^sup>2 - Y * a\<^sup>2"] by linarith
  show "0 \<le> X * b\<^sup>2 + Y * a\<^sup>2" using assms(2,3) by simp
qed

lemma cs_step:
  fixes s X Y a b :: real
  assumes "s\<^sup>2 \<le> X * Y" "0 \<le> X" "0 \<le> Y"
  shows "(a * b + s)\<^sup>2 \<le> (a * a + X) * (b * b + Y)"
  unfolding cs_expand(1,2) using cs_cross [OF assms, of a b] assms(1) by linarith

lemma dot_cauchy_schwarz: "(dot a b)\<^sup>2 \<le> sq a * sq b"
proof (induction a arbitrary: b)
  case Nil
  then show ?case by simp
next
  case (Cons x a)
  show ?case
  proof (cases b)
    case Nil
    then show ?thesis by (simp add: sq_nonneg)
  next
    case (Cons y b')
    have "(dot a b')\<^sup>2 \<le> sq a * sq b'" by (rule Cons.IH)
    then have "(x * y + dot a b')\<^sup>2 \<le> (x * x + sq a) * (y * y + sq b')"
      by (rule cs_step) (simp_all add: sq_nonneg)
    then show ?thesis by (simp add: Cons)
  qed
qed

lemma norm2_sq: "norm2 a = sqrt (sq a)"
  by (simp add: norm2_def sq_def)

subsection \<open>Lemmas on the vectors\<close>

lemma dot_commute: "dot a b = dot b a"
proof (induction a arbitrary: b)
  case Nil
  then show ?case by simp
next
  case (Cons x a)
  then show ?case by (cases b) (simp_all add: mult.commute)
qed

lemma dot_self: "dot a a = sq a"
  by (induction a) simp_all

lemma dot_scale: "dot (map ((*) c) a) b = c * dot a b"
proof (induction a arbitrary: b)
  case Nil
  then show ?case by simp
next
  case (Cons x a)
  then show ?case by (cases b) (simp_all add: algebra_simps)
qed

lemma sq_scale: "sq (map ((*) c) a) = c\<^sup>2 * sq a"
  by (induction a) (simp_all add: algebra_simps power2_eq_square)

lemma cosine_similarity_scale:
  assumes "0 < c"
  shows "cosine_similarity (map ((*) c) a) b = cosine_similarity a b"
proof -
  have n: "norm2 (map ((*) c) a) = c * norm2 a"
    using assms by (simp add: norm2_sq sq_scale real_sqrt_mult)
  show ?thesis using assms
    by (simp add: cosine_similarity_def Let_def n dot_scale)
qed

lemma length_mock_embedding: "length (mock_embedding h n) = n"
  by (simp add: mock_embedding_def)

lemma mock_embedding_periodic:
  assumes "i + length h < n"
  shows "mock_embedding h n ! (i + length h) = mock_embedding h n ! i"
  using assms by (simp add: mock_embedding_def)

text \<open>
  The cache is invisible: from the initial state (or one holding the loaded model) every
  call returns the embedding of the one loaded model, and the model is loaded once.
\<close>

lemma local_embeddings_cache:
  assumes "cache = None \<or> cache = Some load"
  shows "local_embeddings load encode cache ts =
           (map (encode load) ts, if ts = [] then cache else Some load)"
  using assms
proof (induction ts arbitrary: cache)
  case Nil
  then show ?case by simp
next
  case (Cons t ts)
  from Cons.prems have "local_embedding load encode cache t = (encode load t, Some load)"
    by (auto simp: local_embedding_def)
  with Cons.IH [of "Some load"] show ?case by simp
qed

text \<open>The embeddings are normalised, and for unit vectors the similarity is the dot product.\<close>

lemma cosine_similarity_unit: "norm2 a = 1 \<Longrightarrow> norm2 b = 1 \<Longrightarrow> cosine_similarity a b = dot a b"
  by (simp add: cosine_similarity_def)

subsection \<open>Properties of the similarity\<close>

text \<open>
  On the reals the similarity of any two vectors lies in \<open>[-1, 1]\<close> (Cauchy--Schwarz), even for
  vectors of different lengths, because \<open>zip\<close> drops coordinates from the dot product but not
  from the norms. The code computes in IEEE doubles, where rounding can leave the interval:
  \<open>cosine_similarity([1,1,1], [1,1,1])\<close> is \<open>1.0000000000000002\<close> in Python. The bound is a fact
  of the real-valued model only; no property of the code rests on it.
\<close>

lemma cosine_similarity_bound: "\<bar>cosine_similarity a b\<bar> \<le> 1"
proof (cases "norm2 a = 0 \<or> norm2 b = 0")
  case True
  then show ?thesis by (simp add: cosine_similarity_def)
next
  case False
  have "0 \<le> norm2 a" "0 \<le> norm2 b" by (simp_all add: norm2_sq sq_nonneg)
  with False have pos: "0 < norm2 a * norm2 b" by simp
  have "\<bar>dot a b\<bar> \<le> sqrt (sq a * sq b)"
    using real_sqrt_le_mono [OF dot_cauchy_schwarz [of a b]] by simp
  also have "\<dots> = norm2 a * norm2 b" by (simp add: norm2_sq real_sqrt_mult)
  finally have le: "\<bar>dot a b\<bar> \<le> norm2 a * norm2 b" .
  have "cosine_similarity a b = dot a b / (norm2 a * norm2 b)"
    using False by (simp add: cosine_similarity_def)
  then have "\<bar>cosine_similarity a b\<bar> = \<bar>dot a b\<bar> / (norm2 a * norm2 b)"
    using pos by simp
  also have "\<dots> \<le> 1" using le pos by simp
  finally show ?thesis .
qed

text \<open>The similarity is symmetric.\<close>

lemma cosine_similarity_commute: "cosine_similarity a b = cosine_similarity b a"
  by (simp add: cosine_similarity_def dot_commute mult.commute Let_def)

text \<open>A vector with a non-zero norm has similarity 1 with itself.\<close>

lemma cosine_similarity_self: "norm2 a \<noteq> 0 \<Longrightarrow> cosine_similarity a a = 1"
  by (simp add: cosine_similarity_def dot_self norm2_sq sq_nonneg flip: power2_eq_square)

lemma cosine_similarity_self_witness: "cosine_similarity [3, 4] [3, 4] = 1"
  using cosine_similarity_self [of "[3, 4]"] by (simp add: norm2_def)

text \<open>Vectors of different dimensions are compared on the shorter prefix: \<open>[1, 0]\<close> and \<open>[1]\<close> count as identical. Embeddings from \<open>mock_embedding\<close> (64 coordinates) and \<open>local_embedding\<close> (384) stored side by side are compared this way without an error.\<close>

lemma cosine_similarity_prefix_dims: "cosine_similarity [1, 0] [1] = 1"
  by (simp add: cosine_similarity_def norm2_def)

text \<open>Every coordinate of a mock embedding of a digest of bytes lies in \<open>[-1, 1]\<close>.\<close>

lemma mock_embedding_range:
  assumes "\<forall>x\<in>set h. x < 256" "h \<noteq> []" "v \<in> set (mock_embedding h n)"
  shows "-1 \<le> v \<and> v \<le> 1"
proof -
  from assms(3) obtain i where v: "v = real (h ! (i mod length h)) / 127.5 - 1"
    by (auto simp: mock_embedding_def)
  have "h ! (i mod length h) \<in> set h" using assms(2) by simp
  with assms(1) have "h ! (i mod length h) \<le> 255" by fastforce
  then have "real (h ! (i mod length h)) \<le> 255" by simp
  then show ?thesis unfolding v by simp
qed

end
