(* ===== verification/Grading.thy ===== *)
theory Grading
  imports Chunking Json
begin

text \<open>
  The rubric grader of \<open>backend/app/grading.py\<close>. Each answer is normalised (PDF glyph
  placeholders removed, then lower-cased) and earns one point per rule whose keywords it
  contains as substrings; the grade is \<open>round(score / 9 * max_grade, 2)\<close>. Floats are
  real numbers and \<open>max_grade\<close> is finite.
\<close>

definition grading_norm :: "pystr \<Rightarrow> pystr" where
  "grading_norm s = py_lower (re_sub cid_rx [] s)"

text \<open>\<open>w in q\<close> for an ASCII keyword \<open>w\<close>.\<close>

definition has :: "pystr \<Rightarrow> string \<Rightarrow> bool" where
  "has q w \<longleftrightarrow> py_contains (py_str w) q"

definition q1_points :: "pystr \<Rightarrow> nat" where
  "q1_points q1 =
     min (of_bool (has q1 ''service'' \<and> (has q1 ''stable'' \<or> has q1 ''endpoint'' \<or> has q1 ''dns'')) +
          of_bool (has q1 ''pod'' \<and> (has q1 ''ip'' \<or> has q1 ''restart'' \<or> has q1 ''change'')) +
          of_bool (has q1 ''load'' \<and> (has q1 ''balance'' \<or> has q1 ''balanc''))) 3"

definition q2_points :: "pystr \<Rightarrow> nat" where
  "q2_points q2 =
     min (of_bool (has q2 ''clusterip'' \<and> (has q2 ''internal'' \<or> has q2 ''inside'' \<or> has q2 ''within'')) +
          of_bool (has q2 ''nodeport'' \<and> (has q2 ''external'' \<or> has q2 ''outside'')) +
          of_bool (has q2 ''node'' \<and> has q2 ''port'')) 3"

definition q3_points :: "pystr \<Rightarrow> nat" where
  "q3_points q3 =
     min (of_bool (has q3 ''networkpolicy'' \<or> has q3 ''network policy'') +
          of_bool ((has q3 ''allow'' \<or> has q3 ''only'') \<and> (has q3 ''block'' \<or> has q3 ''deny'')) +
          of_bool (has q3 ''frontend'' \<and> has q3 ''backend'')) 3"

text \<open>\<open>round(x, 2)\<close>: to the nearest hundredth, ties to even.\<close>

definition py_round2 :: "real \<Rightarrow> real" where
  "py_round2 x = of_int (py_round (x * 100)) / 100"

text \<open>One line of the feedback: \<open>f"Q1: {pts1}/3 \<dash> ..."\<close>, with an em dash (U+2014).\<close>

definition feedback_line :: "nat \<Rightarrow> nat \<Rightarrow> string \<Rightarrow> pystr" where
  "feedback_line q pts remark =
     py_str ''Q'' @ py_str_of_nat q @ py_str '': '' @ py_str_of_nat pts @ py_str ''/3 '' @ [8212] @
     py_str '' '' @ py_str remark"

definition grading_overall :: pystr where
  "grading_overall = py_str ''Overall: Solid answers. Improve by mentioning Services select Pods using labels; and for external access, LoadBalancer/Ingress are common.''"

definition grade_networking_short_answer :: "(nat \<rightharpoonup> pystr) \<Rightarrow> real \<Rightarrow> real \<times> pystr \<times> json" where
  "grade_networking_short_answer q_chunks max_grade =
     (let pts1 = q1_points (grading_norm (qget q_chunks 1));
          pts2 = q2_points (grading_norm (qget q_chunks 2));
          pts3 = q3_points (grading_norm (qget q_chunks 3));
          score = real pts1 + real pts2 + real pts3;
          feedback = [feedback_line 1 pts1 ''Service concept explained well.'',
                      feedback_line 2 pts2 ''ClusterIP vs NodePort is mostly correct.'',
                      feedback_line 3 pts3 ''Good example of restricting traffic.''];
          raw_max = 9;
          grade = py_round2 (score / raw_max * max_grade);
          feedback_text = grading_overall @ [newline, newline] @ py_join [newline] feedback;
          feedback_json = JObj [(py_str ''q1'', JInt (int pts1)), (py_str ''q2'', JInt (int pts2)),
                                (py_str ''q3'', JInt (int pts3)), (py_str ''raw_score'', JFloat score),
                                (py_str ''raw_max'', JFloat raw_max)]
      in (grade, feedback_text, feedback_json))"

text \<open>Three answers that meet every rule, for the examples.\<close>

definition full_answers :: "nat \<rightharpoonup> pystr" where
  "full_answers = [1 \<mapsto> py_str ''A Service gives a stable endpoint; Pod IPs change; it does load balancing.'',
                   2 \<mapsto> py_str ''ClusterIP is internal; NodePort is external.'',
                   3 \<mapsto> py_str ''A NetworkPolicy can allow frontend to backend and deny the rest.'']"

subsection \<open>Lemmas\<close>

lemma grading_norm_plain: "40 \<notin> set s \<Longrightarrow> grading_norm s = py_lower s"
  by (simp add: grading_norm_def re_sub_cid_free)

lemma py_round_near: "\<bar>of_int (py_round x) - x\<bar> \<le> 1 / 2"
proof -
  let ?f = "\<lfloor>x\<rfloor>"
  have "of_int ?f \<le> x" "x < of_int ?f + 1" by linarith+
  then show ?thesis unfolding py_round_def Let_def by (auto split: if_splits)
qed

lemma py_round_mono:
  assumes "x \<le> y"
  shows "py_round x \<le> py_round y"
proof (rule ccontr)
  assume "\<not> py_round x \<le> py_round y"
  then have "of_int (py_round y) + 1 \<le> (of_int (py_round x) :: real)" by simp
  moreover have "\<bar>of_int (py_round x) - x\<bar> \<le> 1 / 2" "\<bar>of_int (py_round y) - y\<bar> \<le> 1 / 2"
    by (rule py_round_near)+
  ultimately have "y \<le> x" by linarith
  with assms have "x = y" by simp
  with \<open>\<not> py_round x \<le> py_round y\<close> show False by simp
qed

lemma py_round_of_int [simp]: "py_round (of_int k) = k"
  by (simp add: py_round_def)

lemma py_round_numeral [simp]: "py_round (numeral k) = numeral k"
  using py_round_of_int [of "numeral k"] by simp

lemma has_mono: "sublist u v \<Longrightarrow> has u w \<Longrightarrow> has v w"
  unfolding has_def py_contains_sublist by (meson sublist_order.order_trans)

lemma of_bool_mono: "(P \<Longrightarrow> Q) \<Longrightarrow> (of_bool P :: nat) \<le> of_bool Q"
  by auto

lemma points_le3: "q1_points q \<le> 3 \<and> q2_points q \<le> 3 \<and> q3_points q \<le> 3"
  by (simp add: q1_points_def q2_points_def q3_points_def)

lemma round2_scaled_bounds:
  assumes p: "p \<le> 9" and m: "0 \<le> m"
  shows "0 \<le> py_round2 (real p / 9 * m) \<and> py_round2 (real p / 9 * m) \<le> py_round2 m"
proof -
  let ?x = "real p / 9 * m"
  have "0 \<le> ?x" using m by simp
  moreover have "?x \<le> m"
  proof -
    have "real p * m \<le> 9 * m" using p m by (intro mult_right_mono) simp_all
    then show ?thesis by simp
  qed
  ultimately have a: "0 \<le> ?x * 100" and b: "?x * 100 \<le> m * 100" by linarith+
  have "py_round 0 \<le> py_round (?x * 100)" "py_round (?x * 100) \<le> py_round (m * 100)"
    using py_round_mono [OF a] py_round_mono [OF b] by simp_all
  then show ?thesis unfolding py_round2_def
    by (metis (mono_tags) divide_right_mono of_int_le_iff py_round_of_int of_int_0 zero_le_numeral
        divide_nonneg_nonneg of_int_0_le_iff)
qed

lemmas grading_eval = q1_points_def q2_points_def q3_points_def has_def py_lower_def lower_char_def

subsection \<open>Properties of the grader\<close>

text \<open>C32: For a non-negative \<open>max_grade\<close> the grade lies between 0 and \<open>max_grade\<close> rounded to two decimals.\<close>

lemma grade_bounds:
  assumes "0 \<le> max_grade"
  shows "0 \<le> fst (grade_networking_short_answer q max_grade) \<and>
         fst (grade_networking_short_answer q max_grade) \<le> py_round2 max_grade"
proof -
  obtain p1 p2 p3 where p: "p1 \<le> 3" "p2 \<le> 3" "p3 \<le> 3"
    and g: "fst (grade_networking_short_answer q max_grade) =
            py_round2 ((real p1 + real p2 + real p3) / 9 * max_grade)"
    using points_le3 by (simp add: grade_networking_short_answer_def Let_def) blast
  have "p1 + p2 + p3 \<le> 9" using p by simp
  from round2_scaled_bounds [OF this assms] show ?thesis unfolding g by simp
qed

lemma grade_bounds_witness:
  "0 \<le> fst (grade_networking_short_answer full_answers 100) \<and>
   fst (grade_networking_short_answer full_answers 100) \<le> py_round2 100"
  using grade_bounds [of 100 full_answers] by simp

text \<open>Adding text to an answer never lowers its points: the rules only test whether keywords occur.\<close>

lemma points_mono:
  assumes "sublist u v"
  shows "q1_points u \<le> q1_points v \<and> q2_points u \<le> q2_points v \<and> q3_points u \<le> q3_points v"
  using has_mono [OF assms]
  unfolding q1_points_def q2_points_def q3_points_def
  by (intro conjI min.mono add_mono of_bool_mono order_refl; blast)

lemma points_mono_witness:
  "q1_points [] \<le> q1_points (py_str ''service'') \<and> q2_points [] \<le> q2_points (py_str ''service'') \<and>
   q3_points [] \<le> q3_points (py_str ''service'')"
  using points_mono [of "[]" "py_str ''service''"] by simp

text \<open>Answers that meet all nine rules get the full grade: 100 of 100.\<close>

lemma grade_full_marks: "fst (grade_networking_short_answer full_answers 100) = 100"
proof -
  have "q1_points (grading_norm (qget full_answers 1)) = 3"
    by (simp add: full_answers_def qget_def grading_norm_plain grading_eval)
  moreover have "q2_points (grading_norm (qget full_answers 2)) = 3"
    by (simp add: full_answers_def qget_def grading_norm_plain grading_eval)
  moreover have "q3_points (grading_norm (qget full_answers 3)) = 3"
    by (simp add: full_answers_def qget_def grading_norm_plain grading_eval)
  ultimately show ?thesis
    by (simp add: grade_networking_short_answer_def Let_def py_round2_def)
qed

text \<open>
  Keywords are matched as substrings, so points are earned by unrelated words:
  \<open>pods description\<close> earns the Pod-IP point (\<open>ip\<close> in \<open>description\<close>), and the single
  fact \<open>NodePort is external\<close> earns two points, because \<open>nodeport\<close> contains both
  \<open>node\<close> and \<open>port\<close>.
\<close>

lemma grading_substring_points:
  "q1_points (grading_norm (py_str ''pods description'')) = 1 \<and>
   q2_points (grading_norm (py_str ''NodePort is external'')) = 2"
  by (simp add: grading_norm_plain grading_eval)

end
