(* ===== verification/Store.thy ===== *)
theory Store
  imports Json Profile
begin

text \<open>
  The database of \<open>backend/app/models.py\<close> and the session discipline of the handlers in
  \<open>main.py\<close>. Each table is a list of rows in insertion order (queries without
  \<open>order_by\<close> are read in this order); each row type is a record with the table's
  columns. Timestamps (\<open>server_default=func.now()\<close>) are the value \<open>now\<close> of the request.
  A text column that stores \<open>str(v)\<close> of a Python value holds the value \<open>v\<close> itself;
  \<open>float(str(v))\<close> is written out (\<open>py_float_of_repr\<close>), using that \<open>repr\<close> of a float
  reads back as the same float. The fingerprint column \<open>embedding_json\<close> holds the vector,
  using that \<open>json.loads(json.dumps(vec)) == vec\<close> for finite floats.

  A session (\<open>SessionLocal()\<close>) works on a copy of the committed tables: \<open>db.add\<close> and
  attribute updates change the copy, queries read it (autoflush), \<open>db.commit()\<close> checks the
  constraints of the schema and either installs the copy or raises \<open>IntegrityError\<close>,
  \<open>db.rollback()\<close> and \<open>db.close()\<close> drop it. Primary keys come from sequences that a
  rollback does not reset, as in PostgreSQL.
\<close>

subsection \<open>Rows and tables\<close>

record submission_row =
  sub_id :: nat
  sub_moodle_submission_id :: "int option"
  sub_assignment_id :: int
  sub_course_id :: int
  sub_student_id :: int
  sub_raw_text :: "pystr option"
  sub_cleaned_text :: "pystr option"
  sub_status :: pystr
  sub_plagiarism_flag :: bool
  sub_created_at :: nat

record chunk_row =
  chunk_id :: nat
  chunk_submission_id :: nat
  chunk_question_no :: nat
  chunk_text :: pystr
  chunk_cleaned_text :: pystr
  chunk_created_at :: nat

record embedding_row =
  emb_id :: nat
  emb_chunk_id :: nat
  emb_vector :: "real list"
  emb_created_at :: nat

record similarity_row =
  simr_id :: nat
  simr_chunk_id :: nat
  simr_matched_chunk_id :: nat
  simr_score :: real
  simr_decision :: pystr
  simr_evidence_note :: pystr
  simr_created_at :: nat

record feedback_row =
  fb_id :: nat
  fb_submission_id :: nat
  fb_grade :: json            \<comment> \<open>the value \<open>v\<close> of \<open>grade=str(v)\<close>\<close>
  fb_feedback_text :: pystr
  fb_feedback_json :: json
  fb_confidence :: json       \<comment> \<open>the value \<open>v\<close> of \<open>confidence=str(v)\<close>\<close>
  fb_created_at :: nat

record history_row =
  hist_id :: nat
  hist_student_id :: int
  hist_submission_id :: nat
  hist_service :: json
  hist_clusterip_nodeport :: json
  hist_networkpolicy :: json
  hist_created_at :: nat

record profile_row =
  prof_student_id :: int
  prof_weak_concepts :: "pystr list"      \<comment> \<open>\<open>json.dumps(weak)\<close>\<close>
  prof_last_feedback_summary :: pystr
  prof_last_grade :: pyfloat              \<comment> \<open>\<open>str(new_grade)\<close>\<close>
  prof_trend :: pystr

record tables =
  t_submissions :: "submission_row list"
  t_chunks :: "chunk_row list"
  t_embeddings :: "embedding_row list"
  t_similarity :: "similarity_row list"
  t_feedback :: "feedback_row list"
  t_history :: "history_row list"
  t_profiles :: "profile_row list"

text \<open>The next value of each table's \<open>id\<close> sequence.\<close>

record seqs =
  seq_submission :: nat
  seq_chunk :: nat
  seq_embedding :: nat
  seq_similarity :: nat
  seq_feedback :: nat
  seq_history :: nat

record server =
  committed :: tables
  sequences :: seqs

definition empty_tables :: tables where
  "empty_tables = \<lparr>t_submissions = [], t_chunks = [], t_embeddings = [], t_similarity = [],
                   t_feedback = [], t_history = [], t_profiles = []\<rparr>"

definition init_server :: server where
  "init_server = \<lparr>committed = empty_tables,
     sequences = \<lparr>seq_submission = 1, seq_chunk = 1, seq_embedding = 1, seq_similarity = 1,
                  seq_feedback = 1, seq_history = 1\<rparr>\<rparr>"

subsection \<open>The schema's constraints\<close>

text \<open>
  Primary keys are unique; \<open>uq_submission_question\<close> makes (submission, question number)
  unique among chunks; \<open>chunk_embeddings.chunk_id\<close> is unique; every foreign key names an
  existing row. The module-level \<open>__table_args__\<close> of models.py lines 8--10 is attached to
  no table, so \<open>moodle_submission_id\<close> carries no constraint.
\<close>

definition tables_ok :: "tables \<Rightarrow> bool" where
  "tables_ok t \<longleftrightarrow>
     distinct (map sub_id (t_submissions t)) \<and>
     distinct (map chunk_id (t_chunks t)) \<and>
     distinct (map emb_id (t_embeddings t)) \<and>
     distinct (map simr_id (t_similarity t)) \<and>
     distinct (map fb_id (t_feedback t)) \<and>
     distinct (map hist_id (t_history t)) \<and>
     distinct (map prof_student_id (t_profiles t)) \<and>
     distinct (map (\<lambda>c. (chunk_submission_id c, chunk_question_no c)) (t_chunks t)) \<and>
     distinct (map emb_chunk_id (t_embeddings t)) \<and>
     (\<forall>c\<in>set (t_chunks t). chunk_submission_id c \<in> sub_id ` set (t_submissions t)) \<and>
     (\<forall>e\<in>set (t_embeddings t). emb_chunk_id e \<in> chunk_id ` set (t_chunks t)) \<and>
     (\<forall>s\<in>set (t_similarity t). simr_chunk_id s \<in> chunk_id ` set (t_chunks t) \<and>
                                 simr_matched_chunk_id s \<in> chunk_id ` set (t_chunks t)) \<and>
     (\<forall>f\<in>set (t_feedback t). fb_submission_id f \<in> sub_id ` set (t_submissions t)) \<and>
     (\<forall>h\<in>set (t_history t). hist_submission_id h \<in> sub_id ` set (t_submissions t))"

text \<open>Sequences ahead of every key they have handed out.\<close>

definition seqs_ok :: "server \<Rightarrow> bool" where
  "seqs_ok s \<longleftrightarrow>
     (\<forall>r\<in>set (t_submissions (committed s)). sub_id r < seq_submission (sequences s)) \<and>
     (\<forall>r\<in>set (t_chunks (committed s)). chunk_id r < seq_chunk (sequences s)) \<and>
     (\<forall>r\<in>set (t_embeddings (committed s)). emb_id r < seq_embedding (sequences s)) \<and>
     (\<forall>r\<in>set (t_similarity (committed s)). simr_id r < seq_similarity (sequences s)) \<and>
     (\<forall>r\<in>set (t_feedback (committed s)). fb_id r < seq_feedback (sequences s)) \<and>
     (\<forall>r\<in>set (t_history (committed s)). hist_id r < seq_history (sequences s))"

text \<open>
  No constraint makes Moodle ids unique; the handlers keep them distinct as long as
  requests run one after the other.
\<close>

definition moodle_ids_distinct :: "tables \<Rightarrow> bool" where
  "moodle_ids_distinct t \<longleftrightarrow> distinct (List.map_filter sub_moodle_submission_id (t_submissions t))"

definition server_ok :: "server \<Rightarrow> bool" where
  "server_ok s \<longleftrightarrow> tables_ok (committed s) \<and> seqs_ok s \<and> moodle_ids_distinct (committed s)"

subsection \<open>Sessions\<close>

text \<open>\<open>db.commit()\<close>: the new committed tables, or \<open>IntegrityError\<close>.\<close>

definition commit :: "tables \<Rightarrow> py_error + tables" where
  "commit work = (if tables_ok work then Inr work else Inl IntegrityError)"

text \<open>The HTTP outcome of a request.\<close>

datatype response =
    JsonResp nat json            \<comment> \<open>a returned dict, with its status code\<close>
  | HttpError nat pystr          \<comment> \<open>\<open>HTTPException(status_code, detail)\<close>\<close>
  | HttpErrorOf nat py_error     \<comment> \<open>\<open>HTTPException(status_code, detail=str(e))\<close> for an exception \<open>e\<close>\<close>
  | ServerError                  \<comment> \<open>an uncaught exception: status 500\<close>

text \<open>Queries used by several handlers.\<close>

definition find_submission :: "tables \<Rightarrow> nat \<Rightarrow> submission_row option" where
  "find_submission t i = find (\<lambda>s. sub_id s = i) (t_submissions t)"

definition chunks_of :: "tables \<Rightarrow> nat \<Rightarrow> chunk_row list" where
  "chunks_of t i = filter (\<lambda>c. chunk_submission_id c = i) (t_chunks t)"

definition embedding_of :: "tables \<Rightarrow> nat \<Rightarrow> embedding_row option" where
  "embedding_of t cid = find (\<lambda>e. emb_chunk_id e = cid) (t_embeddings t)"

definition update_submission :: "nat \<Rightarrow> (submission_row \<Rightarrow> submission_row) \<Rightarrow> tables \<Rightarrow> tables" where
  "update_submission i f t =
     t\<lparr>t_submissions := map (\<lambda>s. if sub_id s = i then f s else s) (t_submissions t)\<rparr>"

text \<open>
  \<open>float(str(v))\<close> for a value stored with \<open>str(v)\<close>: \<open>str\<close> of \<open>True\<close>, \<open>None\<close>, a list or a
  dict is no float literal; a huge integer reads back as infinity.
\<close>

fun py_float_of_repr :: "json \<Rightarrow> py_error + pyfloat" where
  "py_float_of_repr (JInt i) = Inr (if float_overflows (of_int i) then Inf (0 < i) else Fin (of_int i))"
| "py_float_of_repr (JFloat r) = Inr (Fin r)"
| "py_float_of_repr (JInf b) = Inr (Inf b)"
| "py_float_of_repr JNaN = Inr NaN"
| "py_float_of_repr (JStr s) = py_float_of_str s"
| "py_float_of_repr _ = Inl ValueError"

subsection \<open>Lemmas on queries\<close>

lemma find_append_None: "find P xs = None \<Longrightarrow> find P (xs @ ys) = find P ys"
  by (induction xs) auto

lemma find_append_Some: "find P xs = Some x \<Longrightarrow> find P (xs @ ys) = Some x"
  by (induction xs) auto

lemma embedding_of_None: "embedding_of t cid = None \<longleftrightarrow> cid \<notin> emb_chunk_id ` set (t_embeddings t)"
  by (auto simp: embedding_of_def find_None_iff)

lemma embedding_of_Some: "embedding_of t cid = Some e \<Longrightarrow> e \<in> set (t_embeddings t) \<and> emb_chunk_id e = cid"
  by (auto simp: embedding_of_def find_Some_iff)

lemma embedding_of_append:
  "embedding_of t cid = Some e \<Longrightarrow> embedding_of (t\<lparr>t_embeddings := t_embeddings t @ es\<rparr>) cid = Some e"
  by (simp add: embedding_of_def find_append_Some)

lemma embedding_of_snoc_new:
  "embedding_of t (emb_chunk_id e) = None \<Longrightarrow> embedding_of (t\<lparr>t_embeddings := t_embeddings t @ [e]\<rparr>) (emb_chunk_id e) = Some e"
  by (simp add: embedding_of_def find_append_None)

lemma update_submission_ids:
  assumes "\<And>s. sub_id (f s) = sub_id s"
  shows "map sub_id (t_submissions (update_submission i f t)) = map sub_id (t_submissions t)"
  using assms by (simp add: update_submission_def comp_def)

lemma update_submission_tables_ok:
  assumes "\<And>s. sub_id (f s) = sub_id s"
  shows "tables_ok (update_submission i f t) = tables_ok t"
proof -
  note m = update_submission_ids [of f i t, OF assms]
  have s: "sub_id ` set (t_submissions (update_submission i f t)) = sub_id ` set (t_submissions t)"
    using m by (metis list.set_map)
  show ?thesis unfolding tables_ok_def m s by (simp add: update_submission_def)
qed

end
