(* ===== verification/Ingest.thy ===== *)
theory Ingest
  imports Store Chunking
begin

text \<open>
  \<open>POST /ingest/submission\<close> (\<open>main.py\<close> \<open>ingest_submission\<close>, lines 48--141). The handler
  reads the submission with the same Moodle id (\<open>ingest_lookup\<close>) and then writes
  (\<open>ingest_apply\<close>): nothing when it already has chunks, new chunks for an existing
  submission without any, or a new submission and its chunks, with two commits. Every
  exception, the \<open>HTTPException(400)\<close> of an empty text included, is caught by
  \<open>except Exception\<close> and turned into status 500 after a rollback.
\<close>

record submission_in =
  in_moodle_submission_id :: int
  in_assignment_id :: int
  in_course_id :: int
  in_student_id :: int
  in_raw_text :: "pystr option"
  in_cleaned_text :: "pystr option"

text \<open>\<open>x or d\<close> for an optional string.\<close>

definition or_text :: "pystr option \<Rightarrow> pystr \<Rightarrow> pystr" where
  "or_text x d = (case x of Some s \<Rightarrow> if s \<noteq> [] then s else d | None \<Rightarrow> d)"

definition source_text :: "submission_in \<Rightarrow> pystr" where
  "source_text d = py_strip (or_text (in_cleaned_text d) (or_text (in_raw_text d) []))"

text \<open>\<open>db.add(SubmissionChunk(...))\<close> for each chunk, with keys from the chunk sequence.\<close>

fun add_chunks :: "nat \<Rightarrow> nat \<Rightarrow> nat \<Rightarrow> (nat \<times> pystr) list \<Rightarrow> tables \<Rightarrow> tables \<times> nat" where
  "add_chunks sid now n [] t = (t, n)"
| "add_chunks sid now n ((q, c) # cs) t =
     add_chunks sid now (Suc n) cs
       (t\<lparr>t_chunks := t_chunks t @ [\<lparr>chunk_id = n, chunk_submission_id = sid, chunk_question_no = q,
           chunk_text = c, chunk_cleaned_text = clean_text_basic c, chunk_created_at = now\<rparr>]\<rparr>)"

text \<open>The rows \<open>add_chunks\<close> appends.\<close>

fun chunk_rows :: "nat \<Rightarrow> nat \<Rightarrow> nat \<Rightarrow> (nat \<times> pystr) list \<Rightarrow> chunk_row list" where
  "chunk_rows sid now n [] = []"
| "chunk_rows sid now n ((q, c) # cs) =
     \<lparr>chunk_id = n, chunk_submission_id = sid, chunk_question_no = q, chunk_text = c,
      chunk_cleaned_text = clean_text_basic c, chunk_created_at = now\<rparr> # chunk_rows sid now (Suc n) cs"

definition jstr :: "string \<Rightarrow> json" where
  "jstr s = JStr (py_str s)"

definition chunk_response :: "string \<Rightarrow> nat \<Rightarrow> (nat \<times> pystr) list \<Rightarrow> response" where
  "chunk_response status i chunks =
     JsonResp 200 (JObj [(py_str ''status'', jstr status), (py_str ''id'', JInt (int i)),
                         (py_str ''chunks_saved'', JInt (int (length chunks))),
                         (py_str ''chunk_questions'', JList (map (\<lambda>(q, _). JInt (int q)) chunks))])"

text \<open>Lines 71--75: the reply for a submission that already has chunks.\<close>

definition already_exists :: "nat \<Rightarrow> nat \<Rightarrow> response" where
  "already_exists i n = JsonResp 200 (JObj [(py_str ''status'', jstr ''already_exists''), (py_str ''id'', JInt (int i)),
                                          (py_str ''chunks_saved'', JInt (int n))])"

text \<open>Lines 60--68: the first submission with the Moodle id, and its number of chunks.\<close>

definition ingest_lookup :: "submission_in \<Rightarrow> tables \<Rightarrow> (submission_row \<times> nat) option" where
  "ingest_lookup d t =
     map_option (\<lambda>ex. (ex, length (chunks_of t (sub_id ex))))
       (find (\<lambda>s. sub_moodle_submission_id s = Some (in_moodle_submission_id d)) (t_submissions t))"

text \<open>Lines 78--82: the fields the repair path overwrites.\<close>

definition repair_fields :: "submission_in \<Rightarrow> pystr \<Rightarrow> submission_row \<Rightarrow> submission_row" where
  "repair_fields d cleaned s =
     s\<lparr>sub_raw_text := in_raw_text d, sub_cleaned_text := Some cleaned,
       sub_assignment_id := in_assignment_id d, sub_course_id := in_course_id d,
       sub_student_id := in_student_id d\<rparr>"

text \<open>Lines 104--113: the new \<open>Submission\<close> row.\<close>

definition new_submission_row :: "nat \<Rightarrow> nat \<Rightarrow> submission_in \<Rightarrow> pystr \<Rightarrow> submission_row" where
  "new_submission_row sid now d cleaned =
     \<lparr>sub_id = sid, sub_moodle_submission_id = Some (in_moodle_submission_id d),
      sub_assignment_id = in_assignment_id d, sub_course_id = in_course_id d,
      sub_student_id = in_student_id d, sub_raw_text = in_raw_text d,
      sub_cleaned_text = Some cleaned, sub_status = py_str ''pending'',
      sub_plagiarism_flag = False, sub_created_at = now\<rparr>"

text \<open>Lines 77--101: re-create the chunks of an existing submission that has none.\<close>

definition ingest_repair :: "nat \<Rightarrow> submission_in \<Rightarrow> pystr \<Rightarrow> submission_row \<Rightarrow> server \<Rightarrow> response \<times> server" where
  "ingest_repair now d cleaned ex srv =
     (let t1 = update_submission (sub_id ex) (repair_fields d cleaned) (committed srv);
          chunks = split_numbered_answers cleaned;
          (t2, n) = add_chunks (sub_id ex) now (seq_chunk (sequences srv)) chunks t1;
          sq = (sequences srv)\<lparr>seq_chunk := n\<rparr>
      in case commit t2 of
           Inl e \<Rightarrow> (HttpErrorOf 500 e, srv\<lparr>sequences := sq\<rparr>)
         | Inr t3 \<Rightarrow> (chunk_response ''rechunked_existing'' (sub_id ex) chunks, \<lparr>committed = t3, sequences = sq\<rparr>))"

text \<open>Lines 103--135: insert and commit the submission, then insert and commit its chunks.\<close>

definition ingest_new :: "nat \<Rightarrow> submission_in \<Rightarrow> pystr \<Rightarrow> server \<Rightarrow> response \<times> server" where
  "ingest_new now d cleaned srv =
     (let sid = seq_submission (sequences srv);
          row = new_submission_row sid now d cleaned;
          sq1 = (sequences srv)\<lparr>seq_submission := Suc sid\<rparr>
      in case commit ((committed srv)\<lparr>t_submissions := t_submissions (committed srv) @ [row]\<rparr>) of
           Inl e \<Rightarrow> (HttpErrorOf 500 e, srv\<lparr>sequences := sq1\<rparr>)
         | Inr t1 \<Rightarrow>
             (let chunks = split_numbered_answers cleaned;
                  (t2, n) = add_chunks sid now (seq_chunk sq1) chunks t1;
                  sq2 = sq1\<lparr>seq_chunk := n\<rparr>
              in case commit t2 of
                   Inl e \<Rightarrow> (HttpErrorOf 500 e, \<lparr>committed = t1, sequences = sq2\<rparr>)
                 | Inr t3 \<Rightarrow> (chunk_response ''stored'' sid chunks, \<lparr>committed = t3, sequences = sq2\<rparr>)))"

text \<open>The handler after its lookup: \<open>look\<close> is what the query of lines 60--68 returned.\<close>

definition ingest_apply :: "nat \<Rightarrow> submission_in \<Rightarrow> (submission_row \<times> nat) option \<Rightarrow> server \<Rightarrow> response \<times> server" where
  "ingest_apply now d look srv =
     (let cleaned = clean_text_basic (source_text d) in
      case look of
        Some (ex, n) \<Rightarrow>
          if 0 < n
          then (already_exists (sub_id ex) n, srv)
          else ingest_repair now d cleaned ex srv
      | None \<Rightarrow> ingest_new now d cleaned srv)"

definition ingest_submission :: "nat \<Rightarrow> submission_in \<Rightarrow> server \<Rightarrow> response \<times> server" where
  "ingest_submission now d srv =
     (if source_text d = []
      then (HttpError 500 (py_str ''400: raw_text or cleaned_text must be provided and not empty''), srv)
      else ingest_apply now d (ingest_lookup d (committed srv)) srv)"

text \<open>The submission of the specification's end-to-end scenario, with Moodle id 7.\<close>

definition scenario_submission :: submission_in where
  "scenario_submission = \<lparr>in_moodle_submission_id = 7, in_assignment_id = 1, in_course_id = 1, in_student_id = 42,
     in_raw_text = Some (py_str ''1. Services give pods a stable endpoint.\<newline>2. ClusterIP is internal.\<newline>3. NetworkPolicy can block traffic between frontend and backend.''),
     in_cleaned_text = None\<rparr>"

definition scenario_chunks :: "(nat \<times> pystr) list" where
  "scenario_chunks = [(1, py_str ''Services give pods a stable endpoint.''), (2, py_str ''ClusterIP is internal.''),
                      (3, py_str ''NetworkPolicy can block traffic between frontend and backend.'')]"

subsection \<open>Lemmas\<close>

lemma add_chunks_eq:
  "add_chunks sid now n cs t = (t\<lparr>t_chunks := t_chunks t @ chunk_rows sid now n cs\<rparr>, n + length cs)"
  by (induction sid now n cs t rule: add_chunks.induct) simp_all

lemma chunk_rows_ids: "map chunk_id (chunk_rows sid now n cs) = [n..<n + length cs]"
  by (induction sid now n cs rule: chunk_rows.induct) (simp_all add: upt_conv_Cons del: upt_Suc)

lemma chunk_rows_props:
  "(\<forall>r\<in>set (chunk_rows sid now n cs). chunk_submission_id r = sid \<and> n \<le> chunk_id r \<and> chunk_id r < n + length cs) \<and>
   map (\<lambda>r. (chunk_question_no r, chunk_text r)) (chunk_rows sid now n cs) = cs"
  by (induction sid now n cs rule: chunk_rows.induct) auto

lemma scenario_source: "source_text scenario_submission = py_str ''1. Services give pods a stable endpoint.\<newline>2. ClusterIP is internal.\<newline>3. NetworkPolicy can block traffic between frontend and backend.''"
  by (simp add: source_text_def scenario_submission_def or_text_def py_strip_def py_lstrip_def py_rstrip_def is_space_def)

lemma scenario_clean: "clean_text_basic (source_text scenario_submission) = source_text scenario_submission"
  unfolding scenario_source
  by (rule clean_text_basic_plain) (simp_all add: newline_def py_strip_def py_lstrip_def py_rstrip_def is_space_def)

lemma scenario_split: "split_numbered_answers (clean_text_basic (source_text scenario_submission)) = scenario_chunks"
  unfolding scenario_clean unfolding scenario_source scenario_chunks_def by (simp add: seg_eval)

lemma scenario_chunk_clean: "(q, c) \<in> set scenario_chunks \<Longrightarrow> clean_text_basic c = c"
  unfolding scenario_chunks_def
  by (auto intro!: clean_text_basic_plain simp: newline_def py_strip_def py_lstrip_def py_rstrip_def is_space_def)

lemma chunks_of_append_rows:
  "chunks_of (t\<lparr>t_chunks := t_chunks t @ chunk_rows sid now n cs\<rparr>) sid = chunks_of t sid @ chunk_rows sid now n cs"
  using chunk_rows_props [of sid now n cs] by (simp add: chunks_of_def)

lemma chunks_of_fresh:
  assumes "tables_ok (committed srv)" "seqs_ok srv"
  shows "chunks_of (committed srv) (seq_submission (sequences srv)) = []"
proof -
  { fix c assume c: "c \<in> set (t_chunks (committed srv))"
    with assms(1) obtain s where "s \<in> set (t_submissions (committed srv))" "chunk_submission_id c = sub_id s"
      by (auto simp: tables_ok_def)
    with assms(2) have "chunk_submission_id c \<noteq> seq_submission (sequences srv)"
      by (auto simp: seqs_ok_def) }
  then show ?thesis by (auto simp: chunks_of_def filter_empty_conv)
qed

lemma find_update_submission:
  assumes "find P xs = Some ex" "\<And>s. P (f s) = P s" "\<And>s. sub_id (f s) = sub_id s"
    "distinct (map sub_id xs)"
  shows "find P (map (\<lambda>s. if sub_id s = sub_id ex then f s else s) xs) = Some (f ex)"
  using assms(1,4)
proof (induction xs)
  case Nil
  then show ?case by simp
next
  case (Cons y ys)
  show ?case
  proof (cases "P y")
    case True
    with Cons.prems have "y = ex" by simp
    with True assms(2) show ?thesis by simp
  next
    case False
    with Cons.prems have "find P ys = Some ex" by simp
    moreover from this have "ex \<in> set ys" by (metis find_Some_iff nth_mem)
    with Cons.prems have "sub_id y \<noteq> sub_id ex" by auto
    ultimately show ?thesis using Cons False assms(2) by simp
  qed
qed

lemma chunk_response_inj:
  "chunk_response st i cs = chunk_response st' i' cs' \<Longrightarrow> i = i' \<and> length cs = length cs'"
  by (simp add: chunk_response_def)

lemma chunk_response_neq [simp]:
  "HttpErrorOf c e \<noteq> chunk_response st i cs" "HttpError c m \<noteq> chunk_response st i cs"
  by (simp_all add: chunk_response_def)

lemma ingest_new_success:
  assumes "ingest_new now d cleaned srv = (chunk_response st i chunks, srv1)"
  shows "i = seq_submission (sequences srv) \<and> length chunks = length (split_numbered_answers cleaned) \<and>
         committed srv1 = (committed srv)\<lparr>t_submissions := t_submissions (committed srv) @ [new_submission_row i now d cleaned],
               t_chunks := t_chunks (committed srv) @ chunk_rows i now (seq_chunk (sequences srv)) (split_numbered_answers cleaned)\<rparr>"
  using assms
  by (auto simp: ingest_new_def Let_def add_chunks_eq commit_def split: if_splits dest!: chunk_response_inj)

lemma ingest_repair_success:
  assumes "ingest_repair now d cleaned ex srv = (chunk_response st i chunks, srv1)"
  shows "i = sub_id ex \<and> length chunks = length (split_numbered_answers cleaned) \<and>
         committed srv1 = (update_submission (sub_id ex) (repair_fields d cleaned) (committed srv))\<lparr>t_chunks :=
               t_chunks (committed srv) @ chunk_rows (sub_id ex) now (seq_chunk (sequences srv)) (split_numbered_answers cleaned)\<rparr>"
  using assms
  by (auto simp: ingest_repair_def Let_def add_chunks_eq commit_def update_submission_def
           split: if_splits dest!: chunk_response_inj)

lemma chunks_of_update [simp]: "chunks_of (update_submission i f t) j = chunks_of t j"
  by (simp add: chunks_of_def update_submission_def)

lemma already_exists_neq: "already_exists i n \<noteq> chunk_response st j cs"
  by (simp add: already_exists_def chunk_response_def)

lemma ingest_lookup_found:
  assumes "source_text d \<noteq> []" "ingest_lookup d (committed srv) = Some (ex, n)" "0 < n"
  shows "ingest_submission now d srv = (already_exists (sub_id ex) n, srv)"
  using assms by (simp add: ingest_submission_def ingest_apply_def)

lemma map_filter_append: "List.map_filter f (xs @ ys) = List.map_filter f xs @ List.map_filter f ys"
  by (simp add: map_filter_def)

lemma length_chunk_rows [simp]: "length (chunk_rows sid now n cs) = length cs"
  by (induction sid now n cs rule: chunk_rows.induct) simp_all

lemma chunks_of_chunk_rows:
  assumes "chunks_of t sid = []"
  shows "chunks_of (t'\<lparr>t_chunks := t_chunks t @ chunk_rows sid now n cs\<rparr>) sid = chunk_rows sid now n cs"
  using assms chunk_rows_props [of sid now n cs] by (simp add: chunks_of_def)

text \<open>After a successful first insert the lookup of lines 60--68 finds the new row and its chunks.\<close>

lemma ingest_new_lookup:
  assumes ok: "tables_ok (committed srv)" "seqs_ok srv"
    and none: "find (\<lambda>s. sub_moodle_submission_id s = Some (in_moodle_submission_id d)) (t_submissions (committed srv)) = None"
    and run: "ingest_new now d cl srv = (chunk_response st i chunks, srv1)"
  shows "ingest_lookup d (committed srv1) = Some (new_submission_row i now d cl, length chunks)"
proof -
  note s = ingest_new_success [OF run]
  have "chunks_of (committed srv1) i = chunk_rows i now (seq_chunk (sequences srv)) (split_numbered_answers cl)"
    using s chunks_of_fresh [OF ok] chunk_rows_props [of i now "seq_chunk (sequences srv)" "split_numbered_answers cl"]
    by (simp add: chunks_of_def)
  with s none show ?thesis by (simp add: ingest_lookup_def find_append_None new_submission_row_def)
qed

text \<open>After a successful repair the lookup finds the repaired row and its new chunks.\<close>

lemma ingest_repair_lookup:
  assumes ok: "tables_ok (committed srv)"
    and found: "find (\<lambda>s. sub_moodle_submission_id s = Some (in_moodle_submission_id d)) (t_submissions (committed srv)) = Some ex"
    and empty: "chunks_of (committed srv) (sub_id ex) = []"
    and run: "ingest_repair now d cl ex srv = (chunk_response st i chunks, srv1)"
  shows "ingest_lookup d (committed srv1) = Some (repair_fields d cl ex, length chunks) \<and> sub_id ex = i"
proof -
  note s = ingest_repair_success [OF run]
  have "find (\<lambda>s. sub_moodle_submission_id s = Some (in_moodle_submission_id d)) (t_submissions (committed srv1)) = Some (repair_fields d cl ex)"
    using s found ok by (simp add: update_submission_def find_update_submission repair_fields_def tables_ok_def)
  moreover have "chunks_of (committed srv1) (sub_id ex) = chunk_rows (sub_id ex) now (seq_chunk (sequences srv)) (split_numbered_answers cl)"
    using s empty chunk_rows_props [of "sub_id ex" now "seq_chunk (sequences srv)" "split_numbered_answers cl"]
    by (simp add: chunks_of_def update_submission_def)
  ultimately show ?thesis using s by (simp add: ingest_lookup_def repair_fields_def)
qed

lemma scenario_first_response:
  "fst (ingest_submission 0 scenario_submission init_server) = chunk_response ''stored'' 1 scenario_chunks"
  by (simp add: ingest_submission_def ingest_apply_def ingest_lookup_def scenario_split ingest_new_def
                Let_def init_server_def empty_tables_def add_chunks_eq commit_def)
     (simp add: scenario_chunks_def chunks_of_def tables_ok_def scenario_source new_submission_row_def)

subsection \<open>Properties of ingestion\<close>

text \<open>
  C14: Re-ingesting a payload after a request that stored or repaired its submission with
  at least one chunk is a no-op reporting the existing record: the reply is
  \<open>already_exists\<close> with the same id and chunk count, and the store is unchanged
  (specification section 7 and the end-to-end scenario of section 8).
\<close>

lemma ingest_reingest:
  assumes ok: "tables_ok (committed srv)" "seqs_ok srv"
    and first: "ingest_submission now d srv = (chunk_response st i chunks, srv1)"
    and ne: "chunks \<noteq> []"
  shows "ingest_submission now' d srv1 = (already_exists i (length chunks), srv1)"
proof -
  let ?cl = "clean_text_basic (source_text d)"
  let ?P = "\<lambda>s. sub_moodle_submission_id s = Some (in_moodle_submission_id d)"
  from first have src: "source_text d \<noteq> []"
    by (auto simp: ingest_submission_def split: if_splits)
  have "\<exists>ex. ingest_lookup d (committed srv1) = Some (ex, length chunks) \<and> sub_id ex = i"
  proof (cases "find ?P (t_submissions (committed srv))")
    case None
    with first src have "ingest_new now d ?cl srv = (chunk_response st i chunks, srv1)"
      by (simp add: ingest_submission_def ingest_apply_def ingest_lookup_def Let_def)
    with ingest_new_lookup [OF ok None] ingest_new_success show ?thesis
      by (fastforce simp: new_submission_row_def)
  next
    case (Some ex)
    let ?n = "length (chunks_of (committed srv) (sub_id ex))"
    have look: "ingest_lookup d (committed srv) = Some (ex, ?n)" using Some by (simp add: ingest_lookup_def)
    have "?n = 0"
    proof (rule ccontr)
      assume "?n \<noteq> 0"
      with ingest_lookup_found [OF src look] first show False by (simp add: already_exists_neq)
    qed
    with first src look have rep: "ingest_repair now d ?cl ex srv = (chunk_response st i chunks, srv1)"
      by (simp add: ingest_submission_def ingest_apply_def)
    from \<open>?n = 0\<close> have "chunks_of (committed srv) (sub_id ex) = []" by simp
    from ingest_repair_lookup [OF ok(1) Some this rep] show ?thesis by (auto simp: repair_fields_def)
  qed
  with ne src show ?thesis using ingest_lookup_found [of d srv1 _ "length chunks" now'] by auto
qed

lemma ingest_reingest_witness:
  "ingest_submission 1 scenario_submission (snd (ingest_submission 0 scenario_submission init_server)) =
     (already_exists 1 3, snd (ingest_submission 0 scenario_submission init_server))"
proof -
  let ?s1 = "snd (ingest_submission 0 scenario_submission init_server)"
  have first: "ingest_submission 0 scenario_submission init_server = (chunk_response ''stored'' 1 scenario_chunks, ?s1)"
    using scenario_first_response by (metis prod.collapse)
  have ok: "tables_ok (committed init_server)" "seqs_ok init_server"
    by (simp_all add: init_server_def empty_tables_def tables_ok_def seqs_ok_def)
  have len: "length scenario_chunks = 3" "scenario_chunks \<noteq> []" by (simp_all add: scenario_chunks_def)
  show ?thesis using ingest_reingest [OF ok first len(2), of 1] len(1) by simp
qed

text \<open>
  The end-to-end scenario of the specification: the three-answer submission is stored
  with three chunks numbered 1--3, and ingesting it again reports the existing record and
  changes nothing.
\<close>

lemma scenario_ingest_twice:
  "let (r1, s1) = ingest_submission 0 scenario_submission init_server;
       (r2, s2) = ingest_submission 1 scenario_submission s1
   in r1 = chunk_response ''stored'' 1 scenario_chunks \<and> length (t_chunks (committed s1)) = 3 \<and>
      r2 = already_exists 1 3 \<and> s2 = s1"
  unfolding numeral_3_eq_3
  by (simp add: ingest_submission_def ingest_apply_def ingest_lookup_def scenario_split ingest_new_def
                Let_def init_server_def empty_tables_def add_chunks_eq commit_def)
     (simp add: scenario_chunks_def chunks_of_def tables_ok_def scenario_source new_submission_row_def)

end
