(* ===== verification/Plagiarism.thy ===== *)
theory Plagiarism
  imports Store Embeddings
begin

text \<open>
  \<open>POST /plagiarism/check/{submission_id}\<close> (\<open>main.py\<close> \<open>plagiarism_check\<close>, lines 145--219).
  The handler reads the chunks of the submission (404 when there are none), gives every chunk
  without a fingerprint one (\<open>ensure_embeddings\<close>, one commit), and then, chunk by chunk
  (\<open>plag_loop\<close>), compares the chunk's fingerprint with the fingerprints of all other chunks
  of the same question number (\<open>plag_others\<close>: the inner join on \<open>ChunkEmbedding\<close>), keeps the
  most similar one (\<open>best_match\<close>), and when its similarity reaches the threshold records a
  \<open>SimilarityResult\<close>, flags the submission and commits. The embedding model
  \<open>local_embedding\<close> is the parameter \<open>encode\<close>; \<open>to_json\<close>/\<open>from_json\<close> store the vector and
  read it back unchanged. The threshold and the similarities are reals. There is no
  \<open>except\<close> clause: a failed commit or a missing fingerprint is an uncaught exception
  (status 500, \<open>ServerError\<close>), with the commits made so far kept.
\<close>

subsection \<open>Fingerprints\<close>

text \<open>Lines 155--160: \<open>db.add(ChunkEmbedding(...))\<close> for each chunk that has none yet.\<close>

fun ensure_embeddings :: "(pystr \<Rightarrow> real list) \<Rightarrow> nat \<Rightarrow> chunk_row list \<Rightarrow> tables \<Rightarrow> nat \<Rightarrow> tables \<times> nat" where
  "ensure_embeddings encode now [] t n = (t, n)"
| "ensure_embeddings encode now (c # cs) t n =
     (case embedding_of t (chunk_id c) of
        Some _ \<Rightarrow> ensure_embeddings encode now cs t n
      | None \<Rightarrow> ensure_embeddings encode now cs
                 (t\<lparr>t_embeddings := t_embeddings t @ [\<lparr>emb_id = n, emb_chunk_id = chunk_id c,
                     emb_vector = encode (chunk_cleaned_text c), emb_created_at = now\<rparr>]\<rparr>) (Suc n))"

subsection \<open>Comparison\<close>

text \<open>Lines 170--176: the other chunks with the same question number, each with its fingerprint.\<close>

definition plag_others :: "tables \<Rightarrow> chunk_row \<Rightarrow> (chunk_row \<times> embedding_row) list" where
  "plag_others t c =
     [(oc, oe). oc \<leftarrow> t_chunks t, oe \<leftarrow> t_embeddings t,
        emb_chunk_id oe = chunk_id oc \<and> chunk_question_no oc = chunk_question_no c \<and> chunk_id oc \<noteq> chunk_id c]"

text \<open>The dict \<open>best\<close> of lines 178--183.\<close>

record plag_match =
  m_other_chunk_id :: nat
  m_similarity :: real
  m_other_submission_id :: nat

fun best_match :: "real list \<Rightarrow> plag_match option \<Rightarrow> (chunk_row \<times> embedding_row) list \<Rightarrow> plag_match option" where
  "best_match v1 best [] = best"
| "best_match v1 best ((oc, oe) # rest) =
     (let sim = cosine_similarity v1 (emb_vector oe)
      in best_match v1
           (if (case best of None \<Rightarrow> True | Some b \<Rightarrow> m_similarity b < sim)
            then Some \<lparr>m_other_chunk_id = chunk_id oc, m_similarity = sim, m_other_submission_id = chunk_submission_id oc\<rparr>
            else best) rest)"

text \<open>\<open>round(x, 4)\<close>, half to even on the reals.\<close>

definition py_round4 :: "real \<Rightarrow> real" where
  "py_round4 x = of_int (py_round (x * 10000)) / 10000"

definition flag_json :: "chunk_row \<Rightarrow> plag_match \<Rightarrow> json" where
  "flag_json c b =
     JObj [(py_str ''chunk_id'', JInt (int (chunk_id c))), (py_str ''question_no'', JInt (int (chunk_question_no c))),
           (py_str ''matched_submission_id'', JInt (int (m_other_submission_id b))),
           (py_str ''matched_chunk_id'', JInt (int (m_other_chunk_id b))),
           (py_str ''similarity'', JFloat (py_round4 (m_similarity b)))]"

definition evidence_note :: "nat \<Rightarrow> nat \<Rightarrow> pystr" where
  "evidence_note q osid =
     py_str ''High similarity on Q'' @ py_str_of_nat q @ py_str '' with submission '' @ py_str_of_nat osid"

text \<open>Lines 204--213: the status update, with its branch for an empty list of flags.\<close>

definition flag_submission :: "nat \<Rightarrow> json list \<Rightarrow> tables \<Rightarrow> tables" where
  "flag_submission sid flags t =
     (case find_submission t sid of
        None \<Rightarrow> t
      | Some _ \<Rightarrow>
          update_submission sid
            (\<lambda>s. if 0 < length flags then s\<lparr>sub_plagiarism_flag := True, sub_status := py_str ''flagged''\<rparr>
                 else s\<lparr>sub_plagiarism_flag := False,
                        sub_status := (if sub_status s = py_str ''flagged'' then py_str ''pending'' else sub_status s)\<rparr>) t)"

definition similarity_row_of :: "nat \<Rightarrow> nat \<Rightarrow> chunk_row \<Rightarrow> plag_match \<Rightarrow> similarity_row" where
  "similarity_row_of k now c b =
     \<lparr>simr_id = k, simr_chunk_id = chunk_id c, simr_matched_chunk_id = m_other_chunk_id b,
      simr_score = m_similarity b, simr_decision = py_str ''flagged'',
      simr_evidence_note = evidence_note (chunk_question_no c) (m_other_submission_id b), simr_created_at = now\<rparr>"

text \<open>Lines 164--214: the loop over the chunks, with a commit after each flagged chunk.\<close>

fun plag_loop :: "nat \<Rightarrow> nat \<Rightarrow> real \<Rightarrow> chunk_row list \<Rightarrow> json list \<Rightarrow> server \<Rightarrow> (py_error + json list) \<times> server" where
  "plag_loop now sid thr [] flags srv = (Inr flags, srv)"
| "plag_loop now sid thr (c # cs) flags srv =
     (case embedding_of (committed srv) (chunk_id c) of
        None \<Rightarrow> (Inl AttributeError, srv)
      | Some cemb \<Rightarrow>
          (case best_match (emb_vector cemb) None (plag_others (committed srv) c) of
             None \<Rightarrow> plag_loop now sid thr cs flags srv
           | Some b \<Rightarrow>
               if thr \<le> m_similarity b then
                 (let flags' = flags @ [flag_json c b];
                      k = seq_similarity (sequences srv);
                      t = committed srv;
                      srv' = srv\<lparr>sequences := (sequences srv)\<lparr>seq_similarity := Suc k\<rparr>\<rparr>
                  in case commit (flag_submission sid flags' (t\<lparr>t_similarity := t_similarity t @ [similarity_row_of k now c b]\<rparr>)) of
                       Inl e \<Rightarrow> (Inl e, srv')
                     | Inr t' \<Rightarrow> plag_loop now sid thr cs flags' (srv'\<lparr>committed := t'\<rparr>))
               else plag_loop now sid thr cs flags srv))"

definition plagiarism_check :: "(pystr \<Rightarrow> real list) \<Rightarrow> nat \<Rightarrow> nat \<Rightarrow> real \<Rightarrow> server \<Rightarrow> response \<times> server" where
  "plagiarism_check encode now sid thr srv =
     (let chunks = chunks_of (committed srv) sid in
      if chunks = [] then (HttpError 404 (py_str ''No chunks found for submission''), srv)
      else
        (let (t1, n) = ensure_embeddings encode now chunks (committed srv) (seq_embedding (sequences srv));
             srv1 = srv\<lparr>sequences := (sequences srv)\<lparr>seq_embedding := n\<rparr>\<rparr>
         in case commit t1 of
              Inl e \<Rightarrow> (ServerError, srv1)
            | Inr t2 \<Rightarrow>
                (case plag_loop now sid thr chunks [] (srv1\<lparr>committed := t2\<rparr>) of
                   (Inl e, srv2) \<Rightarrow> (ServerError, srv2)
                 | (Inr flags, srv2) \<Rightarrow>
                     (JsonResp 200 (JObj [(py_str ''submission_id'', JInt (int sid)), (py_str ''threshold'', JFloat thr),
                        (py_str ''flags'', JList flags), (py_str ''flagged_count'', JInt (int (length flags)))]), srv2))))"

text \<open>A submission row changed only in its flag and status, with a set flag kept set.\<close>

definition sub_kept :: "submission_row \<Rightarrow> submission_row \<Rightarrow> bool" where
  "sub_kept s s' \<longleftrightarrow>
     s' = s\<lparr>sub_plagiarism_flag := sub_plagiarism_flag s', sub_status := sub_status s'\<rparr> \<and>
     (sub_plagiarism_flag s \<longrightarrow> sub_plagiarism_flag s')"

text \<open>A similarity row that links a chunk of \<open>cs\<close> to another chunk of the same question.\<close>

definition sim_row_ok :: "real \<Rightarrow> chunk_row list \<Rightarrow> chunk_row list \<Rightarrow> similarity_row \<Rightarrow> bool" where
  "sim_row_ok thr cs chunks x \<longleftrightarrow>
     (\<exists>c\<in>set cs. \<exists>oc\<in>set chunks. simr_chunk_id x = chunk_id c \<and> simr_matched_chunk_id x = chunk_id oc \<and>
        chunk_question_no oc = chunk_question_no c \<and> chunk_id oc \<noteq> chunk_id c \<and> thr \<le> simr_score x)"

text \<open>What the loop may change: flags and statuses of submissions, new similarity rows, and the similarity sequence.\<close>

definition plag_frame :: "real \<Rightarrow> chunk_row list \<Rightarrow> server \<Rightarrow> server \<Rightarrow> bool" where
  "plag_frame thr cs srv srv' \<longleftrightarrow>
     committed srv' = (committed srv)\<lparr>t_submissions := t_submissions (committed srv'),
                                     t_similarity := t_similarity (committed srv')\<rparr> \<and>
     list_all2 sub_kept (t_submissions (committed srv)) (t_submissions (committed srv')) \<and>
     set (t_similarity (committed srv)) \<subseteq> set (t_similarity (committed srv')) \<and>
     (\<forall>x\<in>set (t_similarity (committed srv')).
        x \<in> set (t_similarity (committed srv)) \<or> sim_row_ok thr cs (t_chunks (committed srv)) x) \<and>
     sequences srv' = (sequences srv)\<lparr>seq_similarity := seq_similarity (sequences srv')\<rparr> \<and>
     seq_similarity (sequences srv) \<le> seq_similarity (sequences srv')"

subsection \<open>A scenario\<close>

text \<open>Two submissions with the same answer to question 1, and an encoder that maps every text to \<open>[1]\<close>.\<close>

definition pair_sub :: "nat \<Rightarrow> bool \<Rightarrow> submission_row" where
  "pair_sub i fl = \<lparr>sub_id = i, sub_moodle_submission_id = Some (int i), sub_assignment_id = 1, sub_course_id = 1,
     sub_student_id = int i, sub_raw_text = None, sub_cleaned_text = None,
     sub_status = py_str (if fl then ''flagged'' else ''pending''), sub_plagiarism_flag = fl, sub_created_at = 0\<rparr>"

definition pair_chunk :: "nat \<Rightarrow> chunk_row" where
  "pair_chunk i = \<lparr>chunk_id = i, chunk_submission_id = i, chunk_question_no = 1,
     chunk_text = py_str ''Services give pods a stable endpoint.'',
     chunk_cleaned_text = py_str ''Services give pods a stable endpoint.'', chunk_created_at = 0\<rparr>"

definition pair_server :: "bool \<Rightarrow> server" where
  "pair_server fl = \<lparr>committed = empty_tables\<lparr>t_submissions := [pair_sub 1 fl, pair_sub 2 False],
                                             t_chunks := [pair_chunk 1, pair_chunk 2]\<rparr>,
     sequences = \<lparr>seq_submission = 3, seq_chunk = 3, seq_embedding = 1, seq_similarity = 1,
                  seq_feedback = 1, seq_history = 1\<rparr>\<rparr>"

definition const_encoder :: "pystr \<Rightarrow> real list" where
  "const_encoder s = [1]"

definition pair_emb :: "nat \<Rightarrow> embedding_row" where
  "pair_emb i = \<lparr>emb_id = i, emb_chunk_id = i, emb_vector = [1], emb_created_at = 0\<rparr>"

subsection \<open>Lemmas on the comparison\<close>

lemma best_match_some: "b \<noteq> None \<Longrightarrow> best_match v b xs \<noteq> None"
  by (induction v b xs rule: best_match.induct) (auto simp: Let_def)

lemma best_match_mem:
  "best_match v b xs = Some m \<Longrightarrow>
     b = Some m \<or> (\<exists>(oc, oe)\<in>set xs. m = \<lparr>m_other_chunk_id = chunk_id oc,
        m_similarity = cosine_similarity v (emb_vector oe), m_other_submission_id = chunk_submission_id oc\<rparr>)"
  by (induction v b xs rule: best_match.induct) (fastforce simp: Let_def split: if_splits)+

lemma best_match_max:
  "best_match v b xs = Some m \<Longrightarrow>
     (\<forall>(oc, oe)\<in>set xs. cosine_similarity v (emb_vector oe) \<le> m_similarity m) \<and>
     (\<forall>b0. b = Some b0 \<longrightarrow> m_similarity b0 \<le> m_similarity m)"
proof (induction v b xs rule: best_match.induct)
  case (1 v1 best)
  then show ?case by simp
next
  case (2 v1 best oc oe rest)
  then show ?case by (fastforce simp: Let_def split: if_splits option.splits)
qed
lemma best_match_None_mem:
  "best_match v None xs = Some m \<Longrightarrow>
     \<exists>(oc, oe)\<in>set xs. m_other_chunk_id m = chunk_id oc \<and> m_similarity m = cosine_similarity v (emb_vector oe) \<and>
        m_other_submission_id m = chunk_submission_id oc"
  by (drule best_match_mem) fastforce

lemma set_plag_others:
  "(oc, oe) \<in> set (plag_others t c) \<longleftrightarrow>
     oc \<in> set (t_chunks t) \<and> oe \<in> set (t_embeddings t) \<and> emb_chunk_id oe = chunk_id oc \<and>
     chunk_question_no oc = chunk_question_no c \<and> chunk_id oc \<noteq> chunk_id c"
  by (auto simp: plag_others_def)
subsection \<open>Lemmas on the fingerprints\<close>

lemma tables_ok_add_embedding:
  assumes "tables_ok t" "\<forall>e\<in>set (t_embeddings t). emb_id e < n"
    "cid \<notin> emb_chunk_id ` set (t_embeddings t)" "cid \<in> chunk_id ` set (t_chunks t)"
  shows "tables_ok (t\<lparr>t_embeddings := t_embeddings t @ [\<lparr>emb_id = n, emb_chunk_id = cid, emb_vector = v, emb_created_at = now\<rparr>]\<rparr>)"
proof -
  have "n \<notin> emb_id ` set (t_embeddings t)" using assms(2) by auto
  then show ?thesis using assms(1,3,4) unfolding tables_ok_def by simp
qed

lemma ensure_embeddings_keep:
  "ensure_embeddings enc now cs t n = (t1, n1) \<Longrightarrow> embedding_of t cid = Some e \<Longrightarrow> embedding_of t1 cid = Some e"
  by (induction enc now cs t n arbitrary: t1 n1 rule: ensure_embeddings.induct)
     (auto simp: embedding_of_append split: option.splits)

lemma ensure_embeddings_covers:
  "ensure_embeddings enc now cs t n = (t1, n1) \<Longrightarrow> c \<in> set cs \<Longrightarrow> embedding_of t1 (chunk_id c) \<noteq> None"
proof (induction enc now cs t n arbitrary: t1 n1 rule: ensure_embeddings.induct)
  case (1 enc now t n)
  then show ?case by simp
next
  case (2 enc now c' cs t n)
  show ?case
  proof (cases "c = c'")
    case True
    show ?thesis
    proof (cases "embedding_of t (chunk_id c')")
      case None
      then have "embedding_of (t\<lparr>t_embeddings := t_embeddings t @ [\<lparr>emb_id = n, emb_chunk_id = chunk_id c',
                     emb_vector = enc (chunk_cleaned_text c'), emb_created_at = now\<rparr>]\<rparr>) (chunk_id c') \<noteq> None"
        using embedding_of_snoc_new [of t "\<lparr>emb_id = n, emb_chunk_id = chunk_id c',
                     emb_vector = enc (chunk_cleaned_text c'), emb_created_at = now\<rparr>"] by simp
      with None "2.prems"(1) True show ?thesis by (auto dest: ensure_embeddings_keep)
    next
      case (Some e)
      with "2.prems"(1) True show ?thesis by (auto dest: ensure_embeddings_keep)
    qed
  next
    case False
    with 2 show ?thesis by (auto split: option.splits)
  qed
qed
lemma ensure_embeddings_frame:
  "ensure_embeddings enc now cs t n = (t1, n1) \<Longrightarrow>
     t1\<lparr>t_embeddings := t_embeddings t\<rparr> = t \<and> (\<exists>new. t_embeddings t1 = t_embeddings t @ new)"
proof (induction enc now cs t n arbitrary: t1 n1 rule: ensure_embeddings.induct)
  case (1 enc now t n)
  then show ?case by simp
next
  case (2 enc now c cs t n)
  show ?case
  proof (cases "embedding_of t (chunk_id c)")
    case None
    let ?e = "\<lparr>emb_id = n, emb_chunk_id = chunk_id c, emb_vector = enc (chunk_cleaned_text c), emb_created_at = now\<rparr>"
    from "2.prems" None have "ensure_embeddings enc now cs (t\<lparr>t_embeddings := t_embeddings t @ [?e]\<rparr>) (Suc n) = (t1, n1)"
      by simp
    from "2.IH"(1) [OF None this] obtain new
      where a: "t1\<lparr>t_embeddings := t_embeddings t @ [?e]\<rparr> = t\<lparr>t_embeddings := t_embeddings t @ [?e]\<rparr>"
        and b: "t_embeddings t1 = (t_embeddings t @ [?e]) @ new" by auto
    from arg_cong [OF a, of "\<lambda>x. x\<lparr>t_embeddings := t_embeddings t\<rparr>"] b show ?thesis by auto
  next
    case (Some e)
    with "2.IH"(2) [OF Some] "2.prems" show ?thesis by simp
  qed
qed

lemma ensure_embeddings_ok:
  "ensure_embeddings enc now cs t n = (t1, n1) \<Longrightarrow> tables_ok t \<Longrightarrow> \<forall>e\<in>set (t_embeddings t). emb_id e < n \<Longrightarrow>
     set cs \<subseteq> set (t_chunks t) \<Longrightarrow> tables_ok t1 \<and> (\<forall>e\<in>set (t_embeddings t1). emb_id e < n1) \<and> n \<le> n1"
proof (induction enc now cs t n arbitrary: t1 n1 rule: ensure_embeddings.induct)
  case (1 enc now t n)
  then show ?case by simp
next
  case (2 enc now c cs t n)
  show ?case
  proof (cases "embedding_of t (chunk_id c)")
    case None
    let ?t = "t\<lparr>t_embeddings := t_embeddings t @ [\<lparr>emb_id = n, emb_chunk_id = chunk_id c,
                     emb_vector = enc (chunk_cleaned_text c), emb_created_at = now\<rparr>]\<rparr>"
    have "tables_ok ?t"
      using "2.prems" None by (intro tables_ok_add_embedding) (auto simp: embedding_of_None)
    moreover have "\<forall>e\<in>set (t_embeddings ?t). emb_id e < Suc n" using "2.prems"(3) by auto
    moreover have "set cs \<subseteq> set (t_chunks ?t)" using "2.prems"(4) by simp
    ultimately show ?thesis using "2.IH"(1) [OF None] "2.prems"(1) None by fastforce
  next
    case (Some e)
    then show ?thesis using "2.IH"(2) [OF Some] "2.prems" by auto
  qed
qed
subsection \<open>Lemmas on the flags\<close>

lemma sub_kept_refl [simp]: "sub_kept s s"
  by (simp add: sub_kept_def)

lemma sub_kept_trans:
  assumes "sub_kept a b" "sub_kept b c"
  shows "sub_kept a c"
proof -
  obtain fb sb where b: "b = a\<lparr>sub_plagiarism_flag := fb, sub_status := sb\<rparr>"
    using assms(1) unfolding sub_kept_def by blast
  obtain fc sc where c: "c = b\<lparr>sub_plagiarism_flag := fc, sub_status := sc\<rparr>"
    using assms(2) unfolding sub_kept_def by blast
  have "c = a\<lparr>sub_plagiarism_flag := sub_plagiarism_flag c, sub_status := sub_status c\<rparr>"
    unfolding c b by simp
  with assms show ?thesis unfolding sub_kept_def by blast
qed

lemma flag_submission_kept:
  assumes "flags \<noteq> []"
  shows "\<exists>subs. flag_submission sid flags t = t\<lparr>t_submissions := subs\<rparr> \<and> list_all2 sub_kept (t_submissions t) subs"
proof (cases "find_submission t sid")
  case None
  show ?thesis by (rule exI [of _ "t_submissions t"]) (simp add: flag_submission_def None list_all2_refl)
next
  case (Some s)
  let ?subs = "map (\<lambda>s. if sub_id s = sid then s\<lparr>sub_plagiarism_flag := True, sub_status := py_str ''flagged''\<rparr> else s)
                 (t_submissions t)"
  have k: "list_all2 sub_kept (t_submissions t) ?subs"
    by (auto simp: list_all2_map2 sub_kept_def intro: list_all2_refl)
  have "flag_submission sid flags t = t\<lparr>t_submissions := ?subs\<rparr>"
    using Some assms by (simp add: flag_submission_def update_submission_def)
  with k show ?thesis by blast
qed

subsection \<open>The frame of the loop\<close>

lemma plag_frame_refl [simp]: "plag_frame thr cs srv srv"
  by (simp add: plag_frame_def list_all2_refl)

lemma plag_frame_trans:
  assumes ab: "plag_frame thr cs a b" and bc: "plag_frame thr cs b c"
  shows "plag_frame thr cs a c"
proof -
  from ab have eb: "committed b = (committed a)\<lparr>t_submissions := t_submissions (committed b),
                                     t_similarity := t_similarity (committed b)\<rparr>"
    and sb: "sequences b = (sequences a)\<lparr>seq_similarity := seq_similarity (sequences b)\<rparr>"
    unfolding plag_frame_def by blast+
  from bc have ec: "committed c = (committed b)\<lparr>t_submissions := t_submissions (committed c),
                                     t_similarity := t_similarity (committed c)\<rparr>"
    and sc: "sequences c = (sequences b)\<lparr>seq_similarity := seq_similarity (sequences c)\<rparr>"
    unfolding plag_frame_def by blast+
  have ch: "t_chunks (committed b) = t_chunks (committed a)" by (subst eb) simp
  have "committed c = (committed a)\<lparr>t_submissions := t_submissions (committed c),
                                     t_similarity := t_similarity (committed c)\<rparr>"
    by (subst ec, subst eb) simp
  moreover have "sequences c = (sequences a)\<lparr>seq_similarity := seq_similarity (sequences c)\<rparr>"
    by (subst sc, subst sb) simp
  moreover have "list_all2 sub_kept (t_submissions (committed a)) (t_submissions (committed c))"
    using ab bc unfolding plag_frame_def by (blast intro: list_all2_trans sub_kept_trans)
  moreover have "\<forall>x\<in>set (t_similarity (committed c)).
        x \<in> set (t_similarity (committed a)) \<or> sim_row_ok thr cs (t_chunks (committed a)) x"
  proof
    fix x assume x: "x \<in> set (t_similarity (committed c))"
    from bc have "x \<in> set (t_similarity (committed b)) \<or> sim_row_ok thr cs (t_chunks (committed b)) x"
      using x unfolding plag_frame_def by blast
    moreover from ab have "\<forall>y\<in>set (t_similarity (committed b)).
        y \<in> set (t_similarity (committed a)) \<or> sim_row_ok thr cs (t_chunks (committed a)) y"
      unfolding plag_frame_def by blast
    ultimately show "x \<in> set (t_similarity (committed a)) \<or> sim_row_ok thr cs (t_chunks (committed a)) x"
      using ch by auto
  qed
  moreover have "set (t_similarity (committed a)) \<subseteq> set (t_similarity (committed c))"
    using ab bc unfolding plag_frame_def by blast
  moreover have "seq_similarity (sequences a) \<le> seq_similarity (sequences c)"
    using ab bc unfolding plag_frame_def by linarith
  ultimately show ?thesis unfolding plag_frame_def by blast
qed

lemma plag_frame_mono: "set cs \<subseteq> set cs' \<Longrightarrow> plag_frame thr cs a b \<Longrightarrow> plag_frame thr cs' a b"
  unfolding plag_frame_def sim_row_ok_def by blast

lemma plag_frame_seq:
  "plag_frame thr cs srv (srv\<lparr>sequences := (sequences srv)\<lparr>seq_similarity := Suc (seq_similarity (sequences srv))\<rparr>\<rparr>)"
  by (simp add: plag_frame_def list_all2_refl)

lemma plag_frame_flag:
  assumes "flags \<noteq> []" "sim_row_ok thr cs (t_chunks (committed srv)) row"
  shows "plag_frame thr cs srv (srv\<lparr>committed := flag_submission sid flags ((committed srv)\<lparr>t_similarity := t_similarity (committed srv) @ [row]\<rparr>)\<rparr>)"
proof -
  obtain subs where "flag_submission sid flags ((committed srv)\<lparr>t_similarity := t_similarity (committed srv) @ [row]\<rparr>) =
                       (committed srv)\<lparr>t_similarity := t_similarity (committed srv) @ [row], t_submissions := subs\<rparr>"
      "list_all2 sub_kept (t_submissions (committed srv)) subs"
    using flag_submission_kept [OF assms(1)] by fastforce
  then show ?thesis using assms(2) by (auto simp: plag_frame_def)
qed
lemma plag_step_row:
  assumes "embedding_of t (chunk_id c) = Some cemb" "best_match (emb_vector cemb) None (plag_others t c) = Some b"
    "thr \<le> m_similarity b"
  shows "sim_row_ok thr (c # cs) (t_chunks t) (similarity_row_of k now c b)"
  using best_match_None_mem [OF assms(2)] assms(3)
  by (fastforce simp: sim_row_ok_def similarity_row_of_def set_plag_others)

lemma plag_loop_frame:
  "plag_loop now sid thr cs flags srv = (r, srv') \<Longrightarrow> plag_frame thr cs srv srv'"
proof (induction now sid thr cs flags srv arbitrary: r srv' rule: plag_loop.induct)
  case (1 now sid thr flags srv)
  then show ?case by simp
next
  case (2 now sid thr c cs flags srv)
  have mono: "plag_frame thr cs a b \<Longrightarrow> plag_frame thr (c # cs) a b" for a b
    by (rule plag_frame_mono [of cs]) auto
  show ?case
  proof (cases "embedding_of (committed srv) (chunk_id c)")
    case None
    with "2.prems" show ?thesis by simp
  next
    case (Some cemb)
    show ?thesis
    proof (cases "best_match (emb_vector cemb) None (plag_others (committed srv) c)")
      case None
      with Some "2.prems" show ?thesis by (auto intro: mono "2.IH"(1) [OF Some None])
    next
      case (Some b)
      note e = \<open>embedding_of (committed srv) (chunk_id c) = Some cemb\<close>
      show ?thesis
      proof (cases "thr \<le> m_similarity b")
        case False
        with e Some "2.prems" show ?thesis by (auto intro: mono "2.IH"(3) [OF e Some])
      next
        case True
        let ?k = "seq_similarity (sequences srv)"
        let ?s1 = "srv\<lparr>sequences := (sequences srv)\<lparr>seq_similarity := Suc ?k\<rparr>\<rparr>"
        let ?t = "flag_submission sid (flags @ [flag_json c b])
                    ((committed srv)\<lparr>t_similarity := t_similarity (committed srv) @ [similarity_row_of ?k now c b]\<rparr>)"
        have f1: "plag_frame thr (c # cs) srv ?s1" by (rule plag_frame_seq)
        show ?thesis
        proof (cases "tables_ok ?t")
          case False
          with e Some True "2.prems" f1 show ?thesis by (simp add: commit_def)
        next
          case ok: True
          have f2: "plag_frame thr (c # cs) ?s1 (?s1\<lparr>committed := ?t\<rparr>)"
            using plag_frame_flag [of "flags @ [flag_json c b]" thr "c # cs" ?s1 "similarity_row_of ?k now c b" sid]
              plag_step_row [OF e Some True] by simp
          have run: "plag_loop now sid thr cs (flags @ [flag_json c b]) (?s1\<lparr>committed := ?t\<rparr>) = (r, srv')"
            using e Some True ok "2.prems" by (simp add: commit_def Let_def)
          have cm: "commit ?t = Inr ?t" using ok by (simp add: commit_def)
          have "plag_frame thr (c # cs) (?s1\<lparr>committed := ?t\<rparr>) srv'"
            by (rule mono, rule "2.IH"(2) [OF e Some True refl refl refl refl cm run])
          with f1 f2 show ?thesis by (blast intro: plag_frame_trans)
        qed
      qed
    qed
  qed
qed
subsection \<open>The loop keeps the store consistent\<close>

lemma sub_kept_fields:
  assumes "sub_kept s s'"
  shows "sub_id s' = sub_id s \<and> sub_moodle_submission_id s' = sub_moodle_submission_id s"
proof -
  obtain f st where "s' = s\<lparr>sub_plagiarism_flag := f, sub_status := st\<rparr>"
    using assms unfolding sub_kept_def by blast
  then show ?thesis by simp
qed

lemma sub_kept_ids:
  "list_all2 sub_kept xs ys \<Longrightarrow>
     map sub_id ys = map sub_id xs \<and> map sub_moodle_submission_id ys = map sub_moodle_submission_id xs"
  by (induction rule: list_all2_induct) (simp_all add: sub_kept_fields)

lemma tables_ok_flag_submission: "tables_ok (flag_submission sid fl t) = tables_ok t"
  by (auto simp: flag_submission_def update_submission_tables_ok split: option.splits)

lemma flag_submission_ids:
  "map sub_id (t_submissions (flag_submission sid fl t)) = map sub_id (t_submissions t) \<and>
   flag_submission sid fl t = t\<lparr>t_submissions := t_submissions (flag_submission sid fl t)\<rparr>"
  by (auto simp: flag_submission_def update_submission_def split: option.splits)

lemma flag_submission_fields [simp]:
  "t_chunks (flag_submission sid fl t) = t_chunks t" "t_embeddings (flag_submission sid fl t) = t_embeddings t"
  "t_similarity (flag_submission sid fl t) = t_similarity t" "t_feedback (flag_submission sid fl t) = t_feedback t"
  "t_history (flag_submission sid fl t) = t_history t" "t_profiles (flag_submission sid fl t) = t_profiles t"
  by (simp_all add: flag_submission_def update_submission_def split: option.split)

lemma tables_ok_add_similarity:
  assumes "tables_ok t" "\<forall>x\<in>set (t_similarity t). simr_id x < k" "c \<in> set (t_chunks t)"
    "m_other_chunk_id b \<in> chunk_id ` set (t_chunks t)"
  shows "tables_ok (t\<lparr>t_similarity := t_similarity t @ [similarity_row_of k now c b]\<rparr>)"
proof -
  have "k \<notin> simr_id ` set (t_similarity t)" using assms(2) by auto
  then show ?thesis using assms(1,3,4) unfolding tables_ok_def by (simp add: similarity_row_of_def)
qed

lemma seqs_ok_frame:
  assumes "seqs_ok srv"
    "sub_id ` set (t_submissions t') \<subseteq> sub_id ` set (t_submissions (committed srv))"
    "t_chunks t' = t_chunks (committed srv)" "t_feedback t' = t_feedback (committed srv)"
    "t_history t' = t_history (committed srv)"
    "\<forall>x\<in>set (t_embeddings t'). emb_id x < seq_embedding q"
    "\<forall>x\<in>set (t_similarity t'). simr_id x < seq_similarity q"
    "seq_submission q = seq_submission (sequences srv)" "seq_chunk q = seq_chunk (sequences srv)"
    "seq_feedback q = seq_feedback (sequences srv)" "seq_history q = seq_history (sequences srv)"
  shows "seqs_ok (srv\<lparr>sequences := q, committed := t'\<rparr>)"
proof -
  have "\<forall>r\<in>set (t_submissions t'). sub_id r < seq_submission q"
  proof
    fix r assume "r \<in> set (t_submissions t')"
    with assms(2) obtain r0 where "r0 \<in> set (t_submissions (committed srv))" "sub_id r = sub_id r0" by blast
    with assms(1,8) show "sub_id r < seq_submission q" by (simp add: seqs_ok_def)
  qed
  then show ?thesis using assms unfolding seqs_ok_def by simp
qed

lemma seqs_ok_flag_step:
  assumes "seqs_ok srv"
  shows "seqs_ok (srv\<lparr>sequences := (sequences srv)\<lparr>seq_similarity := Suc (seq_similarity (sequences srv))\<rparr>,
            committed := flag_submission sid fl ((committed srv)\<lparr>t_similarity :=
               t_similarity (committed srv) @ [similarity_row_of (seq_similarity (sequences srv)) now c b]\<rparr>)\<rparr>)"
proof (rule seqs_ok_frame [OF assms])
  let ?t = "(committed srv)\<lparr>t_similarity := t_similarity (committed srv) @ [similarity_row_of (seq_similarity (sequences srv)) now c b]\<rparr>"
  show "sub_id ` set (t_submissions (flag_submission sid fl ?t)) \<subseteq> sub_id ` set (t_submissions (committed srv))"
    using flag_submission_ids [of sid fl ?t] by (metis list.set_map order_refl tables.select_convs(1) tables.surjective tables.update_convs(4))
  show "\<forall>x\<in>set (t_similarity (flag_submission sid fl ?t)). simr_id x < seq_similarity ((sequences srv)\<lparr>seq_similarity := Suc (seq_similarity (sequences srv))\<rparr>)"
    using assms by (auto simp: seqs_ok_def similarity_row_of_def)
qed (insert assms, simp_all add: seqs_ok_def)
lemma plag_flag_commit_ok:
  assumes "tables_ok (committed srv)" "seqs_ok srv" "c \<in> set (t_chunks (committed srv))"
    "best_match v None (plag_others (committed srv) c) = Some b"
  shows "tables_ok (flag_submission sid fl ((committed srv)\<lparr>t_similarity :=
            t_similarity (committed srv) @ [similarity_row_of (seq_similarity (sequences srv)) now c b]\<rparr>))"
proof -
  have "m_other_chunk_id b \<in> chunk_id ` set (t_chunks (committed srv))"
    using best_match_None_mem [OF assms(4)] by (auto simp: set_plag_others)
  then show ?thesis using assms(1-3)
    by (simp add: tables_ok_flag_submission tables_ok_add_similarity seqs_ok_def)
qed

lemma plag_loop_ok:
  "plag_loop now sid thr cs flags srv = (r, srv') \<Longrightarrow> tables_ok (committed srv) \<Longrightarrow> seqs_ok srv \<Longrightarrow>
     set cs \<subseteq> set (t_chunks (committed srv)) \<Longrightarrow> \<forall>c\<in>set cs. embedding_of (committed srv) (chunk_id c) \<noteq> None \<Longrightarrow>
     (\<exists>fl. r = Inr fl) \<and> tables_ok (committed srv') \<and> seqs_ok srv'"
proof (induction now sid thr cs flags srv arbitrary: r srv' rule: plag_loop.induct)
  case (1 now sid thr flags srv)
  then show ?case by auto
next
  case (2 now sid thr c cs flags srv)
  from "2.prems"(5) obtain cemb where e: "embedding_of (committed srv) (chunk_id c) = Some cemb" by auto
  show ?case
  proof (cases "best_match (emb_vector cemb) None (plag_others (committed srv) c)")
    case None
    with e "2.prems" show ?thesis by (intro "2.IH"(1) [OF e None]) simp_all
  next
    case (Some b)
    show ?thesis
    proof (cases "thr \<le> m_similarity b")
      case False
      with e Some "2.prems" show ?thesis by (intro "2.IH"(3) [OF e Some False]) simp_all
    next
      case True
      let ?k = "seq_similarity (sequences srv)"
      let ?t = "flag_submission sid (flags @ [flag_json c b])
                  ((committed srv)\<lparr>t_similarity := t_similarity (committed srv) @ [similarity_row_of ?k now c b]\<rparr>)"
      let ?s = "srv\<lparr>sequences := (sequences srv)\<lparr>seq_similarity := Suc ?k\<rparr>, committed := ?t\<rparr>"
      have ok: "tables_ok ?t" using plag_flag_commit_ok [OF "2.prems"(2,3) _ Some] "2.prems"(4) by simp
      then have cm: "commit ?t = Inr ?t" by (simp add: commit_def)
      have run: "plag_loop now sid thr cs (flags @ [flag_json c b]) ?s = (r, srv')"
        using e Some True ok "2.prems"(1) by (simp add: commit_def Let_def)
      have "seqs_ok ?s" by (rule seqs_ok_flag_step [OF "2.prems"(3)])
      with ok "2.prems"(4,5) show ?thesis
        by (intro "2.IH"(2) [OF e Some True refl refl refl refl cm run]) (simp_all add: embedding_of_def)
    qed
  qed
qed
subsection \<open>The handler\<close>

lemma ensure_embeddings_fields:
  assumes "ensure_embeddings enc now cs t n = (t1, n1)"
  shows "t_submissions t1 = t_submissions t \<and> t_chunks t1 = t_chunks t \<and> t_similarity t1 = t_similarity t \<and>
     t_feedback t1 = t_feedback t \<and> t_history t1 = t_history t \<and> t_profiles t1 = t_profiles t"
proof -
  obtain X where "t = t1\<lparr>t_embeddings := X\<rparr>"
    using ensure_embeddings_frame [OF assms] by metis
  then show ?thesis by simp
qed

lemma plag_ensure_ok:
  assumes ok: "server_ok srv" and en: "ensure_embeddings enc now cs (committed srv) (seq_embedding (sequences srv)) = (t1, n)"
    and sub: "set cs \<subseteq> set (t_chunks (committed srv))"
  shows "tables_ok t1 \<and> seqs_ok (srv\<lparr>sequences := (sequences srv)\<lparr>seq_embedding := n\<rparr>, committed := t1\<rparr>) \<and>
         moodle_ids_distinct t1"
proof -
  have t: "tables_ok (committed srv)" and s: "seqs_ok srv" and m: "moodle_ids_distinct (committed srv)"
    using ok by (simp_all add: server_ok_def)
  have e: "\<forall>e\<in>set (t_embeddings (committed srv)). emb_id e < seq_embedding (sequences srv)"
    using s by (simp add: seqs_ok_def)
  note f = ensure_embeddings_fields [OF en]
  from ensure_embeddings_ok [OF en t e sub]
  have ok1: "tables_ok t1" and ids: "\<forall>e\<in>set (t_embeddings t1). emb_id e < n" by blast+
  have sim: "\<forall>x\<in>set (t_similarity (committed srv)). simr_id x < seq_similarity (sequences srv)"
    using s by (simp add: seqs_ok_def)
  have s1: "seqs_ok (srv\<lparr>sequences := (sequences srv)\<lparr>seq_embedding := n\<rparr>, committed := t1\<rparr>)"
  proof (rule seqs_ok_frame [OF s])
    show "sub_id ` set (t_submissions t1) \<subseteq> sub_id ` set (t_submissions (committed srv))" using f by simp
    show "\<forall>x\<in>set (t_similarity t1). simr_id x < seq_similarity ((sequences srv)\<lparr>seq_embedding := n\<rparr>)"
      using f sim by simp
  qed (insert f ids, simp_all)
  have "moodle_ids_distinct t1" using m f by (simp add: moodle_ids_distinct_def)
  with ok1 s1 show ?thesis by blast
qed

lemma plagiarism_check_run:
  assumes ok: "server_ok srv" and ne: "chunks_of (committed srv) sid \<noteq> []"
    and en: "ensure_embeddings enc now (chunks_of (committed srv) sid) (committed srv) (seq_embedding (sequences srv)) = (t1, n)"
    and run: "plagiarism_check enc now sid thr srv = (r, srv')"
  obtains fl where "plag_loop now sid thr (chunks_of (committed srv) sid) []
                      (srv\<lparr>sequences := (sequences srv)\<lparr>seq_embedding := n\<rparr>, committed := t1\<rparr>) = (Inr fl, srv')"
    "r = JsonResp 200 (JObj [(py_str ''submission_id'', JInt (int sid)), (py_str ''threshold'', JFloat thr),
                        (py_str ''flags'', JList fl), (py_str ''flagged_count'', JInt (int (length fl)))])"
proof -
  let ?cs = "chunks_of (committed srv) sid"
  let ?s1 = "srv\<lparr>sequences := (sequences srv)\<lparr>seq_embedding := n\<rparr>, committed := t1\<rparr>"
  have sub: "set ?cs \<subseteq> set (t_chunks (committed srv))" by (auto simp: chunks_of_def)
  note e1 = plag_ensure_ok [OF ok en sub]
  have cov: "\<forall>c\<in>set ?cs. embedding_of t1 (chunk_id c) \<noteq> None"
    using ensure_embeddings_covers [OF en] by blast
  obtain res srv2 where lp: "plag_loop now sid thr ?cs [] ?s1 = (res, srv2)" by fastforce
  from plag_loop_ok [OF lp] e1 sub cov ensure_embeddings_fields [OF en] obtain fl where "res = Inr fl"
    by auto
  with lp run ne en e1 show ?thesis using that by (simp add: plagiarism_check_def commit_def)
qed

lemma tables_ok_same_question:
  assumes "tables_ok t" "c \<in> set (t_chunks t)" "oc \<in> set (t_chunks t)"
    "chunk_question_no oc = chunk_question_no c" "chunk_id oc \<noteq> chunk_id c"
  shows "chunk_submission_id oc \<noteq> chunk_submission_id c"
proof
  assume "chunk_submission_id oc = chunk_submission_id c"
  moreover have "inj_on (\<lambda>c. (chunk_submission_id c, chunk_question_no c)) (set (t_chunks t))"
    using assms(1) by (simp add: tables_ok_def distinct_map)
  ultimately have "oc = c" using assms(2-4) by (auto dest: inj_onD)
  with assms(5) show False by simp
qed

lemma sub_kept_flag: "sub_kept s s' \<Longrightarrow> sub_plagiarism_flag s \<Longrightarrow> sub_plagiarism_flag s'"
  by (simp add: sub_kept_def)

lemma list_all2_sub_kept_flag:
  "list_all2 sub_kept xs ys \<Longrightarrow> s \<in> set xs \<Longrightarrow> sub_plagiarism_flag s \<Longrightarrow>
     \<exists>s'\<in>set ys. sub_id s' = sub_id s \<and> sub_plagiarism_flag s'"
  by (induction rule: list_all2_induct) (auto dest: sub_kept_fields sub_kept_flag)

lemma plag_frame_committed:
  "plag_frame thr cs srv srv' \<Longrightarrow>
     t_chunks (committed srv') = t_chunks (committed srv) \<and> t_embeddings (committed srv') = t_embeddings (committed srv)"
  unfolding plag_frame_def by (metis tables.select_convs(2,3) tables.surjective tables.update_convs(1,4))

text \<open>The run of the handler on a consistent store, with its intermediate states named.\<close>

lemma plagiarism_check_cases:
  assumes ok: "server_ok srv" and chk: "plagiarism_check enc now sid thr srv = (r, srv')"
  obtains (none) "chunks_of (committed srv) sid = []" "r = HttpError 404 (py_str ''No chunks found for submission'')" "srv' = srv"
  | (run) t1 n fl where "ensure_embeddings enc now (chunks_of (committed srv) sid) (committed srv) (seq_embedding (sequences srv)) = (t1, n)"
      "plag_loop now sid thr (chunks_of (committed srv) sid) []
         (srv\<lparr>sequences := (sequences srv)\<lparr>seq_embedding := n\<rparr>, committed := t1\<rparr>) = (Inr fl, srv')"
      "tables_ok t1" "seqs_ok (srv\<lparr>sequences := (sequences srv)\<lparr>seq_embedding := n\<rparr>, committed := t1\<rparr>)"
      "moodle_ids_distinct t1"
      "r = JsonResp 200 (JObj [(py_str ''submission_id'', JInt (int sid)), (py_str ''threshold'', JFloat thr),
                        (py_str ''flags'', JList fl), (py_str ''flagged_count'', JInt (int (length fl)))])"
proof (cases "chunks_of (committed srv) sid = []")
  case True
  have "r = HttpError 404 (py_str ''No chunks found for submission'') \<and> srv' = srv"
    using True chk by (simp add: plagiarism_check_def)
  with True show ?thesis using that(1) by blast
next
  case False
  obtain t1 n where en: "ensure_embeddings enc now (chunks_of (committed srv) sid) (committed srv) (seq_embedding (sequences srv)) = (t1, n)"
    by fastforce
  have "set (chunks_of (committed srv) sid) \<subseteq> set (t_chunks (committed srv))" by (auto simp: chunks_of_def)
  note e1 = plag_ensure_ok [OF ok en this]
  from plagiarism_check_run [OF ok False en chk] obtain fl where
    "plag_loop now sid thr (chunks_of (committed srv) sid) []
       (srv\<lparr>sequences := (sequences srv)\<lparr>seq_embedding := n\<rparr>, committed := t1\<rparr>) = (Inr fl, srv')"
    "r = JsonResp 200 (JObj [(py_str ''submission_id'', JInt (int sid)), (py_str ''threshold'', JFloat thr),
                        (py_str ''flags'', JList fl), (py_str ''flagged_count'', JInt (int (length fl)))])"
    by blast
  with e1 en show ?thesis using that(2) by blast
qed

lemma plag_loop_pre:
  assumes "ensure_embeddings enc now (chunks_of t sid) t n0 = (t1, n)"
  shows "set (chunks_of t sid) \<subseteq> set (t_chunks t1) \<and> (\<forall>c\<in>set (chunks_of t sid). embedding_of t1 (chunk_id c) \<noteq> None)"
  using ensure_embeddings_fields [OF assms] ensure_embeddings_covers [OF assms] by (auto simp: chunks_of_def)

lemma map_filter_via_map: "List.map_filter f xs = map the (filter (\<lambda>y. y \<noteq> None) (map f xs))"
  by (induction xs) (auto simp: List.map_filter_simps split: option.split)

lemma pair_server_ok: "server_ok (pair_server fl)"
  by (simp add: server_ok_def tables_ok_def seqs_ok_def moodle_ids_distinct_def pair_server_def
                empty_tables_def pair_sub_def pair_chunk_def)

lemma pair_first_state:
  "snd (plagiarism_check const_encoder 0 1 (9/10) (pair_server False)) =
     \<lparr>committed = (committed (pair_server False))\<lparr>t_embeddings := [pair_emb 1]\<rparr>,
      sequences = (sequences (pair_server False))\<lparr>seq_embedding := 2\<rparr>\<rparr>"
  by (simp add: plagiarism_check_def pair_server_def empty_tables_def chunks_of_def pair_chunk_def embedding_of_def
                commit_def tables_ok_def pair_sub_def plag_others_def pair_emb_def const_encoder_def)

text \<open>Without fingerprints of other submissions there is nothing to compare with.\<close>

lemma ensure_embeddings_new_rows:
  "ensure_embeddings enc now cs t n = (t1, n1) \<Longrightarrow> e \<in> set (t_embeddings t1) \<Longrightarrow>
     e \<in> set (t_embeddings t) \<or> (\<exists>c\<in>set cs. emb_chunk_id e = chunk_id c)"
  by (induction enc now cs t n arbitrary: t1 n1 rule: ensure_embeddings.induct)
     (fastforce split: option.splits)+

lemma plag_loop_no_others:
  "\<forall>c\<in>set cs. plag_others (committed srv) c = [] \<Longrightarrow> plag_loop now sid thr cs flags srv = (r, srv') \<Longrightarrow>
     srv' = srv \<and> (r = Inr flags \<or> r = Inl AttributeError)"
  by (induction cs arbitrary: r) (auto split: option.splits)

lemma plag_others_unfingerprinted:
  assumes ok: "tables_ok t1" and ch: "t_chunks t1 = t_chunks t"
    and c: "c \<in> set (t_chunks t)" "chunk_submission_id c = sid"
    and emb: "\<forall>e\<in>set (t_embeddings t1). \<forall>oc\<in>set (t_chunks t). emb_chunk_id e = chunk_id oc \<longrightarrow> chunk_submission_id oc = sid"
  shows "plag_others t1 c = []"
proof (rule ccontr)
  assume "plag_others t1 c \<noteq> []"
  then obtain oc oe where "(oc, oe) \<in> set (plag_others t1 c)" by (cases "plag_others t1 c") auto
  then have o: "oc \<in> set (t_chunks t)" "oe \<in> set (t_embeddings t1)" "emb_chunk_id oe = chunk_id oc"
      "chunk_question_no oc = chunk_question_no c" "chunk_id oc \<noteq> chunk_id c"
    using ch by (simp_all add: set_plag_others)
  have "chunk_submission_id oc \<noteq> chunk_submission_id c"
    using tables_ok_same_question [OF ok] c(1) o(1,4,5) ch by simp
  with emb o(1-3) c(2) show False by blast
qed

subsection \<open>Properties of the plagiarism check\<close>

text \<open>
  C4: On a consistent store (keys unique, the uniqueness constraints and foreign keys of the
  schema hold, sequences ahead of every key, Moodle ids distinct) the plagiarism check never
  fails with an uncaught exception, and it leaves the store consistent: every commit it makes
  passes the schema's checks.
\<close>

theorem plagiarism_check_server_ok:
  assumes "server_ok srv" "plagiarism_check enc now sid thr srv = (r, srv')"
  shows "server_ok srv' \<and> r \<noteq> ServerError"
  using assms
proof (cases rule: plagiarism_check_cases)
  case none
  then show ?thesis using assms(1) by simp
next
  case (run t1 n fl)
  note pre = plag_loop_pre [OF run(1)]
  have "tables_ok (committed srv') \<and> seqs_ok srv'"
    using plag_loop_ok [OF run(2)] run(3,4) pre by simp
  moreover have "list_all2 sub_kept (t_submissions t1) (t_submissions (committed srv'))"
    using plag_loop_frame [OF run(2)] by (simp add: plag_frame_def)
  then have "moodle_ids_distinct (committed srv')"
    using run(5) sub_kept_ids [of "t_submissions t1" "t_submissions (committed srv')"]
    by (simp only: moodle_ids_distinct_def map_filter_via_map)
  ultimately show ?thesis using run(6) by (simp add: server_ok_def)
qed

theorem plagiarism_check_server_ok_witness:
  "server_ok (snd (plagiarism_check const_encoder 0 1 (9/10) (pair_server False))) \<and>
   fst (plagiarism_check const_encoder 0 1 (9/10) (pair_server False)) \<noteq> ServerError"
  by (rule plagiarism_check_server_ok [OF pair_server_ok surjective_pairing])

text \<open>
  C5: Every similarity row the check records links a chunk of the checked submission to a
  chunk of the same question number from a different submission, with a score at least the
  threshold (specification section 6: chunks of one submission and chunks of different
  question numbers are never compared). The code's query excludes only the chunk itself; the
  constraint \<open>uq_submission_question\<close> is what rules out a chunk of the same submission.
\<close>

theorem plagiarism_check_matches:
  assumes "server_ok srv" "plagiarism_check enc now sid thr srv = (r, srv')"
    "x \<in> set (t_similarity (committed srv'))" "x \<notin> set (t_similarity (committed srv))"
  shows "\<exists>c\<in>set (t_chunks (committed srv)). \<exists>oc\<in>set (t_chunks (committed srv)).
           simr_chunk_id x = chunk_id c \<and> chunk_submission_id c = sid \<and>
           simr_matched_chunk_id x = chunk_id oc \<and> chunk_question_no oc = chunk_question_no c \<and>
           chunk_submission_id oc \<noteq> sid \<and> thr \<le> simr_score x"
  using assms(1,2)
proof (cases rule: plagiarism_check_cases)
  case none
  then show ?thesis using assms(3,4) by simp
next
  case (run t1 n fl)
  note f = ensure_embeddings_fields [OF run(1)]
  have "sim_row_ok thr (chunks_of (committed srv) sid) (t_chunks (committed srv)) x"
    using plag_loop_frame [OF run(2)] assms(3,4) f unfolding plag_frame_def by auto
  then obtain c oc where c: "c \<in> set (chunks_of (committed srv) sid)" and oc: "oc \<in> set (t_chunks (committed srv))"
    and x: "simr_chunk_id x = chunk_id c" "simr_matched_chunk_id x = chunk_id oc"
      "chunk_question_no oc = chunk_question_no c" "chunk_id oc \<noteq> chunk_id c" "thr \<le> simr_score x"
    unfolding sim_row_ok_def by blast
  from c have c': "c \<in> set (t_chunks (committed srv))" "chunk_submission_id c = sid" by (auto simp: chunks_of_def)
  have "chunk_submission_id oc \<noteq> chunk_submission_id c"
    using assms(1) c'(1) oc x(3,4) by (intro tables_ok_same_question) (simp_all add: server_ok_def)
  with c' oc x show ?thesis by auto
qed

theorem plagiarism_check_matches_witness:
  "\<exists>oc. oc \<in> set (t_chunks (committed (pair_server False))) \<and> chunk_submission_id oc \<noteq> 2 \<and>
        chunk_id oc = simr_matched_chunk_id (similarity_row_of 1 0 (pair_chunk 2) \<lparr>m_other_chunk_id = 1, m_similarity = 1, m_other_submission_id = 1\<rparr>)"
proof -
  let ?s1 = "snd (plagiarism_check const_encoder 0 1 (9/10) (pair_server False))"
  let ?s2 = "snd (plagiarism_check const_encoder 0 2 (9/10) ?s1)"
  let ?x = "similarity_row_of 1 0 (pair_chunk 2) \<lparr>m_other_chunk_id = 1, m_similarity = 1, m_other_submission_id = 1\<rparr>"
  have ok: "server_ok ?s1"
    unfolding pair_first_state
    by (simp add: server_ok_def tables_ok_def seqs_ok_def moodle_ids_distinct_def pair_server_def
                  empty_tables_def pair_sub_def pair_chunk_def pair_emb_def)
  have "?x \<in> set (t_similarity (committed ?s2))"
    unfolding pair_first_state
    by (simp add: plagiarism_check_def pair_server_def empty_tables_def chunks_of_def pair_chunk_def embedding_of_def
                commit_def tables_ok_def pair_sub_def plag_others_def cosine_similarity_def norm2_def dot_def
                const_encoder_def flag_submission_def find_submission_def update_submission_def Let_def
                similarity_row_of_def pair_emb_def)
  moreover have "?x \<notin> set (t_similarity (committed ?s1))"
    unfolding pair_first_state by (simp add: pair_server_def empty_tables_def)
  ultimately have "\<exists>c\<in>set (t_chunks (committed ?s1)). \<exists>oc\<in>set (t_chunks (committed ?s1)).
           simr_chunk_id ?x = chunk_id c \<and> chunk_submission_id c = 2 \<and>
           simr_matched_chunk_id ?x = chunk_id oc \<and> chunk_question_no oc = chunk_question_no c \<and>
           chunk_submission_id oc \<noteq> 2 \<and> 9/10 \<le> simr_score ?x"
    by (rule plagiarism_check_matches [OF ok surjective_pairing])
  then show ?thesis unfolding pair_first_state by auto
qed

text \<open>
  C6: Fingerprints are a cache: one that exists is never recomputed or replaced, and after
  the check every chunk of the submission has one (specification section 3, Fingerprint).
\<close>

theorem plagiarism_check_fingerprints:
  assumes "server_ok srv" "plagiarism_check enc now sid thr srv = (r, srv')"
  shows "(embedding_of (committed srv) cid = Some e \<longrightarrow> embedding_of (committed srv') cid = Some e) \<and>
         (\<forall>c\<in>set (chunks_of (committed srv) sid). embedding_of (committed srv') (chunk_id c) \<noteq> None)"
  using assms
proof (cases rule: plagiarism_check_cases)
  case none
  then show ?thesis by simp
next
  case (run t1 n fl)
  have "t_embeddings (committed srv') = t_embeddings t1"
    using plag_frame_committed [OF plag_loop_frame [OF run(2)]] by simp
  then have "embedding_of (committed srv') = embedding_of t1" by (simp add: embedding_of_def fun_eq_iff)
  then show ?thesis using ensure_embeddings_keep [OF run(1)] plag_loop_pre [OF run(1)] by simp
qed

theorem plagiarism_check_fingerprints_witness:
  "embedding_of (committed (snd (plagiarism_check const_encoder 0 2 (9/10) (snd (plagiarism_check const_encoder 0 1 (9/10) (pair_server False)))))) 1
     = Some (pair_emb 1)"
proof -
  let ?s1 = "snd (plagiarism_check const_encoder 0 1 (9/10) (pair_server False))"
  have ok: "server_ok ?s1"
    unfolding pair_first_state
    by (simp add: server_ok_def tables_ok_def seqs_ok_def moodle_ids_distinct_def pair_server_def
                  empty_tables_def pair_sub_def pair_chunk_def pair_emb_def)
  have "embedding_of (committed ?s1) 1 = Some (pair_emb 1)"
    unfolding pair_first_state by (simp add: embedding_of_def pair_emb_def)
  then show ?thesis using plagiarism_check_fingerprints [OF ok surjective_pairing] by blast
qed

text \<open>
  C7: A plagiarism flag is never cleared by a check, whatever the threshold: the
  clearing branch of lines 210--213 runs only when \<open>flags\<close> is empty, and it is reached only
  right after a flag was appended.
\<close>

theorem plagiarism_check_flag_kept:
  assumes "server_ok srv" "plagiarism_check enc now sid thr srv = (r, srv')"
    "s \<in> set (t_submissions (committed srv))" "sub_plagiarism_flag s"
  shows "\<exists>s'\<in>set (t_submissions (committed srv')). sub_id s' = sub_id s \<and> sub_plagiarism_flag s'"
  using assms(1,2)
proof (cases rule: plagiarism_check_cases)
  case none
  then show ?thesis using assms(3,4) by blast
next
  case (run t1 n fl)
  have "list_all2 sub_kept (t_submissions (committed srv)) (t_submissions (committed srv'))"
    using plag_loop_frame [OF run(2)] ensure_embeddings_fields [OF run(1)] by (simp add: plag_frame_def)
  then show ?thesis using assms(3,4) by (rule list_all2_sub_kept_flag)
qed

theorem plagiarism_check_flag_kept_witness:
  "\<exists>s'. s' \<in> set (t_submissions (committed (snd (plagiarism_check const_encoder 0 1 2 (pair_server True))))) \<and>
       sub_id s' = 1 \<and> sub_plagiarism_flag s'"
proof -
  have "pair_sub 1 True \<in> set (t_submissions (committed (pair_server True)))" by (simp add: pair_server_def)
  from plagiarism_check_flag_kept [where enc = const_encoder and now = 0 and sid = 1 and thr = 2,
                                   OF pair_server_ok surjective_pairing this]
  show ?thesis by (auto simp: pair_sub_def)
qed

text \<open>
  C8: The check compares only with chunks that already have a fingerprint (the inner join of
  lines 171--172), so its outcome depends on the order of checks: on any consistent store in
  which no chunk of another submission has a fingerprint yet, the check records no similarity
  row, leaves every submission (flag and status) as it was, and reports no flags, even when
  another submission holds the same answer. That submission is flagged only when it is checked
  later, against the fingerprints this check has stored.
\<close>

theorem plagiarism_check_unfingerprinted:
  assumes ok: "server_ok srv" and chk: "plagiarism_check enc now sid thr srv = (r, srv')"
    and others: "\<forall>oc\<in>set (t_chunks (committed srv)). chunk_submission_id oc \<noteq> sid \<longrightarrow>
                   embedding_of (committed srv) (chunk_id oc) = None"
  shows "t_similarity (committed srv') = t_similarity (committed srv) \<and>
         t_submissions (committed srv') = t_submissions (committed srv) \<and>
         (r = HttpError 404 (py_str ''No chunks found for submission'') \<or>
          r = JsonResp 200 (JObj [(py_str ''submission_id'', JInt (int sid)), (py_str ''threshold'', JFloat thr),
                (py_str ''flags'', JList []), (py_str ''flagged_count'', JInt 0)]))"
  using ok chk
proof (cases rule: plagiarism_check_cases)
  case none
  then show ?thesis by simp
next
  case (run t1 n fl)
  let ?t = "committed srv"
  note fr = ensure_embeddings_frame [OF run(1)]
  have ch: "t_chunks t1 = t_chunks ?t" "t_similarity t1 = t_similarity ?t" "t_submissions t1 = t_submissions ?t"
    using arg_cong [OF conjunct1 [OF fr], of t_chunks] arg_cong [OF conjunct1 [OF fr], of t_similarity]
      arg_cong [OF conjunct1 [OF fr], of t_submissions] by simp_all
  have okt: "tables_ok ?t" using ok by (simp add: server_ok_def)
  have emb: "\<forall>e\<in>set (t_embeddings t1). \<forall>oc\<in>set (t_chunks ?t). emb_chunk_id e = chunk_id oc \<longrightarrow> chunk_submission_id oc = sid"
  proof (intro ballI impI)
    fix e oc assume e: "e \<in> set (t_embeddings t1)" and oc: "oc \<in> set (t_chunks ?t)" and eq: "emb_chunk_id e = chunk_id oc"
    show "chunk_submission_id oc = sid"
    proof (cases "e \<in> set (t_embeddings ?t)")
      case True
      then have "chunk_id oc \<in> emb_chunk_id ` set (t_embeddings ?t)" using eq by (metis image_eqI)
      then have "embedding_of ?t (chunk_id oc) \<noteq> None" by (simp add: embedding_of_None)
      moreover have "chunk_submission_id oc \<noteq> sid \<longrightarrow> embedding_of ?t (chunk_id oc) = None"
        using others oc by (rule bspec)
      ultimately show ?thesis by auto
    next
      case False
      then obtain c where c: "c \<in> set (chunks_of ?t sid)" "emb_chunk_id e = chunk_id c"
        using ensure_embeddings_new_rows [OF run(1) e] by blast
      then have "c \<in> set (t_chunks ?t)" "chunk_submission_id c = sid" by (auto simp: chunks_of_def)
      moreover have "inj_on chunk_id (set (t_chunks ?t))" using okt by (simp add: tables_ok_def distinct_map)
      ultimately have "oc = c" using oc eq c(2) by (auto dest: inj_onD)
      with \<open>chunk_submission_id c = sid\<close> show ?thesis by simp
    qed
  qed
  have "\<forall>c\<in>set (chunks_of ?t sid). plag_others t1 c = []"
    using plag_others_unfingerprinted [OF run(3) ch(1) _ _ emb] by (auto simp: chunks_of_def)
  from plag_loop_no_others [OF _ run(2)] this have "fl = [] \<and> committed srv' = t1" by simp
  with run(6) ch show ?thesis by simp
qed

theorem plagiarism_check_unfingerprinted_witness:
  "t_similarity (committed (snd (plagiarism_check const_encoder 0 1 (9/10) (pair_server False)))) = [] \<and>
   t_submissions (committed (snd (plagiarism_check const_encoder 0 1 (9/10) (pair_server False)))) =
     [pair_sub 1 False, pair_sub 2 False]"
proof -
  have "\<forall>oc\<in>set (t_chunks (committed (pair_server False))). chunk_submission_id oc \<noteq> 1 \<longrightarrow>
          embedding_of (committed (pair_server False)) (chunk_id oc) = None"
    by (simp add: pair_server_def empty_tables_def embedding_of_def)
  from plagiarism_check_unfingerprinted [OF pair_server_ok surjective_pairing this]
  show ?thesis by (simp add: pair_server_def empty_tables_def)
qed
end
