(* ===== verification/Feedback.thy ===== *)
theory Feedback
  imports Store Grading Multi_Agent
begin

text \<open>
  The grading handlers of \<open>main.py\<close>: \<open>POST /grade/{submission_id}\<close> (\<open>grade_submission\<close>,
  lines 222--261), which stores the heuristic grade, \<open>POST /llm/grade/{submission_id}\<close>
  (\<open>llm_grade_submission\<close>, lines 264--324), which stores the reply of one model call, and
  \<open>POST /llm/multi_grade/{submission_id}\<close> (\<open>llm_multi_grade\<close>, lines 326--417), which runs the
  multi-agent pipeline with the student's profile as context, records the concept scores,
  updates the profile and stores the result. All three catch every exception, the \<open>HTTPException(404)\<close> included, roll the session back and
  answer status 500. The provider \<open>get_llm()\<close> is the parameter \<open>llm\<close> of
  \<open>run_multi_agent\<close>. A text column holding \<open>str(v)\<close> holds the value \<open>v\<close>; the feedback text
  column takes the string \<open>feedback_text\<close>, and a value that is no string is an error when
  the row is written (the adaption of other Python values by the database driver is not
  modelled).
\<close>

subsection \<open>Helpers\<close>

text \<open>\<open>{c.question_no: c.cleaned_text for c in chunks}\<close>: a later chunk of the same number wins.\<close>

definition qmap_of :: "chunk_row list \<Rightarrow> (nat \<rightharpoonup> pystr)" where
  "qmap_of cs = map_of (rev (map (\<lambda>c. (chunk_question_no c, chunk_cleaned_text c)) cs))"

definition find_profile :: "tables \<Rightarrow> int \<Rightarrow> profile_row option" where
  "find_profile t stid = find (\<lambda>p. prof_student_id p = stid) (t_profiles t)"

text \<open>The warnings prepended for a flagged submission (\<open>\<^emph>\<open>U+26A0 U+FE0F\<close>\<close> is the warning sign).\<close>

definition heuristic_warning :: pystr where
  "heuristic_warning =
     [9888, 65039] @ py_str '' Plagiarism warning: This submission is highly similar to another submission on at least one question.''
     @ [newline, newline]"

definition llm_warning :: pystr where
  "llm_warning = [9888, 65039] @ py_str '' Plagiarism warning: Similarity flagged.'' @ [newline, newline]"

definition new_feedback :: "nat \<Rightarrow> nat \<Rightarrow> nat \<Rightarrow> json \<Rightarrow> pystr \<Rightarrow> json \<Rightarrow> json \<Rightarrow> feedback_row" where
  "new_feedback k now sid g text fj conf =
     \<lparr>fb_id = k, fb_submission_id = sid, fb_grade = g, fb_feedback_text = text, fb_feedback_json = fj,
      fb_confidence = conf, fb_created_at = now\<rparr>"

definition mark_graded :: "nat \<Rightarrow> tables \<Rightarrow> tables" where
  "mark_graded sid t = update_submission sid (\<lambda>s. s\<lparr>sub_status := py_str ''graded''\<rparr>) t"

text \<open>The value written to the text column \<open>feedback_text\<close>.\<close>

definition db_text :: "json \<Rightarrow> py_error + pystr" where
  "db_text v = (case v of JStr s \<Rightarrow> Inr s | _ \<Rightarrow> Inl TypeError)"

subsection \<open>The heuristic grade\<close>

definition grade_submission :: "nat \<Rightarrow> nat \<Rightarrow> real \<Rightarrow> server \<Rightarrow> response \<times> server" where
  "grade_submission now sid max_grade srv =
     (let t = committed srv in
      case find_submission t sid of
        None \<Rightarrow> (HttpError 500 (py_str ''404: Submission not found''), srv)
      | Some sub \<Rightarrow>
          (let (grade, ftext, fjson) = grade_networking_short_answer (qmap_of (chunks_of t sid)) max_grade;
               ftext = (if sub_plagiarism_flag sub then heuristic_warning @ ftext else ftext);
               k = seq_feedback (sequences srv);
               srv1 = srv\<lparr>sequences := (sequences srv)\<lparr>seq_feedback := Suc k\<rparr>\<rparr>;
               t1 = mark_graded sid (t\<lparr>t_feedback := t_feedback t @
                      [new_feedback k now sid (JFloat grade) ftext fjson (JStr (py_str ''0.75''))]\<rparr>)
           in case commit t1 of
                Inl e \<Rightarrow> (HttpErrorOf 500 e, srv1)
              | Inr t2 \<Rightarrow> (JsonResp 200 (JObj [(py_str ''status'', JStr (py_str ''graded'')),
                            (py_str ''submission_id'', JInt (int sid)), (py_str ''grade'', JFloat grade),
                            (py_str ''feedback_id'', JInt (int k))]), srv1\<lparr>committed := t2\<rparr>)))"

subsection \<open>The multi-agent grade\<close>

text \<open>Lines 337--343: the profile, read back from its columns, as the pipeline's context.\<close>

definition context_of :: "submission_row \<Rightarrow> profile_row option \<Rightarrow> student_context" where
  "context_of sub prof =
     \<lparr>ctx_student_id = sub_student_id sub,
      ctx_weak_concepts = (case prof of Some p \<Rightarrow> prof_weak_concepts p | None \<Rightarrow> []),
      ctx_trend = (case prof of Some p \<Rightarrow> prof_trend p | None \<Rightarrow> py_str ''unknown''),
      ctx_last_feedback_summary = Some (case prof of Some p \<Rightarrow> prof_last_feedback_summary p | None \<Rightarrow> [])\<rparr>"

text \<open>Lines 347--349: the feedback text, with the warning for a flagged submission.\<close>

definition multi_feedback_text :: "submission_row \<Rightarrow> json \<Rightarrow> py_error + json" where
  "multi_feedback_text sub result =
     py_then (py_get result (py_str ''final_feedback'') (JStr [])) (\<lambda>ft.
       if sub_plagiarism_flag sub
       then (case ft of JStr s \<Rightarrow> Inr (JStr (llm_warning @ s)) | _ \<Rightarrow> Inl TypeError)
       else Inr ft)"

text \<open>Lines 353--356: the concept scores and the three values stored in the history row.\<close>

definition concept_values :: "json \<Rightarrow> py_error + json \<times> json \<times> json \<times> json" where
  "concept_values result =
     py_then (py_get result (py_str ''concept_scores'') (JObj [])) (\<lambda>cs.
     py_then (py_get cs (py_str ''service'') (JStr [])) (\<lambda>a.
     py_then (py_get cs (py_str ''clusterip_nodeport'') (JStr [])) (\<lambda>b.
     py_then (py_get cs (py_str ''networkpolicy'') (JStr [])) (\<lambda>c. Inr (cs, a, b, c)))))"

text \<open>Lines 371--375: the dict passed to \<open>pick_weak_concepts\<close>, in insertion order.\<close>

definition concept_floats :: "json \<Rightarrow> py_error + (pystr \<times> pyfloat) list" where
  "concept_floats cs =
     py_then (py_then (py_get cs (py_str ''service'') (JInt 0)) py_float) (\<lambda>a.
     py_then (py_then (py_get cs (py_str ''clusterip_nodeport'') (JInt 0)) py_float) (\<lambda>b.
     py_then (py_then (py_get cs (py_str ''networkpolicy'') (JInt 0)) py_float) (\<lambda>c.
     Inr [(py_str ''service'', a), (py_str ''clusterip_nodeport'', b), (py_str ''networkpolicy'', c)])))"

text \<open>
  Lines 379--397: a new profile, or the update of the existing one. The stored grade
  \<open>str(new_grade)\<close> is a non-empty string and reads back as the same float.
\<close>

definition upsert_profile :: "int \<Rightarrow> pystr list \<Rightarrow> pystr \<Rightarrow> pyfloat \<Rightarrow> tables \<Rightarrow> tables" where
  "upsert_profile stid weak summary g t =
     (case find_profile t stid of
        None \<Rightarrow> t\<lparr>t_profiles := t_profiles t @ [\<lparr>prof_student_id = stid, prof_weak_concepts = weak,
                   prof_last_feedback_summary = summary, prof_last_grade = g, prof_trend = py_str ''unknown''\<rparr>]\<rparr>
      | Some _ \<Rightarrow> t\<lparr>t_profiles := map (\<lambda>p. if prof_student_id p = stid
                   then p\<lparr>prof_trend := calc_trend (Some (prof_last_grade p)) g, prof_weak_concepts := weak,
                          prof_last_feedback_summary := summary, prof_last_grade := g\<rparr>
                   else p) (t_profiles t)\<rparr>)"

text \<open>Lines 369--377: the new grade, the weak concepts and the summary, in the order the code computes them.\<close>

definition profile_inputs :: "json \<Rightarrow> json \<Rightarrow> py_error + pyfloat \<times> pystr list \<times> pystr" where
  "profile_inputs result cs =
     py_then (py_then (py_get result (py_str ''grade'') (JInt 0)) py_float) (\<lambda>g.
     py_then (concept_floats cs) (\<lambda>fl.
     py_then (py_then (py_get result (py_str ''final_feedback'') (JStr [])) (\<lambda>v. summarize_feedback v 180)) (\<lambda>sm.
     Inr (g, pick_weak_concepts fl 2, sm))))"

text \<open>Lines 399--405: the grade and confidence of the feedback row, and its text.\<close>

definition feedback_values :: "json \<Rightarrow> json \<Rightarrow> py_error + json \<times> json \<times> pystr" where
  "feedback_values result ft =
     py_then (py_get result (py_str ''grade'') (JStr [])) (\<lambda>fg.
     py_then (py_get result (py_str ''confidence'') (JStr [])) (\<lambda>fc.
     py_then (db_text ft) (\<lambda>txt. Inr (fg, fc, txt))))"

definition history_row_of :: "nat \<Rightarrow> nat \<Rightarrow> nat \<Rightarrow> submission_row \<Rightarrow> json \<Rightarrow> json \<Rightarrow> json \<Rightarrow> history_row" where
  "history_row_of kh now sid sub sv cv nv =
     \<lparr>hist_id = kh, hist_student_id = sub_student_id sub, hist_submission_id = sid, hist_service = sv,
      hist_clusterip_nodeport = cv, hist_networkpolicy = nv, hist_created_at = now\<rparr>"

text \<open>
  Lines 346--408, after the pipeline returned \<open>result\<close>: the writes and the commit, with the
  key of the new feedback row. The history row gets its key when the profile query of line
  367 flushes it; the feedback row gets its key at the commit. A failure after a key was taken
  leaves the sequence advanced.
\<close>

definition multi_grade_store :: "nat \<Rightarrow> nat \<Rightarrow> submission_row \<Rightarrow> json \<Rightarrow> tables \<Rightarrow> seqs \<Rightarrow> (py_error + tables \<times> nat) \<times> seqs" where
  "multi_grade_store now sid sub result t sq =
     (case py_then (multi_feedback_text sub result) (\<lambda>ft. py_then (concept_values result) (\<lambda>cv. Inr (ft, cv))) of
        Inl e \<Rightarrow> (Inl e, sq)
      | Inr (ft, cs, sv, cv, nv) \<Rightarrow>
         (let kh = seq_history sq;
              sq1 = sq\<lparr>seq_history := Suc kh\<rparr>;
              t1 = t\<lparr>t_history := t_history t @ [history_row_of kh now sid sub sv cv nv]\<rparr>
          in case profile_inputs result cs of
               Inl e \<Rightarrow> (Inl e, sq1)
             | Inr (g, weak, sm) \<Rightarrow>
                (let t2 = upsert_profile (sub_student_id sub) weak sm g t1;
                     kf = seq_feedback sq1
                 in (py_then (feedback_values result ft) (\<lambda>(fg, fc, txt).
                       py_then (commit (mark_graded sid (t2\<lparr>t_feedback := t_feedback t2 @ [new_feedback kf now sid fg txt result fc]\<rparr>)))
                         (\<lambda>t3. Inr (t3, kf))),
                     sq1\<lparr>seq_feedback := Suc kf\<rparr>))))"

text \<open>The handler: the submission, the pipeline run with the profile as context, and the writes; every exception rolls back.\<close>

definition llm_multi_grade :: "provider \<Rightarrow> nat \<Rightarrow> nat \<Rightarrow> server \<Rightarrow> response \<times> server" where
  "llm_multi_grade llm now sid srv =
     (let t = committed srv in
      case find_submission t sid of
        None \<Rightarrow> (HttpError 500 (py_str ''404: Submission not found''), srv)
      | Some sub \<Rightarrow>
         (case fst (run_multi_agent llm (qmap_of (chunks_of t sid)) (context_of sub (find_profile t (sub_student_id sub))) []) of
            Inl e \<Rightarrow> (HttpErrorOf 500 e, srv)
          | Inr result \<Rightarrow>
             (case multi_grade_store now sid sub result t (sequences srv) of
                (Inl e, sq) \<Rightarrow> (HttpErrorOf 500 e, srv\<lparr>sequences := sq\<rparr>)
              | (Inr (t3, kf), sq) \<Rightarrow>
                  (JsonResp 200 (JObj [(py_str ''status'', JStr (py_str ''graded'')),
                     (py_str ''submission_id'', JInt (int sid)), (py_str ''feedback_id'', JInt (int kf)),
                     (py_str ''multi_agent'', result)]), \<lparr>committed = t3, sequences = sq\<rparr>))))"

subsection \<open>The single-call LLM grade\<close>

text \<open>
  \<open>POST /llm/grade/{submission_id}\<close> (lines 264--324): one call
  \<open>llm.generate_json(system, user)\<close>, the parameter \<open>gen\<close>, and the reply stored as it is.
  \<open>str()\<close> of a value inside the f-string of line 293 is the parameter \<open>str_of\<close>.
\<close>

definition llm_grade_system :: pystr where
  "llm_grade_system = py_str ''You are an academic assistant that grades short answers and returns STRICT JSON.''"

text \<open>The user message of lines 278--290, with the f-string's indentation of twelve spaces.\<close>

definition llm_grade_user :: "(nat \<rightharpoonup> pystr) \<Rightarrow> pystr" where
  "llm_grade_user qmap =
     (let ind = replicate 12 (32::nat); nl = [newline] in
      nl @ ind @ py_str ''Assignment: Kubernetes basics (Services, ClusterIP vs NodePort, NetworkPolicy).'' @ nl @
      ind @ py_str ''Student answers:'' @ nl @
      ind @ py_str ''Q1: '' @ qget qmap 1 @ nl @ ind @ py_str ''Q2: '' @ qget qmap 2 @ nl @
      ind @ py_str ''Q3: '' @ qget qmap 3 @ nl @ nl @
      ind @ py_str ''Return JSON with fields:'' @ nl @
      ind @ py_str ''grade (0-100), confidence (0-1),'' @ nl @
      ind @ py_str ''strengths (list), weaknesses (list), misconceptions (list),'' @ nl @
      ind @ py_str ''next_steps (list),'' @ nl @
      ind @ py_str ''concept_scores (object with keys: service, clusterip_nodeport, networkpolicy each 0-1)'' @ nl @ ind)"

text \<open>
  The items \<open>str.join\<close> takes from a value: the strings of a list (a non-string item is a
  \<open>TypeError\<close>), the characters of a string, the keys of a dict; other values are not
  iterable.
\<close>

fun str_items :: "json list \<Rightarrow> py_error + pystr list" where
  "str_items [] = Inr []"
| "str_items (JStr s # xs) = py_then (str_items xs) (\<lambda>ys. Inr (s # ys))"
| "str_items (_ # xs) = Inl TypeError"

definition join_items :: "json \<Rightarrow> py_error + pystr list" where
  "join_items v =
     (case v of JList xs \<Rightarrow> str_items xs
      | JStr s \<Rightarrow> Inr (map (\<lambda>c. [c]) s)
      | JObj kvs \<Rightarrow> Inr (map fst kvs)
      | _ \<Rightarrow> Inl TypeError)"

text \<open>Lines 292--298: the feedback text, its parts evaluated left to right.\<close>

definition llm_feedback_text :: "(json \<Rightarrow> pystr) \<Rightarrow> json \<Rightarrow> py_error + pystr" where
  "llm_feedback_text str_of result =
     (let nl = [newline]; bullet = nl @ py_str ''- '' in
      py_then (py_get result (py_str ''grade'') JNull) (\<lambda>g.
      py_then (py_then (py_get result (py_str ''strengths'') (JList [])) join_items) (\<lambda>st.
      py_then (py_then (py_get result (py_str ''weaknesses'') (JList [])) join_items) (\<lambda>wk.
      py_then (py_then (py_get result (py_str ''next_steps'') (JList [])) join_items) (\<lambda>ns.
      Inr (py_str ''LLM Feedback:'' @ nl @ py_str ''Grade: '' @ str_of g @ nl @ nl @
           py_str ''Strengths:'' @ bullet @ py_join bullet st @ nl @ nl @
           py_str ''Weaknesses:'' @ bullet @ py_join bullet wk @ nl @ nl @
           py_str ''Next steps:'' @ bullet @ py_join bullet ns))))))"

definition llm_grade_submission ::
  "(pystr \<Rightarrow> pystr \<Rightarrow> py_error + json) \<Rightarrow> (json \<Rightarrow> pystr) \<Rightarrow> nat \<Rightarrow> nat \<Rightarrow> server \<Rightarrow> response \<times> server" where
  "llm_grade_submission gen str_of now sid srv =
     (let t = committed srv in
      case find_submission t sid of
        None \<Rightarrow> (HttpError 500 (py_str ''404: Submission not found''), srv)
      | Some sub \<Rightarrow>
         (case py_then (gen llm_grade_system (llm_grade_user (qmap_of (chunks_of t sid)))) (\<lambda>result.
               py_then (llm_feedback_text str_of result) (\<lambda>ft.
               py_then (py_get result (py_str ''grade'') (JStr [])) (\<lambda>g.
               py_then (py_get result (py_str ''confidence'') (JStr [])) (\<lambda>c. Inr (result, ft, g, c))))) of
            Inl e \<Rightarrow> (HttpErrorOf 500 e, srv)
          | Inr (result, ft, g, c) \<Rightarrow>
              (let ft = (if sub_plagiarism_flag sub then llm_warning @ ft else ft);
                   k = seq_feedback (sequences srv);
                   srv1 = srv\<lparr>sequences := (sequences srv)\<lparr>seq_feedback := Suc k\<rparr>\<rparr>;
                   t1 = mark_graded sid (t\<lparr>t_feedback := t_feedback t @ [new_feedback k now sid g ft result c]\<rparr>)
               in case commit t1 of
                    Inl e \<Rightarrow> (HttpErrorOf 500 e, srv1)
                  | Inr t2 \<Rightarrow> (JsonResp 200 (JObj [(py_str ''status'', JStr (py_str ''graded'')),
                                (py_str ''submission_id'', JInt (int sid)), (py_str ''feedback_id'', JInt (int k)),
                                (py_str ''llm_result'', result)]), srv1\<lparr>committed := t2\<rparr>))))"

subsection \<open>An example\<close>

text \<open>A store with one pending submission and no chunks, and a provider that answers every prompt with an empty dict.\<close>

definition grading_server :: server where
  "grading_server =
     \<lparr>committed = empty_tables\<lparr>t_submissions := [\<lparr>sub_id = 1, sub_moodle_submission_id = Some 7, sub_assignment_id = 1,
        sub_course_id = 1, sub_student_id = 42, sub_raw_text = None, sub_cleaned_text = None,
        sub_status = py_str ''pending'', sub_plagiarism_flag = False, sub_created_at = 0\<rparr>]\<rparr>,
      sequences = \<lparr>seq_submission = 2, seq_chunk = 1, seq_embedding = 1, seq_similarity = 1,
                   seq_feedback = 1, seq_history = 1\<rparr>\<rparr>"

definition empty_provider :: provider where
  "empty_provider p = Inr (JObj [])"

subsection \<open>Lemmas\<close>

lemma commit_Inr: "commit t = Inr t' \<longleftrightarrow> tables_ok t \<and> t' = t"
  by (auto simp: commit_def)

lemma multi_grade_store_Inr:
  assumes "multi_grade_store now sid sub result t sq = (Inr (t3, kf), sq')"
  obtains ft cs sv cv nv g weak sm fg fc fstr where
    "multi_feedback_text sub result = Inr ft" "concept_values result = Inr (cs, sv, cv, nv)"
    "profile_inputs result cs = Inr (g, weak, sm)" "feedback_values result ft = Inr (fg, fc, fstr)"
    "t3 = mark_graded sid ((upsert_profile (sub_student_id sub) weak sm g
        (t\<lparr>t_history := t_history t @ [history_row_of (seq_history sq) now sid sub sv cv nv]\<rparr>))\<lparr>t_feedback :=
        t_feedback t @ [new_feedback (seq_feedback sq) now sid fg fstr result fc]\<rparr>)"
    "tables_ok t3" "kf = seq_feedback sq"
    "sq' = sq\<lparr>seq_history := Suc (seq_history sq), seq_feedback := Suc (seq_feedback sq)\<rparr>"
proof -
  from assms obtain ft cs sv cv nv where a: "multi_feedback_text sub result = Inr ft" "concept_values result = Inr (cs, sv, cv, nv)"
    by (auto simp: multi_grade_store_def py_then_Inr split: sum.splits prod.splits)
  with assms obtain g weak sm where b: "profile_inputs result cs = Inr (g, weak, sm)"
    by (auto simp: multi_grade_store_def Let_def split: sum.splits prod.splits)
  with a assms obtain fg fc fstr where c: "feedback_values result ft = Inr (fg, fc, fstr)"
    by (auto simp: multi_grade_store_def Let_def py_then_Inr split: sum.splits prod.splits)
  have f: "t_feedback (upsert_profile s w m g' t') = t_feedback t'" for s w m g' t'
    by (simp add: upsert_profile_def split: option.split)
  from a b c assms show ?thesis
    by (auto simp: multi_grade_store_def Let_def py_then_Inr commit_Inr f intro: that)
qed

lemma find_map_same: "(\<And>x. P (f x) = P x) \<Longrightarrow> find P (map f xs) = map_option f (find P xs)"
  by (induction xs) auto

lemma find_profile_upsert:
  "\<exists>p. find_profile (upsert_profile stid weak sm g t) stid = Some p \<and> prof_last_grade p = g \<and>
       prof_trend p = (case find_profile t stid of None \<Rightarrow> py_str ''unknown''
                       | Some p0 \<Rightarrow> calc_trend (Some (prof_last_grade p0)) g)"
proof (cases "find_profile t stid")
  case None
  then show ?thesis by (simp add: upsert_profile_def find_profile_def find_append_None)
next
  case (Some p0)
  then have "prof_student_id p0 = stid" by (auto simp: find_profile_def find_Some_iff)
  with Some show ?thesis by (simp add: upsert_profile_def find_profile_def find_map_same)
qed

lemma py_get_default:
  "py_get r k d = Inr v \<Longrightarrow> v \<noteq> d \<Longrightarrow> py_get r k d' = Inr v"
  by (auto simp: py_get_def split: json.splits option.splits)

lemma py_float_JInt: "py_float (JInt g) = Inr x \<Longrightarrow> x = Fin (of_int g)"
  by (simp split: if_splits)

lemma mark_graded_fields [simp]:
  "t_feedback (mark_graded sid t) = t_feedback t" "t_profiles (mark_graded sid t) = t_profiles t"
  "t_history (mark_graded sid t) = t_history t" "t_chunks (mark_graded sid t) = t_chunks t"
  by (simp_all add: mark_graded_def update_submission_def)

lemma find_profile_fields [simp]:
  "find_profile (t\<lparr>t_feedback := x\<rparr>) = find_profile t" "find_profile (t\<lparr>t_history := y\<rparr>) = find_profile t"
  "find_profile (mark_graded sid t) = find_profile t"
  by (simp_all add: find_profile_def fun_eq_iff)

lemma llm_multi_grade_JsonResp:
  assumes "llm_multi_grade llm now sid srv = (JsonResp c v, srv')" "find_submission (committed srv) sid = Some sub"
  shows "\<exists>result tr kf sq. run_multi_agent llm (qmap_of (chunks_of (committed srv) sid))
            (context_of sub (find_profile (committed srv) (sub_student_id sub))) [] = (Inr result, tr) \<and>
          multi_grade_store now sid sub result (committed srv) (sequences srv) = (Inr (committed srv', kf), sq)"
  using assms
  by (cases "run_multi_agent llm (qmap_of (chunks_of (committed srv) sid))
               (context_of sub (find_profile (committed srv) (sub_student_id sub))) []")
     (auto simp: llm_multi_grade_def Let_def split: sum.splits prod.splits)

lemma grading_server_run:
  "\<exists>v. fst (llm_multi_grade empty_provider 0 1 grading_server) = JsonResp 200 v"
  by (simp add: llm_multi_grade_def grading_server_def empty_tables_def find_submission_def chunks_of_def
        qmap_of_def find_profile_def context_of_def run_multi_agent_def ar_defs empty_provider_def Let_def
        py_get_def py_setitem_def compute_grade_empty qa_flagged_def multi_grade_store_def multi_feedback_text_def
        concept_values_def profile_inputs_def concept_floats_def feedback_values_def db_text_def commit_def
        tables_ok_def upsert_profile_def mark_graded_def update_submission_def new_feedback_def history_row_of_def
        summarize_feedback_def float_overflows_def)

subsection \<open>Properties of the grading handlers\<close>

text \<open>
  C15: A grading request either succeeds or leaves the committed store exactly as it was:
  no history row, profile change, feedback row or status change of a failed request is
  kept (the \<open>db.rollback()\<close> of lines 257, 320 and 414). Only the sequences may have advanced.
\<close>

theorem grading_handlers_rollback:
  "((\<exists>v. fst (grade_submission now sid max_grade srv) = JsonResp 200 v) \<or>
      committed (snd (grade_submission now sid max_grade srv)) = committed srv) \<and>
   ((\<exists>v. fst (llm_multi_grade llm now sid srv) = JsonResp 200 v) \<or>
      committed (snd (llm_multi_grade llm now sid srv)) = committed srv) \<and>
   ((\<exists>v. fst (llm_grade_submission gen str_of now sid srv) = JsonResp 200 v) \<or>
      committed (snd (llm_grade_submission gen str_of now sid srv)) = committed srv)"
proof (intro conjI)
  show "(\<exists>v. fst (grade_submission now sid max_grade srv) = JsonResp 200 v) \<or>
      committed (snd (grade_submission now sid max_grade srv)) = committed srv"
    by (auto simp: grade_submission_def Let_def split: option.splits prod.splits sum.splits)
  show "(\<exists>v. fst (llm_multi_grade llm now sid srv) = JsonResp 200 v) \<or>
      committed (snd (llm_multi_grade llm now sid srv)) = committed srv"
    by (auto simp: llm_multi_grade_def Let_def split: option.splits prod.splits sum.splits)
  show "(\<exists>v. fst (llm_grade_submission gen str_of now sid srv) = JsonResp 200 v) \<or>
      committed (snd (llm_grade_submission gen str_of now sid srv)) = committed srv"
    by (auto simp: llm_grade_submission_def Let_def split: option.splits prod.splits sum.splits)
qed

text \<open>
  C16: The composition of the multi-agent pipeline with the store: when
  \<open>llm_multi_grade\<close> succeeds, the grade stored in the new feedback row is the grade the
  pipeline computed from the correctness reply, the student's profile holds that grade as
  its last grade, and its trend compares it with the previous last grade (\<open>unknown\<close> for a
  new profile).
\<close>

theorem llm_multi_grade_pipeline_grade:
  assumes ok: "llm_multi_grade llm now sid srv = (JsonResp c v, srv')" and sub: "find_submission (committed srv) sid = Some sub"
  shows "\<exists>g. correctness_grade llm (qmap_of (chunks_of (committed srv) sid)) = Inr g \<and>
           (\<exists>fb. fb \<in> set (t_feedback (committed srv')) \<and> fb_submission_id fb = sid \<and> fb_grade fb = JInt g) \<and>
           (\<exists>p. find_profile (committed srv') (sub_student_id sub) = Some p \<and> prof_last_grade p = Fin (of_int g) \<and>
                prof_trend p = (case find_profile (committed srv) (sub_student_id sub) of None \<Rightarrow> py_str ''unknown''
                                | Some p0 \<Rightarrow> calc_trend (Some (prof_last_grade p0)) (Fin (of_int g))))"
proof -
  obtain result tr kf sq where run: "run_multi_agent llm (qmap_of (chunks_of (committed srv) sid))
       (context_of sub (find_profile (committed srv) (sub_student_id sub))) [] = (Inr result, tr)"
    and st: "multi_grade_store now sid sub result (committed srv) (sequences srv) = (Inr (committed srv', kf), sq)"
    using llm_multi_grade_JsonResp [OF ok sub] by blast
  from run_grade_field [OF run] obtain g where g: "correctness_grade llm (qmap_of (chunks_of (committed srv) sid)) = Inr g"
    and gr: "py_get result (py_str ''grade'') JNull = Inr (JInt g)" by blast
  have gr': "py_get result (py_str ''grade'') d = Inr (JInt g)" for d using py_get_default [OF gr] by simp
  from st obtain ft cs sv cv nv g' weak sm fg fc fstr where
    pin: "profile_inputs result cs = Inr (g', weak, sm)" and fv: "feedback_values result ft = Inr (fg, fc, fstr)"
    and t3: "committed srv' = mark_graded sid ((upsert_profile (sub_student_id sub) weak sm g'
        ((committed srv)\<lparr>t_history := t_history (committed srv) @ [history_row_of (seq_history (sequences srv)) now sid sub sv cv nv]\<rparr>))\<lparr>t_feedback :=
        t_feedback (committed srv) @ [new_feedback (seq_feedback (sequences srv)) now sid fg fstr result fc]\<rparr>)"
    by (rule multi_grade_store_Inr)
  have g': "g' = Fin (of_int g)"
    using pin gr' by (auto simp: profile_inputs_def py_then_Inr split: if_splits)
  have fg: "fg = JInt g" using fv gr' by (auto simp: feedback_values_def py_then_Inr)
  have "new_feedback (seq_feedback (sequences srv)) now sid fg fstr result fc \<in> set (t_feedback (committed srv'))"
    unfolding t3 by simp
  moreover have "find_profile (committed srv') (sub_student_id sub) =
                 find_profile (upsert_profile (sub_student_id sub) weak sm g'
                   ((committed srv)\<lparr>t_history := t_history (committed srv) @ [history_row_of (seq_history (sequences srv)) now sid sub sv cv nv]\<rparr>))
                   (sub_student_id sub)"
    unfolding t3 by simp
  ultimately show ?thesis
    using g fg g' find_profile_upsert [of "sub_student_id sub" weak sm g'
            "(committed srv)\<lparr>t_history := t_history (committed srv) @ [history_row_of (seq_history (sequences srv)) now sid sub sv cv nv]\<rparr>"]
    by (auto simp: new_feedback_def)
qed

theorem llm_multi_grade_pipeline_grade_witness:
  "\<exists>g. correctness_grade empty_provider (qmap_of (chunks_of (committed grading_server) 1)) = Inr g \<and>
     (\<exists>fb. fb \<in> set (t_feedback (committed (snd (llm_multi_grade empty_provider 0 1 grading_server)))) \<and>
           fb_submission_id fb = 1 \<and> fb_grade fb = JInt g)"
proof -
  obtain v where "fst (llm_multi_grade empty_provider 0 1 grading_server) = JsonResp 200 v"
    using grading_server_run by blast
  then have run: "llm_multi_grade empty_provider 0 1 grading_server =
                  (JsonResp 200 v, snd (llm_multi_grade empty_provider 0 1 grading_server))"
    by (metis prod.collapse)
  have sub: "find_submission (committed grading_server) 1 = Some (hd (t_submissions (committed grading_server)))"
    by (simp add: grading_server_def empty_tables_def find_submission_def)
  from llm_multi_grade_pipeline_grade [OF run sub] show ?thesis by blast
qed

end
