(* ===== verification/Progress.thy ===== *)
theory Progress
  imports Feedback
begin

text \<open>
  The read side of \<open>main.py\<close>: \<open>GET /students/{student_id}/progress\<close> (\<open>student_progress\<close>,
  lines 419--479), \<open>GET /moodle/push_payload/{submission_id}\<close> (\<open>moodle_push_payload\<close>, lines
  482--507), and the route \<open>/submission/by_moodle/{id}\<close> (\<open>get_by_moodle_id\<close>, lines 510--526)
  with the registration of routes in the module. The handlers only read; they have no
  \<open>except\<close> clause, so a value that \<open>float()\<close> rejects is an uncaught exception (status 500,
  \<open>ServerError\<close>), while an \<open>HTTPException(404)\<close> reaches the client as 404. A column that
  stores \<open>str(v)\<close> holds \<open>v\<close>: its string is empty exactly for the empty string, and
  \<open>float()\<close> of it is \<open>py_float_of_repr v\<close>. \<open>created_at.isoformat()\<close> is the parameter
  \<open>fmt\<close>.
\<close>

subsection \<open>Reading stored values\<close>

text \<open>A Python float as a JSON value.\<close>

definition pf_json :: "pyfloat \<Rightarrow> json" where
  "pf_json f = (case f of Fin r \<Rightarrow> JFloat r | Inf b \<Rightarrow> JInf b | NaN \<Rightarrow> JNaN)"

text \<open>\<open>float(r.x) if r.x else None\<close> for a column holding \<open>str(v)\<close>.\<close>

definition float_or_none :: "json \<Rightarrow> py_error + json" where
  "float_or_none v = (if v = JStr [] then Inr JNull else py_then (py_float_of_repr v) (\<lambda>f. Inr (pf_json f)))"

text \<open>\<open>.order_by(X.id.desc()).limit(limit)\<close>; PostgreSQL rejects a negative limit.\<close>

definition latest :: "('a \<Rightarrow> nat) \<Rightarrow> int \<Rightarrow> 'a list \<Rightarrow> py_error + 'a list" where
  "latest key limit rows =
     (if limit < 0 then Inl ValueError else Inr (take (nat limit) (sort_key (\<lambda>r. - int (key r)) rows)))"

text \<open>Folding a list of fallible conversions, the comprehensions of lines 436--445 and 457--465.\<close>

fun py_map :: "('a \<Rightarrow> py_error + 'b) \<Rightarrow> 'a list \<Rightarrow> py_error + 'b list" where
  "py_map f [] = Inr []"
| "py_map f (x # xs) = py_then (f x) (\<lambda>y. py_then (py_map f xs) (\<lambda>ys. Inr (y # ys)))"

subsection \<open>Student progress\<close>

definition concept_entry :: "(nat \<Rightarrow> pystr) \<Rightarrow> history_row \<Rightarrow> py_error + json" where
  "concept_entry fmt r =
     py_then (float_or_none (hist_service r)) (\<lambda>a.
     py_then (float_or_none (hist_clusterip_nodeport r)) (\<lambda>b.
     py_then (float_or_none (hist_networkpolicy r)) (\<lambda>c.
     Inr (JObj [(py_str ''submission_id'', JInt (int (hist_submission_id r))), (py_str ''service'', a),
                (py_str ''clusterip_nodeport'', b), (py_str ''networkpolicy'', c),
                (py_str ''created_at'', JStr (fmt (hist_created_at r)))]))))"

definition grade_entry :: "(nat \<Rightarrow> pystr) \<Rightarrow> feedback_row \<Rightarrow> py_error + json" where
  "grade_entry fmt g =
     py_then (float_or_none (fb_grade g)) (\<lambda>a.
     py_then (float_or_none (fb_confidence g)) (\<lambda>b.
     Inr (JObj [(py_str ''submission_id'', JInt (int (fb_submission_id g))), (py_str ''grade'', a),
                (py_str ''confidence'', b), (py_str ''created_at'', JStr (fmt (fb_created_at g)))])))"

text \<open>Lines 447--455: the feedback rows joined with their submission, for one student.\<close>

definition student_feedback :: "tables \<Rightarrow> int \<Rightarrow> feedback_row list" where
  "student_feedback t stid =
     [f. f \<leftarrow> t_feedback t, s \<leftarrow> t_submissions t, fb_submission_id f = sub_id s \<and> sub_student_id s = stid]"

definition profile_json :: "profile_row option \<Rightarrow> json" where
  "profile_json prof =
     JObj [(py_str ''weak_concepts'', JList (map JStr (case prof of Some p \<Rightarrow> prof_weak_concepts p | None \<Rightarrow> []))),
           (py_str ''trend'', JStr (case prof of Some p \<Rightarrow> prof_trend p | None \<Rightarrow> py_str ''unknown'')),
           (py_str ''last_grade'', (case prof of Some p \<Rightarrow> pf_json (prof_last_grade p) | None \<Rightarrow> JNull)),
           (py_str ''last_feedback_summary'', JStr (case prof of Some p \<Rightarrow> prof_last_feedback_summary p | None \<Rightarrow> []))]"

definition student_progress :: "(nat \<Rightarrow> pystr) \<Rightarrow> int \<Rightarrow> int \<Rightarrow> server \<Rightarrow> response \<times> server" where
  "student_progress fmt stid limit srv =
     (let t = committed srv;
          body =
            py_then (latest hist_id limit (filter (\<lambda>r. hist_student_id r = stid) (t_history t))) (\<lambda>rows.
            py_then (py_map (concept_entry fmt) rows) (\<lambda>concept_history.
            py_then (latest fb_id limit (student_feedback t stid)) (\<lambda>grades.
            py_then (py_map (grade_entry fmt) grades) (\<lambda>grade_history.
            Inr (JObj [(py_str ''student_id'', JInt stid), (py_str ''profile'', profile_json (find_profile t stid)),
                       (py_str ''grade_history'', JList grade_history),
                       (py_str ''concept_history'', JList concept_history)])))))
      in (case body of Inl _ \<Rightarrow> ServerError | Inr v \<Rightarrow> JsonResp 200 v, srv))"

subsection \<open>The payload for Moodle\<close>

definition moodle_push_payload :: "nat \<Rightarrow> server \<Rightarrow> response \<times> server" where
  "moodle_push_payload sid srv =
     (let t = committed srv in
      case find_submission t sid of
        None \<Rightarrow> (HttpError 404 (py_str ''Submission not found''), srv)
      | Some sub \<Rightarrow>
          (case latest fb_id 1 (filter (\<lambda>f. fb_submission_id f = sid) (t_feedback t)) of
             Inr (fb # _) \<Rightarrow>
               (case float_or_none (fb_grade fb) of
                  Inl _ \<Rightarrow> (ServerError, srv)
                | Inr g \<Rightarrow>
                    (JsonResp 200 (JObj [(py_str ''moodle_user_id'', JInt (sub_student_id sub)),
                       (py_str ''moodle_submission_id'',
                          (case sub_moodle_submission_id sub of Some m \<Rightarrow> if m = 0 then JNull else JInt m | None \<Rightarrow> JNull)),
                       (py_str ''moodle_assign_id'', JInt (sub_assignment_id sub)), (py_str ''grade'', g),
                       (py_str ''feedback_text'', JStr (fb_feedback_text fb))]), srv))
           | _ \<Rightarrow> (HttpError 404 (py_str ''No feedback found for submission''), srv)))"

subsection \<open>Routes\<close>

text \<open>
  The module's route registrations in the order they run: \<open>@app.get\<close>/\<open>@app.post\<close> add a route
  to the application, \<open>@router.get\<close> to the router, and \<open>app.include_router(router)\<close> copies
  the router's routes present at that moment, with the router's prefix.
\<close>

datatype registration = AppRoute pystr | RouterRoute pystr | IncludeRouter pystr

fun register :: "pystr list \<times> pystr list \<Rightarrow> registration \<Rightarrow> pystr list \<times> pystr list" where
  "register (app, rt) (AppRoute p) = (app @ [p], rt)"
| "register (app, rt) (RouterRoute p) = (app, rt @ [p])"
| "register (app, rt) (IncludeRouter pfx) = (app @ map (\<lambda>p. pfx @ p) rt, rt)"

definition main_registrations :: "registration list" where
  "main_registrations =
     [AppRoute (py_str ''/''), AppRoute (py_str ''/health''), AppRoute (py_str ''/ingest/submission''),
      AppRoute (py_str ''/plagiarism/check/{submission_id}''), AppRoute (py_str ''/grade/{submission_id}''),
      AppRoute (py_str ''/llm/grade/{submission_id}''), AppRoute (py_str ''/llm/multi_grade/{submission_id}''),
      AppRoute (py_str ''/students/{student_id}/progress''), AppRoute (py_str ''/moodle/push_payload/{submission_id}''),
      IncludeRouter (py_str ''/submission''), RouterRoute (py_str ''/by_moodle/{moodle_submission_id}'')]"

definition app_routes :: "pystr list" where
  "app_routes = fst (foldl register ([], []) main_registrations)"

text \<open>The handler of the route, as written (lines 514--526).\<close>

definition get_by_moodle_id :: "int \<Rightarrow> server \<Rightarrow> response \<times> server" where
  "get_by_moodle_id m srv =
     (case find (\<lambda>s. sub_moodle_submission_id s = Some m) (t_submissions (committed srv)) of
        None \<Rightarrow> (HttpError 404 (py_str ''Not found''), srv)
      | Some sub \<Rightarrow> (JsonResp 200 (JObj [(py_str ''id'', JInt (int (sub_id sub))),
          (py_str ''moodle_submission_id'', (case sub_moodle_submission_id sub of Some x \<Rightarrow> JInt x | None \<Rightarrow> JNull)),
          (py_str ''student_id'', JInt (sub_student_id sub)), (py_str ''assignment_id'', JInt (sub_assignment_id sub)),
          (py_str ''course_id'', JInt (sub_course_id sub)), (py_str ''status'', JStr (sub_status sub)),
          (py_str ''plagiarism_flag'', JBool (sub_plagiarism_flag sub))]), srv))"

subsection \<open>Examples\<close>

text \<open>
  A provider whose synthesizer reports the concept score \<open>service\<close> as the JSON \<open>true\<close>:
  \<open>float(True)\<close> is \<open>1.0\<close>, so the grading request succeeds, and the history row stores
  \<open>str(True)\<close>, the string \<open>True\<close>.
\<close>

definition bool_score_provider :: provider where
  "bool_score_provider p =
     (case p of SynthesizerPrompt _ _ _ _ \<Rightarrow>
                  Inr (JObj [(py_str ''concept_scores'', JObj [(py_str ''service'', JBool True)])])
              | _ \<Rightarrow> Inr (JObj []))"

definition iso_stub :: "nat \<Rightarrow> pystr" where
  "iso_stub n = py_str ''2025-01-01T00:00:00''"

text \<open>A model that reports its grade as the string \<open>85%\<close>, and a rendering of values.\<close>

definition percent_gen :: "pystr \<Rightarrow> pystr \<Rightarrow> py_error + json" where
  "percent_gen system user = Inr (JObj [(py_str ''grade'', JStr (py_str ''85%''))])"

definition str_stub :: "json \<Rightarrow> pystr" where
  "str_stub v = []"

subsection \<open>Lemmas on reading\<close>

lemma py_map_Inl_hd: "f x = Inl e \<Longrightarrow> py_map f (x # xs) = Inl e"
  by simp

lemma sort_key_unique_min:
  assumes "x \<in> set l" "\<forall>y\<in>set l. y \<noteq> x \<longrightarrow> f x < f y"
  shows "\<exists>s. sort_key f l = x # s"
proof -
  have set: "set (sort_key f l) = set l" by simp
  then obtain a s where as: "sort_key f l = a # s"
    using assms(1) by (cases "sort_key f l") auto
  have "sorted (map f (a # s))" using as sorted_sort_key [of f l] by simp
  then have le: "\<forall>z\<in>set s. f a \<le> f z" by simp
  have "a = x"
  proof (rule ccontr)
    assume ax: "a \<noteq> x"
    then have "x \<in> set s" using assms(1) set as by auto
    moreover have "f x < f a" using assms(2) ax set as by auto
    ultimately show False using le by fastforce
  qed
  with as show ?thesis by blast
qed

lemma latest_snoc_max:
  assumes "\<forall>r\<in>set xs. key r < key x" "0 < lm"
  shows "\<exists>rest. latest key lm (xs @ [x]) = Inr (x # rest)"
proof -
  have "\<forall>y\<in>set (xs @ [x]). y \<noteq> x \<longrightarrow> - int (key x) < - int (key y)"
    using assms(1) by auto
  then have "\<exists>s. sort_key (\<lambda>r. - int (key r)) (xs @ [x]) = x # s"
    using sort_key_unique_min [of x "xs @ [x]" "\<lambda>r. - int (key r)"] by simp
  then obtain s where "sort_key (\<lambda>r. - int (key r)) (xs @ [x]) = x # s" by blast
  with assms(2) show ?thesis
    by (auto simp: latest_def take_Cons')
qed

lemma float_or_none_JBool: "float_or_none (JBool b) = Inl ValueError"
  by (simp add: float_or_none_def)

lemma float_or_none_JFloat: "float_or_none (JFloat r) = Inr (JFloat r)"
  by (simp add: float_or_none_def pf_json_def)

lemma upsert_profile_fields [simp]:
  "t_history (upsert_profile stid w sm g t) = t_history t" "t_feedback (upsert_profile stid w sm g t) = t_feedback t"
  "t_submissions (upsert_profile stid w sm g t) = t_submissions t"
  by (simp_all add: upsert_profile_def split: option.split)

lemma find_map_if:
  "(\<And>s. P (h s) = P s) \<Longrightarrow> find P xs = Some a \<Longrightarrow> find P (map (\<lambda>s. if P s then h s else s) xs) = Some (h a)"
  by (induction xs) (auto split: if_splits)

lemma find_submission_update:
  assumes "find_submission t sid = Some sub" "\<And>s. sub_id (f s) = sub_id s"
  shows "find_submission (update_submission sid f t) sid = Some (f sub)"
  unfolding find_submission_def update_submission_def
  by (simp, rule find_map_if) (insert assms, simp_all add: find_submission_def)

lemma find_submission_mark_graded:
  "find_submission t sid = Some sub \<Longrightarrow>
   find_submission (mark_graded sid t) sid = Some (sub\<lparr>sub_status := py_str ''graded''\<rparr>)"
  unfolding mark_graded_def by (rule find_submission_update) simp_all

lemma find_submission_fields [simp]:
  "find_submission (t\<lparr>t_feedback := x\<rparr>) = find_submission t" "find_submission (t\<lparr>t_history := y\<rparr>) = find_submission t"
  by (simp_all add: find_submission_def fun_eq_iff)

lemma grade_submission_JsonResp:
  assumes "grade_submission now sid mg srv = (JsonResp c v, srv')"
  obtains sub grade ftext fjson where "find_submission (committed srv) sid = Some sub"
    "grade_networking_short_answer (qmap_of (chunks_of (committed srv) sid)) mg = (grade, ftext, fjson)"
    "committed srv' = mark_graded sid ((committed srv)\<lparr>t_feedback := t_feedback (committed srv) @
       [new_feedback (seq_feedback (sequences srv)) now sid (JFloat grade)
          (if sub_plagiarism_flag sub then heuristic_warning @ ftext else ftext) fjson (JStr (py_str ''0.75''))]\<rparr>)"
    "py_get v (py_str ''grade'') JNull = Inr (JFloat grade)"
proof -
  obtain sub where s: "find_submission (committed srv) sid = Some sub"
    using assms by (cases "find_submission (committed srv) sid") (auto simp: grade_submission_def Let_def)
  obtain grade ftext fjson where g: "grade_networking_short_answer (qmap_of (chunks_of (committed srv) sid)) mg = (grade, ftext, fjson)"
    by (cases "grade_networking_short_answer (qmap_of (chunks_of (committed srv) sid)) mg") blast
  define t1 where "t1 = mark_graded sid ((committed srv)\<lparr>t_feedback := t_feedback (committed srv) @
       [new_feedback (seq_feedback (sequences srv)) now sid (JFloat grade)
          (if sub_plagiarism_flag sub then heuristic_warning @ ftext else ftext) fjson (JStr (py_str ''0.75''))]\<rparr>)"
  define v1 where "v1 = JObj [(py_str ''status'', JStr (py_str ''graded'')), (py_str ''submission_id'', JInt (int sid)),
       (py_str ''grade'', JFloat grade), (py_str ''feedback_id'', JInt (int (seq_feedback (sequences srv))))]"
  define srv1 where "srv1 = srv\<lparr>sequences := (sequences srv)\<lparr>seq_feedback := Suc (seq_feedback (sequences srv))\<rparr>\<rparr>"
  have run: "grade_submission now sid mg srv =
      (case commit t1 of Inl e \<Rightarrow> (HttpErrorOf 500 e, srv1) | Inr t2 \<Rightarrow> (JsonResp 200 v1, srv1\<lparr>committed := t2\<rparr>))"
    unfolding grade_submission_def t1_def v1_def srv1_def using s g by (simp add: Let_def)
  have "commit t1 = Inr t1 \<and> v = v1 \<and> srv' = srv1\<lparr>committed := t1\<rparr>"
    using assms unfolding run by (cases "commit t1") (auto simp: commit_Inr)
  then have c: "committed srv' = t1" and vv: "v = v1" by simp_all
  show ?thesis
    by (rule that [OF s g]) (simp_all only: c vv t1_def, simp add: v1_def py_get_def)
qed

lemma llm_grade_submission_JsonResp:
  assumes "llm_grade_submission gen str_of now sid srv = (JsonResp c v, srv')"
    and "gen llm_grade_system (llm_grade_user (qmap_of (chunks_of (committed srv) sid))) = Inr result"
    and "py_get result (py_str ''grade'') (JStr []) = Inr g"
  obtains sub ft cf where "find_submission (committed srv) sid = Some sub"
    "committed srv' = mark_graded sid ((committed srv)\<lparr>t_feedback := t_feedback (committed srv) @
       [new_feedback (seq_feedback (sequences srv)) now sid g ft result cf]\<rparr>)"
proof -
  obtain sub where s: "find_submission (committed srv) sid = Some sub"
    using assms(1) by (cases "find_submission (committed srv) sid") (auto simp: llm_grade_submission_def Let_def)
  obtain ft where ft: "llm_feedback_text str_of result = Inr ft"
    using assms s by (cases "llm_feedback_text str_of result") (auto simp: llm_grade_submission_def Let_def)
  obtain cf where cf: "py_get result (py_str ''confidence'') (JStr []) = Inr cf"
    using assms s ft by (cases "py_get result (py_str ''confidence'') (JStr [])") (auto simp: llm_grade_submission_def Let_def)
  define ft' where "ft' = (if sub_plagiarism_flag sub then llm_warning @ ft else ft)"
  define t1 where "t1 = mark_graded sid ((committed srv)\<lparr>t_feedback := t_feedback (committed srv) @
       [new_feedback (seq_feedback (sequences srv)) now sid g ft' result cf]\<rparr>)"
  define srv1 where "srv1 = srv\<lparr>sequences := (sequences srv)\<lparr>seq_feedback := Suc (seq_feedback (sequences srv))\<rparr>\<rparr>"
  have run: "llm_grade_submission gen str_of now sid srv =
      (case commit t1 of Inl e \<Rightarrow> (HttpErrorOf 500 e, srv1)
       | Inr t2 \<Rightarrow> (JsonResp 200 (JObj [(py_str ''status'', JStr (py_str ''graded'')),
                    (py_str ''submission_id'', JInt (int sid)), (py_str ''feedback_id'', JInt (int (seq_feedback (sequences srv)))),
                    (py_str ''llm_result'', result)]), srv1\<lparr>committed := t2\<rparr>))"
    unfolding llm_grade_submission_def t1_def srv1_def ft'_def using s ft cf assms(2,3) by (simp add: Let_def)
  have "committed srv' = t1"
    using assms(1) unfolding run by (cases "commit t1") (auto simp: commit_Inr)
  then show ?thesis using that [OF s] unfolding t1_def by blast
qed

lemma latest_history_new:
  assumes "seqs_ok srv" "0 < lm" "hist_student_id h = stid" "hist_id h = seq_history (sequences srv)"
  shows "\<exists>rest. latest hist_id lm (filter (\<lambda>r. hist_student_id r = stid) (t_history (committed srv) @ [h])) = Inr (h # rest)"
proof -
  have "\<forall>r\<in>set (filter (\<lambda>r. hist_student_id r = stid) (t_history (committed srv))). hist_id r < hist_id h"
    using assms(1,4) by (auto simp: seqs_ok_def)
  from latest_snoc_max [OF this assms(2)] assms(3) show ?thesis by simp
qed

lemma latest_feedback_new:
  assumes "seqs_ok srv" "fb_submission_id f = sid" "fb_id f = seq_feedback (sequences srv)"
  shows "\<exists>rest. latest fb_id 1 (filter (\<lambda>r. fb_submission_id r = sid) (t_feedback (committed srv) @ [f])) = Inr (f # rest)"
proof -
  have "\<forall>r\<in>set (filter (\<lambda>r. fb_submission_id r = sid) (t_feedback (committed srv))). fb_id r < fb_id f"
    using assms(1,3) by (auto simp: seqs_ok_def)
  from latest_snoc_max [OF this] assms(2) show ?thesis by simp
qed

lemma grading_server_seqs_ok: "seqs_ok grading_server"
  by (simp add: seqs_ok_def grading_server_def empty_tables_def)

lemma grading_server_grade:
  "\<exists>c v srv'. grade_submission 0 1 100 grading_server = (JsonResp c v, srv')"
proof -
  obtain g ft fj where gg: "grade_networking_short_answer (qmap_of (chunks_of (committed grading_server) 1)) 100 = (g, ft, fj)"
    by (cases "grade_networking_short_answer (qmap_of (chunks_of (committed grading_server) 1)) 100") blast
  have s: "find_submission (committed grading_server) 1 \<noteq> None"
    by (simp add: grading_server_def find_submission_def)
  show ?thesis
    using gg s
    by (auto simp: grade_submission_def Let_def commit_def tables_ok_def mark_graded_def update_submission_def
        new_feedback_def grading_server_def empty_tables_def find_submission_def)
qed

lemma bool_score_run:
  "\<exists>v. fst (llm_multi_grade bool_score_provider 0 1 grading_server) = JsonResp 200 v"
  by (simp add: llm_multi_grade_def grading_server_def empty_tables_def find_submission_def chunks_of_def
        qmap_of_def find_profile_def context_of_def run_multi_agent_def ar_defs bool_score_provider_def Let_def
        py_get_def py_setitem_def compute_grade_empty qa_flagged_def multi_grade_store_def multi_feedback_text_def
        concept_values_def profile_inputs_def concept_floats_def feedback_values_def db_text_def commit_def
        tables_ok_def upsert_profile_def mark_graded_def update_submission_def new_feedback_def history_row_of_def
        summarize_feedback_def float_overflows_def)

lemma bool_score_result:
  "\<exists>result. fst (run_multi_agent bool_score_provider (qmap_of (chunks_of (committed grading_server) 1))
       (context_of (hd (t_submissions (committed grading_server))) (find_profile (committed grading_server) 42)) []) = Inr result \<and>
     concept_values result = Inr (JObj [(py_str ''service'', JBool True)], JBool True, JStr [], JStr [])"
  by (simp add: grading_server_def empty_tables_def chunks_of_def
        qmap_of_def find_profile_def context_of_def run_multi_agent_def ar_defs bool_score_provider_def Let_def
        py_get_def py_setitem_def compute_grade_empty qa_flagged_def concept_values_def)

lemma grade_submission_payload:
  assumes ok: "seqs_ok srv" and gr: "grade_submission now sid mg srv = (JsonResp c v, srv')"
  obtains sub :: submission_row and grade ftext where
    "moodle_push_payload sid srv' =
       (JsonResp 200 (JObj [(py_str ''moodle_user_id'', JInt (sub_student_id sub)),
          (py_str ''moodle_submission_id'',
             (case sub_moodle_submission_id sub of Some m \<Rightarrow> if m = 0 then JNull else JInt m | None \<Rightarrow> JNull)),
          (py_str ''moodle_assign_id'', JInt (sub_assignment_id sub)), (py_str ''grade'', JFloat grade),
          (py_str ''feedback_text'', JStr ftext)]), srv')"
    and "py_get v (py_str ''grade'') JNull = Inr (JFloat grade)"
proof -
  obtain sub grade ftext fjson where s: "find_submission (committed srv) sid = Some sub"
    and "grade_networking_short_answer (qmap_of (chunks_of (committed srv) sid)) mg = (grade, ftext, fjson)"
    and t: "committed srv' = mark_graded sid ((committed srv)\<lparr>t_feedback := t_feedback (committed srv) @
       [new_feedback (seq_feedback (sequences srv)) now sid (JFloat grade)
          (if sub_plagiarism_flag sub then heuristic_warning @ ftext else ftext) fjson (JStr (py_str ''0.75''))]\<rparr>)"
    and vg: "py_get v (py_str ''grade'') JNull = Inr (JFloat grade)"
    by (rule grade_submission_JsonResp [OF gr])
  define f where "f = new_feedback (seq_feedback (sequences srv)) now sid (JFloat grade)
          (if sub_plagiarism_flag sub then heuristic_warning @ ftext else ftext) fjson (JStr (py_str ''0.75''))"
  obtain rest where l: "latest fb_id 1 (filter (\<lambda>r. fb_submission_id r = sid) (t_feedback (committed srv) @ [f])) = Inr (f # rest)"
    using latest_feedback_new [OF ok, of f sid] by (auto simp: f_def new_feedback_def)
  have fs: "find_submission (committed srv') sid = Some (sub\<lparr>sub_status := py_str ''graded''\<rparr>)"
    unfolding t using find_submission_mark_graded s by simp
  have "t_feedback (committed srv') = t_feedback (committed srv) @ [f]" unfolding t f_def by simp
  with fs l have "moodle_push_payload sid srv' =
       (JsonResp 200 (JObj [(py_str ''moodle_user_id'', JInt (sub_student_id sub)),
          (py_str ''moodle_submission_id'',
             (case sub_moodle_submission_id sub of Some m \<Rightarrow> if m = 0 then JNull else JInt m | None \<Rightarrow> JNull)),
          (py_str ''moodle_assign_id'', JInt (sub_assignment_id sub)), (py_str ''grade'', JFloat grade),
          (py_str ''feedback_text'', JStr (fb_feedback_text f))]), srv')"
    by (simp add: moodle_push_payload_def f_def new_feedback_def float_or_none_JFloat)
  from this vg show ?thesis by (rule that)
qed

subsection \<open>Properties of the read side\<close>

text \<open>
  C17: Round trip through the store: after \<open>POST /grade/{id}\<close> succeeds, the payload for Moodle
  of that submission is served (status 200) and carries the grade the grading response
  reported: the new feedback row has the largest key, so \<open>order_by(id.desc()).first()\<close> picks
  it, and \<open>float(str(grade))\<close> gives the grade back.
\<close>

theorem grade_then_push_payload:
  assumes ok: "seqs_ok srv" and gr: "grade_submission now sid mg srv = (JsonResp c v, srv')"
  shows "\<exists>p. moodle_push_payload sid srv' = (JsonResp 200 p, srv') \<and>
             py_get p (py_str ''grade'') JNull = py_get v (py_str ''grade'') JNull"
proof -
  obtain sub :: submission_row and grade ftext where p: "moodle_push_payload sid srv' =
       (JsonResp 200 (JObj [(py_str ''moodle_user_id'', JInt (sub_student_id sub)),
          (py_str ''moodle_submission_id'',
             (case sub_moodle_submission_id sub of Some m \<Rightarrow> if m = 0 then JNull else JInt m | None \<Rightarrow> JNull)),
          (py_str ''moodle_assign_id'', JInt (sub_assignment_id sub)), (py_str ''grade'', JFloat grade),
          (py_str ''feedback_text'', JStr ftext)]), srv')"
    and vg: "py_get v (py_str ''grade'') JNull = Inr (JFloat grade)"
    by (rule grade_submission_payload [OF ok gr])
  show ?thesis using p vg by (simp add: py_get_def)
qed

theorem grade_then_push_payload_witness:
  "\<exists>c v srv' p. grade_submission 0 1 100 grading_server = (JsonResp c v, srv') \<and>
     moodle_push_payload 1 srv' = (JsonResp 200 p, srv') \<and> py_get p (py_str ''grade'') JNull = py_get v (py_str ''grade'') JNull"
proof -
  obtain c v srv' where r: "grade_submission 0 1 100 grading_server = (JsonResp c v, srv')"
    using grading_server_grade by blast
  from grade_then_push_payload [OF grading_server_seqs_ok r] r show ?thesis by blast
qed

text \<open>
  C18: Round trip of the single-call LLM grade: after \<open>POST /llm/grade/{id}\<close> succeeds with
  the reply \<open>result\<close>, the payload for Moodle carries \<open>float(str(result.get("grade", "")))\<close>,
  or \<open>None\<close> when the reply has no grade; the handler stores the reply's grade without
  checking it, so a grade that is no number (such as \<open>85%\<close>) makes every later payload
  request of the submission fail with status 500.
\<close>

theorem llm_grade_push_payload:
  assumes ok: "seqs_ok srv" and gr: "llm_grade_submission gen str_of now sid srv = (JsonResp c v, srv')"
    and res: "gen llm_grade_system (llm_grade_user (qmap_of (chunks_of (committed srv) sid))) = Inr result"
    and g: "py_get result (py_str ''grade'') (JStr []) = Inr g"
  shows "(case float_or_none g of
            Inl e \<Rightarrow> moodle_push_payload sid srv' = (ServerError, srv')
          | Inr x \<Rightarrow> (\<exists>p. moodle_push_payload sid srv' = (JsonResp 200 p, srv') \<and> py_get p (py_str ''grade'') JNull = Inr x))"
proof -
  obtain sub ft cf where s: "find_submission (committed srv) sid = Some sub"
    and t: "committed srv' = mark_graded sid ((committed srv)\<lparr>t_feedback := t_feedback (committed srv) @
       [new_feedback (seq_feedback (sequences srv)) now sid g ft result cf]\<rparr>)"
    by (rule llm_grade_submission_JsonResp [OF gr res g])
  define f where "f = new_feedback (seq_feedback (sequences srv)) now sid g ft result cf"
  obtain rest where l: "latest fb_id 1 (filter (\<lambda>r. fb_submission_id r = sid) (t_feedback (committed srv) @ [f])) = Inr (f # rest)"
    using latest_feedback_new [OF ok, of f sid] by (auto simp: f_def new_feedback_def)
  have fs: "find_submission (committed srv') sid = Some (sub\<lparr>sub_status := py_str ''graded''\<rparr>)"
    unfolding t using find_submission_mark_graded s by simp
  have "t_feedback (committed srv') = t_feedback (committed srv) @ [f]" unfolding t f_def by simp
  with fs l show ?thesis
    by (simp add: moodle_push_payload_def f_def new_feedback_def py_get_def split: sum.split)
qed

lemma percent_run:
  "\<exists>c v srv'. llm_grade_submission percent_gen str_stub 0 1 grading_server = (JsonResp c v, srv')"
  by (simp add: llm_grade_submission_def percent_gen_def llm_feedback_text_def join_items_def py_get_def
        grading_server_def empty_tables_def find_submission_def commit_def tables_ok_def mark_graded_def
        update_submission_def new_feedback_def Let_def)

theorem llm_grade_push_payload_witness:
  "\<exists>c v srv'. llm_grade_submission percent_gen str_stub 0 1 grading_server = (JsonResp c v, srv') \<and>
     float_or_none (JStr (py_str ''85%'')) = Inl ValueError \<and>
     moodle_push_payload 1 srv' = (ServerError, srv')"
proof -
  obtain c v srv' where r: "llm_grade_submission percent_gen str_stub 0 1 grading_server = (JsonResp c v, srv')"
    using percent_run by blast
  have e: "float_or_none (JStr (py_str ''85%'')) = Inl ValueError"
    by (simp add: float_or_none_def py_float_of_str_def py_strip_def py_lstrip_def py_rstrip_def is_space_def
        py_lower_def lower_char_def decimal_val_def digits_ok_def int_body_ok_def is_digit_def Let_def)
  have pg: "percent_gen llm_grade_system (llm_grade_user (qmap_of (chunks_of (committed grading_server) 1))) =
        Inr (JObj [(py_str ''grade'', JStr (py_str ''85%''))])"
    by (simp add: percent_gen_def)
  have gg: "py_get (JObj [(py_str ''grade'', JStr (py_str ''85%''))]) (py_str ''grade'') (JStr []) = Inr (JStr (py_str ''85%''))"
    by (simp add: py_get_def)
  have "moodle_push_payload 1 srv' = (ServerError, srv')"
    using llm_grade_push_payload [OF grading_server_seqs_ok r pg gg] by (simp only: e sum.case)
  with r e show ?thesis by blast
qed

text \<open>
  C19: A concept score that \<open>float()\<close> accepts but \<open>float(str(.))\<close> rejects breaks the student's
  progress page. When the pipeline reports the score \<open>service\<close> as the JSON \<open>true\<close>,
  \<open>POST /llm/multi_grade/{id}\<close> succeeds (\<open>float(True)\<close> is \<open>1.0\<close>, line 371) and stores
  \<open>str(True)\<close> in \<open>concept_history.service\<close> (line 352); that row is the newest of the student,
  so every later \<open>GET /students/{id}/progress\<close> with a positive limit evaluates
  \<open>float('True')\<close> (line 438) and fails with status 500.
\<close>

theorem multi_grade_bool_score_progress:
  assumes ok: "seqs_ok srv" and run: "llm_multi_grade llm now sid srv = (JsonResp c v, srv')"
    and sub: "find_submission (committed srv) sid = Some sub" and lm: "0 < lm"
    and res: "fst (run_multi_agent llm (qmap_of (chunks_of (committed srv) sid))
                (context_of sub (find_profile (committed srv) (sub_student_id sub))) []) = Inr result"
    and bad: "concept_values result = Inr (cs, JBool b, cv, nv)"
  shows "fst (student_progress fmt (sub_student_id sub) lm srv') = ServerError"
proof -
  obtain result' tr kf sq where r': "run_multi_agent llm (qmap_of (chunks_of (committed srv) sid))
       (context_of sub (find_profile (committed srv) (sub_student_id sub))) [] = (Inr result', tr)"
    and st: "multi_grade_store now sid sub result' (committed srv) (sequences srv) = (Inr (committed srv', kf), sq)"
    using llm_multi_grade_JsonResp [OF run sub] by blast
  from r' res have st': "multi_grade_store now sid sub result (committed srv) (sequences srv) = (Inr (committed srv', kf), sq)"
    using st by simp
  obtain ft cs' sv cv' nv' g weak sm fg fc fstr where
    "multi_feedback_text sub result = Inr ft" and cvs: "concept_values result = Inr (cs', sv, cv', nv')"
    and "profile_inputs result cs' = Inr (g, weak, sm)" and "feedback_values result ft = Inr (fg, fc, fstr)"
    and t3: "committed srv' = mark_graded sid ((upsert_profile (sub_student_id sub) weak sm g
        ((committed srv)\<lparr>t_history := t_history (committed srv) @
            [history_row_of (seq_history (sequences srv)) now sid sub sv cv' nv']\<rparr>))\<lparr>t_feedback :=
        t_feedback (committed srv) @ [new_feedback (seq_feedback (sequences srv)) now sid fg fstr result fc]\<rparr>)"
    and "tables_ok (committed srv')" "kf = seq_feedback (sequences srv)"
    and "sq = (sequences srv)\<lparr>seq_history := Suc (seq_history (sequences srv)), seq_feedback := Suc (seq_feedback (sequences srv))\<rparr>"
    by (rule multi_grade_store_Inr [OF st'])
  define h where "h = history_row_of (seq_history (sequences srv)) now sid sub sv cv' nv'"
  have sv: "sv = JBool b" using cvs bad by simp
  have th: "t_history (committed srv') = t_history (committed srv) @ [h]" unfolding t3 h_def by simp
  obtain rest where l: "latest hist_id lm (filter (\<lambda>r. hist_student_id r = sub_student_id sub)
                          (t_history (committed srv) @ [h])) = Inr (h # rest)"
    using latest_history_new [OF ok lm, of h "sub_student_id sub"] by (auto simp: h_def history_row_of_def)
  have "concept_entry fmt h = Inl ValueError"
    by (simp add: concept_entry_def h_def history_row_of_def sv float_or_none_JBool)
  with l th show ?thesis by (simp add: student_progress_def Let_def)
qed

theorem multi_grade_bool_score_progress_witness:
  "\<exists>c v srv' sub result. seqs_ok grading_server \<and>
     llm_multi_grade bool_score_provider 0 1 grading_server = (JsonResp c v, srv') \<and>
     find_submission (committed grading_server) 1 = Some sub \<and>
     fst (run_multi_agent bool_score_provider (qmap_of (chunks_of (committed grading_server) 1))
            (context_of sub (find_profile (committed grading_server) (sub_student_id sub))) []) = Inr result \<and>
     concept_values result = Inr (JObj [(py_str ''service'', JBool True)], JBool True, JStr [], JStr []) \<and>
     fst (student_progress iso_stub (sub_student_id sub) 20 srv') = ServerError"
proof -
  obtain v where v: "fst (llm_multi_grade bool_score_provider 0 1 grading_server) = JsonResp 200 v"
    using bool_score_run by blast
  define srv' where "srv' = snd (llm_multi_grade bool_score_provider 0 1 grading_server)"
  have r: "llm_multi_grade bool_score_provider 0 1 grading_server = (JsonResp 200 v, srv')"
    using v unfolding srv'_def by (metis prod.collapse)
  define sub where "sub = hd (t_submissions (committed grading_server))"
  have s: "find_submission (committed grading_server) 1 = Some sub" and sid: "sub_student_id sub = 42"
    by (simp_all add: sub_def grading_server_def find_submission_def)
  obtain result where res0: "fst (run_multi_agent bool_score_provider (qmap_of (chunks_of (committed grading_server) 1))
       (context_of sub (find_profile (committed grading_server) 42)) []) = Inr result"
    and cv: "concept_values result = Inr (JObj [(py_str ''service'', JBool True)], JBool True, JStr [], JStr [])"
    using bool_score_result unfolding sub_def by blast
  have res: "fst (run_multi_agent bool_score_provider (qmap_of (chunks_of (committed grading_server) 1))
       (context_of sub (find_profile (committed grading_server) (sub_student_id sub))) []) = Inr result"
    unfolding sid by (rule res0)
  have "fst (student_progress iso_stub (sub_student_id sub) 20 srv') = ServerError"
    using multi_grade_bool_score_progress [OF grading_server_seqs_ok r s _ res cv] by simp
  with grading_server_seqs_ok r s res cv show ?thesis by blast
qed

text \<open>
  The route \<open>GET /submission/by_moodle/{moodle_submission_id}\<close> is never served:
  \<open>app.include_router(router)\<close> (line 511) copies the router's routes before
  \<open>@router.get(...)\<close> (line 513) adds the route to the router, so the application's route
  table never holds it, and \<open>get_by_moodle_id\<close> is unreachable.
\<close>

theorem by_moodle_route_unreachable:
  "py_str ''/by_moodle/{moodle_submission_id}'' \<in> set (snd (foldl register ([], []) main_registrations)) \<and>
   py_str ''/submission/by_moodle/{moodle_submission_id}'' \<notin> set app_routes"
  by (simp add: app_routes_def main_registrations_def)

end
