(* ===== verification/Moodle_Client.thy ===== *)
theory Moodle_Client
  imports Json
begin

text \<open>
  The Moodle side of the integration script \<open>scheduler_deadline_pipeline.py\<close> (in
  \<open>src/code\<close>): the check of a web-service reply (\<open>moodle_call\<close>, lines 37--52), the due
  date (\<open>get_assignment_due_date\<close>, lines 65--76), the submission list (\<open>get_submissions\<close>,
  lines 79--84) and the text of a submission (\<open>get_submission_text\<close>, lines 86--128). The
  replies of Moodle are JSON values; the script walks them with \<open>.get\<close>, \<open>for\<close> and string
  methods, so a reply of an unexpected shape raises a Python exception, which nothing in
  the script catches. The PDF download and text extraction are the parameter \<open>pdf\<close>. A
  loop that returns from inside (\<open>for x in xs: ... return r\<close>) is \<open>sc_first\<close>.
\<close>

subsection \<open>Errors of the scripts\<close>

text \<open>
  The exceptions a script can end with: one of Python's own, \<open>HTTPError\<close> from
  \<open>raise_for_status()\<close> with its status, \<open>RuntimeError\<close> from \<open>moodle_call\<close>, and
  \<open>IndexError\<close>.
\<close>

datatype script_error = PyErr py_error | HTTPError nat | RuntimeError | IndexError

definition sc_lift :: "py_error + 'a \<Rightarrow> script_error + 'a" where
  "sc_lift r = (case r of Inl e \<Rightarrow> Inl (PyErr e) | Inr x \<Rightarrow> Inr x)"

definition sc_then :: "script_error + 'a \<Rightarrow> ('a \<Rightarrow> script_error + 'b) \<Rightarrow> script_error + 'b" where
  "sc_then m f = (case m of Inl e \<Rightarrow> Inl e | Inr x \<Rightarrow> f x)"

text \<open>\<open>for x in xs: ... return r\<close>: the first iteration that returns, or \<open>None\<close> when the loop ends.\<close>

fun sc_first :: "('a \<Rightarrow> 'e + 'b option) \<Rightarrow> 'a list \<Rightarrow> 'e + 'b option" where
  "sc_first f [] = Inr None"
| "sc_first f (x # xs) = (case f x of Inl e \<Rightarrow> Inl e | Inr (Some r) \<Rightarrow> Inr (Some r) | Inr None \<Rightarrow> sc_first f xs)"

subsection \<open>Python on JSON values\<close>

text \<open>\<open>for x in v\<close>: the items of a list, the keys of a dict, the characters of a string.\<close>

fun py_iter :: "json \<Rightarrow> py_error + json list" where
  "py_iter (JList xs) = Inr xs"
| "py_iter (JObj kvs) = Inr (map (\<lambda>kv. JStr (fst kv)) kvs)"
| "py_iter (JStr s) = Inr (map (\<lambda>c. JStr [c]) s)"
| "py_iter _ = Inl TypeError"

text \<open>A value used as a \<open>str\<close> (\<open>v.strip()\<close>, \<open>v.lower()\<close>): other values have no such method.\<close>

fun str_of_json :: "json \<Rightarrow> py_error + pystr" where
  "str_of_json (JStr s) = Inr s"
| "str_of_json _ = Inl AttributeError"

text \<open>\<open>v == n\<close> for an \<open>int\<close> \<open>n\<close>: numbers compare by value, \<open>True == 1\<close>.\<close>

fun py_eq_int :: "json \<Rightarrow> int \<Rightarrow> bool" where
  "py_eq_int (JInt i) n = (i = n)"
| "py_eq_int (JFloat r) n = (r = of_int n)"
| "py_eq_int (JBool b) n = ((if b then 1 else 0) = n)"
| "py_eq_int _ n = False"

text \<open>\<open>x or d\<close>.\<close>

definition py_or :: "json \<Rightarrow> json \<Rightarrow> json" where
  "py_or x d = (if py_truthy x then x else d)"

text \<open>\<open>v[0]\<close>.\<close>

fun py_index0 :: "json \<Rightarrow> script_error + json" where
  "py_index0 (JList (x # _)) = Inr x"
| "py_index0 (JList []) = Inl IndexError"
| "py_index0 (JStr (c # _)) = Inr (JStr [c])"
| "py_index0 (JStr []) = Inl IndexError"
| "py_index0 (JObj _) = Inl (PyErr KeyError)"
| "py_index0 _ = Inl (PyErr TypeError)"

text \<open>\<open>v[k]\<close> for a string key: a missing key is a \<open>KeyError\<close>, only a dict has string keys.\<close>

fun py_getitem :: "json \<Rightarrow> pystr \<Rightarrow> py_error + json" where
  "py_getitem (JObj kvs) k = (case map_of kvs k of Some v \<Rightarrow> Inr v | None \<Rightarrow> Inl KeyError)"
| "py_getitem _ k = Inl TypeError"

subsection \<open>Web-service replies\<close>

text \<open>Lines 49--52: an error of Moodle comes back as a dict with a truthy \<open>exception\<close>.\<close>

definition moodle_check :: "json \<Rightarrow> script_error + json" where
  "moodle_check data =
     (case data of
        JObj kvs \<Rightarrow> (if py_truthy (case map_of kvs (py_str ''exception'') of Some v \<Rightarrow> v | None \<Rightarrow> JNull)
                    then Inl RuntimeError else Inr data)
      | _ \<Rightarrow> Inr data)"

text \<open>Lines 65--76: the due date of the assignment, \<open>0\<close> when it is not listed.\<close>

definition due_of_assignment :: "int \<Rightarrow> json \<Rightarrow> py_error + int option" where
  "due_of_assignment aid a =
     py_then (py_get a (py_str ''id'') JNull) (\<lambda>i.
       if py_eq_int i aid
       then py_then (py_get a (py_str ''duedate'') JNull) (\<lambda>d. py_then (py_int (py_or d (JInt 0))) (\<lambda>n. Inr (Some n)))
       else Inr None)"

definition due_of_course :: "int \<Rightarrow> json \<Rightarrow> py_error + int option" where
  "due_of_course aid c =
     py_then (py_then (py_get c (py_str ''assignments'') (JList [])) py_iter) (sc_first (due_of_assignment aid))"

definition get_assignment_due_date :: "int \<Rightarrow> json \<Rightarrow> py_error + int" where
  "get_assignment_due_date aid data =
     py_then (py_then (py_get data (py_str ''courses'') (JList [])) py_iter) (\<lambda>cs.
     py_then (sc_first (due_of_course aid) cs) (\<lambda>r. Inr (case r of Some d \<Rightarrow> d | None \<Rightarrow> 0)))"

text \<open>Lines 79--84: the submissions of the first assignment of the reply.\<close>

definition get_submissions :: "json \<Rightarrow> script_error + json" where
  "get_submissions data =
     sc_then (sc_lift (py_get data (py_str ''assignments'') (JList []))) (\<lambda>asg.
     sc_then (py_index0 asg) (\<lambda>a. sc_lift (py_get a (py_str ''submissions'') (JList []))))"

subsection \<open>The text of a submission\<close>

text \<open>
  Lines 93--102: \<open>txt = x.get("text") or ""\<close>, returned when \<open>txt.strip()\<close> is not empty;
  the loops over the editor fields and over the file areas of an online-text plugin do the
  same.
\<close>

definition text_field :: "json \<Rightarrow> py_error + pystr option" where
  "text_field x =
     py_then (py_get x (py_str ''text'') JNull) (\<lambda>v.
     py_then (str_of_json (py_or v (JStr []))) (\<lambda>txt.
     Inr (if py_strip txt \<noteq> [] then Some txt else None)))"

definition onlinetext_plugin :: "json \<Rightarrow> py_error + pystr option" where
  "onlinetext_plugin p =
     py_then (py_get p (py_str ''type'') JNull) (\<lambda>ty.
       if ty = JStr (py_str ''onlinetext'') then
         py_then (py_then (py_get p (py_str ''editorfields'') (JList [])) py_iter) (\<lambda>efs.
         py_then (sc_first text_field efs) (\<lambda>r. case r of
             Some txt \<Rightarrow> Inr (Some txt)
           | None \<Rightarrow> py_then (py_then (py_get p (py_str ''fileareas'') (JList [])) py_iter) (sc_first text_field)))
       else Inr None)"

text \<open>
  Lines 105--126: a file with a URL whose name ends in \<open>.pdf\<close> (in any case) is downloaded
  and read; its text is returned even when it is blank. \<open>pdf f\<close> is the download of the
  file entry \<open>f\<close> followed by \<open>extract_text_from_pdf\<close>: the download may raise, the
  extraction turns every error into the empty text.
\<close>

text \<open>
  \<open>extract_text_from_pdf\<close> of this script (lines 18--28), with \<open>pypdf\<close>: the texts of the
  pages (\<open>pages\<close>, \<open>None\<close> when the reader raises) joined by newlines and stripped; every
  exception gives \<open>""\<close>.
\<close>

definition sched_extract_text :: "(pystr \<Rightarrow> pystr list option) \<Rightarrow> pystr \<Rightarrow> pystr" where
  "sched_extract_text pages pdf = (case pages pdf of None \<Rightarrow> [] | Some ps \<Rightarrow> py_strip (py_join [newline] ps))"

text \<open>
  The download and extraction of a file entry (lines 113--118): the URL with the token
  (\<open>add_token_to_fileurl\<close>, the parameter \<open>token_url\<close>), \<open>download_file\<close> (the parameter
  \<open>download\<close>, the bytes it saves) and the extraction. The parameter \<open>pdf\<close> of \<open>file_entry\<close>
  is this function for the real downloader and reader.
\<close>

definition sched_pdf :: "(json \<Rightarrow> script_error + pystr) \<Rightarrow> (pystr \<Rightarrow> script_error + pystr) \<Rightarrow>
    (pystr \<Rightarrow> pystr list option) \<Rightarrow> json \<Rightarrow> script_error + pystr" where
  "sched_pdf token_url download pages f =
     sc_then (sc_lift (py_get f (py_str ''fileurl'') (JStr []))) (\<lambda>fileurl.
     sc_then (token_url fileurl) (\<lambda>u.
     sc_then (download u) (\<lambda>pdf. Inr (sched_extract_text pages pdf))))"

definition file_entry :: "(json \<Rightarrow> script_error + pystr) \<Rightarrow> json \<Rightarrow> script_error + pystr option" where
  "file_entry pdf f =
     sc_then (sc_lift (py_get f (py_str ''filename'') (JStr []))) (\<lambda>filename.
     sc_then (sc_lift (py_get f (py_str ''fileurl'') (JStr []))) (\<lambda>fileurl.
       if \<not> py_truthy fileurl then Inr None
       else sc_then (sc_lift (str_of_json filename)) (\<lambda>fname.
         if suffix (py_str ''.pdf'') (py_lower fname)
         then sc_then (pdf f) (\<lambda>text. Inr (Some (if py_strip text \<noteq> [] then text else [])))
         else Inr None)))"

definition file_plugin :: "(json \<Rightarrow> script_error + pystr) \<Rightarrow> json \<Rightarrow> script_error + pystr option" where
  "file_plugin pdf p =
     sc_then (sc_lift (py_get p (py_str ''type'') JNull)) (\<lambda>ty.
       if ty = JStr (py_str ''file'') then
         sc_then (sc_lift (py_then (py_get p (py_str ''fileareas'') (JList [])) py_iter)) (sc_first (\<lambda>fa.
           sc_then (sc_lift (py_then (py_get fa (py_str ''files'') (JList [])) py_iter)) (sc_first (file_entry pdf))))
       else Inr None)"

definition get_submission_text :: "(json \<Rightarrow> script_error + pystr) \<Rightarrow> json \<Rightarrow> script_error + pystr" where
  "get_submission_text pdf sub =
     sc_then (sc_lift (py_then (py_get sub (py_str ''plugins'') (JList [])) py_iter)) (\<lambda>plugins.
     sc_then (sc_lift (sc_first onlinetext_plugin plugins)) (\<lambda>r. case r of
         Some txt \<Rightarrow> Inr txt
       | None \<Rightarrow> sc_then (sc_first (file_plugin pdf) plugins) (\<lambda>r'. Inr (case r' of Some txt \<Rightarrow> txt | None \<Rightarrow> []))))"

end
