(* ===== verification/Scheduler.thy ===== *)
theory Scheduler
  imports Moodle_Client Progress Plagiarism Ingest
begin

text \<open>
  The deadline scheduler \<open>src/code/scheduler_deadline_pipeline.py\<close> run against the backend:
  for each Moodle submission it asks the backend whether the submission is known, reads
  its text, ingests it (\<open>POST /ingest/submission\<close>), checks it for plagiarism, and after
  the due date grades it with the multi-agent pipeline and saves the grade in Moodle. The
  backend is the model of \<open>main.py\<close> (theories \<open>Ingest\<close>, \<open>Plagiarism\<close>, \<open>Feedback\<close>,
  \<open>Progress\<close>): a request to the backend runs the handler on the server state. Moodle is a
  function from requests to replies (\<open>env_moodle\<close>), and the requests the script sends
  are recorded in order. The state of a run is the backend's server and the list of
  requests sent to Moodle; a run that raises keeps every effect it had before.
\<close>

subsection \<open>The environment and the state of a run\<close>

datatype moodle_req =
    GetAssignments int             \<comment> \<open>\<open>mod_assign_get_assignments\<close> of a course\<close>
  | GetSubmissions int             \<comment> \<open>\<open>mod_assign_get_submissions\<close> of an assignment\<close>
  | SaveGrade int json pyfloat json  \<comment> \<open>\<open>mod_assign_save_grade\<close>: assignment, user, grade, feedback\<close>
  | SaveGradeEditor json json json json pystr
      \<comment> \<open>the same with the feedback as \<open>plugindata\<close>: assignment, user, grade, text, workflow state\<close>

record sched_env =
  env_moodle :: "moodle_req \<Rightarrow> script_error + json"   \<comment> \<open>the reply of Moodle, or a transport error\<close>
  env_pdf :: "json \<Rightarrow> script_error + pystr"          \<comment> \<open>download and text of a PDF file entry (\<open>sched_pdf\<close>)\<close>
  env_encode :: "pystr \<Rightarrow> real list"                \<comment> \<open>the embedding model of the backend\<close>
  env_llm :: provider                              \<comment> \<open>the LLM provider of the backend\<close>
  env_now :: nat                                   \<comment> \<open>\<open>int(time.time())\<close>, also the backend's clock\<close>
  env_course :: int                                \<comment> \<open>\<open>COURSE_ID\<close>\<close>
  env_assignment :: int                            \<comment> \<open>\<open>ASSIGNMENT_ID\<close>\<close>
  env_token :: pystr                               \<comment> \<open>\<open>MOODLE_TOKEN\<close>\<close>

record sched =
  sc_server :: server
  sc_moodle :: "moodle_req list"

type_synonym 'a sc_run = "sched \<Rightarrow> (script_error + 'a) \<times> sched"

definition sr_return :: "'a \<Rightarrow> 'a sc_run" where
  "sr_return x st = (Inr x, st)"

definition sr_lift :: "script_error + 'a \<Rightarrow> 'a sc_run" where
  "sr_lift r st = (r, st)"

definition sr_bind :: "'a sc_run \<Rightarrow> ('a \<Rightarrow> 'b sc_run) \<Rightarrow> 'b sc_run" where
  "sr_bind m f st = (case m st of (Inl e, st') \<Rightarrow> (Inl e, st') | (Inr x, st') \<Rightarrow> f x st')"

text \<open>A request to the backend: the handler runs on the server and answers.\<close>

definition sr_backend :: "(server \<Rightarrow> response \<times> server) \<Rightarrow> response sc_run" where
  "sr_backend h st = (case h (sc_server st) of (r, srv') \<Rightarrow> (Inr r, st\<lparr>sc_server := srv'\<rparr>))"

text \<open>
  \<open>moodle_call\<close> (lines 37--52): without a token it raises before sending; otherwise the
  request is sent and the reply is checked.
\<close>

definition sr_moodle :: "sched_env \<Rightarrow> moodle_req \<Rightarrow> json sc_run" where
  "sr_moodle env req st =
     (if env_token env = [] then (Inl RuntimeError, st)
      else (sc_then (env_moodle env req) moodle_check, st\<lparr>sc_moodle := sc_moodle st @ [req]\<rparr>))"

subsection \<open>Requests to the backend\<close>

text \<open>
  \<open>r.raise_for_status()\<close> then \<open>r.json()\<close>: a status of 400 or more raises \<open>HTTPError\<close>.
  Every \<open>HTTPException\<close> of the backend has such a status, and an uncaught exception is 500.
\<close>

fun http_ok :: "response \<Rightarrow> script_error + json" where
  "http_ok (JsonResp c v) = (if 400 \<le> c then Inl (HTTPError c) else Inr v)"
| "http_ok (HttpError c _) = Inl (HTTPError c)"
| "http_ok (HttpErrorOf c _) = Inl (HTTPError c)"
| "http_ok ServerError = Inl (HTTPError 500)"

text \<open>
  An integer path or body parameter: the backend declares \<open>int\<close>, and the JSON integers
  of Moodle and of the backend's replies pass; anything else is rejected with 422 (the
  coercions of numeric strings by the framework are not modelled).
\<close>

fun json_id :: "json \<Rightarrow> int option" where
  "json_id (JInt i) = Some i"
| "json_id _ = None"

text \<open>
  \<open>GET /submission/by_moodle/{id}\<close> (lines 55--63 and 158--165): the application answers
  it only if the route is in its route table (\<open>Progress.app_routes\<close>); otherwise the
  framework answers 404.
\<close>

definition by_moodle_response :: "json \<Rightarrow> server \<Rightarrow> response" where
  "by_moodle_response msid srv =
     (if py_str ''/submission/by_moodle/{moodle_submission_id}'' \<in> set app_routes
      then (case json_id msid of
              Some m \<Rightarrow> fst (get_by_moodle_id m srv)
            | None \<Rightarrow> HttpError 422 (py_str ''Unprocessable Entity''))
      else HttpError 404 (py_str ''Not Found''))"

definition backend_get_existing :: "json \<Rightarrow> server \<Rightarrow> json option" where
  "backend_get_existing msid srv =
     (case by_moodle_response msid srv of JsonResp c v \<Rightarrow> if c = 200 then Some v else None | _ \<Rightarrow> None)"

definition backend_submission_exists :: "json \<Rightarrow> server \<Rightarrow> bool" where
  "backend_submission_exists msid srv =
     (case by_moodle_response msid srv of JsonResp c _ \<Rightarrow> c = 200 | _ \<Rightarrow> False)"

text \<open>Lines 198--204: the body of \<open>POST /ingest/submission\<close>, validated as \<open>SubmissionIn\<close>.\<close>

definition ingest_body :: "sched_env \<Rightarrow> json \<Rightarrow> json \<Rightarrow> pystr \<Rightarrow> submission_in option" where
  "ingest_body env msid student raw =
     (case (json_id msid, json_id student) of
        (Some m, Some s) \<Rightarrow> Some \<lparr>in_moodle_submission_id = m, in_assignment_id = env_assignment env,
            in_course_id = env_course env, in_student_id = s, in_raw_text = Some raw, in_cleaned_text = Some []\<rparr>
      | _ \<Rightarrow> None)"

definition post_ingest :: "sched_env \<Rightarrow> json \<Rightarrow> json \<Rightarrow> pystr \<Rightarrow> json sc_run" where
  "post_ingest env msid student raw =
     (case ingest_body env msid student raw of
        None \<Rightarrow> sr_lift (Inl (HTTPError 422))
      | Some d \<Rightarrow> sr_bind (sr_backend (ingest_submission (env_now env) d)) (\<lambda>r. sr_lift (http_ok r)))"

text \<open>\<open>backend_post(f"/.../{submission_db_id}")\<close> for a handler taking the backend's id.\<close>

definition post_by_id :: "(nat \<Rightarrow> server \<Rightarrow> response \<times> server) \<Rightarrow> json \<Rightarrow> json sc_run" where
  "post_by_id h dbid =
     (case json_id dbid of
        Some i \<Rightarrow> sr_bind (sr_backend (h (nat i))) (\<lambda>r. sr_lift (http_ok r))
      | None \<Rightarrow> sr_lift (Inl (HTTPError 422)))"

text \<open>Lines 211--215: an \<open>HTTPError\<close> of the plagiarism check skips the submission (\<open>False\<close>).\<close>

definition post_plagiarism :: "sched_env \<Rightarrow> json \<Rightarrow> bool sc_run" where
  "post_plagiarism env dbid st =
     (case post_by_id (\<lambda>i. plagiarism_check (env_encode env) (env_now env) i (85 / 100)) dbid st of
        (Inl (HTTPError _), st') \<Rightarrow> (Inr False, st')
      | (Inl e, st') \<Rightarrow> (Inl e, st')
      | (Inr _, st') \<Rightarrow> (Inr True, st'))"

subsection \<open>One submission\<close>

text \<open>Lines 225--231 and 142--156: grade, read the grade and the feedback, save them in Moodle.\<close>

definition sched_grade :: "sched_env \<Rightarrow> json \<Rightarrow> json \<Rightarrow> unit sc_run" where
  "sched_grade env dbid student =
     sr_bind (post_by_id (llm_multi_grade (env_llm env) (env_now env)) dbid) (\<lambda>graded.
     sr_bind (sr_lift (sc_lift (py_getitem graded (py_str ''multi_agent'')))) (\<lambda>result.
     sr_bind (sr_lift (sc_lift (py_then (py_get result (py_str ''grade'') (JInt 0)) py_float))) (\<lambda>grade.
     sr_bind (sr_lift (sc_lift (py_get result (py_str ''final_feedback'') (JStr [])))) (\<lambda>feedback.
     sr_bind (sr_moodle env (SaveGrade (env_assignment env) student grade feedback)) (\<lambda>_. sr_return ())))))"

text \<open>
  Lines 197--231: ingest, check for plagiarism, and grade after the due date. Every
  \<open>continue\<close> is \<open>sr_return ()\<close>; \<open>due\<close> is the due date, \<open>0\<close> when there is none.
\<close>

definition sched_pipeline :: "sched_env \<Rightarrow> int \<Rightarrow> json \<Rightarrow> json \<Rightarrow> pystr \<Rightarrow> unit sc_run" where
  "sched_pipeline env due msid student raw =
     sr_bind (post_ingest env msid student raw) (\<lambda>ingest.
     sr_bind (sr_lift (sc_lift (py_getitem ingest (py_str ''id'')))) (\<lambda>dbid.
     sr_bind (post_plagiarism env dbid) (\<lambda>ok.
       if \<not> ok then sr_return ()
       else if due \<noteq> 0 \<and> int (env_now env) < due then sr_return ()
       else sched_grade env dbid student)))"

text \<open>Lines 186--195: a blank text and a submission the backend knows are skipped.\<close>

definition sched_text :: "sched_env \<Rightarrow> int \<Rightarrow> json \<Rightarrow> json \<Rightarrow> pystr \<Rightarrow> unit sc_run" where
  "sched_text env due msid student raw st =
     (if py_strip raw = [] then sr_return () st
      else if backend_submission_exists msid (sc_server st) then sr_return () st
      else sched_pipeline env due msid student raw st)"

text \<open>
  Lines 176--186: the ids of the submission, the lookup of the backend (a known
  submission is skipped after its id and status are printed), and the text.
\<close>

definition sched_sub :: "sched_env \<Rightarrow> int \<Rightarrow> json \<Rightarrow> unit sc_run" where
  "sched_sub env due sub =
     sr_bind (sr_lift (sc_lift (py_get sub (py_str ''id'') JNull))) (\<lambda>msid.
     sr_bind (sr_lift (sc_lift (py_get sub (py_str ''userid'') JNull))) (\<lambda>student st.
       case backend_get_existing msid (sc_server st) of
         Some v \<Rightarrow>
           (if py_truthy v
            then sr_bind (sr_lift (sc_lift (py_getitem v (py_str ''id'')))) (\<lambda>_.
                 sr_bind (sr_lift (sc_lift (py_get v (py_str ''status'') JNull))) (\<lambda>_. sr_return ())) st
            else sr_bind (sr_lift (get_submission_text (env_pdf env) sub)) (sched_text env due msid student) st)
       | None \<Rightarrow> sr_bind (sr_lift (get_submission_text (env_pdf env) sub)) (sched_text env due msid student) st))"

subsection \<open>The run\<close>

fun sched_loop :: "sched_env \<Rightarrow> int \<Rightarrow> json list \<Rightarrow> unit sc_run" where
  "sched_loop env due [] = sr_return ()"
| "sched_loop env due (s # ss) = sr_bind (sched_sub env due s) (\<lambda>_. sched_loop env due ss)"

text \<open>Lines 167--231, \<open>main()\<close>: the due date, the submissions, the loop.\<close>

definition scheduler_main :: "sched_env \<Rightarrow> unit sc_run" where
  "scheduler_main env =
     sr_bind (sr_moodle env (GetAssignments (env_course env))) (\<lambda>data.
     sr_bind (sr_lift (sc_lift (get_assignment_due_date (env_assignment env) data))) (\<lambda>due.
     sr_bind (sr_moodle env (GetSubmissions (env_assignment env))) (\<lambda>data'.
     sr_bind (sr_lift (get_submissions data')) (\<lambda>subs.
     sr_bind (sr_lift (sc_lift (py_iter subs))) (\<lambda>ss.
     sched_loop env due ss)))))"

text \<open>
  The loop body without the two lookups of the backend (lines 180--183 and 193--195): the
  reference the scheduler's body is compared with.
\<close>

definition sched_unguarded :: "sched_env \<Rightarrow> int \<Rightarrow> json \<Rightarrow> unit sc_run" where
  "sched_unguarded env due sub =
     sr_bind (sr_lift (sc_lift (py_get sub (py_str ''id'') JNull))) (\<lambda>msid.
     sr_bind (sr_lift (sc_lift (py_get sub (py_str ''userid'') JNull))) (\<lambda>student.
     sr_bind (sr_lift (get_submission_text (env_pdf env) sub)) (\<lambda>raw.
       if py_strip raw = [] then sr_return () else sched_pipeline env due msid student raw)))"

subsection \<open>Examples\<close>

text \<open>
  A Moodle that answers every request with an empty dict, no PDF files, the backend's
  example store (\<open>Feedback.grading_server\<close>, one submission with Moodle id 7) and an LLM
  that answers every prompt with an empty dict.
\<close>

definition example_env :: sched_env where
  "example_env = \<lparr>env_moodle = (\<lambda>_. Inr (JObj [])), env_pdf = (\<lambda>_. Inr []), env_encode = (\<lambda>_. [1]),
     env_llm = empty_provider, env_now = 0, env_course = 2, env_assignment = 1, env_token = py_str ''token''\<rparr>"

definition example_sched :: sched where
  "example_sched = \<lparr>sc_server = grading_server, sc_moodle = []\<rparr>"

text \<open>A Moodle submission with Moodle id 8 whose online text has no numbered header.\<close>

definition plain_submission :: json where
  "plain_submission = JObj [(py_str ''id'', JInt 8), (py_str ''userid'', JInt 42),
     (py_str ''plugins'', JList [JObj [(py_str ''type'', JStr (py_str ''onlinetext'')),
        (py_str ''editorfields'', JList [JObj [(py_str ''text'', JStr (py_str ''hello''))]])]])]"

text \<open>A Moodle submission (Moodle id 9) with the three numbered answers of the specification's scenario.\<close>

definition scenario_moodle_submission :: json where
  "scenario_moodle_submission = JObj [(py_str ''id'', JInt 9), (py_str ''userid'', JInt 42),
     (py_str ''plugins'', JList [JObj [(py_str ''type'', JStr (py_str ''onlinetext'')),
        (py_str ''editorfields'', JList [JObj [(py_str ''text'', JStr (the (in_raw_text scenario_submission)))]])]])]"

subsection \<open>Lemmas on runs\<close>

lemma sr_bind_simps [simp]:
  "sr_bind (sr_return x) f = f x" "sr_bind (sr_lift (Inr x)) f = f x"
  "sr_bind (sr_lift (Inl e)) f st = (Inl e, st)"
  by (simp_all add: sr_bind_def sr_return_def sr_lift_def fun_eq_iff)

lemma sr_bind_Inr:
  "m st = (Inr x, st1) \<Longrightarrow> sr_bind m f st = f x st1"
  by (simp add: sr_bind_def)

lemma sr_bind_Inl:
  "m st = (Inl e, st1) \<Longrightarrow> sr_bind m f st = (Inl e, st1)"
  by (simp add: sr_bind_def)

lemma by_moodle_unrouted: "py_str ''/submission/by_moodle/{moodle_submission_id}'' \<notin> set app_routes"
  by (simp add: app_routes_def main_registrations_def)

lemma backend_lookups [simp]:
  "backend_get_existing msid srv = None" "backend_submission_exists msid srv = False"
  using by_moodle_unrouted
  by (simp_all add: backend_get_existing_def backend_submission_exists_def by_moodle_response_def)

text \<open>Ingesting and checking for plagiarism leave the feedback rows alone.\<close>

lemma plag_frame_feedback:
  assumes "plag_frame thr cs a b"
  shows "t_feedback (committed b) = t_feedback (committed a)"
proof -
  have e: "committed b = (committed a)\<lparr>t_submissions := t_submissions (committed b),
                                       t_similarity := t_similarity (committed b)\<rparr>"
    using assms by (simp add: plag_frame_def)
  have "t_feedback (committed b) = t_feedback ((committed a)\<lparr>t_submissions := t_submissions (committed b),
                                       t_similarity := t_similarity (committed b)\<rparr>)"
    by (rule arg_cong [OF e])
  also have "\<dots> = t_feedback (committed a)" by simp
  finally show ?thesis .
qed

lemma plagiarism_check_feedback:
  assumes "plagiarism_check enc now sid thr srv = (r, srv')"
  shows "t_feedback (committed srv') = t_feedback (committed srv)"
proof (cases "chunks_of (committed srv) sid = []")
  case True
  with assms show ?thesis by (simp add: plagiarism_check_def)
next
  case False
  obtain t1 n where en: "ensure_embeddings enc now (chunks_of (committed srv) sid) (committed srv) (seq_embedding (sequences srv)) = (t1, n)"
    by (cases "ensure_embeddings enc now (chunks_of (committed srv) sid) (committed srv) (seq_embedding (sequences srv))") blast
  have f1: "t_feedback t1 = t_feedback (committed srv)" using ensure_embeddings_fields [OF en] by simp
  show ?thesis
  proof (cases "commit t1")
    case (Inl e)
    with assms False en show ?thesis by (auto simp: plagiarism_check_def Let_def)
  next
    case (Inr t2)
    then have t2: "t2 = t1" by (simp add: commit_Inr)
    obtain rr srv2 where pl: "plag_loop now sid thr (chunks_of (committed srv) sid) []
        (srv\<lparr>sequences := (sequences srv)\<lparr>seq_embedding := n\<rparr>, committed := t2\<rparr>) = (rr, srv2)"
      by (cases "plag_loop now sid thr (chunks_of (committed srv) sid) []
        (srv\<lparr>sequences := (sequences srv)\<lparr>seq_embedding := n\<rparr>, committed := t2\<rparr>)") blast
    have "srv' = srv2"
      using assms False en Inr pl by (cases rr) (simp_all add: plagiarism_check_def Let_def)
    moreover have "t_feedback (committed srv2) = t_feedback t2"
      using plag_frame_feedback [OF plag_loop_frame [OF pl]] by simp
    ultimately show ?thesis using t2 f1 by simp
  qed
qed

lemma add_chunks_feedback: "t_feedback (fst (add_chunks sid now n cs t)) = t_feedback t"
  by (simp add: add_chunks_eq)

lemma ingest_submission_feedback:
  assumes "ingest_submission now d srv = (r, srv')"
  shows "t_feedback (committed srv') = t_feedback (committed srv)"
  using assms
  by (auto simp: ingest_submission_def ingest_apply_def ingest_repair_def ingest_new_def Let_def commit_Inr
      add_chunks_eq update_submission_def split: option.splits prod.splits sum.splits if_splits)

text \<open>
  A run that sends nothing to Moodle and leaves the backend's feedback rows as they were,
  whatever it returns.
\<close>

definition run_keeps :: "'a sc_run \<Rightarrow> bool" where
  "run_keeps m \<longleftrightarrow> (\<forall>st r st'. m st = (r, st') \<longrightarrow>
     sc_moodle st' = sc_moodle st \<and> t_feedback (committed (sc_server st')) = t_feedback (committed (sc_server st)))"

lemma run_keeps_return [intro]: "run_keeps (sr_return x)" and run_keeps_lift [intro]: "run_keeps (sr_lift r)"
  by (simp_all add: run_keeps_def sr_return_def sr_lift_def)

lemma run_keeps_bind [intro]:
  assumes "run_keeps m" "\<And>x. run_keeps (f x)"
  shows "run_keeps (sr_bind m f)"
  unfolding run_keeps_def
proof (intro allI impI)
  fix st r st'
  assume run: "sr_bind m f st = (r, st')"
  obtain r1 st1 where m: "m st = (r1, st1)" by (cases "m st") blast
  show "sc_moodle st' = sc_moodle st \<and> t_feedback (committed (sc_server st')) = t_feedback (committed (sc_server st))"
  proof (cases r1)
    case (Inl e)
    with run m have "st' = st1" by (simp add: sr_bind_def)
    with m assms(1) show ?thesis unfolding run_keeps_def by blast
  next
    case (Inr x)
    with run m have "f x st1 = (r, st')" by (simp add: sr_bind_def)
    with m assms show ?thesis unfolding run_keeps_def by metis
  qed
qed

lemma run_keeps_backend:
  assumes "\<And>srv r srv'. h srv = (r, srv') \<Longrightarrow> t_feedback (committed srv') = t_feedback (committed srv)"
  shows "run_keeps (sr_backend h)"
  unfolding run_keeps_def sr_backend_def
  by (auto split: prod.splits dest: assms)

lemma run_keeps_post_ingest: "run_keeps (post_ingest env msid student raw)"
  unfolding post_ingest_def
  by (auto split: option.split intro!: run_keeps_backend dest: ingest_submission_feedback)

lemma run_keeps_post_plagiarism: "run_keeps (post_plagiarism env dbid)"
proof -
  have "run_keeps (post_by_id (\<lambda>i. plagiarism_check (env_encode env) (env_now env) i (85 / 100)) dbid)"
    unfolding post_by_id_def
    by (auto split: option.split intro!: run_keeps_backend dest: plagiarism_check_feedback)
  then show ?thesis
    unfolding run_keeps_def post_plagiarism_def
    by (auto split: prod.splits sum.splits script_error.splits)
qed

lemma run_keeps_pipeline:
  assumes "due \<noteq> 0" "int (env_now env) < due"
  shows "run_keeps (sched_pipeline env due msid student raw)"
  unfolding sched_pipeline_def using assms
  by (intro run_keeps_bind run_keeps_post_ingest run_keeps_post_plagiarism run_keeps_lift) auto

lemma run_keeps_sub:
  assumes "due \<noteq> 0" "int (env_now env) < due"
  shows "run_keeps (sched_sub env due sub)"
proof -
  have "run_keeps (sched_text env due msid student raw)" for msid student raw
    using run_keeps_pipeline [OF assms, of msid student raw]
    unfolding run_keeps_def sched_text_def sr_return_def by auto
  then show ?thesis
    unfolding run_keeps_def sched_sub_def
    by (auto simp: sr_bind_def sr_lift_def split: prod.splits sum.splits)
qed

lemma ingest_new_cases:
  assumes "ingest_new now d cl srv = (r, srv1)"
  shows "(\<exists>e. r = HttpErrorOf 500 e) \<or> (\<exists>i chs. r = chunk_response ''stored'' i chs)"
  using assms by (auto simp: ingest_new_def Let_def split: sum.splits prod.splits)

lemma or_text_Some: "or_text (Some []) x = x" "s \<noteq> [] \<Longrightarrow> or_text (Some s) x = s"
  by (simp_all add: or_text_def)

lemma post_ingest_run:
  assumes "ingest_body env msid student raw = Some d"
    "ingest_submission (env_now env) d (sc_server st) = (rI, srv1)"
  shows "post_ingest env msid student raw st = (http_ok rI, st\<lparr>sc_server := srv1\<rparr>)"
  using assms by (simp add: post_ingest_def sr_bind_def sr_backend_def sr_lift_def)

lemma post_plagiarism_no_chunks:
  assumes "chunks_of (committed (sc_server st)) i = []"
  shows "post_plagiarism env (JInt (int i)) st = (Inr False, st)"
  using assms
  by (simp add: post_plagiarism_def post_by_id_def plagiarism_check_def sr_bind_def sr_backend_def sr_lift_def)

lemma grading_server_ok: "server_ok grading_server"
  by (simp add: server_ok_def tables_ok_def seqs_ok_def moodle_ids_distinct_def grading_server_def empty_tables_def)

lemma hello_unchunked: "split_numbered_answers (clean_text_basic (py_strip (py_str ''hello''))) = []"
proof -
  have "py_strip (py_str ''hello'') = py_str ''hello''"
    by (simp add: py_strip_def py_lstrip_def py_rstrip_def is_space_def)
  moreover have "clean_text_basic (py_str ''hello'') = py_str ''hello''"
    by (rule clean_text_basic_plain) (simp_all add: newline_def py_strip_def py_lstrip_def py_rstrip_def is_space_def)
  ultimately show ?thesis by (simp add: seg_eval)
qed

subsection \<open>Properties of the scheduler\<close>

text \<open>
  C20: The scheduler's guards against processing a submission twice never fire: the
  backend does not serve \<open>/submission/by_moodle/{id}\<close> (the route table of theory
  \<open>Progress\<close>), so \<open>backend_get_existing\<close>
  is always \<open>None\<close> and \<open>backend_submission_exists\<close> always \<open>False\<close>, and the loop body is,
  on every state, the unguarded pipeline: text, ingest, plagiarism check, deadline, grade.
\<close>

theorem sched_sub_unguarded:
  "sched_sub env due sub = sched_unguarded env due sub"
proof (rule ext)
  fix st
  show "sched_sub env due sub st = sched_unguarded env due sub st"
    by (simp add: sched_sub_def sched_unguarded_def sched_text_def sr_bind_def sr_lift_def sr_return_def
        split: sum.split prod.split)
qed

text \<open>
  C21: Deadline gating: a run of the loop before the due date sends nothing to Moodle and
  adds no feedback row to the backend, whatever the submissions and whatever the run ends
  with; submissions are only ingested and checked (lines 219--222).
\<close>

theorem sched_before_deadline:
  assumes "due \<noteq> 0" "int (env_now env) < due" "sched_loop env due ss st = (r, st')"
  shows "sc_moodle st' = sc_moodle st \<and> t_feedback (committed (sc_server st')) = t_feedback (committed (sc_server st))"
proof -
  have "run_keeps (sched_loop env due ss)"
    by (induction ss) (auto intro: run_keeps_sub [OF assms(1,2)])
  with assms(3) show ?thesis unfolding run_keeps_def by blast
qed

theorem sched_before_deadline_witness:
  "sc_moodle (snd (sched_loop example_env 1 [scenario_moodle_submission, plain_submission] example_sched)) =
     sc_moodle example_sched \<and>
   t_feedback (committed (sc_server (snd (sched_loop example_env 1 [scenario_moodle_submission, plain_submission] example_sched)))) =
     t_feedback (committed (sc_server example_sched))"
  using sched_before_deadline [of 1 example_env "[scenario_moodle_submission, plain_submission]" example_sched,
      OF _ _ prod.collapse [symmetric]]
  by (simp add: example_env_def)

text \<open>
  C22: A submission whose text has no numbered question header is never graded. The
  backend stores it without chunks (the segmenter returns nothing, which the
  specification leaves to the caller), the plagiarism check answers 404 for a submission
  without chunks, and the scheduler treats that \<open>HTTPError\<close> as a reason to skip the
  submission (lines 211--215): nothing is sent to Moodle and no feedback row is written,
  before and after the due date alike, and the run goes on unless the backend fails with 500.
\<close>

theorem sched_pipeline_unchunked:
  assumes ok: "server_ok (sc_server st)"
    and ids: "json_id msid = Some m" "json_id student = Some stid"
    and new: "find (\<lambda>s. sub_moodle_submission_id s = Some m) (t_submissions (committed (sc_server st))) = None"
    and tx: "py_strip raw \<noteq> []" "split_numbered_answers (clean_text_basic (py_strip raw)) = []"
    and run: "sched_pipeline env due msid student raw st = (r, st')"
  shows "(r = Inr () \<or> r = Inl (HTTPError 500)) \<and> sc_moodle st' = sc_moodle st \<and>
         t_feedback (committed (sc_server st')) = t_feedback (committed (sc_server st))"
proof -
  define d where "d = \<lparr>in_moodle_submission_id = m, in_assignment_id = env_assignment env,
      in_course_id = env_course env, in_student_id = stid, in_raw_text = Some raw, in_cleaned_text = Some []\<rparr>"
  define cl where "cl = clean_text_basic (py_strip raw)"
  have body: "ingest_body env msid student raw = Some d" using ids by (simp add: ingest_body_def d_def)
  have "raw \<noteq> []" using tx(1) by (auto simp: py_strip_def py_lstrip_def py_rstrip_def)
  then have src: "source_text d = py_strip raw" by (simp add: source_text_def d_def or_text_Some)
  have look: "ingest_lookup d (committed (sc_server st)) = None" using new by (simp add: ingest_lookup_def d_def)
  have ing: "ingest_submission (env_now env) d (sc_server st) = ingest_new (env_now env) d cl (sc_server st)"
    using src tx(1) look by (simp add: ingest_submission_def ingest_apply_def cl_def)
  obtain rI srv1 where I: "ingest_new (env_now env) d cl (sc_server st) = (rI, srv1)"
    by (cases "ingest_new (env_now env) d cl (sc_server st)") blast
  have pi: "post_ingest env msid student raw st = (http_ok rI, st\<lparr>sc_server := srv1\<rparr>)"
    using post_ingest_run [OF body] ing I by simp
  have fb: "t_feedback (committed srv1) = t_feedback (committed (sc_server st))"
    using ingest_submission_feedback ing I by metis
  from ingest_new_cases [OF I] show ?thesis
  proof
    assume "\<exists>e. rI = HttpErrorOf 500 e"
    then have "sched_pipeline env due msid student raw st = (Inl (HTTPError 500), st\<lparr>sc_server := srv1\<rparr>)"
      using pi by (auto simp: sched_pipeline_def sr_bind_def)
    with run fb show ?thesis by auto
  next
    assume "\<exists>i chs. rI = chunk_response ''stored'' i chs"
    then obtain i chs where rI: "rI = chunk_response ''stored'' i chs" by blast
    note sc = ingest_new_success [OF I [unfolded rI]]
    have t: "tables_ok (committed (sc_server st))" "seqs_ok (sc_server st)" using ok by (simp_all add: server_ok_def)
    have "chunks_of (committed srv1) i = chunks_of (committed (sc_server st)) i"
      using sc tx(2) by (simp add: chunks_of_def cl_def)
    also have "\<dots> = []" using chunks_of_fresh [OF t] sc by simp
    finally have nc: "chunks_of (committed (sc_server (st\<lparr>sc_server := srv1\<rparr>))) i = []" by simp
    have "sched_pipeline env due msid student raw st = (Inr (), st\<lparr>sc_server := srv1\<rparr>)"
      using pi post_plagiarism_no_chunks [OF nc, of env]
      by (simp add: sched_pipeline_def rI chunk_response_def sr_bind_def sr_lift_def sr_return_def sc_lift_def)
    with run fb show ?thesis by auto
  qed
qed

theorem sched_pipeline_unchunked_witness:
  "(fst (sched_pipeline example_env 0 (JInt 8) (JInt 42) (py_str ''hello'') example_sched) = Inr () \<or>
    fst (sched_pipeline example_env 0 (JInt 8) (JInt 42) (py_str ''hello'') example_sched) = Inl (HTTPError 500)) \<and>
   sc_moodle (snd (sched_pipeline example_env 0 (JInt 8) (JInt 42) (py_str ''hello'') example_sched)) = [] \<and>
   t_feedback (committed (sc_server (snd (sched_pipeline example_env 0 (JInt 8) (JInt 42) (py_str ''hello'') example_sched)))) = []"
proof -
  have ok: "server_ok (sc_server example_sched)" by (simp add: example_sched_def grading_server_ok)
  have new: "find (\<lambda>s. sub_moodle_submission_id s = Some 8) (t_submissions (committed (sc_server example_sched))) = None"
    by (simp add: example_sched_def grading_server_def)
  have tx: "py_strip (py_str ''hello'') \<noteq> []" by (simp add: py_strip_def py_lstrip_def py_rstrip_def is_space_def)
  have e: "sc_moodle example_sched = []" "t_feedback (committed (sc_server example_sched)) = []"
    by (simp_all add: example_sched_def grading_server_def empty_tables_def)
  show ?thesis
    using sched_pipeline_unchunked [OF ok _ _ new tx hello_unchunked prod.collapse [symmetric], of "JInt 8" "JInt 42" 42] e
    by simp
qed

end
