(* ===== verification/Push_Feedback.thy ===== *)
theory Push_Feedback
  imports Scheduler Grading
begin

text \<open>
  The two scripts that push a grade to Moodle. \<open>src/code/push_feedback.py\<close> reads the
  maximum grade of the assignment and the submissions from Moodle, picks the most recent
  submission, reads its extracted text from a local file, grades it with a keyword rubric
  of its own and saves grade and feedback in Moodle. \<open>push_feedback_from_backend.py\<close> (in
  \<open>src/code/fyp_backend/backend/app\<close>) asks the backend for the payload of a submission
  (\<open>GET /moodle/push_payload/{id}\<close>, the handler \<open>Progress.moodle_push_payload\<close>) and
  saves it in Moodle. Both run in the state of \<open>Scheduler\<close>: the backend's server and the
  list of requests sent to Moodle. Moodle's replies, the local files and Python's \<open>str\<close>
  of the values the model does not print itself are the environment \<open>pf_env\<close>.
\<close>

subsection \<open>The environment\<close>

record pf_env =
  pf_moodle :: "moodle_req \<Rightarrow> script_error + json"  \<comment> \<open>the reply of Moodle, or a transport error\<close>
  pf_files :: "pystr \<Rightarrow> pystr option"             \<comment> \<open>the text of the local file at a path\<close>
  pf_repr :: "json \<Rightarrow> pystr"                      \<comment> \<open>\<open>str(v)\<close> of a float, list or dict\<close>
  pf_errstr :: "py_error \<Rightarrow> pystr"                \<comment> \<open>\<open>str(e)\<close> of an exception\<close>

text \<open>\<open>COURSE_ID\<close> and \<open>ASSIGNMENT_ID\<close> of \<open>push_feedback.py\<close> (lines 9--10).\<close>

definition pf_course :: int where "pf_course = 2"

definition pf_assignment :: int where "pf_assignment = 1"

text \<open>
  \<open>call_moodle\<close> (lines 17--33): the request is sent, a transport error or an error status
  raises, and a dict with a truthy \<open>exception\<close> raises \<open>RuntimeError\<close>.
\<close>

definition call_moodle :: "pf_env \<Rightarrow> moodle_req \<Rightarrow> json sc_run" where
  "call_moodle env req st = (sc_then (pf_moodle env req) moodle_check, st\<lparr>sc_moodle := sc_moodle st @ [req]\<rparr>)"

subsection \<open>The maximum grade\<close>

text \<open>
  Lines 36--46: the \<open>grade\<close> of the assignment as a float; a value \<open>float\<close> rejects, and a
  missing assignment, give \<open>10.0\<close>.
\<close>

definition grade_of_assignment :: "int \<Rightarrow> json \<Rightarrow> py_error + pyfloat option" where
  "grade_of_assignment aid a =
     py_then (py_get a (py_str ''id'') JNull) (\<lambda>i.
       if py_eq_int i aid
       then py_then (py_get a (py_str ''grade'') (JInt 10)) (\<lambda>g.
              Inr (Some (case py_float g of Inr f \<Rightarrow> f | Inl _ \<Rightarrow> Fin 10)))
       else Inr None)"

definition grade_of_course :: "int \<Rightarrow> json \<Rightarrow> py_error + pyfloat option" where
  "grade_of_course aid c =
     py_then (py_then (py_get c (py_str ''assignments'') (JList [])) py_iter) (sc_first (grade_of_assignment aid))"

definition get_assignment_max_grade :: "pf_env \<Rightarrow> int \<Rightarrow> int \<Rightarrow> pyfloat sc_run" where
  "get_assignment_max_grade env cid aid =
     sr_bind (call_moodle env (GetAssignments cid)) (\<lambda>data.
     sr_lift (sc_lift (py_then (py_then (py_get data (py_str ''courses'') (JList [])) py_iter) (\<lambda>cs.
       py_then (sc_first (grade_of_course aid) cs) (\<lambda>r. Inr (case r of Some g \<Rightarrow> g | None \<Rightarrow> Fin 10))))))"

subsection \<open>The latest submission\<close>

text \<open>
  The number a value compares as in \<open>t > latest_time\<close>: \<open>int\<close>, \<open>float\<close> and \<open>bool\<close>
  compare by value, every other value against a number raises \<open>TypeError\<close>.
\<close>

fun py_num :: "json \<Rightarrow> pyfloat option" where
  "py_num (JInt i) = Some (Fin (of_int i))"
| "py_num (JFloat r) = Some (Fin r)"
| "py_num (JBool b) = Some (Fin (if b then 1 else 0))"
| "py_num (JInf b) = Some (Inf b)"
| "py_num JNaN = Some NaN"
| "py_num _ = None"

text \<open>Line 58: \<open>sub.get("timemodified") or sub.get("timecreated") or 0\<close>.\<close>

definition sub_time :: "json \<Rightarrow> py_error + json" where
  "sub_time sub =
     py_then (py_get sub (py_str ''timemodified'') JNull) (\<lambda>m.
       if py_truthy m then Inr m
       else py_then (py_get sub (py_str ''timecreated'') JNull) (\<lambda>c. Inr (py_or c (JInt 0))))"

text \<open>
  The loop state of lines 50--62: \<open>latest_time\<close> (always a number: it starts at \<open>-1\<close> and
  only takes a value that compared), \<open>latest_userid\<close> and \<open>latest_subid\<close> (\<open>None\<close> is
  \<open>JNull\<close>).
\<close>

type_synonym latest = "pyfloat \<times> json \<times> json"

definition pick_step :: "latest \<Rightarrow> json \<Rightarrow> py_error + latest" where
  "pick_step acc sub =
     py_then (py_get sub (py_str ''userid'') JNull) (\<lambda>u.
     py_then (py_get sub (py_str ''id'') JNull) (\<lambda>s.
     py_then (sub_time sub) (\<lambda>t.
       case py_num t of
         None \<Rightarrow> Inl TypeError
       | Some x \<Rightarrow> Inr (if pf_less (fst acc) x then (x, u, s) else acc))))"

text \<open>A \<open>for\<close> loop that updates its state and may raise.\<close>

fun py_fold :: "('a \<Rightarrow> 'b \<Rightarrow> py_error + 'a) \<Rightarrow> 'a \<Rightarrow> 'b list \<Rightarrow> py_error + 'a" where
  "py_fold f a [] = Inr a"
| "py_fold f a (x # xs) = py_then (f a x) (\<lambda>a'. py_fold f a' xs)"

definition pick_assignment :: "latest \<Rightarrow> json \<Rightarrow> py_error + latest" where
  "pick_assignment acc a =
     py_then (py_then (py_get a (py_str ''submissions'') (JList [])) py_iter) (py_fold pick_step acc)"

definition pick_latest_submission :: "json \<Rightarrow> script_error + json \<times> json" where
  "pick_latest_submission js =
     sc_then (sc_lift (py_then (py_then (py_get js (py_str ''assignments'') (JList [])) py_iter)
                               (py_fold pick_assignment (Fin (-1), JNull, JNull)))) (\<lambda>(_, u, s).
       if u = JNull \<or> s = JNull then Inl RuntimeError else Inr (u, s))"

subsection \<open>The local text file\<close>

text \<open>Lines 71--77: the same chain as \<open>clean_text_basic\<close> of the backend.\<close>

definition clean_pdf_text :: "pystr \<Rightarrow> pystr" where
  "clean_pdf_text s =
     (let s = re_sub cid_rx [] s;
          s = replace_char 173 [] s;
          s = re_sub blank_rx [32] s
      in py_strip (re_sub newlines3_rx [newline, newline] s))"

text \<open>\<open>str(i)\<close> of an integer, and \<open>str(v)\<close> of a value of a JSON reply.\<close>

definition py_str_of_int :: "int \<Rightarrow> pystr" where
  "py_str_of_int i = (if i < 0 then 45 # py_str_of_nat (nat (- i)) else py_str_of_nat (nat i))"

definition py_str_json :: "pf_env \<Rightarrow> json \<Rightarrow> pystr" where
  "py_str_json env v =
     (case v of
        JInt i \<Rightarrow> py_str_of_int i
      | JStr s \<Rightarrow> s
      | JNull \<Rightarrow> py_str ''None''
      | JBool b \<Rightarrow> py_str (if b then ''True'' else ''False'')
      | JInf b \<Rightarrow> py_str (if b then ''inf'' else ''-inf'')
      | JNaN \<Rightarrow> py_str ''nan''
      | _ \<Rightarrow> pf_repr env v)"

text \<open>\<open>os.path.join(a, b)\<close> on POSIX: an absolute \<open>b\<close> replaces \<open>a\<close>.\<close>

definition path_join :: "pystr \<Rightarrow> pystr \<Rightarrow> pystr" where
  "path_join a b =
     (if b \<noteq> [] \<and> hd b = 47 then b
      else if a = [] \<or> last a = 47 then a @ b
      else a @ [47] @ b)"

definition submission_path :: "pf_env \<Rightarrow> json \<Rightarrow> int \<Rightarrow> int \<Rightarrow> pystr" where
  "submission_path env u c a =
     path_join (py_str ''submissions'')
       (py_str_json env u @ py_str ''_'' @ py_str_of_int c @ py_str ''_'' @ py_str_of_int a @ py_str ''.txt'')"

text \<open>
  \<open>re.search(m + r"\s*(.*)", s, flags=re.DOTALL)\<close> for a literal \<open>m\<close>: the text after the
  first occurrence of \<open>m\<close>; the group is what follows the white space after it.
\<close>

fun after_first :: "pystr \<Rightarrow> pystr \<Rightarrow> pystr option" where
  "after_first m [] = (if m = [] then Some [] else None)"
| "after_first m (c # cs) = (if prefix m (c # cs) then Some (drop (length m) (c # cs)) else after_first m cs)"

definition pdf_marker :: pystr where
  "pdf_marker = py_str ''=== PDF SUBMISSION TEXT ===''"

definition read_extracted_submission_text :: "pf_env \<Rightarrow> json \<Rightarrow> int \<Rightarrow> int \<Rightarrow> script_error + pystr" where
  "read_extracted_submission_text env u c a =
     (case pf_files env (submission_path env u c a) of
        None \<Rightarrow> Inl RuntimeError
      | Some content \<Rightarrow>
          (case after_first pdf_marker content of
             Some rest \<Rightarrow> Inr (clean_pdf_text (py_strip (dropWhile is_space rest)))
           | None \<Rightarrow> Inr (clean_pdf_text content)))"

subsection \<open>The rubric\<close>

text \<open>Lines 109--143: the three questions, one point per rule, at most three each.\<close>

definition pf_q1 :: "pystr \<Rightarrow> nat" where
  "pf_q1 t =
     min (of_bool (has t ''service'' \<and> (has t ''stable'' \<or> has t ''endpoint'' \<or> has t ''dns'')) +
          of_bool (has t ''pods'' \<and> (has t ''ip'' \<or> has t ''change'' \<or> has t ''restart'')) +
          of_bool (has t ''load'' \<and> (has t ''balance'' \<or> has t ''load-balanc''))) 3"

definition pf_q2 :: "pystr \<Rightarrow> nat" where
  "pf_q2 t =
     min (of_bool (has t ''clusterip'' \<and> (has t ''inside'' \<or> has t ''internal'' \<or> has t ''within'')) +
          of_bool (has t ''nodeport'' \<and> (has t ''outside'' \<or> has t ''external'' \<or> has t ''access'')) +
          of_bool (has t ''port'' \<and> (has t ''node'' \<or> has t ''every node''))) 3"

definition pf_q3 :: "pystr \<Rightarrow> nat" where
  "pf_q3 t =
     min (of_bool (has t ''networkpolicy'' \<or> has t ''network policy'') +
          of_bool ((has t ''allow'' \<or> has t ''only'') \<and> (has t ''block'' \<or> has t ''deny'')) +
          of_bool (has t ''frontend'' \<and> has t ''backend'')) 3"

text \<open>
  Line 146: \<open>round((score / 9.0) * max_grade, 2)\<close> with the float \<open>max_grade\<close>: an
  infinite maximum gives an infinite grade, or \<open>nan\<close> for the score 0 (\<open>0.0 * inf\<close>), and
  \<open>round\<close> leaves non-finite floats as they are.
\<close>

definition pf_scale :: "nat \<Rightarrow> pyfloat \<Rightarrow> pyfloat" where
  "pf_scale score mg =
     (case mg of
        Fin m \<Rightarrow> Fin (py_round2 (real score / 9 * m))
      | Inf b \<Rightarrow> (if score = 0 then NaN else Inf b)
      | NaN \<Rightarrow> NaN)"

definition pf_feedback_line :: "string \<Rightarrow> nat \<Rightarrow> string \<Rightarrow> pystr" where
  "pf_feedback_line head pts remark =
     py_str head @ py_str_of_nat pts @ py_str ''/3 '' @ [8212] @ py_str '' '' @ py_str remark"

definition grade_and_feedback :: "pystr \<Rightarrow> pyfloat \<Rightarrow> pyfloat \<times> pystr" where
  "grade_and_feedback answer_text max_grade =
     (let t = py_lower (clean_pdf_text answer_text);
          q1 = pf_q1 t; q2 = pf_q2 t; q3 = pf_q3 t;
          feedback =
            [pf_feedback_line ''Q1 (Service): '' q1
               ''Clear idea of stable access to Pods. DNS + load balancing mention is solid.'',
             pf_feedback_line ''Q2 (ClusterIP vs NodePort): '' q2
               ''Correct internal vs external exposure. Nice detail about node-level ports.'',
             pf_feedback_line ''Q3 (NetworkPolicy): '' q3
               ''Great example: only frontend can talk to backend, others blocked.''];
          overall =
            [py_str ''Overall: Strong submission '' @ [8212] @ py_str '' concepts are correct and explained clearly.'',
             py_str ''Improvement idea: mention Services select Pods using labels, and in production external exposure is often via LoadBalancer/Ingress (not only NodePort).'',
             [], py_str ''Breakdown:''] @ feedback
      in (pf_scale (q1 + q2 + q3) max_grade, py_join [newline] overall))"

subsection \<open>Saving the grade and the run\<close>

text \<open>Lines 160--172: the grade as a float, the feedback as \<open>plugindata\<close>, state \<open>graded\<close>.\<close>

definition save_grade_with_feedback :: "pf_env \<Rightarrow> int \<Rightarrow> json \<Rightarrow> pyfloat \<Rightarrow> pystr \<Rightarrow> json sc_run" where
  "save_grade_with_feedback env aid u g fb =
     call_moodle env (SaveGradeEditor (JInt aid) u (pf_json g) (JStr fb) (py_str ''graded''))"

text \<open>Lines 175--191, without the final prints.\<close>

definition push_feedback_main :: "pf_env \<Rightarrow> unit sc_run" where
  "push_feedback_main env =
     sr_bind (get_assignment_max_grade env pf_course pf_assignment) (\<lambda>mg.
     sr_bind (call_moodle env (GetSubmissions pf_assignment)) (\<lambda>subs.
     sr_bind (sr_lift (pick_latest_submission subs)) (\<lambda>(u, s).
     sr_bind (sr_lift (read_extracted_submission_text env u pf_course pf_assignment)) (\<lambda>text.
       case grade_and_feedback text mg of
         (g, fb) \<Rightarrow> sr_bind (save_grade_with_feedback env pf_assignment u g fb) (\<lambda>_. sr_return ())))))"

subsection \<open>Pushing the backend's payload\<close>

text \<open>
  \<open>requests.get(...).json()\<close> with no status check (\<open>push_feedback_from_backend.py\<close>, line
  24): the body of an error response is the dict \<open>{"detail": ...}\<close>; the body of an
  uncaught exception is plain text, which \<open>.json()\<close> rejects.
\<close>

definition resp_body :: "pf_env \<Rightarrow> response \<Rightarrow> script_error + json" where
  "resp_body env r =
     (case r of
        JsonResp _ v \<Rightarrow> Inr v
      | HttpError _ d \<Rightarrow> Inr (JObj [(py_str ''detail'', JStr d)])
      | HttpErrorOf _ e \<Rightarrow> Inr (JObj [(py_str ''detail'', JStr (pf_errstr env e))])
      | ServerError \<Rightarrow> Inl (PyErr ValueError))"

text \<open>\<open>moodle_call\<close> of that script (lines 7--17) checks the status but not the reply.\<close>

definition moodle_call_unchecked :: "pf_env \<Rightarrow> moodle_req \<Rightarrow> json sc_run" where
  "moodle_call_unchecked env req st = (pf_moodle env req, st\<lparr>sc_moodle := sc_moodle st @ [req]\<rparr>)"

text \<open>Lines 19--44 for the backend submission \<open>sid\<close> (the script fixes \<open>14\<close>).\<close>

definition push_from_backend :: "pf_env \<Rightarrow> nat \<Rightarrow> unit sc_run" where
  "push_from_backend env sid =
     sr_bind (sr_backend (moodle_push_payload sid)) (\<lambda>r.
     sr_bind (sr_lift (resp_body env r)) (\<lambda>pkg.
     sr_bind (sr_lift (sc_lift (py_getitem pkg (py_str ''moodle_assign_id'')))) (\<lambda>a.
     sr_bind (sr_lift (sc_lift (py_getitem pkg (py_str ''moodle_user_id'')))) (\<lambda>u.
     sr_bind (sr_lift (sc_lift (py_getitem pkg (py_str ''grade'')))) (\<lambda>g.
     sr_bind (sr_lift (sc_lift (py_getitem pkg (py_str ''feedback_text'')))) (\<lambda>f.
     sr_bind (moodle_call_unchecked env (SaveGradeEditor a u g f [])) (\<lambda>_. sr_return ())))))))"

definition push_from_backend_main :: "pf_env \<Rightarrow> unit sc_run" where
  "push_from_backend_main env = push_from_backend env 14"

subsection \<open>A reference for the latest submission\<close>

text \<open>
  Submissions as Moodle lists them, as (\<open>timemodified\<close>, \<open>userid\<close>, \<open>id\<close>), grouped by
  assignment; and the submission \<open>pick_latest_submission\<close> is meant to find: the first one
  whose time is a maximum of all times and later than the start value \<open>-1\<close>.
\<close>

definition moodle_sub :: "int \<times> json \<times> json \<Rightarrow> json" where
  "moodle_sub x =
     (case x of (t, u, s) \<Rightarrow> JObj [(py_str ''userid'', u), (py_str ''id'', s), (py_str ''timemodified'', JInt t)])"

definition moodle_assignment :: "(int \<times> json \<times> json) list \<Rightarrow> json" where
  "moodle_assignment xs = JObj [(py_str ''submissions'', JList (map moodle_sub xs))]"

definition moodle_submissions :: "(int \<times> json \<times> json) list list \<Rightarrow> json" where
  "moodle_submissions gs = JObj [(py_str ''assignments'', JList (map moodle_assignment gs))]"

definition latest_ref :: "(int \<times> json \<times> json) list \<Rightarrow> (int \<times> json \<times> json) option" where
  "latest_ref xs = find (\<lambda>x. -1 < fst x \<and> (\<forall>y \<in> set xs. fst y \<le> fst x)) xs"

subsection \<open>The shape of the payload\<close>

text \<open>
  The types of the values the payload of \<open>GET /moodle/push_payload/{id}\<close> is built from
  (\<open>main.py\<close>, lines 499--505), and the typing judgement of JSON values: \<open>float\<close> includes
  the non-finite floats, \<open>TOr\<close> is a union, and a dict type lists its keys in order.
\<close>

datatype jtype = TInt | TFloat | TStr | TNone | TOr jtype jtype | TDict "(pystr \<times> jtype) list"

inductive json_type :: "json \<Rightarrow> jtype \<Rightarrow> bool" where
  int: "json_type (JInt i) TInt"
| float: "json_type (JFloat r) TFloat"
| inf: "json_type (JInf b) TFloat"
| nan: "json_type JNaN TFloat"
| str: "json_type (JStr s) TStr"
| none: "json_type JNull TNone"
| or_left: "json_type v t \<Longrightarrow> json_type v (TOr t t')"
| or_right: "json_type v t' \<Longrightarrow> json_type v (TOr t t')"
| dict_nil: "json_type (JObj []) (TDict [])"
| dict_cons: "json_type v t \<Longrightarrow> json_type (JObj kvs) (TDict fs) \<Longrightarrow>
              json_type (JObj ((k, v) # kvs)) (TDict ((k, t) # fs))"

code_pred json_type .

definition push_payload_type :: jtype where
  "push_payload_type =
     TDict [(py_str ''moodle_user_id'', TInt), (py_str ''moodle_submission_id'', TOr TInt TNone),
            (py_str ''moodle_assign_id'', TInt), (py_str ''grade'', TOr TFloat TNone),
            (py_str ''feedback_text'', TStr)]"

subsection \<open>Examples\<close>

text \<open>
  Moodle lists one submission (user 5, id 7), every other call answers \<open>{}\<close>, and no
  local file exists.
\<close>

definition example_pf_env :: pf_env where
  "example_pf_env =
     \<lparr>pf_moodle = (\<lambda>r. case r of GetSubmissions _ \<Rightarrow> Inr (moodle_submissions [[(100, JInt 5, JInt 7)]])
                               | _ \<Rightarrow> Inr (JObj [])),
      pf_files = (\<lambda>_. None), pf_repr = (\<lambda>_. []), pf_errstr = (\<lambda>_. [])\<rparr>"


subsection \<open>Lemmas\<close>

lemma py_fold_append:
  "py_fold f a (xs @ ys) = py_then (py_fold f a xs) (\<lambda>a'. py_fold f a' ys)"
  by (induction xs arbitrary: a) (simp_all add: py_then_def split: sum.splits)

lemma pick_step_sub:
  "pick_step (Fin (of_int a), u0, s0) (moodle_sub (t, u, s)) =
     Inr (if a < t then (Fin (of_int t), u, s) else (Fin (of_int a), u0, s0))"
  by (simp add: pick_step_def moodle_sub_def sub_time_def py_or_def py_str_def)

lemma list_has_max:
  fixes f :: "'a \<Rightarrow> 'b::linorder"
  assumes "z \<in> set xs"
  obtains m where "m \<in> set xs" "\<forall>y \<in> set xs. f y \<le> f m"
proof -
  have "Max (f ` set xs) \<in> f ` set xs" using assms by (intro Max_in) auto
  then obtain m where "m \<in> set xs" "f m = Max (f ` set xs)" by auto
  then show ?thesis using that by simp
qed

lemma pick_fold_find:
  "py_fold pick_step (Fin (of_int a), u0, s0) (map moodle_sub xs) =
     Inr (case find (\<lambda>x. a < fst x \<and> (\<forall>y \<in> set xs. fst y \<le> fst x)) xs of
            Some (t, u, s) \<Rightarrow> (Fin (of_int t), u, s)
          | None \<Rightarrow> (Fin (of_int a), u0, s0))"
proof (induction xs arbitrary: a u0 s0)
  case Nil
  then show ?case by simp
next
  case (Cons x xs)
  obtain t u s where x: "x = (t, u, s)" by (cases x) auto
  show ?case
  proof (cases "a < t")
    case True
    show ?thesis
    proof (cases "\<forall>y \<in> set xs. fst y \<le> t")
      case True
      then have "find (\<lambda>x. t < fst x \<and> (\<forall>y \<in> set xs. fst y \<le> fst x)) xs = None"
        by (auto simp: find_None_iff)
      with True \<open>a < t\<close> Cons.IH [of t u s] show ?thesis by (simp add: x pick_step_sub)
    next
      case False
      then obtain z where z: "z \<in> set xs" "t < fst z" by auto
      have e: "find (\<lambda>x. t < fst x \<and> (\<forall>y \<in> set xs. fst y \<le> fst x)) xs =
            find (\<lambda>x'. a < fst x' \<and> (\<forall>y \<in> set (x # xs). fst y \<le> fst x')) xs"
        by (rule find_cong) (use z \<open>a < t\<close> in \<open>fastforce simp: x\<close>)+
      obtain m where "m \<in> set xs" "\<forall>y \<in> set xs. fst y \<le> fst m" by (rule list_has_max [OF z(1)])
      with z have "find (\<lambda>x. t < fst x \<and> (\<forall>y \<in> set xs. fst y \<le> fst x)) xs \<noteq> None"
        unfolding find_None_iff using order.strict_trans2 [of t "fst z" "fst m"] by blast
      then obtain v where v: "find (\<lambda>x. t < fst x \<and> (\<forall>y \<in> set xs. fst y \<le> fst x)) xs = Some v" by auto
      have "find (\<lambda>x'. a < fst x' \<and> (\<forall>y \<in> set (x # xs). fst y \<le> fst x')) (x # xs) = Some v"
        using v e False by (auto simp: x)
      with v \<open>a < t\<close> Cons.IH [of t u s] show ?thesis
        by (simp add: x pick_step_sub del: find.simps)
    qed
  next
    case False
    have "find (\<lambda>x. a < fst x \<and> (\<forall>y \<in> set xs. fst y \<le> fst x)) xs =
          find (\<lambda>x'. a < fst x' \<and> (\<forall>y \<in> set (x # xs). fst y \<le> fst x')) xs"
      by (rule find_cong) (use False in \<open>auto simp: x\<close>)
    with False Cons.IH [of a u0 s0] show ?thesis by (simp add: x pick_step_sub)
  qed
qed

lemma pick_assignments_concat:
  "py_fold pick_assignment acc (map moodle_assignment gs) =
   py_fold pick_step acc (map moodle_sub (concat gs))"
  by (induction gs arbitrary: acc)
     (simp_all add: pick_assignment_def moodle_assignment_def py_fold_append py_then_def split: sum.splits)

lemma clean_pdf_text_basic: "clean_pdf_text s = clean_text_basic s"
  by (simp add: clean_pdf_text_def clean_text_basic_def Let_def)

lemma pf_points_le3: "pf_q1 t \<le> 3 \<and> pf_q2 t \<le> 3 \<and> pf_q3 t \<le> 3"
  by (simp add: pf_q1_def pf_q2_def pf_q3_def)

lemma call_moodle_state:
  "call_moodle env req st = (r, st') \<Longrightarrow> st' = st\<lparr>sc_moodle := sc_moodle st @ [req]\<rparr>"
  by (simp add: call_moodle_def)

lemma get_assignment_max_grade_state:
  "get_assignment_max_grade env c a st = (r, st') \<Longrightarrow> st' = st\<lparr>sc_moodle := sc_moodle st @ [GetAssignments c]\<rparr>"
  by (auto simp: get_assignment_max_grade_def sr_bind_def sr_lift_def call_moodle_def split: sum.splits)

lemma pf_json_type [intro]: "json_type (pf_json f) TFloat"
  by (cases f) (auto simp: pf_json_def intro: json_type.intros)

lemma float_or_none_type: "float_or_none v = Inr g \<Longrightarrow> json_type g (TOr TFloat TNone)"
  by (auto simp: float_or_none_def py_then_Inr intro: json_type.or_left json_type.or_right json_type.none
      split: if_splits)

subsection \<open>Properties of the push scripts\<close>

text \<open>
  C23: \<open>pick_latest_submission\<close> finds the first submission, in Moodle's order across
  assignments, whose time is the largest of all and later than \<open>-1\<close>; it raises
  \<open>RuntimeError\<close> when there is none, and also when that submission has no \<open>userid\<close> or
  \<open>id\<close>, even if other submissions have both.
\<close>

theorem pick_latest_submission_ref:
  "pick_latest_submission (moodle_submissions gs) =
     (case latest_ref (concat gs) of
        Some (_, u, s) \<Rightarrow> if u = JNull \<or> s = JNull then Inl RuntimeError else Inr (u, s)
      | None \<Rightarrow> Inl RuntimeError)"
proof -
  have "pick_latest_submission (moodle_submissions gs) =
        sc_then (sc_lift (py_fold pick_step (Fin (-1), JNull, JNull) (map moodle_sub (concat gs))))
          (\<lambda>(_, u, s). if u = JNull \<or> s = JNull then Inl RuntimeError else Inr (u, s))"
    by (simp add: pick_latest_submission_def moodle_submissions_def pick_assignments_concat)
  then show ?thesis
    using pick_fold_find [of "-1" JNull JNull "concat gs"]
    by (simp add: latest_ref_def sc_lift_def sc_then_def split: option.splits)
qed

theorem pick_latest_submission_ref_witness:
  "pick_latest_submission (moodle_submissions [[(100, JInt 5, JInt 7)], [(100, JInt 6, JInt 8)]]) =
   Inr (JInt 5, JInt 7)"
  using pick_latest_submission_ref [of "[[(100, JInt 5, JInt 7)], [(100, JInt 6, JInt 8)]]"]
  by (simp add: latest_ref_def)

text \<open>
  C24: End to end from the backend to Moodle: after \<open>POST /grade/{id}\<close> succeeds on a
  consistent store, \<open>push_feedback_from_backend.py\<close> for that submission sends exactly one
  request to Moodle, \<open>mod_assign_save_grade\<close> with the grade the grading response
  reported, and ends as Moodle's reply does.
\<close>

theorem grade_then_push_from_backend:
  assumes ok: "seqs_ok (sc_server st)" and gr: "grade_submission now sid mg (sc_server st) = (JsonResp c v, srv')"
  shows "\<exists>a u g f. py_get v (py_str ''grade'') JNull = Inr g \<and>
           push_from_backend env sid (st\<lparr>sc_server := srv'\<rparr>) =
             (sc_then (pf_moodle env (SaveGradeEditor a u g f [])) (\<lambda>_. Inr ()),
              st\<lparr>sc_server := srv', sc_moodle := sc_moodle st @ [SaveGradeEditor a u g f []]\<rparr>)"
proof -
  obtain sub :: submission_row and grade ftext where p: "moodle_push_payload sid srv' =
       (JsonResp 200 (JObj [(py_str ''moodle_user_id'', JInt (sub_student_id sub)),
          (py_str ''moodle_submission_id'',
             (case sub_moodle_submission_id sub of Some m \<Rightarrow> if m = 0 then JNull else JInt m | None \<Rightarrow> JNull)),
          (py_str ''moodle_assign_id'', JInt (sub_assignment_id sub)), (py_str ''grade'', JFloat grade),
          (py_str ''feedback_text'', JStr ftext)]), srv')"
    and vg: "py_get v (py_str ''grade'') JNull = Inr (JFloat grade)"
    by (rule grade_submission_payload [OF ok gr])
  have "push_from_backend env sid (st\<lparr>sc_server := srv'\<rparr>) =
          (sc_then (pf_moodle env (SaveGradeEditor (JInt (sub_assignment_id sub)) (JInt (sub_student_id sub))
                     (JFloat grade) (JStr ftext) [])) (\<lambda>_. Inr ()),
           st\<lparr>sc_server := srv', sc_moodle := sc_moodle st @ [SaveGradeEditor (JInt (sub_assignment_id sub))
                     (JInt (sub_student_id sub)) (JFloat grade) (JStr ftext) []]\<rparr>)"
    using p by (simp add: push_from_backend_def sr_backend_def resp_body_def sc_lift_def sr_bind_def sr_lift_def
        moodle_call_unchecked_def sr_return_def sc_then_def split: sum.splits)
  with vg show ?thesis by blast
qed

theorem grade_then_push_from_backend_witness:
  "\<exists>c v srv' a u g f. grade_submission 0 1 100 grading_server = (JsonResp c v, srv') \<and>
     py_get v (py_str ''grade'') JNull = Inr g \<and>
     push_from_backend example_pf_env 1 (example_sched\<lparr>sc_server := srv'\<rparr>) =
       (sc_then (pf_moodle example_pf_env (SaveGradeEditor a u g f [])) (\<lambda>_. Inr ()),
        example_sched\<lparr>sc_server := srv', sc_moodle := sc_moodle example_sched @ [SaveGradeEditor a u g f []]\<rparr>)"
proof -
  obtain c v srv' where r: "grade_submission 0 1 100 grading_server = (JsonResp c v, srv')"
    using grading_server_grade by blast
  have "seqs_ok (sc_server example_sched)" by (simp add: example_sched_def grading_server_seqs_ok)
  moreover have "grade_submission 0 1 100 (sc_server example_sched) = (JsonResp c v, srv')"
    using r by (simp add: example_sched_def)
  ultimately obtain a u g f where "py_get v (py_str ''grade'') JNull = Inr g \<and>
     push_from_backend example_pf_env 1 (example_sched\<lparr>sc_server := srv'\<rparr>) =
       (sc_then (pf_moodle example_pf_env (SaveGradeEditor a u g f [])) (\<lambda>_. Inr ()),
        example_sched\<lparr>sc_server := srv', sc_moodle := sc_moodle example_sched @ [SaveGradeEditor a u g f []]\<rparr>)"
    using grade_then_push_from_backend [of example_sched 0 1 100 c v srv' example_pf_env] by blast
  with r show ?thesis by blast
qed

text \<open>
  C25: Every payload \<open>GET /moodle/push_payload/{id}\<close> serves has the shape the push script
  reads: an int user, an int or \<open>None\<close> Moodle submission, an int assignment, a float or
  \<open>None\<close> grade and a string feedback, in this order.
\<close>

theorem push_payload_typed:
  assumes "fst (moodle_push_payload sid srv) = JsonResp 200 p"
  shows "json_type p push_payload_type"
  using assms
  by (auto simp: moodle_push_payload_def push_payload_type_def Let_def
        split: option.splits list.splits sum.splits
        intro!: json_type.dict_cons json_type.dict_nil json_type.int json_type.str float_or_none_type
          json_type.or_left [OF json_type.int] json_type.or_right [OF json_type.none])

theorem push_payload_typed_witness:
  "\<exists>srv' p. snd (grade_submission 0 1 100 grading_server) = srv' \<and>
     fst (moodle_push_payload 1 srv') = JsonResp 200 p \<and> json_type p push_payload_type"
proof -
  obtain c v srv' where r: "grade_submission 0 1 100 grading_server = (JsonResp c v, srv')"
    using grading_server_grade by blast
  obtain sub :: submission_row and grade ftext where p: "moodle_push_payload 1 srv' =
       (JsonResp 200 (JObj [(py_str ''moodle_user_id'', JInt (sub_student_id sub)),
          (py_str ''moodle_submission_id'',
             (case sub_moodle_submission_id sub of Some m \<Rightarrow> if m = 0 then JNull else JInt m | None \<Rightarrow> JNull)),
          (py_str ''moodle_assign_id'', JInt (sub_assignment_id sub)), (py_str ''grade'', JFloat grade),
          (py_str ''feedback_text'', JStr ftext)]), srv')"
    by (rule grade_submission_payload [OF grading_server_seqs_ok r])
  then have "fst (moodle_push_payload 1 srv') = JsonResp 200 (JObj [(py_str ''moodle_user_id'', JInt (sub_student_id sub)),
          (py_str ''moodle_submission_id'',
             (case sub_moodle_submission_id sub of Some m \<Rightarrow> if m = 0 then JNull else JInt m | None \<Rightarrow> JNull)),
          (py_str ''moodle_assign_id'', JInt (sub_assignment_id sub)), (py_str ''grade'', JFloat grade),
          (py_str ''feedback_text'', JStr ftext)])" by simp
  with push_payload_typed r show ?thesis by fastforce
qed

text \<open>
  C26: When the local text file of the latest submission is missing, \<open>push_feedback.py\<close>
  raises \<open>RuntimeError\<close> after its two reads from Moodle, and saves no grade.
\<close>

theorem push_feedback_missing_file:
  assumes mg: "get_assignment_max_grade env pf_course pf_assignment st = (Inr mg, st1)"
    and subs: "call_moodle env (GetSubmissions pf_assignment) st1 = (Inr subs, st2)"
    and pick: "pick_latest_submission subs = Inr (u, s)"
    and nofile: "pf_files env (submission_path env u pf_course pf_assignment) = None"
  shows "push_feedback_main env st = (Inl RuntimeError, st2) \<and>
         sc_moodle st2 = sc_moodle st @ [GetAssignments pf_course, GetSubmissions pf_assignment]"
proof
  show "push_feedback_main env st = (Inl RuntimeError, st2)"
    unfolding push_feedback_main_def
    by (simp add: sr_bind_Inr [of "get_assignment_max_grade env pf_course pf_assignment", OF mg]
        sr_bind_Inr [of "call_moodle env (GetSubmissions pf_assignment)", OF subs] pick
        read_extracted_submission_text_def nofile)
  show "sc_moodle st2 = sc_moodle st @ [GetAssignments pf_course, GetSubmissions pf_assignment]"
    using get_assignment_max_grade_state [OF mg] call_moodle_state [OF subs] by simp
qed

theorem push_feedback_missing_file_witness:
  "push_feedback_main example_pf_env example_sched =
     (Inl RuntimeError, example_sched\<lparr>sc_moodle := [GetAssignments pf_course, GetSubmissions pf_assignment]\<rparr>)"
proof -
  let ?st1 = "example_sched\<lparr>sc_moodle := [GetAssignments pf_course]\<rparr>"
  let ?st2 = "example_sched\<lparr>sc_moodle := [GetAssignments pf_course, GetSubmissions pf_assignment]\<rparr>"
  have "get_assignment_max_grade example_pf_env pf_course pf_assignment example_sched = (Inr (Fin 10), ?st1)"
    by (simp add: get_assignment_max_grade_def call_moodle_def example_pf_env_def example_sched_def
        moodle_check_def sc_then_def sc_lift_def sr_lift_def sr_bind_def)
  moreover have "call_moodle example_pf_env (GetSubmissions pf_assignment) ?st1 =
                 (Inr (moodle_submissions [[(100, JInt 5, JInt 7)]]), ?st2)"
    by (simp add: call_moodle_def example_pf_env_def moodle_check_def moodle_submissions_def sc_then_def)
  moreover have "pick_latest_submission (moodle_submissions [[(100, JInt 5, JInt 7)]]) = Inr (JInt 5, JInt 7)"
    by (simp add: pick_latest_submission_def moodle_submissions_def moodle_assignment_def pick_assignment_def
        pick_step_sub [of "-1" JNull JNull, simplified] sc_lift_def sc_then_def)
  moreover have "pf_files example_pf_env (submission_path example_pf_env (JInt 5) pf_course pf_assignment) = None"
    by (simp add: example_pf_env_def)
  ultimately show ?thesis using push_feedback_missing_file by blast
qed

text \<open>
  C27: \<open>push_feedback_from_backend.py\<close> does not check the status of the payload request:
  for a submission the backend does not know, the 404 body \<open>{"detail": ...}\<close> is read as
  a payload and the script ends with \<open>KeyError\<close>, with nothing sent to Moodle.
\<close>

theorem push_from_backend_unknown:
  assumes "find_submission (committed (sc_server st)) sid = None"
  shows "push_from_backend env sid st = (Inl (PyErr KeyError), st)"
  using assms
  by (simp add: push_from_backend_def moodle_push_payload_def sr_backend_def resp_body_def sc_lift_def
      sr_bind_def sr_lift_def Let_def)

theorem push_from_backend_unknown_witness:
  "push_from_backend example_pf_env 99 example_sched = (Inl (PyErr KeyError), example_sched)"
  using push_from_backend_unknown [of example_sched 99 example_pf_env]
  by (simp add: example_sched_def grading_server_def find_submission_def)

text \<open>
  C28: For a finite maximum grade \<open>m \<ge> 0\<close> the grade of \<open>grade_and_feedback\<close> is a finite float
  between 0 and \<open>round(m, 2)\<close>.
\<close>

theorem grade_and_feedback_bounds:
  assumes "0 \<le> m"
  shows "\<exists>g. fst (grade_and_feedback t (Fin m)) = Fin g \<and> 0 \<le> g \<and> g \<le> py_round2 m"
proof -
  let ?u = "py_lower (clean_pdf_text t)"
  have "pf_q1 ?u + pf_q2 ?u + pf_q3 ?u \<le> 9" using pf_points_le3 [of ?u] by linarith
  from round2_scaled_bounds [OF this assms] show ?thesis
    by (simp add: grade_and_feedback_def Let_def pf_scale_def)
qed

theorem grade_and_feedback_bounds_witness:
  "\<exists>g. fst (grade_and_feedback [] (Fin 10)) = Fin g \<and> 0 \<le> g \<and> g \<le> py_round2 10"
  using grade_and_feedback_bounds [of 10 "[]"] by simp

text \<open>
  A maximum grade below 0, which is how Moodle reports an assignment graded on a scale,
  gives a grade of at most 0.
\<close>

lemma grade_and_feedback_scale_max:
  assumes "m < 0"
  shows "\<exists>g. fst (grade_and_feedback t (Fin m)) = Fin g \<and> g \<le> 0"
proof -
  let ?u = "py_lower (clean_pdf_text t)"
  let ?x = "real (pf_q1 ?u + pf_q2 ?u + pf_q3 ?u) / 9 * m"
  have "?x \<le> 0" using assms by (intro mult_nonneg_nonpos) simp_all
  then have "?x * 100 \<le> 0" by (rule mult_nonpos_nonneg) simp
  then have "py_round (?x * 100) \<le> py_round 0" by (rule py_round_mono)
  then have "py_round (?x * 100) \<le> 0" using py_round_of_int [of 0] by simp
  then have "py_round2 ?x \<le> 0" by (simp add: py_round2_def)
  moreover have "fst (grade_and_feedback t (Fin m)) = Fin (py_round2 ?x)"
    by (simp add: grade_and_feedback_def Let_def pf_scale_def)
  ultimately show ?thesis by simp
qed

text \<open>
  The rubric of \<open>push_feedback.py\<close> misses the usual phrase: an answer saying \<open>Load
  balancing\<close> gets no load-balancing point, because the rule looks for \<open>balance\<close> or
  \<open>load-balanc\<close>; the backend's grader, which looks for \<open>balanc\<close>, gives the same answer
  the point.
\<close>

lemma pf_rubric_load_balancing:
  "pf_q1 (py_lower (clean_pdf_text (py_str ''Service: stable endpoint. Pods: IP changes. Load balancing.''))) = 2 \<and>
   q1_points (grading_norm (py_str ''Service: stable endpoint. Pods: IP changes. Load balancing.'')) = 3"
proof -
  let ?s = "py_str ''Service: stable endpoint. Pods: IP changes. Load balancing.''"
  have c: "clean_text_basic ?s = ?s"
    by (rule clean_text_basic_plain)
       (simp_all add: py_str_def newline_def py_strip_def py_lstrip_def py_rstrip_def is_space_def)
  show ?thesis using c by (simp add: clean_pdf_text_basic grading_norm_plain pf_q1_def grading_eval)
qed

end
