(* ===== verification/Submissions_Script.thy ===== *)
theory Submissions_Script
  imports Push_Feedback
begin

text \<open>
  The first integration script, \<open>src/code/get_submissions_assignments.py\<close>, run against the
  backend: it reads the due date and the submissions of the assignment from Moodle, takes
  the text of each submission (the online text with its HTML removed, or the text of its
  first PDF file), ingests it, checks it for plagiarism, and after the due date grades it
  with the multi-agent pipeline and saves the grade in Moodle, with a warning in front of
  the feedback of a flagged submission. Unlike the scheduler it asks the backend nothing
  before ingesting and catches no error. The state is the one of \<open>Scheduler\<close>; Moodle's
  replies, the download of a file, the pages \<open>pdfplumber\<close> reads, \<open>html.unescape\<close> and
  \<open>add_token_to_fileurl\<close> are the environment \<open>gsa_env\<close>.
\<close>

subsection \<open>The environment\<close>

record gsa_env =
  g_moodle :: "moodle_req \<Rightarrow> script_error + json"  \<comment> \<open>the reply of Moodle, or a transport error\<close>
  g_token_url :: "json \<Rightarrow> script_error + pystr"    \<comment> \<open>\<open>add_token_to_fileurl(fileurl)\<close>\<close>
  g_download :: "pystr \<Rightarrow> script_error + pystr"   \<comment> \<open>the bytes \<open>download_file\<close> saves, read back\<close>
  g_pages :: "pystr \<Rightarrow> pystr list option"        \<comment> \<open>\<open>page.extract_text() or ""\<close> of each page; \<open>None\<close> if it raises\<close>
  g_unescape :: "pystr \<Rightarrow> pystr"                \<comment> \<open>\<open>html.unescape\<close>\<close>
  g_encode :: "pystr \<Rightarrow> real list"              \<comment> \<open>the embedding model of the backend\<close>
  g_llm :: provider                              \<comment> \<open>the LLM provider of the backend\<close>
  g_now :: nat                                   \<comment> \<open>\<open>int(time.time())\<close>, also the backend's clock\<close>
  g_course :: int                                \<comment> \<open>\<open>COURSE_ID\<close>\<close>
  g_assignment :: int                            \<comment> \<open>\<open>ASSIGNMENT_ID\<close>\<close>
  g_threshold :: real                            \<comment> \<open>\<open>PLAG_THRESHOLD\<close>\<close>
  g_max_chars :: nat                             \<comment> \<open>\<open>MAX_EXTRACT_CHARS\<close>\<close>

text \<open>\<open>moodle_call\<close> (lines 36--55): send, raise on an error status or a Moodle exception.\<close>

definition gsa_moodle_call :: "gsa_env \<Rightarrow> moodle_req \<Rightarrow> json sc_run" where
  "gsa_moodle_call env req st = (sc_then (g_moodle env req) moodle_check, st\<lparr>sc_moodle := sc_moodle st @ [req]\<rparr>)"

subsection \<open>Text extraction\<close>

text \<open>The four patterns of \<open>strip_html_to_text\<close> (lines 73--76).\<close>

definition br_rx :: rx where
  "br_rx = Seq (Str (py_str ''<'')) (Seq (StrCI (py_str ''br'')) (Seq (Star is_space) (Seq (Opt (Str (py_str ''/''))) (Str (py_str ''>'')))))"

definition p_close_rx :: rx where
  "p_close_rx = Seq (Str (py_str ''</'')) (Seq (StrCI (py_str ''p'')) (Seq (Star is_space) (Str (py_str ''>''))))"

definition tag_rx :: rx where
  "tag_rx = Seq (Str (py_str ''<'')) (Seq (Plus (\<lambda>c. c \<noteq> 62)) (Str (py_str ''>'')))"

definition blank_lines_rx :: rx where
  "blank_lines_rx = Seq (Chr (\<lambda>c. c = newline)) (Seq (Star is_space) (Plus (\<lambda>c. c = newline)))"

text \<open>
  Lines 69--77. A false value gives \<open>""\<close>; a true value that is no string makes
  \<open>html.unescape\<close> or \<open>re.sub\<close> raise \<open>TypeError\<close>.
\<close>

definition strip_html_to_text :: "gsa_env \<Rightarrow> json \<Rightarrow> py_error + pystr" where
  "strip_html_to_text env h =
     (if \<not> py_truthy h then Inr []
      else case h of
        JStr s \<Rightarrow>
          Inr (let s = g_unescape env s;
                   s = re_sub br_rx [newline] s;
                   s = re_sub p_close_rx [newline] s;
                   s = re_sub tag_rx [] s
               in py_strip (re_sub blank_lines_rx [newline, newline] s))
      | _ \<Rightarrow> Inl TypeError)"

text \<open>
  Lines 90--109: the non-blank page texts joined by blank lines, cut to \<open>max_chars\<close>
  characters followed by \<open>...\<close>; every exception gives \<open>""\<close>.
\<close>

definition extract_text_from_pdf :: "gsa_env \<Rightarrow> pystr \<Rightarrow> pystr" where
  "extract_text_from_pdf env pdf =
     (case g_pages env pdf of
        None \<Rightarrow> []
      | Some pages \<Rightarrow>
          (let text = py_strip (py_join [newline, newline] (filter (\<lambda>t. py_strip t \<noteq> []) pages))
           in if text = [] then []
              else if g_max_chars env < length text then take (g_max_chars env) text @ py_str ''...''
              else text))"

text \<open>Lines 175--179: an editor field, \<open>ef.get("text") or ef.get("content") or ""\<close>.\<close>

definition editor_text :: "gsa_env \<Rightarrow> json \<Rightarrow> py_error + pystr option" where
  "editor_text env ef =
     py_then (py_get ef (py_str ''text'') JNull) (\<lambda>t.
     py_then (if py_truthy t then Inr t
              else py_then (py_get ef (py_str ''content'') JNull) (\<lambda>c. Inr (py_or c (JStr [])))) (\<lambda>h.
     py_then (strip_html_to_text env h) (\<lambda>plain.
       Inr (if py_strip plain \<noteq> [] then Some plain else None))))"

definition online_plugin :: "gsa_env \<Rightarrow> json \<Rightarrow> py_error + pystr option" where
  "online_plugin env p =
     py_then (py_get p (py_str ''type'') JNull) (\<lambda>ty.
       if ty = JStr (py_str ''onlinetext'')
       then py_then (py_then (py_get p (py_str ''editorfields'') (JList [])) py_iter) (sc_first (editor_text env))
       else Inr None)"

text \<open>
  Lines 186--217: a file entry. A PDF (by MIME type or by name) with a URL is downloaded;
  if it does not start with \<open>%PDF\<close>, or has no text, the submission's text is \<open>""\<close> and
  no later file is tried. The download path needs the file name as a string.
\<close>

definition pdf_entry :: "gsa_env \<Rightarrow> json \<Rightarrow> json \<Rightarrow> script_error + pystr option" where
  "pdf_entry env filename fileurl =
     sc_then (g_token_url env fileurl) (\<lambda>url.
       case filename of
         JStr _ \<Rightarrow>
           sc_then (g_download env url) (\<lambda>pdf.
             if take 4 pdf \<noteq> py_str ''%PDF'' then Inr (Some [])
             else (let text = extract_text_from_pdf env pdf in
                   Inr (Some (if py_strip text \<noteq> [] then text else []))))
       | _ \<Rightarrow> Inl (PyErr TypeError))"

definition file_entry_gsa :: "gsa_env \<Rightarrow> json \<Rightarrow> script_error + pystr option" where
  "file_entry_gsa env f =
     sc_then (sc_lift (py_then (py_get f (py_str ''filename'') JNull) (\<lambda>x. Inr (py_or x (JStr []))))) (\<lambda>filename.
     sc_then (sc_lift (py_then (py_get f (py_str ''fileurl'') JNull) (\<lambda>x. Inr (py_or x (JStr []))))) (\<lambda>fileurl.
     sc_then (sc_lift (py_then (py_get f (py_str ''mimetype'') JNull) (\<lambda>x. str_of_json (py_or x (JStr []))))) (\<lambda>mt.
     sc_then (if py_contains (py_str ''pdf'') (py_lower mt) then Inr True
              else sc_lift (py_then (str_of_json filename) (\<lambda>fn. Inr (suffix (py_str ''.pdf'') (py_lower fn))))) (\<lambda>is_pdf.
       if \<not> is_pdf \<or> \<not> py_truthy fileurl then Inr None
       else pdf_entry env filename fileurl))))"

definition file_plugin_gsa :: "gsa_env \<Rightarrow> json \<Rightarrow> script_error + pystr option" where
  "file_plugin_gsa env p =
     sc_then (sc_lift (py_get p (py_str ''type'') JNull)) (\<lambda>ty.
       if ty = JStr (py_str ''file'') then
         sc_then (sc_lift (py_then (py_get p (py_str ''fileareas'') (JList [])) py_iter)) (sc_first (\<lambda>area.
           sc_then (sc_lift (py_then (py_get area (py_str ''files'') (JList [])) py_iter)) (sc_first (file_entry_gsa env))))
       else Inr None)"

text \<open>Lines 169--219.\<close>

definition submission_text :: "gsa_env \<Rightarrow> json \<Rightarrow> script_error + pystr" where
  "submission_text env sub =
     sc_then (sc_lift (py_then (py_get sub (py_str ''plugins'') (JList [])) py_iter)) (\<lambda>plugins.
     sc_then (sc_lift (sc_first (online_plugin env) plugins)) (\<lambda>r. case r of
         Some txt \<Rightarrow> Inr txt
       | None \<Rightarrow> sc_then (sc_first (file_plugin_gsa env) plugins) (\<lambda>r'. Inr (case r' of Some txt \<Rightarrow> txt | None \<Rightarrow> []))))"

subsection \<open>Moodle reads\<close>

text \<open>Lines 149--155, with the due date of \<open>Moodle_Client.get_assignment_due_date\<close>.\<close>

definition gsa_due_date :: "gsa_env \<Rightarrow> int sc_run" where
  "gsa_due_date env =
     sr_bind (gsa_moodle_call env (GetAssignments (g_course env))) (\<lambda>data.
     sr_lift (sc_lift (get_assignment_due_date (g_assignment env) data)))"

text \<open>Lines 158--163: the submissions of the first assignment, \<open>[]\<close> when there is none.\<close>

definition gsa_submissions :: "json \<Rightarrow> script_error + json" where
  "gsa_submissions data =
     sc_then (sc_lift (py_get data (py_str ''assignments'') (JList []))) (\<lambda>asg.
       if \<not> py_truthy asg then Inr (JList [])
       else sc_then (py_index0 asg) (\<lambda>a.
            sc_lift (py_then (py_get a (py_str ''submissions'') (JList [])) (\<lambda>s. Inr (py_or s (JList []))))))"

subsection \<open>Requests to the backend\<close>

text \<open>Lines 246--252: the body of \<open>POST /ingest/submission\<close>, without \<open>cleaned_text\<close>.\<close>

definition gsa_ingest_body :: "gsa_env \<Rightarrow> json \<Rightarrow> json \<Rightarrow> pystr \<Rightarrow> submission_in option" where
  "gsa_ingest_body env msid student raw =
     (case (json_id msid, json_id student) of
        (Some m, Some s) \<Rightarrow> Some \<lparr>in_moodle_submission_id = m, in_assignment_id = g_assignment env,
            in_course_id = g_course env, in_student_id = s, in_raw_text = Some raw, in_cleaned_text = None\<rparr>
      | _ \<Rightarrow> None)"

text \<open>\<open>backend_post\<close> (lines 115--119) of the ingest request.\<close>

definition gsa_post_ingest :: "gsa_env \<Rightarrow> json \<Rightarrow> json \<Rightarrow> pystr \<Rightarrow> json sc_run" where
  "gsa_post_ingest env msid student raw =
     (case gsa_ingest_body env msid student raw of
        None \<Rightarrow> sr_lift (Inl (HTTPError 422))
      | Some d \<Rightarrow> sr_bind (sr_backend (ingest_submission (g_now env) d)) (\<lambda>r. sr_lift (http_ok r)))"

text \<open>
  The prefix of line 273, as the source file holds it: the warning sign was saved in a
  wrong encoding, so the text starts with the five characters U+00E2 U+0161 U+00A0 U+00EF
  U+00B8.
\<close>

definition gsa_warning :: pystr where
  "gsa_warning = [226, 353, 160, 239, 184] @ py_str '' Plagiarism warning: similarity flagged.'' @ [newline, newline]"

text \<open>\<open>x > 0\<close> for a value read from a reply.\<close>

definition py_gt0 :: "json \<Rightarrow> py_error + bool" where
  "py_gt0 v = (case py_num v of Some x \<Rightarrow> Inr (pf_less (Fin 0) x) | None \<Rightarrow> Inl TypeError)"

text \<open>\<open>push_grade_to_moodle\<close> (lines 125--143): \<open>mod_assign_save_grade\<close> with the grade as \<open>str(grade)\<close>.\<close>

definition push_grade_to_moodle :: "gsa_env \<Rightarrow> int \<Rightarrow> json \<Rightarrow> pyfloat \<Rightarrow> json \<Rightarrow> json sc_run" where
  "push_grade_to_moodle env aid student grade feedback = gsa_moodle_call env (SaveGrade aid student grade feedback)"

text \<open>Lines 265--280: grade, prefix the warning of a flagged submission, save.\<close>

definition gsa_grade :: "gsa_env \<Rightarrow> json \<Rightarrow> json \<Rightarrow> json \<Rightarrow> unit sc_run" where
  "gsa_grade env dbid student plag =
     sr_bind (post_by_id (llm_multi_grade (g_llm env) (g_now env)) dbid) (\<lambda>graded.
     sr_bind (sr_lift (sc_lift (py_get graded (py_str ''multi_agent'') (JObj [])))) (\<lambda>result.
     sr_bind (sr_lift (sc_lift (py_then (py_get result (py_str ''grade'') (JInt 0)) py_float))) (\<lambda>grade.
     sr_bind (sr_lift (sc_lift (py_get result (py_str ''final_feedback'') (JStr [])))) (\<lambda>feedback.
     sr_bind (sr_lift (sc_lift (py_then (py_get plag (py_str ''flagged_count'') (JInt 0)) py_gt0))) (\<lambda>flagged.
     sr_bind (sr_lift (if flagged
                       then (case feedback of JStr f \<Rightarrow> Inr (JStr (gsa_warning @ f)) | _ \<Rightarrow> Inl (PyErr TypeError))
                       else Inr feedback)) (\<lambda>fb.
     sr_bind (push_grade_to_moodle env (g_assignment env) student grade fb) (\<lambda>_. sr_return ())))))))"

text \<open>
  Lines 235--280, the body of the loop: a blank text is skipped; then ingest, plagiarism
  check (whose reply is read by the print of line 258), and, after the due date, grading.
\<close>

definition gsa_sub :: "gsa_env \<Rightarrow> int \<Rightarrow> json \<Rightarrow> unit sc_run" where
  "gsa_sub env due sub =
     sr_bind (sr_lift (sc_lift (py_get sub (py_str ''id'') JNull))) (\<lambda>msid.
     sr_bind (sr_lift (sc_lift (py_get sub (py_str ''userid'') JNull))) (\<lambda>student.
     sr_bind (sr_lift (submission_text env sub)) (\<lambda>raw.
       if py_strip raw = [] then sr_return ()
       else
         sr_bind (gsa_post_ingest env msid student raw) (\<lambda>ingest.
         sr_bind (sr_lift (sc_lift (py_getitem ingest (py_str ''id'')))) (\<lambda>dbid.
         sr_bind (post_by_id (\<lambda>i. plagiarism_check (g_encode env) (g_now env) i (g_threshold env)) dbid) (\<lambda>plag.
         sr_bind (sr_lift (sc_lift (py_get plag (py_str ''flagged_count'') (JInt 0)))) (\<lambda>_.
           if due \<noteq> 0 \<and> int (g_now env) < due then sr_return ()
           else gsa_grade env dbid student plag)))))))"

fun gsa_loop :: "gsa_env \<Rightarrow> int \<Rightarrow> json list \<Rightarrow> unit sc_run" where
  "gsa_loop env due [] = sr_return ()"
| "gsa_loop env due (s # ss) = sr_bind (gsa_sub env due s) (\<lambda>_. gsa_loop env due ss)"

text \<open>Lines 225--282, \<open>main()\<close>, without the prints.\<close>

definition gsa_main :: "gsa_env \<Rightarrow> unit sc_run" where
  "gsa_main env =
     sr_bind (gsa_due_date env) (\<lambda>due.
     sr_bind (gsa_moodle_call env (GetSubmissions (g_assignment env))) (\<lambda>data.
     sr_bind (sr_lift (gsa_submissions data)) (\<lambda>subs.
     sr_bind (sr_lift (sc_lift (py_iter subs))) (\<lambda>ss.
     gsa_loop env due ss))))"

subsection \<open>Examples\<close>

text \<open>
  An environment for the examples: Moodle lists an assignment due at time 100, the clock
  reads 0, a file URL downloads as \<open>%PDF\<close> followed by the URL, the PDF at \<open>scan\<close> has a
  page without text and every other PDF one page with an answer, and \<open>html.unescape\<close> is the
  identity (as it is on a text without \<open>&\<close>).
\<close>

definition example_due_reply :: json where
  "example_due_reply =
     JObj [(py_str ''courses'', JList [JObj [(py_str ''assignments'',
       JList [JObj [(py_str ''id'', JInt 1), (py_str ''duedate'', JInt 100)]])]])]"

definition example_gsa_env :: gsa_env where
  "example_gsa_env =
     \<lparr>g_moodle = (\<lambda>r. case r of GetAssignments _ \<Rightarrow> Inr example_due_reply | _ \<Rightarrow> Inr (JObj [])),
      g_token_url = (\<lambda>v. case v of JStr u \<Rightarrow> Inr u | _ \<Rightarrow> Inl (PyErr ValueError)),
      g_download = (\<lambda>u. Inr (py_str ''%PDF'' @ u)),
      g_pages = (\<lambda>pdf. if pdf = py_str ''%PDFscan'' then Some [[]] else Some [py_str ''1. Pods are ephemeral.'']),
      g_unescape = (\<lambda>s. s), g_encode = (\<lambda>_. [1]), g_llm = empty_provider, g_now = 0,
      g_course = 2, g_assignment = 1, g_threshold = 85 / 100, g_max_chars = 30000\<rparr>"



text \<open>An online text as Moodle's editor stores it: HTML paragraphs.\<close>

definition html_answer :: pystr where
  "html_answer = py_str ''<p>1. Pods are ephemeral.</p><p>2. Services are stable.</p>''"

definition html_field :: json where
  "html_field = JObj [(py_str ''text'', JStr html_answer)]"


subsection \<open>Lemmas\<close>

lemma run_keeps_gsa_post_ingest: "run_keeps (gsa_post_ingest env msid student raw)"
  unfolding gsa_post_ingest_def
  by (auto split: option.split intro!: run_keeps_backend dest: ingest_submission_feedback)

lemma run_keeps_post_plagiarism_check: "run_keeps (post_by_id (\<lambda>i. plagiarism_check enc now i thr) dbid)"
  unfolding post_by_id_def
  by (auto split: option.split intro!: run_keeps_backend dest: plagiarism_check_feedback)

lemma run_keeps_gsa_sub:
  assumes "due \<noteq> 0" "int (g_now env) < due"
  shows "run_keeps (gsa_sub env due sub)"
  unfolding gsa_sub_def using assms
  by (auto intro!: run_keeps_bind run_keeps_gsa_post_ingest run_keeps_post_plagiarism_check)

lemma run_keeps_gsa_loop:
  assumes "due \<noteq> 0" "int (g_now env) < due"
  shows "run_keeps (gsa_loop env due ss)"
  by (induction ss) (auto intro!: run_keeps_bind run_keeps_gsa_sub assms)

lemma gsa_moodle_call_state:
  "gsa_moodle_call env req st = (r, st') \<Longrightarrow> st' = st\<lparr>sc_moodle := sc_moodle st @ [req]\<rparr>"
  by (simp add: gsa_moodle_call_def)

lemma gsa_due_date_state:
  "gsa_due_date env st = (r, st') \<Longrightarrow> st' = st\<lparr>sc_moodle := sc_moodle st @ [GetAssignments (g_course env)]\<rparr>"
  by (auto simp: gsa_due_date_def sr_bind_def sr_lift_def gsa_moodle_call_def split: sum.splits)


lemma html_scheduler_text: "text_field html_field = Inr (Some html_answer)"
  by (simp add: text_field_def html_field_def html_answer_def py_or_def py_strip_def py_lstrip_def py_rstrip_def
      is_space_def)

lemma html_scheduler_unchunked: "split_numbered_answers (clean_text_basic (py_strip html_answer)) = []"
proof -
  have s: "py_strip (py_str ''<p>1. Pods are ephemeral.</p><p>2. Services are stable.</p>'') =
           py_str ''<p>1. Pods are ephemeral.</p><p>2. Services are stable.</p>''"
    by (simp add: py_strip_def py_lstrip_def py_rstrip_def is_space_def)
  have c: "clean_text_basic (py_str ''<p>1. Pods are ephemeral.</p><p>2. Services are stable.</p>'') =
           py_str ''<p>1. Pods are ephemeral.</p><p>2. Services are stable.</p>''"
    by (rule clean_text_basic_plain) (simp_all add: newline_def py_strip_def py_lstrip_def py_rstrip_def is_space_def)
  show ?thesis unfolding html_answer_def using s c by (simp add: seg_eval)
qed

lemma html_stripped:
  "editor_text example_gsa_env html_field = Inr (Some (py_str ''1. Pods are ephemeral.\<newline>2. Services are stable.''))"
  by (simp add: editor_text_def strip_html_to_text_def html_field_def html_answer_def example_gsa_env_def
      br_rx_def p_close_rx_def tag_rx_def blank_lines_rx_def re_sub.simps match_prefix_def Plus_def
      py_strip_def py_lstrip_def py_rstrip_def is_space_def newline_def ci_prefix_def ci_char_def)

lemma stripped_chunks:
  "split_numbered_answers (clean_text_basic (py_strip (py_str ''1. Pods are ephemeral.\<newline>2. Services are stable.''))) =
   [(1, py_str ''Pods are ephemeral.''), (2, py_str ''Services are stable.'')]"
proof -
  have s: "py_strip (py_str ''1. Pods are ephemeral.\<newline>2. Services are stable.'') =
           py_str ''1. Pods are ephemeral.\<newline>2. Services are stable.''"
    by (simp add: py_strip_def py_lstrip_def py_rstrip_def is_space_def)
  have c: "clean_text_basic (py_str ''1. Pods are ephemeral.\<newline>2. Services are stable.'') =
           py_str ''1. Pods are ephemeral.\<newline>2. Services are stable.''"
    by (rule clean_text_basic_plain) (simp_all add: newline_def py_strip_def py_lstrip_def py_rstrip_def is_space_def)
  show ?thesis using s c by (simp add: seg_eval)
qed

subsection \<open>Properties of the script\<close>

text \<open>
  C29: Deadline gating in \<open>get_submissions_assignments.py\<close>: when the due date Moodle reports
  lies in the future, a run sends Moodle only its two reads and adds no feedback row to the
  backend, whatever the submissions are and however the run ends.
\<close>

theorem gsa_before_deadline:
  assumes due: "gsa_due_date env st = (Inr due, st1)" and early: "due \<noteq> 0" "int (g_now env) < due"
    and run: "gsa_main env st = (r, st')"
  shows "sc_moodle st' = sc_moodle st @ [GetAssignments (g_course env), GetSubmissions (g_assignment env)] \<and>
         t_feedback (committed (sc_server st')) = t_feedback (committed (sc_server st))"
proof -
  obtain x st2 where call: "gsa_moodle_call env (GetSubmissions (g_assignment env)) st1 = (x, st2)"
    by (cases "gsa_moodle_call env (GetSubmissions (g_assignment env)) st1") blast
  have st2: "st2 = st\<lparr>sc_moodle := sc_moodle st @ [GetAssignments (g_course env), GetSubmissions (g_assignment env)]\<rparr>"
    using gsa_due_date_state [OF due] gsa_moodle_call_state [OF call] by simp
  have tail: "run_keeps (sr_bind (sr_lift (gsa_submissions data)) (\<lambda>subs.
                sr_bind (sr_lift (sc_lift (py_iter subs))) (\<lambda>ss. gsa_loop env due ss)))" for data
    by (intro run_keeps_bind run_keeps_lift run_keeps_gsa_loop early)
  show ?thesis
  proof (cases x)
    case (Inl e)
    with run due call have "st' = st2" by (simp add: gsa_main_def sr_bind_def)
    with st2 show ?thesis by simp
  next
    case (Inr data)
    with run due call have "sr_bind (sr_lift (gsa_submissions data)) (\<lambda>subs.
                sr_bind (sr_lift (sc_lift (py_iter subs))) (\<lambda>ss. gsa_loop env due ss)) st2 = (r, st')"
      by (simp add: gsa_main_def sr_bind_def)
    with tail [of data] st2 show ?thesis unfolding run_keeps_def by fastforce
  qed
qed

theorem gsa_before_deadline_witness:
  "sc_moodle (snd (gsa_main example_gsa_env example_sched)) = [GetAssignments 2, GetSubmissions 1] \<and>
   t_feedback (committed (sc_server (snd (gsa_main example_gsa_env example_sched)))) =
   t_feedback (committed (sc_server example_sched))"
proof -
  have d: "gsa_due_date example_gsa_env example_sched = (Inr 100, example_sched\<lparr>sc_moodle := [GetAssignments 2]\<rparr>)"
    by (simp add: gsa_due_date_def gsa_moodle_call_def example_gsa_env_def example_due_reply_def example_sched_def
        get_assignment_due_date_def due_of_course_def due_of_assignment_def moodle_check_def sc_then_def sc_lift_def
        sr_bind_def sr_lift_def py_or_def)
  have "(100::int) \<noteq> 0" "int (g_now example_gsa_env) < 100" by (simp_all add: example_gsa_env_def)
  from gsa_before_deadline [OF d this surjective_pairing] show ?thesis
    by (simp add: example_gsa_env_def example_sched_def)
qed

text \<open>
  An online text as Moodle's editor stores it, as HTML paragraphs, is segmented only by
  this script: the scheduler sends the HTML as it is, and the backend finds no numbered
  header in it (each number follows \<open><p>\<close>, not a line start), while this script removes the
  tags and the backend finds one chunk per question.
\<close>

theorem html_online_text_chunks:
  "text_field html_field = Inr (Some html_answer) \<and>
   split_numbered_answers (clean_text_basic (py_strip html_answer)) = [] \<and>
   (\<exists>t. editor_text example_gsa_env html_field = Inr (Some t) \<and>
        split_numbered_answers (clean_text_basic (py_strip t)) =
          [(1, py_str ''Pods are ephemeral.''), (2, py_str ''Services are stable.'')])"
  using html_scheduler_text html_scheduler_unchunked html_stripped stripped_chunks by blast



end
