(* ===== verification/Gemini.thy ===== *)
theory Gemini
  imports Mock_LLM Moodle_Client
begin

text \<open>
  The Gemini provider (\<open>backend/app/llm/gemini.py\<close>) and the choice of provider
  (\<open>get_llm\<close>, \<open>llm/__init__.py\<close>, with \<open>LLM_MODE\<close> of \<open>config.py\<close>). The network call of the
  Google client and \<open>json.loads\<close> are the environment \<open>gemini_env\<close>; as for the mock, the
  system message of a prompt is \<open>Multi_Agent.prompt_system\<close> and the user message is the
  parameter \<open>user\<close>. Every failure of \<open>generate_json\<close> is the provider error of the pipeline.
\<close>

record gemini_env =
  gem_api_key :: pystr                       \<comment> \<open>\<open>os.getenv("GEMINI_API_KEY", "")\<close>\<close>
  gem_model_var :: "pystr option"             \<comment> \<open>the variable \<open>GEMINI_MODEL\<close>, if set\<close>
  gem_generate :: "pystr \<Rightarrow> pystr \<Rightarrow> py_error + pystr option"
    \<comment> \<open>\<open>generate_content(model=m, contents=p).text\<close>, \<open>None\<close> for no text, or a transport error\<close>
  gem_loads :: "pystr \<Rightarrow> py_error + json"      \<comment> \<open>\<open>json.loads\<close>\<close>

text \<open>\<open>GeminiLLM.__init__\<close> (lines 6--11): without a key it raises; the model name.\<close>

definition gemini_init :: "gemini_env \<Rightarrow> script_error + pystr" where
  "gemini_init env =
     (if gem_api_key env = [] then Inl RuntimeError
      else Inr (case gem_model_var env of Some m \<Rightarrow> m | None \<Rightarrow> py_str ''gemini-2.5-flash-lite''))"

text \<open>Line 14: the one prompt the client sends.\<close>

definition gemini_prompt :: "pystr \<Rightarrow> pystr \<Rightarrow> pystr" where
  "gemini_prompt system user =
     system @ [newline, newline] @ user @ [newline, newline] @ py_str ''Return ONLY valid JSON. No markdown.''"

text \<open>\<open>GeminiLLM.generate_json\<close> (lines 13--22): \<open>json.loads((resp.text or "").strip())\<close>.\<close>

definition gemini_generate_json :: "gemini_env \<Rightarrow> pystr \<Rightarrow> pystr \<Rightarrow> pystr \<Rightarrow> py_error + json" where
  "gemini_generate_json env model system user =
     (case gem_generate env model (gemini_prompt system user) of
        Inl _ \<Rightarrow> Inl ProviderError
      | Inr t \<Rightarrow>
          (case gem_loads env (py_strip (case t of Some s \<Rightarrow> s | None \<Rightarrow> [])) of
             Inl _ \<Rightarrow> Inl ProviderError
           | Inr v \<Rightarrow> Inr v))"

definition gemini_llm :: "gemini_env \<Rightarrow> pystr \<Rightarrow> (prompt \<Rightarrow> pystr) \<Rightarrow> provider" where
  "gemini_llm env model user p = gemini_generate_json env model (prompt_system p) (user p)"

text \<open>\<open>LLM_MODE = os.getenv("LLM_MODE", "mock").lower()\<close> (\<open>config.py\<close>, line 10).\<close>

definition llm_mode :: "pystr option \<Rightarrow> pystr" where
  "llm_mode v = py_lower (case v of Some s \<Rightarrow> s | None \<Rightarrow> py_str ''mock'')"

text \<open>\<open>get_llm()\<close> (lines 5--8), called by the handlers inside their \<open>try\<close>.\<close>

definition get_llm :: "pystr \<Rightarrow> gemini_env \<Rightarrow> (prompt \<Rightarrow> pystr) \<Rightarrow> script_error + provider" where
  "get_llm mode env user =
     (if mode = py_str ''gemini''
      then (case gemini_init env of Inl e \<Rightarrow> Inl e | Inr m \<Rightarrow> Inr (gemini_llm env m user))
      else Inr (mock_llm user))"

subsection \<open>Lemmas\<close>

text \<open>Without \<open>LLM_MODE\<close> the handlers run the mock provider, whatever the Gemini settings.\<close>

lemma get_llm_default: "get_llm (llm_mode None) env user = Inr (mock_llm user)"
  by (simp add: get_llm_def llm_mode_def py_lower_def lower_char_def)

text \<open>The mode is compared after \<open>lower()\<close>: \<open>Gemini\<close> selects Gemini, and then a missing key raises.\<close>

lemma get_llm_no_key:
  "gem_api_key env = [] \<Longrightarrow> get_llm (llm_mode (Some (py_str ''Gemini''))) env user = Inl RuntimeError"
  by (simp add: get_llm_def llm_mode_def gemini_init_def py_lower_def lower_char_def)

text \<open>A reply without text, or a text that is no JSON, is a provider error.\<close>

lemma gemini_generate_json_Inr:
  "gemini_generate_json env model system user = Inr v \<longleftrightarrow>
     (\<exists>t. gem_generate env model (gemini_prompt system user) = Inr t \<and>
          gem_loads env (py_strip (case t of Some s \<Rightarrow> s | None \<Rightarrow> [])) = Inr v)"
  by (auto simp: gemini_generate_json_def split: sum.splits)

end
