(* ===== verification/Spec2Isabelle.thy ===== *)
theory Spec2Isabelle
  imports Chunking Mock_LLM Profile Embeddings Grading Ingest Plagiarism Feedback Progress Scheduler Push_Feedback Submissions_Script Gemini
begin

text \<open>
  \<^bold>\<open>A verification library for the automated feedback backend\<close>
  (\<open>src/code/fyp_backend/backend/app\<close>).

  \<^bold>\<open>The program.\<close> Students' free-text answers come in through \<open>POST /ingest/submission\<close>
  (\<open>main.py\<close>, \<open>ingest_submission\<close>), which normalises the text (\<open>chunking.py\<close>,
  \<open>clean_text_basic\<close>), cuts it into per-question chunks (\<open>split_numbered_answers\<close>) and
  stores submission and chunks (\<open>models.py\<close>). \<open>POST /plagiarism/check\<close> gives each chunk a
  fingerprint (\<open>embeddings.py\<close>) and compares it by cosine similarity with the other
  fingerprinted chunks of the same question number, flagging the submission above a
  threshold. \<open>POST /grade\<close> scores the chunks with keyword rules (\<open>grading.py\<close>);
  \<open>POST /llm/multi_grade\<close> runs the chain of model calls of \<open>multi_agent.py\<close>, whose grade is
  computed from the correctness scores only, and folds the result into the student's
  profile (\<open>profile.py\<close>).

  \<^bold>\<open>Representation.\<close> A Python \<open>str\<close> is a list of Unicode code points (\<open>pystr\<close>,
  theory \<open>Prelude\<close>); \<open>str.isspace\<close>, \<open>strip\<close>, \<open>lower\<close> and \<open>in\<close> are written out there.
  JSON values and the Python operations on them (\<open>get\<close>, item assignment, \<open>int()\<close>,
  \<open>float()\<close>, truthiness, \<open>round\<close>) are theory \<open>Json\<close>; floats are real numbers with
  \<open>inf\<close>, \<open>-inf\<close> and \<open>nan\<close> as constructors of their own (\<open>pyfloat\<close>), so rounding errors
  of binary floats are not modelled, overflow beyond the largest double is. Every
  exception is a value \<open>Inl e\<close> of \<open>py_error + 'a\<close>. The regular expressions are values of a
  small syntax (\<open>rx\<close>, theory \<open>Regex\<close>) interpreted by a backtracking matcher that explores
  alternatives in the order of Python's \<open>sre\<close> engine; \<open>finditer_ml\<close> and \<open>re_sub\<close> are
  \<open>function\<close>s whose termination is proved because every match they use consumes input.
  \<open>\d\<close> and \<open>int()\<close> are modelled on ASCII digits. No definition needs fuel: every loop of
  the code is structural recursion or one of these two functions.

  \<^bold>\<open>Segmenter\<close> (theory \<open>Chunking\<close>, chunking.py). \<open>header_rx\<close>, \<open>chunks_from\<close>,
  \<open>split_numbered_answers\<close>, \<open>clean_text_basic\<close>. The backtracking match equals a
  deterministic scanner, the \<open>finditer\<close> matches are the leftmost non-overlapping ones,
  and the chunks are non-empty stripped pieces of the text (C1--C3); an empty answer before
  an indented header departs from the specification (lemma
  \<open>split_numbered_answers_indented_header\<close>), and so do headers written on one line (lemma
  \<open>split_numbered_answers_single_line\<close>).

  \<^bold>\<open>Store\<close> (theory \<open>Store\<close>, models.py and the session discipline of main.py). Each table is
  a list of records in insertion order; \<open>tables_ok\<close> is the schema's constraints (primary
  keys, \<open>uq_submission_question\<close>, the unique \<open>chunk_id\<close> of fingerprints, foreign keys). A
  request works on a copy of the committed tables; \<open>commit\<close> installs it or raises
  \<open>IntegrityError\<close>; a rollback drops it. Keys come from sequences (\<open>seqs\<close>) that a rollback
  does not reset, as in PostgreSQL. \<open>server_ok\<close> is the invariant: the constraints hold,
  every sequence is ahead of the keys it gave out, and Moodle ids are distinct (the
  module-level \<open>__table_args__\<close> of models.py is attached to no table, so only the handlers
  keep them distinct). Timestamps are the parameter \<open>now\<close> of each request.

  \<^bold>\<open>Handlers.\<close> Each handler is a function from the server state to a response and the
  new state. \<open>Ingest\<close>: \<open>ingest_submission\<close>, split into the read (\<open>ingest_lookup\<close>) and the
  writes (\<open>ingest_apply\<close>), with its two commits; re-ingesting is a no-op (C14).
  \<open>Plagiarism\<close>: \<open>plagiarism_check\<close> with the fingerprint cache (\<open>ensure_embeddings\<close>), the
  comparison (\<open>plag_others\<close>, \<open>best_match\<close>) and the loop with one commit per flagged chunk
  (\<open>plag_loop\<close>); the loop's effect is bounded by the frame relation \<open>plag_frame\<close> (only
  flags, statuses, similarity rows and the similarity sequence change, and a set flag
  stays set). The check keeps \<open>server_ok\<close> and never fails on a consistent store,
  compares only chunks of the same question from other submissions, never recomputes a
  fingerprint, never clears a flag (C4--C7), and compares only with chunks that already have
  a fingerprint, so that on a store where no other submission has one it flags nothing, even
  an identical answer (C8).
  \<open>Feedback\<close>: \<open>grade_submission\<close>, \<open>llm_grade_submission\<close> (one model call through the
  parameter \<open>gen\<close>, its reply stored as it is) and \<open>llm_multi_grade\<close>; a failed request leaves
  the store as it was (C15), and a successful multi-agent grade stores the pipeline's grade and
  updates the profile's last grade and trend from it (C16).
  \<open>Progress\<close>: the read side, \<open>student_progress\<close>, \<open>moodle_push_payload\<close> and
  \<open>get_by_moodle_id\<close> with the module's route registrations (\<open>register\<close>). A column written
  as \<open>str(v)\<close> holds the JSON value \<open>v\<close>, and reading it back with \<open>float()\<close> is
  \<open>py_float_of_repr\<close>; \<open>.order_by(id.desc()).limit(n)\<close> is \<open>latest\<close>. The grade of a
  heuristic grading is the grade pushed to Moodle (C17); the grade of the single-call LLM
  grading is pushed as \<open>float(str(grade))\<close>, and one that is no number makes every later
  push of the submission fail (C18); a boolean concept score from the
  model passes the grading request but breaks every later progress view of the student
  (C19); the route \<open>/submission/by_moodle/{id}\<close> is registered on the router after the
  router was included, so it is never served (lemma \<open>by_moodle_route_unreachable\<close>). The embedding model
  (\<open>local_embedding\<close>) and the LLM provider are parameters of the handlers, the SHA-256
  digest a parameter of \<open>mock_embedding\<close>.

  \<^bold>\<open>Scripts.\<close> \<open>Moodle_Client\<close> and \<open>Scheduler\<close> model the deadline scheduler
  \<open>src/code/scheduler_deadline_pipeline.py\<close> run against the backend model: Moodle's replies
  (\<open>env_moodle\<close>), the PDF download and extraction (\<open>env_pdf\<close>) and the clock are
  parameters, the requests sent to Moodle are recorded, and a request to the backend runs
  the handler of \<open>main.py\<close> on the server state (\<open>sr_backend\<close>). The loop is a function
  (\<open>sched_loop\<close>) by structural recursion on the submissions. Its guards against a second
  processing never fire, because the route they ask is not served (C20); before the due date
  nothing is graded or pushed (C21); a submission without numbered headers is never graded
  (C22).

  \<open>Push_Feedback\<close> models \<open>src/code/push_feedback.py\<close> (\<open>push_feedback_main\<close>: the maximum
  grade, the latest submission, the local text file, its own keyword rubric
  \<open>grade_and_feedback\<close>, the save) and \<open>push_feedback_from_backend.py\<close>
  (\<open>push_from_backend\<close>, which asks the backend's \<open>moodle_push_payload\<close> through
  \<open>sr_backend\<close>). Both add \<open>SaveGradeEditor\<close> requests to the same record of Moodle
  requests as the scheduler; the local files and Python's \<open>str()\<close> of floats and
  containers are parameters (\<open>pf_env\<close>). The latest submission is the first maximum of
  the reference \<open>latest_ref\<close> (C23); after a grading, the grade the backend reported is
  the grade Moodle receives (C24); the payload has the typed shape \<open>push_payload_type\<close>
  under the typing judgement \<open>json_type\<close> (C25); a missing local file and an unknown
  submission end the scripts before any grade is saved (C26, C27); the rubric's grade is
  bounded by the maximum (C28), is at most 0 for Moodle's negative scale maxima (lemma
  \<open>grade_and_feedback_scale_max\<close>), and misses \<open>load balancing\<close> (lemma
  \<open>pf_rubric_load_balancing\<close>).

  \<open>Submissions_Script\<close> models \<open>src/code/get_submissions_assignments.py\<close>
  (\<open>gsa_main\<close>, \<open>gsa_loop\<close>, \<open>gsa_sub\<close>): the same pipeline as the scheduler without its
  lookups and without any \<open>try\<close>, with its own text extraction (\<open>strip_html_to_text\<close> over
  four patterns of theory \<open>Regex\<close>, \<open>extract_text_from_pdf\<close> with the pages as a
  parameter, \<open>submission_text\<close>) and a warning in front of the feedback of a flagged
  submission (\<open>gsa_warning\<close>, whose first five characters are a mis-encoded warning sign).
  Before the due date a run only reads from Moodle (C29, proved with the frame predicate
  \<open>run_keeps\<close> of the scheduler); Moodle's HTML online text is segmented only after this
  script strips it, which the scheduler does not (lemma \<open>html_online_text_chunks\<close>); only
  the first PDF of a submission is tried (C30).

  \<^bold>\<open>Components.\<close> \<open>Multi_Agent\<close> (multi_agent.py): \<open>run_multi_agent\<close> over a provider given
  as a function, in a state monad recording the prompts sent; the grade is
  \<open>compute_grade_from_qscores\<close> of the correctness reply, the calls are six or eight, the
  self-correction runs at most once (C9--C12), and an integer
  score beyond the float range raises \<open>OverflowError\<close> (lemma \<open>compute_grade_overflow\<close>). \<open>Mock_LLM\<close> (llm/mock.py): the mock provider,
  whose \<open>q_scores\<close> keys do not match the grader's, so every mock grade is 0 (C13).
  \<open>Gemini\<close> (llm/gemini.py, llm/__init__.py, \<open>LLM_MODE\<close> of config.py): the Gemini provider with
  the network call and \<open>json.loads\<close> as parameters, and \<open>get_llm\<close>, which falls back to the mock
  without \<open>LLM_MODE\<close> and raises without an API key (lemmas \<open>get_llm_default\<close>,
  \<open>get_llm_no_key\<close>).
  \<open>Embeddings\<close>: \<open>cosine_similarity\<close>, on the reals, in \<open>[-1, 1]\<close> by Cauchy--Schwarz (lemma
  \<open>cosine_similarity_bound\<close>; the code's doubles can exceed 1 by rounding, so this is no
  property of the code), compared on the shorter prefix for vectors of different dimensions
  (lemma \<open>cosine_similarity_prefix_dims\<close>), \<open>mock_embedding\<close>, whose
  components lie in \<open>[-1, 1]\<close> (lemma \<open>mock_embedding_range\<close>), and \<open>local_embedding\<close>, whose
  model cache is invisible (lemma \<open>local_embeddings_cache\<close>). \<open>Profile\<close>:
  \<open>pick_weak_concepts\<close> as a stable sort, proved equal to \<open>sort_key\<close> without \<open>nan\<close>,
  \<open>calc_trend\<close>, \<open>summarize_feedback\<close> (C31; lemma
  \<open>pick_weak_concepts_weakest\<close>). \<open>Grading\<close>: the keyword grader, its bounds (C32),
  its substring matching (lemma \<open>grading_substring_points\<close>) and its monotonicity (lemma
  \<open>points_mono\<close>).

  \<^bold>\<open>Not modelled.\<close> \<open>test_gemini.py\<close> is a manual smoke test of the Gemini client. In
  the scripts, Moodle and the network are parameters (the replies, the downloads, the text
  extraction of \<open>pypdf\<close> and \<open>pdfplumber\<close>, \<open>html.unescape\<close>, \<open>add_token_to_fileurl\<close>);
  the download paths (\<open>safe_name\<close>), the printed messages (among them \<open>datetime.fromtimestamp(due)\<close>, which raises for dates beyond year
  9999) and the framework's coercion of numeric strings to \<open>int\<close> are left out;
  the settings of \<open>config.py\<close> other than \<open>LLM_MODE\<close> and the engine setup of \<open>db.py\<close>
  only read the environment.
  Concurrent requests are not modelled: each handler runs alone on the state it is given.
  \<open>str()\<close> of a value inside the f-string of \<open>llm_grade_submission\<close> is the parameter
  \<open>str_of\<close>. A response is the returned
  dict; its rendering as JSON by the framework (which rejects \<open>nan\<close> and \<open>inf\<close>) and
  \<open>created_at.isoformat()\<close> (the parameter \<open>fmt\<close>) are outside the model.
\<close>

end
